(* ===== verification/Prelude.thy ===== *)
theory Prelude
  imports Main "HOL-Library.Multiset" "HOL-Library.Sublist" "HOL-Library.Char_ord" "HOL-Library.List_Lexorder"
begin

text \<open>
  Shared vocabulary of the development: the types that every component uses, the
  operations Prisma offers on a table, the answers of a route handler, the
  JavaScript string operations the sources call, and the lemmas about them.

  A table is the list of its rows in insertion order, as the current tenant sees
  them (row-level security has already removed the rows of other tenants).
  Strings are ASCII text (\<open>string\<close>), instants are milliseconds since the epoch
  (\<open>int\<close>), one clock reading per operation.
\<close>

named_theorems table_simps
named_theorems text_simps

type_synonym instant = int
type_synonym ident = string

section \<open>Tables\<close>

definition find_first :: "('a \<Rightarrow> bool) \<Rightarrow> 'a list \<Rightarrow> 'a option" where
  "find_first p t = find p t"

definition find_many :: "('a \<Rightarrow> bool) \<Rightarrow> 'a list \<Rightarrow> 'a list" where
  "find_many p t = filter p t"

definition update_many :: "('a \<Rightarrow> bool) \<Rightarrow> ('a \<Rightarrow> 'a) \<Rightarrow> 'a list \<Rightarrow> 'a list" where
  "update_many p f t = map (\<lambda>r. if p r then f r else r) t"

definition delete_many :: "('a \<Rightarrow> bool) \<Rightarrow> 'a list \<Rightarrow> 'a list" where
  "delete_many p t = filter (\<lambda>r. \<not> p r) t"

definition count_rows :: "('a \<Rightarrow> bool) \<Rightarrow> 'a list \<Rightarrow> nat" where
  "count_rows p t = length (filter p t)"

definition insert_row :: "'a \<Rightarrow> 'a list \<Rightarrow> 'a list" where
  "insert_row r t = t @ [r]"

lemma find_first_None [table_simps]: "find_first p t = None \<longleftrightarrow> (\<forall>r\<in>set t. \<not> p r)"
  by (auto simp: find_first_def find_None_iff)

lemma find_first_Some [table_simps]:
  assumes "find_first p t = Some r"
  shows "r \<in> set t \<and> p r"
  using assms by (auto simp: find_first_def find_Some_iff)

lemma set_find_many [simp, table_simps]: "set (find_many p t) = {r \<in> set t. p r}"
  by (simp add: find_many_def)

lemma set_update_many [table_simps]:
  "set (update_many p f t) = f ` {r \<in> set t. p r} \<union> {r \<in> set t. \<not> p r}"
  by (auto simp: update_many_def)

lemma length_update_many [simp]: "length (update_many p f t) = length t"
  by (simp add: update_many_def)

lemma map_update_many:
  assumes "\<And>r. g (f r) = g r"
  shows "map g (update_many p f t) = map g t"
  using assms by (simp add: update_many_def)

lemma update_many_none:
  assumes "\<forall>r\<in>set t. \<not> p r"
  shows "update_many p f t = t"
  using assms by (induction t) (auto simp: update_many_def)

lemma set_delete_many [simp, table_simps]: "set (delete_many p t) = {r \<in> set t. \<not> p r}"
  by (auto simp: delete_many_def)

lemma set_insert_row [simp, table_simps]: "set (insert_row r t) = insert r (set t)"
  by (simp add: insert_row_def)

lemma count_rows_0 [table_simps]: "count_rows p t = 0 \<longleftrightarrow> (\<forall>r\<in>set t. \<not> p r)"
  by (auto simp: count_rows_def filter_empty_conv)

lemma count_rows_insert_row [simp]:
  "count_rows p (insert_row r t) = count_rows p t + (if p r then 1 else 0)"
  by (simp add: count_rows_def insert_row_def)

lemma count_rows_delete_many [simp]:
  "count_rows p (delete_many q t) = count_rows (\<lambda>r. p r \<and> \<not> q r) t"
  by (simp add: count_rows_def delete_many_def conj_commute)

lemma count_rows_update_many_le:
  assumes "\<And>r. q r \<Longrightarrow> p (f r) \<Longrightarrow> p r"
  shows "count_rows p (update_many q f t) \<le> count_rows p t"
  using assms by (induction t) (auto simp: count_rows_def update_many_def le_SucI)

lemma count_rows_mono:
  assumes "\<And>r. p r \<Longrightarrow> q r"
  shows "count_rows p t \<le> count_rows q t"
  using assms by (induction t) (auto simp: count_rows_def le_SucI)

lemma count_rows_map:
  assumes "\<And>r. p (f r) = p r"
  shows "count_rows p (map f t) = count_rows p t"
  using assms by (induction t) (auto simp: count_rows_def)

lemma find_many_insert_row [simp]:
  "find_many p (insert_row r t) = find_many p t @ (if p r then [r] else [])"
  by (simp add: find_many_def insert_row_def)

section \<open>Answers of a route handler\<close>

datatype 'a reply = Err nat string | Ok nat 'a | Throw string

section \<open>Nullable text\<close>

text \<open>\<^verbatim>\<open>v ?? ""\<close>, \<^verbatim>\<open>!!v\<close>, and \<^verbatim>\<open>v || null\<close>.\<close>

definition opt_text :: "string option \<Rightarrow> string" where
  "opt_text v = (case v of None \<Rightarrow> [] | Some t \<Rightarrow> t)"

definition truthy :: "string option \<Rightarrow> bool" where
  "truthy v = (case v of None \<Rightarrow> False | Some t \<Rightarrow> t \<noteq> [])"

definition or_null :: "string option \<Rightarrow> string option" where
  "or_null v = (case v of None \<Rightarrow> None | Some t \<Rightarrow> if t = [] then None else Some t)"

section \<open>Strings\<close>

definition is_ws :: "char \<Rightarrow> bool" where
  "is_ws c \<longleftrightarrow> (of_char c :: nat) \<in> {9, 10, 11, 12, 13, 32}"

definition is_digit :: "char \<Rightarrow> bool" where
  "is_digit c \<longleftrightarrow> (48::nat) \<le> of_char c \<and> of_char c \<le> (57::nat)"

definition is_upper :: "char \<Rightarrow> bool" where
  "is_upper c \<longleftrightarrow> (65::nat) \<le> of_char c \<and> of_char c \<le> (90::nat)"

definition is_lower :: "char \<Rightarrow> bool" where
  "is_lower c \<longleftrightarrow> (97::nat) \<le> of_char c \<and> of_char c \<le> (122::nat)"

definition is_lower_alnum :: "char \<Rightarrow> bool" where
  "is_lower_alnum c \<longleftrightarrow> is_lower c \<or> is_digit c"

definition trim :: "string \<Rightarrow> string" where
  "trim s = rev (dropWhile is_ws (rev (dropWhile is_ws s)))"

definition lower_char :: "char \<Rightarrow> char" where
  "lower_char c = (if is_upper c then char_of (of_char c + (32::nat)) else c)"

definition upper_char :: "char \<Rightarrow> char" where
  "upper_char c = (if is_lower c then char_of (of_char c - (32::nat)) else c)"

definition to_lower :: "string \<Rightarrow> string" where
  "to_lower s = map lower_char s"

definition to_upper :: "string \<Rightarrow> string" where
  "to_upper s = map upper_char s"

definition starts_with :: "string \<Rightarrow> string \<Rightarrow> bool" where
  "starts_with s p \<longleftrightarrow> take (length p) s = p"

definition ends_with :: "string \<Rightarrow> string \<Rightarrow> bool" where
  "ends_with s p \<longleftrightarrow> length p \<le> length s \<and> drop (length s - length p) s = p"

fun split_on :: "char \<Rightarrow> string \<Rightarrow> string list" where
  "split_on c [] = [[]]"
| "split_on c (x # xs) =
     (if x = c then [] # split_on c xs
      else (case split_on c xs of [] \<Rightarrow> [[x]] | y # ys \<Rightarrow> (x # y) # ys))"

fun join_with :: "string \<Rightarrow> string list \<Rightarrow> string" where
  "join_with sep [] = []"
| "join_with sep [x] = x"
| "join_with sep (x # y # ys) = x @ sep @ join_with sep (y # ys)"

lemma split_on_nonempty [simp]: "split_on c s \<noteq> []"
  by (induction s) (auto split: list.splits)

lemma ends_with_append [simp]: "ends_with (s @ p) p"
  by (simp add: ends_with_def)

lemma ends_with_iff: "ends_with s p \<longleftrightarrow> (\<exists>q. s = q @ p)"
  unfolding ends_with_def by (metis append_take_drop_id diff_le_self drop_append
      diff_self_eq_0 drop_0 drop_all append_self_conv2 length_append le_add2 add_diff_cancel_right')

lemma starts_with_iff: "starts_with s p \<longleftrightarrow> (\<exists>q. s = p @ q)"
  unfolding starts_with_def by (metis append_eq_conv_conj append_take_drop_id)

text \<open>Splitting undoes joining on a separator that no part contains.\<close>

lemma split_on_append:
  assumes "c \<notin> set x"
  shows "split_on c (x @ c # s) = x # split_on c s"
  using assms by (induction x) auto

lemma split_on_single:
  assumes "c \<notin> set x"
  shows "split_on c x = [x]"
  using assms by (induction x) auto

lemma split_on_join_with:
  assumes "xs \<noteq> []" and "\<forall>x\<in>set xs. c \<notin> set x"
  shows "split_on c (join_with [c] xs) = xs"
  using assms
  by (induction "[c]" xs rule: join_with.induct) (auto simp: split_on_append split_on_single)

lemma join_with_inject:
  assumes "xs \<noteq> []" and "ys \<noteq> []"
    and "\<forall>x\<in>set xs. c \<notin> set x" and "\<forall>y\<in>set ys. c \<notin> set y"
    and "join_with [c] xs = join_with [c] ys"
  shows "xs = ys"
  using assms split_on_join_with by metis

end
