(* ===== verification/JsValue.thy ===== *)
theory JsValue
  imports Prelude
begin

text \<open>
  JavaScript values of static type \<open>unknown\<close> (request bodies, JSON columns) and the
  conversions the sources apply to them.

  A number is split by what the sources ask of it: an integer, a non-integer (kept as
  the integer below it, which decides every comparison with an integer, and its decimal
  text), or one of the non-finite values.
\<close>

section \<open>Values\<close>

datatype jnum = NInt int | NFrac int string | NPosInf | NNegInf | NNaN

datatype js =
    JUndef
  | JNull
  | JBool bool
  | JNum jnum
  | JStr string
  | JArr "js list"
  | JObj "(string \<times> js) list"

definition field :: "(string \<times> js) list \<Rightarrow> string \<Rightarrow> js" where
  "field ob k = (case map_of ob k of None \<Rightarrow> JUndef | Some v \<Rightarrow> v)"

definition has_key :: "(string \<times> js) list \<Rightarrow> string \<Rightarrow> bool" where
  "has_key ob k \<longleftrightarrow> k \<in> set (map fst ob)"

text \<open>\<^verbatim>\<open>typeof v === "string" ? v : ""\<close>\<close>

definition str_or_empty :: "js \<Rightarrow> string" where
  "str_or_empty v = (case v of JStr s \<Rightarrow> s | _ \<Rightarrow> [])"

fun jnum_is_integer :: "jnum \<Rightarrow> bool" where
  "jnum_is_integer (NInt _) = True"
| "jnum_is_integer _ = False"

fun jnum_is_finite :: "jnum \<Rightarrow> bool" where
  "jnum_is_finite (NInt _) = True"
| "jnum_is_finite (NFrac _ _) = True"
| "jnum_is_finite _ = False"

text \<open>\<open>jnum_less n k\<close> is \<^verbatim>\<open>n < k\<close>, \<open>jnum_greater n k\<close> is \<^verbatim>\<open>n > k\<close>, for an integer \<open>k\<close>.\<close>

fun jnum_less :: "jnum \<Rightarrow> int \<Rightarrow> bool" where
  "jnum_less (NInt n) k = (n < k)"
| "jnum_less (NFrac n _) k = (n < k)"
| "jnum_less NNegInf k = True"
| "jnum_less NPosInf k = False"
| "jnum_less NNaN k = False"

fun jnum_greater :: "jnum \<Rightarrow> int \<Rightarrow> bool" where
  "jnum_greater (NInt n) k = (n > k)"
| "jnum_greater (NFrac n _) k = (n \<ge> k)"
| "jnum_greater NNegInf k = False"
| "jnum_greater NPosInf k = True"
| "jnum_greater NNaN k = False"

text \<open>\<^verbatim>\<open>Math.floor\<close> of a finite number, \<^verbatim>\<open>Math.trunc\<close> of a finite number.\<close>

fun jnum_floor :: "jnum \<Rightarrow> int" where
  "jnum_floor (NInt n) = n"
| "jnum_floor (NFrac n _) = n"
| "jnum_floor _ = 0"

fun jnum_trunc :: "jnum \<Rightarrow> int" where
  "jnum_trunc (NInt n) = n"
| "jnum_trunc (NFrac n _) = (if n < 0 then n + 1 else n)"
| "jnum_trunc _ = 0"

section \<open>Decimal numerals\<close>

definition digit_char :: "nat \<Rightarrow> char" where
  "digit_char d = char_of (48 + d)"

definition digit_val :: "char \<Rightarrow> nat" where
  "digit_val c = of_char c - 48"

fun dec :: "nat \<Rightarrow> string" where
  "dec n = (if n < 10 then [digit_char n] else dec (n div 10) @ [digit_char (n mod 10)])"

declare dec.simps [simp del]

definition pad :: "nat \<Rightarrow> nat \<Rightarrow> string" where
  "pad k n = replicate (k - length (dec n)) CHR ''0'' @ dec n"

definition undec :: "string \<Rightarrow> nat" where
  "undec s = foldl (\<lambda>a c. 10 * a + digit_val c) 0 s"

definition dec_int :: "int \<Rightarrow> string" where
  "dec_int i = (if i < 0 then CHR ''-'' # dec (nat (- i)) else dec (nat i))"

lemma of_char_digit_char [simp]: "d < 10 \<Longrightarrow> of_char (digit_char d) = 48 + d"
  by (simp add: digit_char_def)

lemma digit_val_digit_char [simp]: "d < 10 \<Longrightarrow> digit_val (digit_char d) = d"
  by (simp add: digit_val_def)

lemma is_digit_digit_char [simp]: "d < 10 \<Longrightarrow> is_digit (digit_char d)"
  by (simp add: is_digit_def)

lemma digits_dec: "\<forall>c\<in>set (dec n). is_digit c"
proof (induction n rule: dec.induct)
  case (1 n)
  then show ?case by (cases "n < 10") (auto simp: dec.simps [of n])
qed

lemma dec_nonempty [simp]: "dec n \<noteq> []"
  by (subst dec.simps) simp

lemma undec_dec [simp]: "undec (dec n) = n"
proof (induction n rule: dec.induct)
  case (1 n)
  then show ?case
    by (cases "n < 10") (auto simp: dec.simps [of n] undec_def foldl_append)
qed

lemma dec_inject [simp]: "dec m = dec n \<longleftrightarrow> m = n"
  by (metis undec_dec)

lemma minus_not_digit [simp]: "\<not> is_digit CHR ''-''"
  by (simp add: is_digit_def)

lemma dec_int_inject [simp]: "dec_int i = dec_int j \<longleftrightarrow> i = j"
proof -
  have "CHR ''-'' # s \<noteq> dec m" for s m
    using digits_dec [of m] by (auto simp: Ball_def) (metis list.set_intros(1) minus_not_digit)
  then show ?thesis
    by (auto simp: dec_int_def dest: sym)
qed

lemma dec_int_chars: "c \<in> set (dec_int i) \<Longrightarrow> is_digit c \<or> c = CHR ''-''"
  using digits_dec by (auto simp: dec_int_def split: if_splits)

section \<open>\<^verbatim>\<open>JSON.stringify\<close>\<close>

text \<open>Integers below \<^verbatim>\<open>1e21\<close> print in full, as do all the ones the sources store.\<close>

fun json_num :: "jnum \<Rightarrow> string" where
  "json_num (NInt n) = dec_int n"
| "json_num (NFrac _ t) = t"
| "json_num _ = ''null''"

definition hex_digit :: "nat \<Rightarrow> char" where
  "hex_digit d = (if d < 10 then char_of (48 + d) else char_of (87 + d))"

definition json_char :: "char \<Rightarrow> string" where
  "json_char c =
     (let n = of_char c :: nat; bs = char_of (92::nat) in
      if n = 34 then [bs, c]
      else if n = 92 then [bs, c]
      else if n = 8 then [bs, CHR ''b'']
      else if n = 9 then [bs, CHR ''t'']
      else if n = 10 then [bs, CHR ''n'']
      else if n = 12 then [bs, CHR ''f'']
      else if n = 13 then [bs, CHR ''r'']
      else if n < 32 then [bs, CHR ''u'', CHR ''0'', CHR ''0'', hex_digit (n div 16), hex_digit (n mod 16)]
      else [c])"

definition json_string :: "string \<Rightarrow> string" where
  "json_string s = char_of (34::nat) # concat (map json_char s) @ [char_of (34::nat)]"

text \<open>What a \<^verbatim>\<open>Json\<close> column keeps of a value: undefined members vanish, undefined array
  elements become null.\<close>

fun json_stored :: "js \<Rightarrow> js" where
  "json_stored JUndef = JNull"
| "json_stored (JArr vs) = JArr (map json_stored vs)"
| "json_stored (JObj ms) =
     JObj (map (\<lambda>(k, v). (k, json_stored v)) (filter (\<lambda>(k, v). v \<noteq> JUndef) ms))"
| "json_stored (JNum n) = (if jnum_is_finite n then JNum n else JNull)"
| "json_stored v = v"

text \<open>\<open>jnum_scale n k\<close> is the integer below \<open>n * k\<close>, exact on the decimal text of a non-integer.\<close>

definition frac_digits :: "string \<Rightarrow> string" where
  "frac_digits t = filter is_digit t"

definition frac_places :: "string \<Rightarrow> nat" where
  "frac_places t = length (filter is_digit (dropWhile (\<lambda>c. c \<noteq> CHR ''.'') t))"

fun jnum_scale :: "jnum \<Rightarrow> int \<Rightarrow> int" where
  "jnum_scale (NInt n) k = n * k"
| "jnum_scale (NFrac _ t) k =
     (let m = int (undec (frac_digits t)) in
      ((if t \<noteq> [] \<and> hd t = CHR ''-'' then - m else m) * k) div 10 ^ frac_places t)"
| "jnum_scale _ k = 0"

section \<open>String to number\<close>

text \<open>
  \<^verbatim>\<open>Number(s)\<close>: surrounding white space is ignored, the empty string is 0, a sign, a
  fraction, an exponent and the radix prefixes are allowed, anything else is \<open>NNaN\<close>. The value is exact: rounding to a double is not modelled.
\<close>

definition frac_text :: "bool \<Rightarrow> nat \<Rightarrow> nat \<Rightarrow> string" where
  "frac_text neg m k =
     (if neg then ''-'' else []) @ dec (m div 10 ^ k) @ ''.'' @
     rev (dropWhile (\<lambda>c. c = CHR ''0'') (rev (pad k (m mod 10 ^ k))))"

definition pow10_value :: "bool \<Rightarrow> nat \<Rightarrow> int \<Rightarrow> jnum" where
  "pow10_value neg m e =
     (let v = (if neg then - int m else int m) in
      if 0 \<le> e then NInt (v * 10 ^ nat e)
      else (let p = 10 ^ nat (- e) in
            if v mod p = 0 then NInt (v div p) else NFrac (v div p) (frac_text neg m (nat (- e)))))"

definition parse_exponent :: "string \<Rightarrow> int option" where
  "parse_exponent s =
     (case s of
        [] \<Rightarrow> Some 0
      | c # r \<Rightarrow>
         if c = CHR ''e'' \<or> c = CHR ''E'' then
           (let neg = (r \<noteq> [] \<and> hd r = CHR ''-'');
                d = (if r \<noteq> [] \<and> (hd r = CHR ''-'' \<or> hd r = CHR ''+'') then tl r else r)
            in if d \<noteq> [] \<and> list_all is_digit d
               then Some (if neg then - int (undec d) else int (undec d)) else None)
         else None)"

definition parse_unsigned :: "bool \<Rightarrow> string \<Rightarrow> jnum" where
  "parse_unsigned neg s =
     (if s = ''Infinity'' then (if neg then NNegInf else NPosInf)
      else
       (let ip = takeWhile is_digit s; r = dropWhile is_digit s;
            fp = (if r \<noteq> [] \<and> hd r = CHR ''.'' then takeWhile is_digit (tl r) else []);
            r2 = (if r \<noteq> [] \<and> hd r = CHR ''.'' then dropWhile is_digit (tl r) else r)
        in if ip = [] \<and> fp = [] then NNaN
           else (case parse_exponent r2 of
                   None \<Rightarrow> NNaN
                 | Some e \<Rightarrow> pow10_value neg (undec (ip @ fp)) (e - int (length fp)))))"

text \<open>The prefixes \<^verbatim>\<open>0x\<close>, \<^verbatim>\<open>0o\<close>, \<^verbatim>\<open>0b\<close> select a radix and admit no sign.\<close>

definition radix_digit :: "char \<Rightarrow> nat" where
  "radix_digit c =
     (if is_digit c then of_char c - 48
      else if is_lower c then of_char c - 87
      else if is_upper c then of_char c - 55 else 99)"

definition radix_of :: "char \<Rightarrow> nat" where
  "radix_of c =
     (if c = CHR ''x'' \<or> c = CHR ''X'' then 16
      else if c = CHR ''o'' \<or> c = CHR ''O'' then 8
      else if c = CHR ''b'' \<or> c = CHR ''B'' then 2 else 0)"

definition parse_radix :: "nat \<Rightarrow> string \<Rightarrow> jnum" where
  "parse_radix b ds =
     (if ds \<noteq> [] \<and> list_all (\<lambda>c. radix_digit c < b) ds
      then NInt (int (foldl (\<lambda>a c. b * a + radix_digit c) 0 ds)) else NNaN)"

definition number_of_string :: "string \<Rightarrow> jnum" where
  "number_of_string raw =
     (let s = trim raw in
      if s = [] then NInt 0
      else if 2 \<le> length s \<and> hd s = CHR ''0'' \<and> radix_of (s ! 1) \<noteq> 0
        then parse_radix (radix_of (s ! 1)) (drop 2 s)
      else if hd s = CHR ''-'' then parse_unsigned True (tl s)
      else if hd s = CHR ''+'' then parse_unsigned False (tl s)
      else parse_unsigned False s)"

end
