(* ===== verification/Database.thy ===== *)
theory Database
  imports JsValue
begin

text \<open>
  The relational state of one tenant (\<^verbatim>\<open>prisma/schema.prisma\<close>): one record per model,
  with the columns that the modelled operations read or write, and one table per model in
  the record \<open>db\<close>. A nullable column is an \<open>option\<close>; a \<^verbatim>\<open>Json?\<close> column is a \<open>js\<close> value whose
  SQL null is \<open>JNull\<close>. The \<^verbatim>\<open>tenantId\<close> column is not repeated on the rows: a \<open>db\<close> holds the rows of
  exactly one tenant, the ones row-level security lets that tenant see.

  Deletions follow the \<^verbatim>\<open>onDelete\<close> clauses of the schema.
\<close>

section \<open>Enumerations\<close>

datatype Role = ADMIN | OPERATOR | AUDITOR | STAFF | VENDOR | PLATFORM

datatype UserStatus = ACTIVE | DISABLED

datatype GrantStatus = ACTIVE | REVOKED | DENIED

datatype ConnectorStatus = PENDING | ONLINE | OFFLINE | REVOKED

datatype SiteAccessMode = TRANSPARENT | GATEWAY | ISOLATED

datatype VaultProtocol = RDP | SSH | VNC

datatype VaultSecretKind = PASSWORD | KEY

datatype AuditDecision = ALLOW | DENY

datatype RecordingFormat = RRWEB | GUAC | VIDEO

section \<open>Rows\<close>

record User =
  u_id :: ident
  u_email :: string
  u_name :: string
  u_phone :: "string option"
  u_company :: "string option"
  u_timezone :: "string option"
  u_role :: Role
  u_status :: UserStatus
  u_createdAt :: instant
  u_directoryManaged :: bool
  u_directoryLastVerifiedAt :: "instant option"
  u_centerRole :: "string option"

record Passkey =
  pk_id :: ident
  pk_userId :: ident
  pk_credentialId :: string
  pk_publicKey :: string
  pk_counter :: nat
  pk_transports :: "string list"
  pk_label :: string
  pk_createdAt :: instant
  pk_lastUsedAt :: "instant option"

record TotpSecret =
  totp_userId :: ident
  totp_secret :: string
  totp_confirmedAt :: "instant option"

record Invite =
  inv_id :: ident
  inv_email :: string
  inv_name :: string
  inv_phone :: "string option"
  inv_company :: "string option"
  inv_role :: Role
  inv_tokenHash :: string
  inv_expiresAt :: instant
  inv_usedAt :: "instant option"
  inv_createdById :: "ident option"
  inv_createdAt :: instant

record Session =
  s_id :: ident
  s_userId :: ident
  s_tokenHash :: string
  s_expiresAt :: instant
  s_createdAt :: instant
  s_lastSeenAt :: instant
  s_userAgent :: "string option"
  s_ip :: "string option"
  s_amr :: "string list"
  s_mobile :: bool
  s_mobileChallenge :: "string option"

record MobileDevice =
  md_id :: ident
  md_userId :: ident
  md_sessionId :: ident
  md_expoPushToken :: string
  md_platform :: "string option"

record Connector =
  c_id :: ident
  c_name :: string
  c_tokenHash :: string
  c_status :: ConnectorStatus
  c_lastSeenAt :: "instant option"
  c_version :: "string option"
  c_remoteAddr :: "string option"
  c_egressPolicy :: "string option"
  c_logLevel :: "string option"
  c_createdAt :: instant

record ConnectorPairing =
  cp_id :: ident
  cp_codeHash :: string
  cp_name :: string
  cp_connectorId :: "ident option"
  cp_expiresAt :: instant
  cp_usedAt :: "instant option"
  cp_createdAt :: instant

record Site =
  site_id :: ident
  site_connectorId :: ident
  site_name :: string
  site_hostname :: "string option"
  site_customDomain :: bool
  site_domainVerifiedAt :: "instant option"
  site_upstreamUrl :: "string option"
  site_insecureSkipVerify :: bool
  site_description :: "string option"
  site_probedAt :: "instant option"
  site_probeOk :: "bool option"
  site_probeDetail :: "string option"
  site_probeLatencyMs :: "int option"
  site_recordSessions :: bool
  site_keystrokeLogging :: bool
  site_clipboardMode :: "string option"
  site_watermark :: "bool option"
  site_fileTransferMode :: string
  site_accessMode :: SiteAccessMode
  site_logo :: "(string \<times> string) option"
  site_createdAt :: instant

record VaultCredential =
  v_siteId :: ident
  v_protocol :: VaultProtocol
  v_targetHost :: string
  v_targetPort :: int
  v_username :: string
  v_secret :: string
  v_secretKind :: VaultSecretKind
  v_guacParams :: js

record AccessGrant =
  g_id :: ident
  g_userId :: ident
  g_siteId :: ident
  g_startsAt :: "instant option"
  g_endsAt :: "instant option"
  g_status :: GrantStatus
  g_note :: "string option"
  g_denyReason :: "string option"
  g_requiresApproval :: bool
  g_approvedAt :: "instant option"
  g_approvedById :: "ident option"
  g_schedule :: js
  g_createdById :: "ident option"
  g_createdAt :: instant
  g_directoryManaged :: bool

record AuditEvent =
  ae_timestamp :: instant
  ae_userId :: "string option"
  ae_userEmail :: "string option"
  ae_userName :: "string option"
  ae_company :: "string option"
  ae_siteId :: "string option"
  ae_siteName :: "string option"
  ae_host :: string
  ae_method :: string
  ae_path :: string
  ae_status :: int
  ae_bytesOut :: int
  ae_decision :: AuditDecision
  ae_reason :: "string option"
  ae_clientIp :: "string option"
  ae_userAgent :: "string option"
  ae_seq :: int
  ae_prevHash :: string
  ae_hash :: string

record AdminAuditEvent =
  aa_id :: ident
  aa_timestamp :: instant
  aa_actorId :: "string option"
  aa_actorEmail :: "string option"
  aa_action :: string
  aa_targetType :: "string option"
  aa_targetId :: "string option"
  aa_summary :: string
  aa_metadata :: js
  aa_clientIp :: "string option"
  aa_createdAt :: instant
  aa_seq :: "int option"
  aa_prevHash :: string
  aa_hash :: string

record AuditChainState =
  cs_lastSeq :: int
  cs_lastHash :: string

record AuditAnchor =
  an_id :: ident
  an_anchoredSeq :: int
  an_anchoredHash :: string
  an_tsaUrl :: string
  an_token :: string
  an_genTime :: instant
  an_createdAt :: instant

record GroupMapping =
  gm_id :: ident
  gm_groupDN :: string
  gm_kind :: string
  gm_role :: "Role option"
  gm_siteId :: "ident option"
  gm_enabled :: bool

record SessionPolicyRow =
  sp_idleTimeoutMinutes :: "int option"
  sp_maxSessionHours :: "int option"
  sp_maxConcurrentPerUser :: "int option"
  sp_requireSecondFactor :: bool

record SessionRecording =
  rec_id :: ident
  rec_recordingKey :: string
  rec_siteId :: ident
  rec_userId :: ident
  rec_host :: string
  rec_startedAt :: instant
  rec_lastEventAt :: instant
  rec_eventCount :: int
  rec_bytes :: int
  rec_format :: RecordingFormat
  rec_purgePendingAt :: "instant option"
  rec_protocol :: "string option"
  rec_encrypted :: bool
  rec_truncated :: bool

record Notification =
  n_id :: ident
  n_type :: string
  n_siteId :: "ident option"
  n_siteName :: string
  n_detail :: "string option"
  n_createdAt :: instant
  n_readAt :: "instant option"

record CronRun =
  cr_job :: string
  cr_ranAt :: instant

record PlatformSettings =
  ps_auditRetentionDays :: "int option"
  ps_inviteTtlHours :: "int option"
  ps_notificationWebhookUrl :: "string option"
  ps_vendorIpAllowlist :: "string option"
  ps_maxGrantDays :: "int option"
  ps_recordingConsentRequired :: "bool option"
  ps_watermarkDefault :: "bool option"
  ps_clipboardDefault :: "string option"
  ps_displayTimezone :: "string option"
  ps_displayTimezoneFromCenterAt :: "instant option"
  ps_recordingRetentionDays :: "int option"
  ps_defaultConnectorLogLevel :: "string option"
  ps_externalAnchorEnabled :: "bool option"
  ps_anchorTsaUrl :: "string option"
  ps_anchorTsaAuth :: "string option"
  ps_notifySiteHealth :: "bool option"
  ps_notifyAccessRequests :: "bool option"
  ps_notifyAccessDecisions :: "bool option"
  ps_requireRequestJustification :: "bool option"
  ps_keystrokeLoggingMode :: "string option"
  ps_recordingMode :: "string option"
  ps_guacParamDefaults :: js

record OidcConfigRow =
  oc_enabled :: bool
  oc_issuer :: string
  oc_clientId :: string
  oc_clientSecret :: string
  oc_buttonLabel :: "string option"

record SmtpConfigRow =
  smtp_host :: string
  smtp_port :: int
  smtp_secure :: bool
  smtp_username :: string
  smtp_password :: string
  smtp_fromName :: string
  smtp_fromEmail :: string
  smtp_enabled :: bool

record SupportHandoff =
  sh_id :: ident
  sh_tokenHash :: string
  sh_actorId :: ident
  sh_actorEmail :: string
  sh_reason :: string
  sh_expiresAt :: instant
  sh_usedAt :: "instant option"
  sh_sessionId :: "ident option"
  sh_createdAt :: instant

text \<open>An outgoing message, by its recipient and the template that renders it.\<close>

record mail =
  m_to :: "string list"
  m_template :: string
  m_subject :: string

section \<open>The tenant database\<close>

record db =
  users :: "User list"
  passkeys :: "Passkey list"
  totpSecrets :: "TotpSecret list"
  invites :: "Invite list"
  sessions :: "Session list"
  mobileDevices :: "MobileDevice list"
  connectors :: "Connector list"
  connectorPairings :: "ConnectorPairing list"
  sites :: "Site list"
  vaultCredentials :: "VaultCredential list"
  accessGrants :: "AccessGrant list"
  auditEvents :: "AuditEvent list"
  adminAuditEvents :: "AdminAuditEvent list"
  accessChain :: "AuditChainState option"
  adminChain :: "AuditChainState option"
  auditAnchors :: "AuditAnchor list"
  adminAuditAnchors :: "AuditAnchor list"
  groupMappings :: "GroupMapping list"
  sessionPolicy :: "SessionPolicyRow option"
  platformSettings :: "PlatformSettings option"
  sessionRecordings :: "SessionRecording list"
  notifications :: "Notification list"
  cronRuns :: "CronRun list"
  oidcConfig :: "OidcConfigRow option"
  smtpConfig :: "SmtpConfigRow option"
  supportHandoffs :: "SupportHandoff list"
  outbox :: "mail list"

definition empty_db :: db where
  "empty_db =
     \<lparr>users = [], passkeys = [], totpSecrets = [], invites = [], sessions = [],
      mobileDevices = [], connectors = [], connectorPairings = [], sites = [],
      vaultCredentials = [], accessGrants = [], auditEvents = [], adminAuditEvents = [],
      accessChain = None, adminChain = None, auditAnchors = [], adminAuditAnchors = [],
      groupMappings = [], sessionPolicy = None, platformSettings = None,
      sessionRecordings = [], notifications = [], cronRuns = [], oidcConfig = None, smtpConfig = None,
      supportHandoffs = [], outbox = []\<rparr>"

section \<open>Lookups by primary key\<close>

definition user_by_id :: "db \<Rightarrow> ident \<Rightarrow> User option" where
  "user_by_id s i = find_first (\<lambda>u. u_id u = i) (users s)"

definition user_by_email :: "db \<Rightarrow> string \<Rightarrow> User option" where
  "user_by_email s e = find_first (\<lambda>u. u_email u = e) (users s)"

definition site_by_id :: "db \<Rightarrow> ident \<Rightarrow> Site option" where
  "site_by_id s i = find_first (\<lambda>r. site_id r = i) (sites s)"

definition grant_by_id :: "db \<Rightarrow> ident \<Rightarrow> AccessGrant option" where
  "grant_by_id s i = find_first (\<lambda>g. g_id g = i) (accessGrants s)"

definition connector_by_id :: "db \<Rightarrow> ident \<Rightarrow> Connector option" where
  "connector_by_id s i = find_first (\<lambda>c. c_id c = i) (connectors s)"

section \<open>Cascading deletions\<close>

definition set_null :: "ident \<Rightarrow> ident option \<Rightarrow> ident option" where
  "set_null i v = (if v = Some i then None else v)"

definition delete_session_rows :: "(Session \<Rightarrow> bool) \<Rightarrow> db \<Rightarrow> db" where
  "delete_session_rows p s =
     (let gone = map s_id (find_many p (sessions s)) in
      s\<lparr>sessions := delete_many p (sessions s),
        mobileDevices := delete_many (\<lambda>m. md_sessionId m \<in> set gone) (mobileDevices s)\<rparr>)"

definition delete_user_row :: "ident \<Rightarrow> db \<Rightarrow> db" where
  "delete_user_row i s =
     s\<lparr>users := delete_many (\<lambda>u. u_id u = i) (users s),
       passkeys := delete_many (\<lambda>p. pk_userId p = i) (passkeys s),
       totpSecrets := delete_many (\<lambda>t. totp_userId t = i) (totpSecrets s),
       sessions := delete_many (\<lambda>x. s_userId x = i) (sessions s),
       mobileDevices := delete_many (\<lambda>m. md_userId m = i) (mobileDevices s),
       invites := map (\<lambda>v. v\<lparr>inv_createdById := set_null i (inv_createdById v)\<rparr>) (invites s),
       accessGrants :=
         map (\<lambda>g. g\<lparr>g_approvedById := set_null i (g_approvedById g),
                     g_createdById := set_null i (g_createdById g)\<rparr>)
           (delete_many (\<lambda>g. g_userId g = i) (accessGrants s))\<rparr>"

definition delete_site_rows :: "ident list \<Rightarrow> db \<Rightarrow> db" where
  "delete_site_rows is s =
     s\<lparr>sites := delete_many (\<lambda>r. site_id r \<in> set is) (sites s),
       accessGrants := delete_many (\<lambda>g. g_siteId g \<in> set is) (accessGrants s),
       vaultCredentials := delete_many (\<lambda>v. v_siteId v \<in> set is) (vaultCredentials s),
       groupMappings :=
         delete_many (\<lambda>m. \<exists>i \<in> set is. gm_siteId m = Some i) (groupMappings s)\<rparr>"

definition delete_connector_row :: "ident \<Rightarrow> db \<Rightarrow> db" where
  "delete_connector_row i s =
     (let s1 = delete_site_rows (map site_id (find_many (\<lambda>r. site_connectorId r = i) (sites s))) s in
      s1\<lparr>connectors := delete_many (\<lambda>c. c_id c = i) (connectors s1),
         connectorPairings := delete_many (\<lambda>p. cp_connectorId p = Some i) (connectorPairings s1)\<rparr>)"

section \<open>Transactions\<close>

text \<open>
  \<^verbatim>\<open>db.$transaction(fn)\<close> (\<^verbatim>\<open>lib/db.ts\<close>): outside a tenant scope a failing body is rolled
  back; inside \<^verbatim>\<open>withTenant\<close> the ambient transaction is reused, so the writes made before the
  error stay, and are committed with the request when the caller catches the error.
\<close>

definition run_tx :: "bool \<Rightarrow> (db \<Rightarrow> db \<times> ('e + 'a)) \<Rightarrow> db \<Rightarrow> db \<times> ('e + 'a)" where
  "run_tx ambient body s =
     (case body s of
        (s', Inl e) \<Rightarrow> (if ambient then s' else s, Inl e)
      | (s', Inr a) \<Rightarrow> (s', Inr a))"

lemma run_tx_rollback: "run_tx False body s = (s', Inl e) \<Longrightarrow> s' = s"
  by (auto simp: run_tx_def split: prod.splits sum.splits)

lemma user_by_id_Some: "user_by_id s i = Some u \<Longrightarrow> u \<in> set (users s) \<and> u_id u = i"
  unfolding user_by_id_def by (drule find_first_Some) simp

lemma site_by_id_Some: "site_by_id s i = Some r \<Longrightarrow> r \<in> set (sites s) \<and> site_id r = i"
  unfolding site_by_id_def by (drule find_first_Some) simp

lemma grant_by_id_Some: "grant_by_id s i = Some g \<Longrightarrow> g \<in> set (accessGrants s) \<and> g_id g = i"
  unfolding grant_by_id_def by (drule find_first_Some) simp

end
