(* ===== verification/Tenancy.thy ===== *)
theory Tenancy
  imports Database
begin

text \<open>
  \<^verbatim>\<open>lib/tenant/\<close>, \<^verbatim>\<open>lib/env-flag.ts\<close>, \<^verbatim>\<open>lib/secure-compare.ts\<close>, \<^verbatim>\<open>lib/domain/custom-domain.ts\<close>,
  \<^verbatim>\<open>lib/platform/tenant-shape.ts\<close>, \<^verbatim>\<open>lib/cron/for-each-tenant.ts\<close> and the row-level security of
  \<^verbatim>\<open>prisma/rls/bootstrap.sql\<close>: how a request finds its tenant, what it can see and write, and
  which limits apply to it.

  \<open>process.env\<close> is a function from names to values; the hostname of a URL (\<^verbatim>\<open>new URL\<close>) is a
  parameter.
\<close>

type_synonym env = "string \<Rightarrow> string option"

section \<open>Flags and secrets\<close>

definition ON_VALUES :: "string list" where
  "ON_VALUES = [''1'', ''true'', ''on'', ''yes'']"

definition OFF_VALUES :: "string list" where
  "OFF_VALUES = [''0'', ''false'', ''off'', ''no'']"

definition flagOn :: "string option \<Rightarrow> bool \<Rightarrow> bool" where
  "flagOn raw defaultValue =
     (case map_option (\<lambda>r. to_lower (trim r)) raw of
        None \<Rightarrow> defaultValue
      | Some v \<Rightarrow>
          if v \<in> set ON_VALUES then True
          else if v \<in> set OFF_VALUES then False else defaultValue)"

definition multiTenantEnabled :: "env \<Rightarrow> bool" where
  "multiTenantEnabled env = flagOn (env ''MULTI_TENANT'') False"

definition recordingEnabled :: "env \<Rightarrow> bool" where
  "recordingEnabled env = flagOn (env ''RECORDING_ENABLED'') True"

definition isolationEnabled :: "env \<Rightarrow> bool" where
  "isolationEnabled env = flagOn (env ''ISOLATED_ENABLED'') True"

definition nativeGatewayEnabled :: "env \<Rightarrow> bool" where
  "nativeGatewayEnabled env = flagOn (env ''NATIVE_GATEWAY'') True"

definition vaultEnabled :: "env \<Rightarrow> bool" where
  "vaultEnabled env = flagOn (env ''VAULT_ENABLED'') True"

definition timingSafeEqualStr :: "string option \<Rightarrow> string option \<Rightarrow> bool" where
  "timingSafeEqualStr a b =
     (case a of None \<Rightarrow> False | Some x \<Rightarrow> (case b of None \<Rightarrow> False | Some y \<Rightarrow>
       if x = [] \<or> y = [] then False
       else if length x \<noteq> length y then False else x = y))"

section \<open>Host names\<close>

definition RESERVED :: "string list" where
  "RESERVED = [''manager'', ''www'', ''app'', ''admin'', ''api'', ''connect'', ''sites'']"

definition RESERVED_SLUGS :: "string list" where
  "RESERVED_SLUGS =
     [''platform'', ''manager'', ''www'', ''app'', ''admin'', ''api'', ''connect'', ''sites'']"

definition isReservedSlug :: "string \<Rightarrow> bool" where
  "isReservedSlug slug \<longleftrightarrow> slug \<in> set RESERVED_SLUGS"

text \<open>\<open>SLUG_RE\<close> is \<^verbatim>\<open>/^[a-z0-9](?:[a-z0-9-]{0,61}[a-z0-9])?$/\<close>.\<close>

definition SLUG_RE :: "string \<Rightarrow> bool" where
  "SLUG_RE s \<longleftrightarrow>
     s \<noteq> [] \<and> length s \<le> 63 \<and> is_lower_alnum (hd s) \<and> is_lower_alnum (last s) \<and>
     list_all (\<lambda>c. is_lower_alnum c \<or> c = CHR ''-'') s"

definition isValidTenantSlug :: "string \<Rightarrow> bool" where
  "isValidTenantSlug slug \<longleftrightarrow> SLUG_RE slug \<and> \<not> isReservedSlug slug"

text \<open>\<^verbatim>\<open>replace(/:\d+$/, "")\<close> and \<^verbatim>\<open>replace(/\.$/, "")\<close>.\<close>

definition strip_port :: "string \<Rightarrow> string" where
  "strip_port h =
     (let r = rev h; rest = dropWhile is_digit r in
      if takeWhile is_digit r \<noteq> [] \<and> rest \<noteq> [] \<and> hd rest = CHR '':'' then rev (tl rest) else h)"

definition strip_dot :: "string \<Rightarrow> string" where
  "strip_dot h = (if h \<noteq> [] \<and> last h = CHR ''.'' then butlast h else h)"

definition slugFromHost :: "string \<Rightarrow> string option \<Rightarrow> string option" where
  "slugFromHost host domain =
     (case domain of None \<Rightarrow> None | Some d \<Rightarrow>
       if host = [] \<or> d = [] then None
       else (let h = strip_dot (strip_port (to_lower host)); suffix = CHR ''.'' # to_lower d in
             if \<not> ends_with h suffix then None
             else (let label = take (length h - length suffix) h in
                   if label = [] \<or> CHR ''.'' \<in> set label \<or> label \<in> set RESERVED then None
                   else Some label)))"

definition accessDomain ::
  "(string \<Rightarrow> string option) \<Rightarrow> string option \<Rightarrow> string option \<Rightarrow> string option" where
  "accessDomain url_hostname managerPublicUrl accessDomainEnv =
     (case or_null (map_option trim accessDomainEnv) of
        Some explicit \<Rightarrow>
          Some (to_lower (if starts_with explicit ''*.'' then drop 2 explicit else explicit))
      | None \<Rightarrow>
          (case or_null (map_option trim managerPublicUrl) of
             None \<Rightarrow> None
           | Some raw \<Rightarrow>
               (case url_hostname raw of
                  None \<Rightarrow> None
                | Some hn \<Rightarrow>
                    (let host = to_lower hn in
                     if host = ''localhost'' \<or> host = ''127.0.0.1'' \<or>
                        \<not> starts_with host ''manager.'' then None
                     else (let domain = drop (length ''manager.'') host in
                           if CHR ''.'' \<in> set domain then Some domain else None)))))"

definition consoleDomain :: "(string \<Rightarrow> string option) \<Rightarrow> env \<Rightarrow> string option" where
  "consoleDomain url_hostname env =
     (case or_null (map_option trim (env ''CONSOLE_DOMAIN'')) of
        Some d \<Rightarrow> Some d
      | None \<Rightarrow> accessDomain url_hostname (env ''MANAGER_PUBLIC_URL'') (env ''ACCESS_DOMAIN''))"

definition wildcardRecord :: "string \<Rightarrow> string" where
  "wildcardRecord d = ''*.'' @ d"

datatype VerifyStatus = V_ok | V_missing | V_mismatch

definition classifyVerify :: "string \<Rightarrow> string list \<Rightarrow> VerifyStatus" where
  "classifyVerify expectedIp resolvedIps =
     (if resolvedIps = [] then V_missing
      else if expectedIp \<in> set resolvedIps then V_ok else V_mismatch)"

section \<open>Row-level security\<close>

text \<open>
  A table of the shared database holds (tenantId, row) pairs. \<open>guc\<close> is
  \<^verbatim>\<open>current_setting('app.current_tenant', true)\<close>: unset outside a scope, in which case the
  policy's comparison is never true.
\<close>

definition DEFAULT_TENANT :: ident where
  "DEFAULT_TENANT = ''default''"

definition PLATFORM_TENANT_ID :: ident where
  "PLATFORM_TENANT_ID = ''platform''"

type_synonym 'r shared = "(ident \<times> 'r) list"

definition tenant_isolation :: "ident option \<Rightarrow> ident \<times> 'r \<Rightarrow> bool" where
  "tenant_isolation guc r \<longleftrightarrow> guc = Some (fst r)"

definition rls_select :: "ident option \<Rightarrow> ('r \<Rightarrow> bool) \<Rightarrow> 'r shared \<Rightarrow> 'r list" where
  "rls_select guc p t = map snd (filter (\<lambda>r. tenant_isolation guc r \<and> p (snd r)) t)"

definition rls_update :: "ident option \<Rightarrow> ('r \<Rightarrow> bool) \<Rightarrow> ('r \<Rightarrow> 'r) \<Rightarrow> 'r shared \<Rightarrow> 'r shared" where
  "rls_update guc p f t =
     map (\<lambda>r. if tenant_isolation guc r \<and> p (snd r) then (fst r, f (snd r)) else r) t"

definition rls_delete :: "ident option \<Rightarrow> ('r \<Rightarrow> bool) \<Rightarrow> 'r shared \<Rightarrow> 'r shared" where
  "rls_delete guc p t = filter (\<lambda>r. \<not> (tenant_isolation guc r \<and> p (snd r))) t"

definition set_tenant_from_guc :: "ident option \<Rightarrow> ident \<Rightarrow> ident" where
  "set_tenant_from_guc guc tid =
     (case guc of None \<Rightarrow> tid | Some g \<Rightarrow> if g \<noteq> [] \<and> tid = DEFAULT_TENANT then g else tid)"

text \<open>Prisma sends the column default \<^verbatim>\<open>"default"\<close>; the trigger replaces it, then the policy's
  \<^verbatim>\<open>WITH CHECK\<close> decides (\<open>None\<close>: the insert is rejected).\<close>

definition rls_insert :: "ident option \<Rightarrow> ident \<Rightarrow> 'r \<Rightarrow> 'r shared \<Rightarrow> 'r shared option" where
  "rls_insert guc tid r t =
     (let row = (set_tenant_from_guc guc tid, r) in
      if tenant_isolation guc row then Some (t @ [row]) else None)"

definition tenant_table :: "ident \<Rightarrow> 'r shared \<Rightarrow> 'r list" where
  "tenant_table tid t = map snd (filter (\<lambda>r. fst r = tid) t)"

section \<open>The tenants and their databases\<close>

record TenantRow =
  t_id :: ident
  t_slug :: string
  t_name :: string
  t_status :: string
  t_plan :: string
  t_trialEndsAt :: "instant option"
  t_deletedAt :: "instant option"
  t_limits :: js
  t_capabilities :: js
  t_captivoOrgId :: "string option"
  t_notes :: "string option"
  t_createdAt :: instant

record cloud =
  tenants :: "TenantRow list"
  data :: "ident \<Rightarrow> db"

definition resolve_tenant_by_slug :: "string \<Rightarrow> cloud \<Rightarrow> ident option" where
  "resolve_tenant_by_slug slug c =
     map_option t_id (find_first
       (\<lambda>t. t_slug t = slug \<and> t_status t = ''ACTIVE'' \<and> t_deletedAt t = None) (tenants c))"

definition resolve_tenant_by_hostname :: "string \<Rightarrow> cloud \<Rightarrow> ident option" where
  "resolve_tenant_by_hostname host c =
     map_option t_id (find_first
       (\<lambda>t. list_ex (\<lambda>r. site_hostname r = Some (trim (to_lower host))) (sites (data c (t_id t))))
       (tenants c))"

text \<open>
  \<open>withTenant\<close>: in the cloud the body runs in one transaction of the tenant's own rows, rolled
  back when it throws; on a self-hosted server it runs directly on the only database.
\<close>

definition withTenant ::
  "env \<Rightarrow> ident \<Rightarrow> (db \<Rightarrow> db \<times> 'a reply) \<Rightarrow> cloud \<Rightarrow> cloud \<times> 'a reply" where
  "withTenant env tenantId fn c =
     (if \<not> multiTenantEnabled env then
        (let (s, r) = fn (data c DEFAULT_TENANT) in (c\<lparr>data := (data c)(DEFAULT_TENANT := s)\<rparr>, r))
      else
        (let (s, r) = fn (data c tenantId) in
         case r of
           Throw e \<Rightarrow> (c, Throw e)
         | _ \<Rightarrow> (c\<lparr>data := (data c)(tenantId := s)\<rparr>, r)))"

record request =
  req_header :: "string \<Rightarrow> string option"
  req_body :: js

definition request_host :: "request \<Rightarrow> string" where
  "request_host req =
     (case req_header req ''x-forwarded-host'' of
        Some h \<Rightarrow> h
      | None \<Rightarrow> (case req_header req ''host'' of Some h \<Rightarrow> h | None \<Rightarrow> []))"

definition resolveRequestTenant ::
  "(string \<Rightarrow> string option) \<Rightarrow> env \<Rightarrow> request \<Rightarrow> cloud \<Rightarrow> ident option" where
  "resolveRequestTenant url_hostname env req c =
     (case slugFromHost (request_host req) (consoleDomain url_hostname env) of
        None \<Rightarrow> None
      | Some slug \<Rightarrow> resolve_tenant_by_slug slug c)"

definition withTenantRoute ::
  "(string \<Rightarrow> string option) \<Rightarrow> env \<Rightarrow> (request \<Rightarrow> db \<Rightarrow> db \<times> 'a reply) \<Rightarrow> request \<Rightarrow> cloud \<Rightarrow>
   cloud \<times> 'a reply" where
  "withTenantRoute url_hostname env handler req c =
     (if \<not> multiTenantEnabled env then withTenant env DEFAULT_TENANT (handler req) c
      else (case resolveRequestTenant url_hostname env req c of
              None \<Rightarrow> (c, Err 404 ''unknown_tenant'')
            | Some tenantId \<Rightarrow> withTenant env tenantId (handler req) c))"

definition withTenantFrom ::
  "env \<Rightarrow> (request \<Rightarrow> cloud \<Rightarrow> ident option) \<Rightarrow> (request \<Rightarrow> db \<Rightarrow> db \<times> 'a reply) \<Rightarrow> request \<Rightarrow>
   cloud \<Rightarrow> cloud \<times> 'a reply" where
  "withTenantFrom env resolve handler req c =
     (if \<not> multiTenantEnabled env then withTenant env DEFAULT_TENANT (handler req) c
      else (case or_null (resolve req c) of
              None \<Rightarrow> (c, Err 404 ''unknown_tenant'')
            | Some tid \<Rightarrow> withTenant env tid (handler req) c))"

definition requireDataplaneSecret ::
  "env \<Rightarrow> (request \<Rightarrow> cloud \<Rightarrow> cloud \<times> 'a reply) \<Rightarrow> request \<Rightarrow> cloud \<Rightarrow> cloud \<times> 'a reply" where
  "requireDataplaneSecret env handler req c =
     (case or_null (env ''DATAPLANE_SECRET'') of
        None \<Rightarrow> (c, Err 403 ''forbidden'')
      | Some s \<Rightarrow>
          if timingSafeEqualStr (req_header req ''x-dataplane-secret'') (Some s) then handler req c
          else (c, Err 403 ''forbidden''))"

text \<open>Cron jobs: once per active tenant, or once on a self-hosted server.\<close>

definition list_active_tenant_ids :: "cloud \<Rightarrow> ident list" where
  "list_active_tenant_ids c =
     map t_id (filter (\<lambda>t. t_status t = ''ACTIVE'' \<and> t_deletedAt t = None \<and>
                      t_id t \<notin> {PLATFORM_TENANT_ID, DEFAULT_TENANT})
       (tenants c))"

fun run_tenants ::
  "env \<Rightarrow> ident list \<Rightarrow> (db \<Rightarrow> db \<times> 'a reply) \<Rightarrow> cloud \<Rightarrow> cloud \<times> 'a reply list" where
  "run_tenants env [] job c = (c, [])"
| "run_tenants env (t # ts) job c =
     (let (c1, r) = withTenant env t job c in
      case r of
        Throw e \<Rightarrow> (c1, [Throw e])
      | _ \<Rightarrow> (let (c2, rs) = run_tenants env ts job c1 in (c2, r # rs)))"

definition forEachTenant ::
  "env \<Rightarrow> (db \<Rightarrow> db \<times> 'a reply) \<Rightarrow> cloud \<Rightarrow> cloud \<times> 'a reply list" where
  "forEachTenant env job c =
     (if \<not> multiTenantEnabled env then run_tenants env [DEFAULT_TENANT] job c
      else run_tenants env (list_active_tenant_ids c) job c)"

section \<open>Plans, limits and capabilities\<close>

datatype LimitKey = maxUsers | maxSites | maxConnectors | maxRecordingRetentionDays

datatype CapabilityKey = Recording | Isolated | Gateway | Vault

fun limit_name :: "LimitKey \<Rightarrow> string" where
  "limit_name maxUsers = ''maxUsers''"
| "limit_name maxSites = ''maxSites''"
| "limit_name maxConnectors = ''maxConnectors''"
| "limit_name maxRecordingRetentionDays = ''maxRecordingRetentionDays''"

fun capability_name :: "CapabilityKey \<Rightarrow> string" where
  "capability_name Recording = ''recording''"
| "capability_name Isolated = ''isolated''"
| "capability_name Gateway = ''gateway''"
| "capability_name Vault = ''vault''"

type_synonym TenantLimits = "LimitKey \<Rightarrow> int option"
type_synonym TenantCapabilities = "CapabilityKey \<Rightarrow> bool option"

definition PLANS :: "string list" where
  "PLANS = [''free'', ''pro'', ''enterprise'']"

definition isPlan :: "js \<Rightarrow> bool" where
  "isPlan v = (case v of JStr s \<Rightarrow> s \<in> set PLANS | _ \<Rightarrow> False)"

definition limit_entry :: "js \<Rightarrow> int option" where
  "limit_entry raw =
     (let n = (case raw of
                 JStr t \<Rightarrow> if trim t \<noteq> [] then JNum (number_of_string t) else raw
               | _ \<Rightarrow> raw)
      in case n of
           JNum (NInt k) \<Rightarrow> if k > 0 then Some k else None
         | _ \<Rightarrow> None)"

definition parseLimits :: "js \<Rightarrow> TenantLimits" where
  "parseLimits v =
     (case v of JObj ob \<Rightarrow> (\<lambda>k. limit_entry (field ob (limit_name k))) | _ \<Rightarrow> (\<lambda>k. None))"

definition parseCapabilities :: "js \<Rightarrow> TenantCapabilities" where
  "parseCapabilities v =
     (case v of
        JObj ob \<Rightarrow> (\<lambda>k. case field ob (capability_name k) of JBool b \<Rightarrow> Some b | _ \<Rightarrow> None)
      | _ \<Rightarrow> (\<lambda>k. None))"

definition withinLimit :: "TenantLimits \<Rightarrow> LimitKey \<Rightarrow> nat \<Rightarrow> bool" where
  "withinLimit limits key n = (case limits key of None \<Rightarrow> True | Some m \<Rightarrow> int n < m)"

record TenantEnvelope =
  env_limits :: TenantLimits
  env_capabilities :: TenantCapabilities

definition EMPTY_ENVELOPE :: TenantEnvelope where
  "EMPTY_ENVELOPE = \<lparr>env_limits = (\<lambda>k. None), env_capabilities = (\<lambda>k. None)\<rparr>"

definition CACHE_MS :: int where
  "CACHE_MS = 15000"

text \<open>
  The cached envelope of the acting tenant: the answer and the updated cache. \<open>db_up\<close> is whether
  the query succeeds (a failing one is answered, and cached, as the empty envelope).
\<close>

definition tenantEnvelope ::
  "env \<Rightarrow> bool \<Rightarrow> instant \<Rightarrow> ident \<Rightarrow> cloud \<Rightarrow> (ident \<Rightarrow> (TenantEnvelope \<times> instant) option) \<Rightarrow>
   TenantEnvelope \<times> (ident \<Rightarrow> (TenantEnvelope \<times> instant) option)" where
  "tenantEnvelope env db_up now tid c cache =
     (if \<not> multiTenantEnabled env then (EMPTY_ENVELOPE, cache)
      else
        (let e = (if db_up then
                    (case find_first (\<lambda>t. t_id t = tid) (tenants c) of
                       None \<Rightarrow> EMPTY_ENVELOPE
                     | Some t \<Rightarrow> \<lparr>env_limits = parseLimits (t_limits t),
                                 env_capabilities = parseCapabilities (t_capabilities t)\<rparr>)
                  else EMPTY_ENVELOPE);
             miss = (e, cache(tid \<mapsto> (e, now)))
         in case cache tid of
              Some (hit, at) \<Rightarrow> if now - at < CACHE_MS then (hit, cache) else miss
            | None \<Rightarrow> miss))"

definition envDefault :: "env \<Rightarrow> CapabilityKey \<Rightarrow> bool" where
  "envDefault env key =
     (case key of
        Recording \<Rightarrow> recordingEnabled env
      | Isolated \<Rightarrow> isolationEnabled env
      | Gateway \<Rightarrow> nativeGatewayEnabled env
      | Vault \<Rightarrow> vaultEnabled env)"

definition capabilityAllowed :: "env \<Rightarrow> TenantEnvelope \<Rightarrow> CapabilityKey \<Rightarrow> bool" where
  "capabilityAllowed env e key =
     (case env_capabilities e key of Some b \<Rightarrow> b | None \<Rightarrow> envDefault env key)"

text \<open>\<open>Some (key, max)\<close> is the \<^verbatim>\<open>LimitError\<close> that is thrown.\<close>

definition assertWithinLimit ::
  "TenantEnvelope \<Rightarrow> LimitKey \<Rightarrow> nat \<Rightarrow> (LimitKey \<times> int) option" where
  "assertWithinLimit e key currentCount =
     (if withinLimit (env_limits e) key currentCount then None
      else Some (key, the (env_limits e key)))"

definition capRecordingRetention :: "TenantEnvelope \<Rightarrow> int \<Rightarrow> int" where
  "capRecordingRetention e days =
     (case env_limits e maxRecordingRetentionDays of
        None \<Rightarrow> days
      | Some m \<Rightarrow> if days = 0 then m else min days m)"

section \<open>Row-level security gives every tenant its own tables\<close>

lemma tenant_table_update:
  "tenant_table tid (rls_update guc p f t) =
     (if guc = Some tid then update_many p f (tenant_table tid t) else tenant_table tid t)"
  by (induction t) (auto simp: tenant_table_def rls_update_def update_many_def tenant_isolation_def)

lemma tenant_table_delete:
  "tenant_table tid (rls_delete guc p t) =
     (if guc = Some tid then delete_many p (tenant_table tid t) else tenant_table tid t)"
  by (induction t) (auto simp: tenant_table_def rls_delete_def delete_many_def tenant_isolation_def)

lemma rls_select_eq:
  "rls_select guc p t = (case guc of None \<Rightarrow> [] | Some tid \<Rightarrow> find_many p (tenant_table tid t))"
  by (induction t) (auto simp: tenant_table_def rls_select_def find_many_def tenant_isolation_def
      split: option.splits)

lemma tenant_table_insert:
  assumes "rls_insert guc tn r t = Some t'"
  shows "tenant_table tid t' = tenant_table tid t @ (if guc = Some tid then [r] else [])"
  using assms
  by (auto simp: rls_insert_def tenant_isolation_def tenant_table_def Let_def split: if_splits)

lemma rls_insert_default:
  "guc \<noteq> [] \<Longrightarrow> rls_insert (Some guc) DEFAULT_TENANT r t = Some (t @ [(guc, r)])"
  by (simp add: rls_insert_def tenant_isolation_def set_tenant_from_guc_def)

section \<open>A scope touches one tenant\<close>

lemma withTenant_other:
  assumes "multiTenantEnabled env" and "t \<noteq> tid"
  shows "data (fst (withTenant env tid fn c)) t = data c t"
  using assms by (auto simp: withTenant_def Let_def split: prod.splits reply.splits)

lemma withTenant_tenants [simp]: "tenants (fst (withTenant env tid fn c)) = tenants c"
  by (auto simp: withTenant_def Let_def split: prod.splits reply.splits)

lemma withTenant_local:
  assumes "multiTenantEnabled env" and "data c tid = data c' tid"
  shows "snd (withTenant env tid fn c) = snd (withTenant env tid fn c')"
  using assms by (auto simp: withTenant_def Let_def split: prod.splits reply.splits)

lemma withTenant_data:
  assumes "multiTenantEnabled env"
  shows "data (fst (withTenant env tid fn c)) tid =
    (case snd (fn (data c tid)) of Throw _ \<Rightarrow> data c tid | _ \<Rightarrow> fst (fn (data c tid)))"
  using assms by (auto simp: withTenant_def Let_def split: prod.splits reply.splits)

lemma withTenant_reply:
  assumes "multiTenantEnabled env"
  shows "snd (withTenant env tid fn c) = snd (fn (data c tid))"
  using assms by (auto simp: withTenant_def Let_def split: prod.splits reply.splits)

section \<open>Slugs\<close>

lemma lower_char_id: "\<not> is_upper c \<Longrightarrow> lower_char c = c"
  by (simp add: lower_char_def)

lemma lower_alnum_not_upper: "is_lower_alnum c \<Longrightarrow> \<not> is_upper c"
  by (auto simp: is_lower_alnum_def is_lower_def is_digit_def is_upper_def)

definition host_char :: "char \<Rightarrow> bool" where
  "host_char c \<longleftrightarrow> is_lower_alnum c \<or> c = CHR ''-'' \<or> c = CHR ''.''"

lemma host_char_props: "host_char c \<Longrightarrow> \<not> is_upper c \<and> c \<noteq> CHR '':''"
  using lower_alnum_not_upper
  by (auto simp: host_char_def is_upper_def is_lower_alnum_def is_lower_def is_digit_def)

lemma to_lower_host: "list_all host_char h \<Longrightarrow> to_lower h = h"
  using host_char_props lower_char_id by (auto simp: to_lower_def list_all_iff map_idI)

lemma strip_port_host:
  assumes "list_all host_char h"
  shows "strip_port h = h"
proof -
  have "hd (dropWhile is_digit (rev h)) \<noteq> CHR '':''" if "dropWhile is_digit (rev h) \<noteq> []"
    using that assms host_char_props set_dropWhileD [OF hd_in_set [OF that]] by (auto simp: list_all_iff)
  then show ?thesis by (auto simp: strip_port_def Let_def)
qed

lemma strip_port_port:
  assumes "ds \<noteq> []" and "list_all is_digit ds"
  shows "strip_port (h @ CHR '':'' # ds) = h"
proof -
  have nd: "\<not> is_digit CHR '':''" by (simp add: is_digit_def)
  with assms have "takeWhile is_digit (rev ds @ CHR '':'' # rev h) = rev ds"
    "dropWhile is_digit (rev ds @ CHR '':'' # rev h) = CHR '':'' # rev h"
    by (simp_all add: takeWhile_append dropWhile_append list_all_iff)
  with assms(1) nd show ?thesis by (simp add: strip_port_def Let_def)
qed

text \<open>A bare domain as a deployment configures it: lower case, no port, no final dot.\<close>

definition plain_domain :: "string \<Rightarrow> bool" where
  "plain_domain d \<longleftrightarrow> d \<noteq> [] \<and> list_all host_char d \<and> last d \<noteq> CHR ''.''"

lemma valid_slug_chars:
  assumes "isValidTenantSlug s"
  shows "s \<noteq> []" "list_all host_char s" "CHR ''.'' \<notin> set s" "s \<notin> set RESERVED"
proof -
  from assms show "s \<noteq> []" "list_all host_char s"
    by (auto simp: isValidTenantSlug_def SLUG_RE_def host_char_def list_all_iff)
  from assms show "CHR ''.'' \<notin> set s"
    by (auto simp: isValidTenantSlug_def SLUG_RE_def list_all_iff is_lower_alnum_def is_lower_def is_digit_def)
  from assms show "s \<notin> set RESERVED"
    by (auto simp: isValidTenantSlug_def isReservedSlug_def RESERVED_def RESERVED_SLUGS_def)
qed

lemma slugFromHost_core:
  assumes "isValidTenantSlug s" "plain_domain d" "strip_dot (strip_port (to_lower host)) = s @ CHR ''.'' # d"
    and "host \<noteq> []"
  shows "slugFromHost host (Some d) = Some s"
proof -
  have "to_lower d = d" "d \<noteq> []" using assms(2) by (auto simp: plain_domain_def to_lower_host)
  with assms valid_slug_chars [OF assms(1)] show ?thesis
    by (simp add: slugFromHost_def Let_def)
qed

lemma slugFromHost_Some:
  assumes "slugFromHost host (Some d) = Some l"
  shows "strip_dot (strip_port (to_lower host)) = l @ CHR ''.'' # to_lower d \<and>
    l \<noteq> [] \<and> CHR ''.'' \<notin> set l \<and> l \<notin> set RESERVED"
proof -
  let ?h = "strip_dot (strip_port (to_lower host))" let ?suf = "CHR ''.'' # to_lower d"
  from assms have e: "ends_with ?h ?suf" and l: "l = take (length ?h - length ?suf) ?h"
    "l \<noteq> []" "CHR ''.'' \<notin> set l" "l \<notin> set RESERVED"
    by (auto simp: slugFromHost_def Let_def split: if_splits)
  from e obtain q where "?h = q @ ?suf" by (auto simp: ends_with_iff)
  with l show ?thesis by simp
qed

section \<open>Properties\<close>

definition ex_env :: env where
  "ex_env n =
     map_of [(''MULTI_TENANT'', ''on''), (''DATAPLANE_SECRET'', ''sesame''),
             (''CONSOLE_DOMAIN'', ''access.example.com'')] n"




text \<open>A tenant's console host leads back to it: a valid slug in front of the console domain, with
  or without a port, is the slug the request is resolved by.\<close>

theorem slug_of_console_host:
  assumes "isValidTenantSlug slug" and "plain_domain d"
    and "port = [] \<or> (\<exists>ds. port = CHR '':'' # ds \<and> ds \<noteq> [] \<and> list_all is_digit ds)"
  shows "slugFromHost (slug @ ''.'' @ d @ port) (Some d) = Some slug"
proof -
  let ?h = "slug @ CHR ''.'' # d"
  have host: "list_all host_char ?h"
    using valid_slug_chars(2) [OF assms(1)] assms(2) by (simp add: plain_domain_def host_char_def)
  have last: "last ?h \<noteq> CHR ''.''" "?h \<noteq> []" using assms(2) by (auto simp: plain_domain_def)
  have "strip_port (to_lower (?h @ port)) = ?h"
  proof (cases "port = []")
    case True
    then show ?thesis by (simp add: to_lower_host [OF host] strip_port_host [OF host])
  next
    case False
    with assms(3) obtain ds where ds: "port = CHR '':'' # ds" "ds \<noteq> []" "list_all is_digit ds" by auto
    then have "to_lower ds = ds"
      by (auto simp: to_lower_def list_all_iff lower_char_def is_digit_def is_upper_def intro!: map_idI)
    moreover have "lower_char CHR '':'' = CHR '':''" by (simp add: lower_char_def is_upper_def)
    ultimately have "to_lower (?h @ port) = ?h @ CHR '':'' # ds"
      using to_lower_host [OF host] ds(1) by (simp add: to_lower_def)
    with ds strip_port_port show ?thesis by metis
  qed
  then have "strip_dot (strip_port (to_lower (?h @ port))) = ?h"
    using last by (simp add: strip_dot_def del: append.simps)
  from slugFromHost_core [OF assms(1,2) this] show ?thesis by simp
qed

theorem slug_of_console_host_witness:
  "slugFromHost ''acme.access.example.com:8443'' (Some ''access.example.com'') = Some ''acme''"
proof -
  have "isValidTenantSlug ''acme''" "plain_domain ''access.example.com''" by code_simp+
  from slug_of_console_host [OF this, of "'':8443''"] show ?thesis by (simp add: is_digit_def)
qed

text \<open>Without the data plane's secret nothing happens: whatever the handler, the answer is 403 and
  no tenant is resolved or written.\<close>

theorem dataplane_secret_required:
  assumes "or_null (env ''DATAPLANE_SECRET'') = None \<or>
    req_header req ''x-dataplane-secret'' \<noteq> env ''DATAPLANE_SECRET''"
  shows "requireDataplaneSecret env handler req c = (c, Err 403 ''forbidden'')"
  using assms
  by (auto simp: requireDataplaneSecret_def timingSafeEqualStr_def or_null_def split: option.splits if_splits)

theorem dataplane_secret_required_witness:
  "requireDataplaneSecret ex_env (\<lambda>r c. (c, Ok 200 ())) \<lparr>req_header = (\<lambda>_. Some ''guess''), req_body = JNull\<rparr>
     \<lparr>tenants = [], data = (\<lambda>_. empty_db)\<rparr> = (\<lparr>tenants = [], data = (\<lambda>_. empty_db)\<rparr>, Err 403 ''forbidden'')"
  by (rule dataplane_secret_required) (simp add: ex_env_def)

end
