(* ===== verification/Settings.thy ===== *)
theory Settings
  imports Tenancy
begin

text \<open>
  \<^verbatim>\<open>lib/settings/platform.ts\<close>, \<^verbatim>\<open>lib/policy/session-policy.ts\<close>, \<^verbatim>\<open>lib/notifications/gate.ts\<close>,
  \<^verbatim>\<open>lib/settings/timezone.ts\<close> and the recording and keystroke policy helpers: the tenant-wide
  settings, read through in-process caches, and the values resolved from them (database, then
  environment, then default).

  The settings cache is keyed by tenant, the session-policy cache is a single slot. The
  locale \<open>tenant_cache\<close> states what a cache in front of per-tenant rows must satisfy;
  the keyed cache satisfies it for all tenants, the single slot for one tenant only.
\<close>

section \<open>Platform settings\<close>

definition EMPTY_SETTINGS :: PlatformSettings where
  "EMPTY_SETTINGS =
     \<lparr>ps_auditRetentionDays = None, ps_inviteTtlHours = None, ps_notificationWebhookUrl = None,
      ps_vendorIpAllowlist = None, ps_maxGrantDays = None, ps_recordingConsentRequired = None,
      ps_watermarkDefault = None, ps_clipboardDefault = None, ps_displayTimezone = None,
      ps_displayTimezoneFromCenterAt = None, ps_recordingRetentionDays = None,
      ps_defaultConnectorLogLevel = None, ps_externalAnchorEnabled = None,
      ps_anchorTsaUrl = None, ps_anchorTsaAuth = None, ps_notifySiteHealth = None,
      ps_notifyAccessRequests = None, ps_notifyAccessDecisions = None,
      ps_requireRequestJustification = None, ps_keystrokeLoggingMode = None,
      ps_recordingMode = None, ps_guacParamDefaults = JNull\<rparr>"

text \<open>What \<open>getPlatformSettings\<close> returns of a row: the interface leaves out the two columns that
  have their own readers.\<close>

definition settings_of_row :: "PlatformSettings option \<Rightarrow> PlatformSettings" where
  "settings_of_row c =
     (case c of
        None \<Rightarrow> EMPTY_SETTINGS
      | Some r \<Rightarrow> r\<lparr>ps_displayTimezoneFromCenterAt := None, ps_guacParamDefaults := JNull\<rparr>)"

type_synonym settings_cache = "ident \<Rightarrow> (PlatformSettings \<times> instant) option"

definition settings_hit :: "settings_cache \<Rightarrow> ident \<Rightarrow> instant \<Rightarrow> PlatformSettings option" where
  "settings_hit cache tid now =
     (case cache tid of
        Some (s, at) \<Rightarrow> if now - at < 30000 then Some s else None
      | None \<Rightarrow> None)"

definition settings_store :: "ident \<Rightarrow> PlatformSettings \<Rightarrow> instant \<Rightarrow> settings_cache \<Rightarrow> settings_cache" where
  "settings_store tid s now cache = cache(tid \<mapsto> (s, now))"

definition settings_drop :: "ident \<Rightarrow> settings_cache \<Rightarrow> settings_cache" where
  "settings_drop tid cache = cache(tid := None)"

definition getPlatformSettings ::
  "bool \<Rightarrow> instant \<Rightarrow> ident \<Rightarrow> cloud \<Rightarrow> settings_cache \<Rightarrow> PlatformSettings \<times> settings_cache" where
  "getPlatformSettings db_up now tid c cache =
     (case settings_hit cache tid now of
        Some s \<Rightarrow> (s, cache)
      | None \<Rightarrow>
          if \<not> db_up then (EMPTY_SETTINGS, cache)
          else (let s = settings_of_row (platformSettings (data c tid)) in
                (s, settings_store tid s now cache)))"

definition upsert_settings ::
  "(PlatformSettings \<Rightarrow> PlatformSettings) \<Rightarrow> ident \<Rightarrow> cloud \<Rightarrow> cloud" where
  "upsert_settings f tid c =
     (let s = data c tid;
          row = (case platformSettings s of None \<Rightarrow> EMPTY_SETTINGS | Some r \<Rightarrow> r)
      in c\<lparr>data := (data c)(tid := s\<lparr>platformSettings := Some (f row)\<rparr>)\<rparr>)"

definition savePlatformSettings ::
  "PlatformSettings \<Rightarrow> ident \<Rightarrow> cloud \<Rightarrow> settings_cache \<Rightarrow> cloud \<times> settings_cache" where
  "savePlatformSettings input tid c cache =
     (upsert_settings (\<lambda>row. input\<lparr>ps_displayTimezoneFromCenterAt := ps_displayTimezoneFromCenterAt row,
                                   ps_guacParamDefaults := ps_guacParamDefaults row\<rparr>) tid c,
      settings_drop tid cache)"

definition saveDisplayTimezone ::
  "string \<Rightarrow> instant \<Rightarrow> ident \<Rightarrow> cloud \<Rightarrow> settings_cache \<Rightarrow> cloud \<times> settings_cache" where
  "saveDisplayTimezone zone now tid c cache =
     (upsert_settings (\<lambda>row. row\<lparr>ps_displayTimezone := Some zone,
                                 ps_displayTimezoneFromCenterAt := Some now\<rparr>) tid c,
      settings_drop tid cache)"

section \<open>Resolved values\<close>

definition envInt :: "env \<Rightarrow> string \<Rightarrow> jnum option" where
  "envInt env name =
     (case or_null (map_option trim (env name)) of
        None \<Rightarrow> None
      | Some raw \<Rightarrow>
          (let n = number_of_string raw in
           if jnum_is_finite n \<and> \<not> jnum_less n 0 then Some n else None))"

definition setting_or_env :: "int option \<Rightarrow> env \<Rightarrow> string \<Rightarrow> jnum option" where
  "setting_or_env v env name = (case v of Some n \<Rightarrow> Some (NInt n) | None \<Rightarrow> envInt env name)"

definition resolvedAuditRetentionDays :: "env \<Rightarrow> PlatformSettings \<Rightarrow> jnum" where
  "resolvedAuditRetentionDays env s =
     (case setting_or_env (ps_auditRetentionDays s) env ''AUDIT_RETENTION_DAYS'' of
        Some v \<Rightarrow> if \<not> jnum_less v 0 then v else NInt 730
      | None \<Rightarrow> NInt 730)"

definition resolvedInviteTtlHours :: "env \<Rightarrow> PlatformSettings \<Rightarrow> jnum" where
  "resolvedInviteTtlHours env s =
     (case setting_or_env (ps_inviteTtlHours s) env ''INVITE_TTL_HOURS'' of
        Some v \<Rightarrow> if jnum_greater v 0 then v else NInt 48
      | None \<Rightarrow> NInt 48)"

definition resolvedNotificationWebhookUrl :: "env \<Rightarrow> PlatformSettings \<Rightarrow> string" where
  "resolvedNotificationWebhookUrl env s =
     trim (case ps_notificationWebhookUrl s of
             Some u \<Rightarrow> u
           | None \<Rightarrow> (case env ''NOTIFICATION_WEBHOOK_URL'' of Some u \<Rightarrow> u | None \<Rightarrow> []))"

definition resolvedVendorIpAllowlist :: "PlatformSettings \<Rightarrow> string" where
  "resolvedVendorIpAllowlist s = trim (opt_text (ps_vendorIpAllowlist s))"

definition positive_or_zero :: "int option \<Rightarrow> int" where
  "positive_or_zero v = (case v of Some n \<Rightarrow> if n > 0 then n else 0 | None \<Rightarrow> 0)"

definition resolvedMaxGrantDays :: "PlatformSettings \<Rightarrow> int" where
  "resolvedMaxGrantDays s = positive_or_zero (ps_maxGrantDays s)"

definition env_on :: "env \<Rightarrow> string \<Rightarrow> bool" where
  "env_on env name =
     (case env name of None \<Rightarrow> False | Some v \<Rightarrow> to_lower (trim v) \<in> set ON_VALUES)"

definition resolvedRecordingConsentRequired :: "env \<Rightarrow> PlatformSettings \<Rightarrow> bool" where
  "resolvedRecordingConsentRequired env s =
     (case ps_recordingConsentRequired s of
        Some b \<Rightarrow> b | None \<Rightarrow> env_on env ''RECORDING_CONSENT_REQUIRED'')"

definition resolvedWatermarkDefault :: "env \<Rightarrow> PlatformSettings \<Rightarrow> bool" where
  "resolvedWatermarkDefault env s =
     (case ps_watermarkDefault s of Some b \<Rightarrow> b | None \<Rightarrow> env_on env ''WATERMARK_DEFAULT'')"

definition CLIPBOARD_MODES :: "string list" where
  "CLIPBOARD_MODES = [''allow'', ''no_copy'', ''no_paste'', ''none'']"

definition coerceClipboardDefault :: "string option \<Rightarrow> string" where
  "coerceClipboardDefault v =
     (case v of Some m \<Rightarrow> if m \<in> set CLIPBOARD_MODES then m else ''allow'' | None \<Rightarrow> ''allow'')"

definition resolvedClipboardDefault :: "PlatformSettings \<Rightarrow> string" where
  "resolvedClipboardDefault s = coerceClipboardDefault (ps_clipboardDefault s)"

definition resolvedRecordingRetentionDays :: "TenantEnvelope \<Rightarrow> PlatformSettings \<Rightarrow> int" where
  "resolvedRecordingRetentionDays e s =
     capRecordingRetention e (positive_or_zero (ps_recordingRetentionDays s))"

definition LOG_LEVELS :: "string list" where
  "LOG_LEVELS = [''debug'', ''info'', ''warn'', ''error'']"

definition resolvedDefaultConnectorLogLevel :: "PlatformSettings \<Rightarrow> string" where
  "resolvedDefaultConnectorLogLevel s =
     (case ps_defaultConnectorLogLevel s of
        Some v \<Rightarrow> if v \<in> set LOG_LEVELS then v else ''info'' | None \<Rightarrow> ''info'')"

definition resolvedConnectorLogLevel :: "string option \<Rightarrow> PlatformSettings \<Rightarrow> string" where
  "resolvedConnectorLogLevel own s =
     (case own of
        Some v \<Rightarrow> if v \<in> set LOG_LEVELS then v else resolvedDefaultConnectorLogLevel s
      | None \<Rightarrow> resolvedDefaultConnectorLogLevel s)"

definition resolvedExternalAnchorEnabled :: "PlatformSettings \<Rightarrow> bool" where
  "resolvedExternalAnchorEnabled s \<longleftrightarrow> ps_externalAnchorEnabled s = Some True"

definition resolvedRequireRequestJustification :: "PlatformSettings \<Rightarrow> bool" where
  "resolvedRequireRequestJustification s \<longleftrightarrow> ps_requireRequestJustification s \<noteq> Some False"

definition RECORDING_MODES :: "string list" where
  "RECORDING_MODES = [''off'', ''per_resource'', ''required'']"

definition resolvedKeystrokeLoggingMode :: "PlatformSettings \<Rightarrow> string" where
  "resolvedKeystrokeLoggingMode s =
     (case ps_keystrokeLoggingMode s of
        Some v \<Rightarrow> if v \<in> set [''off'', ''per_resource'', ''required''] then v else ''per_resource''
      | None \<Rightarrow> ''per_resource'')"

definition resolvedRecordingMode :: "env \<Rightarrow> TenantEnvelope \<Rightarrow> PlatformSettings \<Rightarrow> string" where
  "resolvedRecordingMode env e s =
     (if \<not> capabilityAllowed env e Recording then ''off''
      else
        (let fallback =
               (case map_option (\<lambda>v. to_lower (trim v)) (env ''RECORDING_MODE'') of
                  Some v \<Rightarrow> if v \<in> set RECORDING_MODES then v else ''per_resource''
                | None \<Rightarrow> ''per_resource'')
         in case ps_recordingMode s of
              Some m \<Rightarrow> if m \<in> set RECORDING_MODES then m else fallback
            | None \<Rightarrow> fallback))"

definition resolvedAnchorTsaUrl :: "PlatformSettings \<Rightarrow> string" where
  "resolvedAnchorTsaUrl s = trim (opt_text (ps_anchorTsaUrl s))"

definition resolvedAnchorTsaAuth :: "PlatformSettings \<Rightarrow> string" where
  "resolvedAnchorTsaAuth s = trim (opt_text (ps_anchorTsaAuth s))"

definition displayTimezoneFromCenter :: "db \<Rightarrow> bool" where
  "displayTimezoneFromCenter s =
     (case platformSettings s of
        None \<Rightarrow> False | Some r \<Rightarrow> ps_displayTimezoneFromCenterAt r \<noteq> None)"

definition resolvedDisplayTimezone :: "PlatformSettings \<Rightarrow> db \<Rightarrow> ident \<Rightarrow> string option" where
  "resolvedDisplayTimezone ps s uid =
     (case Option.bind (user_by_id s uid) u_timezone of
        Some z \<Rightarrow> Some z | None \<Rightarrow> ps_displayTimezone ps)"

datatype NotifKey = Site_health | Access_requests | Access_decisions

definition notifyEmailEnabled :: "PlatformSettings \<Rightarrow> NotifKey \<Rightarrow> bool" where
  "notifyEmailEnabled s key \<longleftrightarrow>
     (case key of
        Site_health \<Rightarrow> ps_notifySiteHealth s
      | Access_requests \<Rightarrow> ps_notifyAccessRequests s
      | Access_decisions \<Rightarrow> ps_notifyAccessDecisions s) \<noteq> Some False"

section \<open>Recording and keystrokes\<close>

definition effectiveRecordSessions :: "string \<Rightarrow> bool \<Rightarrow> bool" where
  "effectiveRecordSessions mode siteToggle =
     (if mode = ''off'' then False else if mode = ''required'' then True else siteToggle)"

definition recordToggleLock :: "string \<Rightarrow> bool \<times> bool option" where
  "recordToggleLock mode =
     (if mode = ''required'' then (True, Some True)
      else if mode = ''off'' then (True, Some False) else (False, None))"

definition effectiveSiteRecording ::
  "env \<Rightarrow> TenantEnvelope \<Rightarrow> PlatformSettings \<Rightarrow> bool \<Rightarrow> bool" where
  "effectiveSiteRecording env e s recordSessions \<longleftrightarrow>
     recordingEnabled env \<and> effectiveRecordSessions (resolvedRecordingMode env e s) recordSessions"

definition effectiveKeystrokeLogging :: "string \<Rightarrow> bool \<Rightarrow> bool \<Rightarrow> bool \<Rightarrow> bool" where
  "effectiveKeystrokeLogging mode recEnabled recordSessions siteFlag =
     (if \<not> (recEnabled \<and> recordSessions) then False
      else if mode = ''off'' then False
      else if mode = ''required'' then True
      else siteFlag)"

definition clipboardCaps :: "string \<Rightarrow> bool \<times> bool" where
  "clipboardCaps mode =
     (mode \<noteq> ''no_copy'' \<and> mode \<noteq> ''none'', mode \<noteq> ''no_paste'' \<and> mode \<noteq> ''none'')"

section \<open>Session policy\<close>

definition EMPTY_POLICY :: SessionPolicyRow where
  "EMPTY_POLICY =
     \<lparr>sp_idleTimeoutMinutes = None, sp_maxSessionHours = None, sp_maxConcurrentPerUser = None,
      sp_requireSecondFactor = False\<rparr>"

definition sessionTtlMs :: "int option \<Rightarrow> jnum \<Rightarrow> int" where
  "sessionTtlMs policyHours envHours =
     jnum_scale (case policyHours of Some h \<Rightarrow> if h > 0 then NInt h else envHours | None \<Rightarrow> envHours)
       3600000"

definition idleExpired :: "instant \<Rightarrow> instant \<Rightarrow> int option \<Rightarrow> bool" where
  "idleExpired lastSeen now idleMinutes =
     (case idleMinutes of
        None \<Rightarrow> False
      | Some m \<Rightarrow> if m \<le> 0 then False else now - lastSeen > m * 60000)"

definition evictionIds :: "ident list \<Rightarrow> int option \<Rightarrow> ident list" where
  "evictionIds activeOldestFirst cap =
     (case cap of
        None \<Rightarrow> []
      | Some n \<Rightarrow>
          if n \<le> 0 then []
          else (let excess = int (length activeOldestFirst) - (n - 1) in
                if excess \<le> 0 then [] else take (nat excess) activeOldestFirst))"

type_synonym policy_cache = "(SessionPolicyRow \<times> instant) option"

definition policy_of_row :: "SessionPolicyRow option \<Rightarrow> SessionPolicyRow" where
  "policy_of_row c = (case c of None \<Rightarrow> EMPTY_POLICY | Some r \<Rightarrow> r)"

definition policy_hit :: "policy_cache \<Rightarrow> instant \<Rightarrow> SessionPolicyRow option" where
  "policy_hit cache now =
     (case cache of Some (p, at) \<Rightarrow> if now - at < 30000 then Some p else None | None \<Rightarrow> None)"

definition getSessionPolicy ::
  "bool \<Rightarrow> instant \<Rightarrow> ident \<Rightarrow> cloud \<Rightarrow> policy_cache \<Rightarrow> SessionPolicyRow \<times> policy_cache" where
  "getSessionPolicy db_up now tid c cache =
     (case policy_hit cache now of
        Some p \<Rightarrow> (p, cache)
      | None \<Rightarrow>
          if \<not> db_up then (EMPTY_POLICY, cache)
          else (let p = policy_of_row (sessionPolicy (data c tid)) in (p, Some (p, now))))"

definition saveSessionPolicy ::
  "SessionPolicyRow \<Rightarrow> ident \<Rightarrow> cloud \<Rightarrow> policy_cache \<Rightarrow> cloud \<times> policy_cache" where
  "saveSessionPolicy input tid c cache =
     (c\<lparr>data := (data c)(tid := (data c tid)\<lparr>sessionPolicy := Some input\<rparr>)\<rparr>, None)"

section \<open>What a cache of per-tenant rows must satisfy\<close>

text \<open>
  \<open>hit\<close> is a fresh entry, \<open>store\<close> records what was read, \<open>drop\<close> is the invalidation after a
  write. A key stands for a tenant. Reading through such a cache returns the row of the
  key, whatever the interleaving of reads and writes of all keys.
\<close>

locale tenant_cache =
  fixes hit :: "'c \<Rightarrow> 'k \<Rightarrow> instant \<Rightarrow> 'v option"
    and store :: "'k \<Rightarrow> 'v \<Rightarrow> instant \<Rightarrow> 'c \<Rightarrow> 'c"
    and drop :: "'k \<Rightarrow> 'c \<Rightarrow> 'c"
    and empty :: 'c
  assumes hit_empty: "hit empty k now = None"
    and hit_store: "hit (store k v at c) k' now = Some w \<Longrightarrow>
      (k' = k \<and> w = v) \<or> (k' \<noteq> k \<and> hit c k' now = Some w)"
    and hit_drop: "hit (drop k c) k' now = Some w \<Longrightarrow> k' \<noteq> k \<and> hit c k' now = Some w"
begin

definition coherent :: "('k \<Rightarrow> 'v) \<Rightarrow> 'c \<Rightarrow> bool" where
  "coherent rows c \<longleftrightarrow> (\<forall>k now v. hit c k now = Some v \<longrightarrow> v = rows k)"

definition read_through :: "('k \<Rightarrow> 'v) \<Rightarrow> 'k \<Rightarrow> instant \<Rightarrow> 'c \<Rightarrow> 'v \<times> 'c" where
  "read_through rows k now c =
     (case hit c k now of Some v \<Rightarrow> (v, c) | None \<Rightarrow> (rows k, store k (rows k) now c))"

lemma coherent_empty: "coherent rows empty"
  by (simp add: coherent_def hit_empty)

lemma read_through_value: "coherent rows c \<Longrightarrow> fst (read_through rows k now c) = rows k"
  by (auto simp: read_through_def coherent_def split: option.splits)

lemma read_through_coherent: "coherent rows c \<Longrightarrow> coherent rows (snd (read_through rows k now c))"
  unfolding coherent_def read_through_def
  by (auto split: option.splits dest!: hit_store)

lemma write_coherent: "coherent rows c \<Longrightarrow> coherent (rows(k := v)) (drop k c)"
  unfolding coherent_def by (auto dest!: hit_drop)

end

interpretation settings_slots: tenant_cache settings_hit settings_store settings_drop "\<lambda>_. None"
  by unfold_locales
    (auto simp: settings_hit_def settings_store_def settings_drop_def split: option.splits if_splits)

text \<open>The single slot satisfies the contract when there is only one tenant.\<close>

interpretation policy_slot: tenant_cache
  "\<lambda>c (k::unit) now. policy_hit c now" "\<lambda>k v at c. Some (v, at)" "\<lambda>k c. None" "None"
  by unfold_locales (auto simp: policy_hit_def split: if_splits)

section \<open>Reads through the caches\<close>

definition settings_rows :: "cloud \<Rightarrow> ident \<Rightarrow> PlatformSettings" where
  "settings_rows c tid = settings_of_row (platformSettings (data c tid))"

lemma getPlatformSettings_read_through:
  "getPlatformSettings True now tid c cache = settings_slots.read_through (settings_rows c) tid now cache"
  by (simp add: getPlatformSettings_def settings_slots.read_through_def settings_rows_def Let_def
      split: option.splits)

lemma getPlatformSettings_current:
  assumes "settings_slots.coherent (settings_rows c) cache"
  shows "fst (getPlatformSettings True now tid c cache) = settings_rows c tid"
    and "settings_slots.coherent (settings_rows c) (snd (getPlatformSettings True now tid c cache))"
  using assms settings_slots.read_through_value settings_slots.read_through_coherent
  by (simp_all add: getPlatformSettings_read_through)

lemma upsert_settings_coherent:
  assumes "settings_slots.coherent (settings_rows c) cache"
  shows "settings_slots.coherent (settings_rows (upsert_settings f tid c)) (settings_drop tid cache)"
proof -
  have "settings_rows (upsert_settings f tid c) =
      (settings_rows c)(tid := settings_rows (upsert_settings f tid c) tid)"
    by (rule ext) (simp add: settings_rows_def upsert_settings_def Let_def)
  with settings_slots.write_coherent [OF assms] show ?thesis by metis
qed

lemma getSessionPolicy_single:
  assumes "policy_slot.coherent (\<lambda>_. policy_of_row (sessionPolicy (data c tid))) cache"
  shows "fst (getSessionPolicy True now tid c cache) = policy_of_row (sessionPolicy (data c tid))"
    and "policy_slot.coherent (\<lambda>_. policy_of_row (sessionPolicy (data c tid)))
      (snd (getSessionPolicy True now tid c cache))"
proof -
  have eq: "getSessionPolicy True now tid c cache =
      policy_slot.read_through (\<lambda>_. policy_of_row (sessionPolicy (data c tid))) () now cache"
    by (simp add: getSessionPolicy_def policy_slot.read_through_def Let_def split: option.splits)
  show "fst (getSessionPolicy True now tid c cache) = policy_of_row (sessionPolicy (data c tid))"
    "policy_slot.coherent (\<lambda>_. policy_of_row (sessionPolicy (data c tid)))
      (snd (getSessionPolicy True now tid c cache))"
    using policy_slot.read_through_value [OF assms] policy_slot.read_through_coherent [OF assms]
    by (simp_all add: eq)
qed

section \<open>Eviction\<close>

text \<open>Evicting before inserting one more session leaves at most the cap.\<close>

lemma evictionIds_room:
  assumes "cap = Some n" and "0 < n"
  shows "int (length active) - int (length (evictionIds active cap)) + 1 \<le> n \<or>
    evictionIds active cap = [] \<and> int (length active) < n"
  using assms by (auto simp: evictionIds_def Let_def)

lemma evictionIds_prefix: "\<exists>k. evictionIds active cap = take k active"
  by (auto simp: evictionIds_def Let_def split: option.splits intro: exI [of _ 0])

section \<open>Properties\<close>

text \<open>Reads and writes of all tenants' settings through the shared cache, in any order.\<close>

inductive settings_step ::
  "cloud \<times> settings_cache \<Rightarrow> cloud \<times> settings_cache \<Rightarrow> bool" where
  read: "settings_step (c, k) (c, snd (getPlatformSettings True now tid c k))"
| save: "settings_step (c, k) (savePlatformSettings input tid c k)"
| zone: "settings_step (c, k) (saveDisplayTimezone z now tid c k)"

lemma settings_step_coherent:
  assumes "settings_step ck ck'" and "settings_slots.coherent (settings_rows (fst ck)) (snd ck)"
  shows "settings_slots.coherent (settings_rows (fst ck')) (snd ck')"
  using assms
  by cases (auto simp: savePlatformSettings_def saveDisplayTimezone_def
      intro: getPlatformSettings_current(2) upsert_settings_coherent)

lemma settings_steps_coherent:
  assumes "settings_step\<^sup>*\<^sup>* ck ck'" and "settings_slots.coherent (settings_rows (fst ck)) (snd ck)"
  shows "settings_slots.coherent (settings_rows (fst ck')) (snd ck')"
  using assms by (induction rule: rtranclp_induct) (auto intro: settings_step_coherent)

text \<open>C10: the settings cache never leaks. After any sequence of reads and writes by any tenants, what
  a tenant reads through the cache is what its own row says now.\<close>

theorem settings_cache_correct:
  assumes "settings_step\<^sup>*\<^sup>* (c0, \<lambda>_. None) (c, k)"
  shows "fst (getPlatformSettings True now tid c k) = settings_of_row (platformSettings (data c tid))"
  using settings_steps_coherent [OF assms] settings_slots.coherent_empty
  by (simp add: getPlatformSettings_current settings_rows_def)

theorem settings_cache_correct_witness:
  "fst (getPlatformSettings True 20 ''b'' \<lparr>tenants = [], data = (\<lambda>_. empty_db)\<rparr>
     (snd (getPlatformSettings True 10 ''a'' \<lparr>tenants = [], data = (\<lambda>_. empty_db)\<rparr> (\<lambda>_. None)))) = EMPTY_SETTINGS"
proof -
  let ?c = "\<lparr>tenants = [], data = (\<lambda>_. empty_db)\<rparr>"
  have "settings_step (?c, \<lambda>_. None) (?c, snd (getPlatformSettings True 10 ''a'' ?c (\<lambda>_. None)))"
    by (rule settings_step.read)
  then have "settings_step\<^sup>*\<^sup>* (?c, \<lambda>_. None) (?c, snd (getPlatformSettings True 10 ''a'' ?c (\<lambda>_. None)))"
    by (rule r_into_rtranclp)
  from settings_cache_correct [OF this, of 20 "''b''"] show ?thesis
    by (simp add: settings_of_row_def empty_db_def)
qed

text \<open>The session-policy cache does leak. Right after one tenant's policy has been read, every
  other tenant is answered with that policy for thirty seconds, whatever its own row says.\<close>

theorem session_policy_leaks:
  assumes "policy_hit k now = None" and "now \<le> later" and "later < now + 30000"
  shows "fst (getSessionPolicy True later b c (snd (getSessionPolicy True now a c k))) =
    policy_of_row (sessionPolicy (data c a))"
  using assms by (simp add: getSessionPolicy_def policy_hit_def Let_def)

theorem session_policy_leaks_witness:
  "sp_requireSecondFactor (fst (getSessionPolicy True 10 ''b''
     \<lparr>tenants = [], data = (\<lambda>_. empty_db)(''b'' := empty_db\<lparr>sessionPolicy := Some (EMPTY_POLICY\<lparr>sp_requireSecondFactor := True\<rparr>)\<rparr>)\<rparr>
     (snd (getSessionPolicy True 5 ''a''
     \<lparr>tenants = [], data = (\<lambda>_. empty_db)(''b'' := empty_db\<lparr>sessionPolicy := Some (EMPTY_POLICY\<lparr>sp_requireSecondFactor := True\<rparr>)\<rparr>)\<rparr>
     None)))) = False"
proof -
  let ?c = "\<lparr>tenants = [], data = (\<lambda>_. empty_db)(''b'' := empty_db\<lparr>sessionPolicy := Some (EMPTY_POLICY\<lparr>sp_requireSecondFactor := True\<rparr>)\<rparr>)\<rparr>"
  have "policy_hit None 5 = None" by (simp add: policy_hit_def)
  from session_policy_leaks [OF this, of 10 "''b''" ?c "''a''"] show ?thesis
    by (simp add: policy_of_row_def empty_db_def EMPTY_POLICY_def)
qed

text \<open>Forcing recording on for a tenant has no effect where the deployment switched it off.\<close>

lemma recording_not_forced:
  assumes "env_capabilities e Recording = Some True" and "\<not> recordingEnabled env"
  shows "capabilityAllowed env e Recording \<and> \<not> effectiveSiteRecording env e s toggle"
  using assms by (simp add: capabilityAllowed_def effectiveSiteRecording_def)

end
