(* ===== verification/Sessions.thy ===== *)
theory Sessions
  imports Settings
begin

text \<open>
  \<^verbatim>\<open>lib/auth/{session,session-select,roles,amr,center-role,setup-role}.ts\<close>,
  \<^verbatim>\<open>lib/current-user.ts\<close>, \<^verbatim>\<open>lib/mobile/{session,handoff,route}.ts\<close>: who is signed in, with which
  role, and how a console session, an app session and the app's hand-off code begin and end.
  \<open>H\<close> is sha256 (hex), \<open>P\<close> is the S256 transformation of PKCE (base64url of sha256), \<open>M\<close> the
  keyed MAC of the hand-off cookie; fresh tokens and row ids are arguments.
\<close>

section \<open>Roles\<close>

datatype Capability = Configure | Approve_grants | Read_console | Manage_tenants

fun ROLE_CAPS :: "Role \<Rightarrow> Capability list" where
  "ROLE_CAPS ADMIN = [Configure, Approve_grants, Read_console]"
| "ROLE_CAPS OPERATOR = [Approve_grants, Read_console]"
| "ROLE_CAPS AUDITOR = [Read_console]"
| "ROLE_CAPS STAFF = []"
| "ROLE_CAPS VENDOR = []"
| "ROLE_CAPS PLATFORM = [Manage_tenants]"

definition can :: "Role \<Rightarrow> Capability \<Rightarrow> bool" where
  "can role cap \<longleftrightarrow> cap \<in> set (ROLE_CAPS role)"

definition isConsoleUser :: "Role \<Rightarrow> bool" where
  "isConsoleUser role \<longleftrightarrow> Read_console \<in> set (ROLE_CAPS role)"

definition ASSIGNABLE_ROLES :: "Role list" where
  "ASSIGNABLE_ROLES = [ADMIN, OPERATOR, AUDITOR, STAFF, VENDOR]"

definition resolveSetupRole :: "env \<Rightarrow> ident \<Rightarrow> Role option" where
  "resolveSetupRole env tid =
     (if \<not> multiTenantEnabled env then Some ADMIN
      else if tid = PLATFORM_TENANT_ID then Some PLATFORM else None)"

definition hasAnyUser :: "db \<Rightarrow> bool" where
  "hasAnyUser s \<longleftrightarrow> length (users s) > 0"

section \<open>The role Captivo ID reports\<close>

datatype CenterRole = CR_OWNER | CR_ADMIN | CR_MEMBER

fun center_text :: "CenterRole \<Rightarrow> string" where
  "center_text CR_OWNER = ''OWNER''"
| "center_text CR_ADMIN = ''ADMIN''"
| "center_text CR_MEMBER = ''MEMBER''"

definition centerRoleOf :: "js \<Rightarrow> CenterRole" where
  "centerRoleOf role =
     (if role = JStr ''OWNER'' then CR_OWNER
      else if role = JStr ''ADMIN'' then CR_ADMIN else CR_MEMBER)"

definition consoleRolesFor :: "CenterRole \<Rightarrow> Role list" where
  "consoleRolesFor c =
     (if c = CR_MEMBER then [OPERATOR, AUDITOR, STAFF] else [ADMIN, OPERATOR, AUDITOR, STAFF])"

definition consoleRoleAllowed :: "CenterRole \<Rightarrow> Role \<Rightarrow> bool" where
  "consoleRoleAllowed c role \<longleftrightarrow> role \<in> set (consoleRolesFor c)"

text \<open>\<^verbatim>\<open>accessRoleForGrant\<close> (\<^verbatim>\<open>lib/auth/oidc.ts\<close>).\<close>

definition accessRoleForGrant :: "CenterRole \<Rightarrow> Role" where
  "accessRoleForGrant c = (if c = CR_OWNER \<or> c = CR_ADMIN then ADMIN else STAFF)"

datatype Reconciled = Unchanged | RevokedByCenter | UpdateTo Role CenterRole

definition reconcileCenterRole :: "User \<Rightarrow> js \<Rightarrow> Reconciled" where
  "reconcileCenterRole user grantRole =
     (if u_role user = PLATFORM then Unchanged
      else if grantRole = JNull \<or> grantRole = JUndef then
        (if truthy (u_centerRole user) then RevokedByCenter else Unchanged)
      else
        (let centerRole = centerRoleOf grantRole;
             changed = (u_centerRole user \<noteq> Some (center_text centerRole));
             role = (if changed \<or> \<not> consoleRoleAllowed centerRole (u_role user)
                     then accessRoleForGrant centerRole else u_role user)
         in if role = u_role user \<and> u_centerRole user = Some (center_text centerRole) \<and>
               u_status user = UserStatus.ACTIVE
            then Unchanged else UpdateTo role centerRole))"

text \<open>The row the callback writes for an \<open>UpdateTo\<close>.\<close>

definition apply_center :: "Reconciled \<Rightarrow> User \<Rightarrow> User" where
  "apply_center r u =
     (case r of
        UpdateTo role c \<Rightarrow>
          u\<lparr>u_role := role, u_centerRole := Some (center_text c), u_status := UserStatus.ACTIVE\<rparr>
      | RevokedByCenter \<Rightarrow> u\<lparr>u_status := UserStatus.DISABLED\<rparr>
      | Unchanged \<Rightarrow> u)"

section \<open>What a sign-in proved\<close>

definition SECOND_FACTOR :: "string list" where
  "SECOND_FACTOR = [''otp'', ''mfa'', ''hwk'', ''swk'', ''sc'', ''fido'']"

definition MAX_METHOD_LENGTH :: nat where
  "MAX_METHOD_LENGTH = 32"

definition MAX_METHODS :: nat where
  "MAX_METHODS = 16"

fun amr_loop :: "js list \<Rightarrow> string list \<Rightarrow> string list" where
  "amr_loop [] out = out"
| "amr_loop (v # vs) out =
     (case v of
        JStr t \<Rightarrow>
          (let m = to_lower (trim t) in
           if m = [] \<or> length m > MAX_METHOD_LENGTH \<or> m \<in> set out then amr_loop vs out
           else if length out + 1 = MAX_METHODS then out @ [m] else amr_loop vs (out @ [m]))
      | _ \<Rightarrow> amr_loop vs out)"

definition readAmr :: "js \<Rightarrow> string list" where
  "readAmr claims =
     (case claims of
        JObj ob \<Rightarrow> (case field ob ''amr'' of JArr raw \<Rightarrow> amr_loop raw [] | _ \<Rightarrow> [])
      | _ \<Rightarrow> [])"

definition hasSecondFactor :: "string list \<Rightarrow> bool" where
  "hasSecondFactor amr \<longleftrightarrow> list_ex (\<lambda>m. m \<in> set SECOND_FACTOR) amr"

definition passkeyAmr :: "bool \<Rightarrow> string list" where
  "passkeyAmr userVerified = (if userVerified then [''passkey'', ''mfa''] else [''passkey''])"

datatype SecondFactorGate = Gate_allow | Gate_step_up | Gate_refuse

definition secondFactorGate :: "bool \<Rightarrow> string list \<Rightarrow> bool \<Rightarrow> SecondFactorGate" where
  "secondFactorGate required amr steppedUp =
     (if \<not> required then Gate_allow
      else if hasSecondFactor amr then Gate_allow
      else if steppedUp then Gate_refuse else Gate_step_up)"

section \<open>Console sessions\<close>

definition envTtlHours :: "env \<Rightarrow> jnum" where
  "envTtlHours env =
     (let h = number_of_string (case env ''SESSION_TTL_HOURS'' of Some t \<Rightarrow> t | None \<Rightarrow> ''12'') in
      if jnum_is_finite h \<and> jnum_greater h 0 then h else NInt 12)"

record session_meta =
  meta_userAgent :: "string option"
  meta_ip :: "string option"
  meta_amr :: "string list"

definition live_console :: "ident \<Rightarrow> instant \<Rightarrow> Session \<Rightarrow> bool" where
  "live_console uid now x \<longleftrightarrow> s_userId x = uid \<and> s_expiresAt x > now \<and> \<not> s_mobile x"

definition evict_oldest :: "SessionPolicyRow \<Rightarrow> ident \<Rightarrow> instant \<Rightarrow> db \<Rightarrow> db" where
  "evict_oldest policy uid now s =
     (case sp_maxConcurrentPerUser policy of
        None \<Rightarrow> s
      | Some n \<Rightarrow>
          if n \<le> 0 then s
          else (let active = map s_id (sort_key s_createdAt (find_many (live_console uid now) (sessions s)));
                    evict = evictionIds active (Some n)
                in delete_session_rows (\<lambda>x. s_id x \<in> set evict) s))"

definition createSession ::
  "(string \<Rightarrow> string) \<Rightarrow> env \<Rightarrow> SessionPolicyRow \<Rightarrow> ident \<Rightarrow> string \<Rightarrow> instant \<Rightarrow> ident \<Rightarrow> session_meta \<Rightarrow>
   db \<Rightarrow> db \<times> string" where
  "createSession H env policy nid token now uid meta s =
     (let ttl = sessionTtlMs (sp_maxSessionHours policy) (envTtlHours env);
          s1 = evict_oldest policy uid now s;
          row = \<lparr>s_id = nid, s_userId = uid, s_tokenHash = H token, s_expiresAt = now + ttl,
                 s_createdAt = now, s_lastSeenAt = now, s_userAgent = meta_userAgent meta,
                 s_ip = meta_ip meta, s_amr = meta_amr meta, s_mobile = False,
                 s_mobileChallenge = None\<rparr>
      in (s1\<lparr>sessions := insert_row row (sessions s1)\<rparr>, token))"

definition session_by_token :: "(string \<Rightarrow> string) \<Rightarrow> string \<Rightarrow> db \<Rightarrow> Session option" where
  "session_by_token H token s = find_first (\<lambda>x. s_tokenHash x = H token) (sessions s)"

definition touch_session :: "ident \<Rightarrow> instant \<Rightarrow> db \<Rightarrow> db" where
  "touch_session i now s =
     s\<lparr>sessions := update_many (\<lambda>x. s_id x = i) (\<lambda>x. x\<lparr>s_lastSeenAt := now\<rparr>) (sessions s)\<rparr>"

definition getSessionUser ::
  "(string \<Rightarrow> string) \<Rightarrow> SessionPolicyRow \<Rightarrow> instant \<Rightarrow> string \<Rightarrow> db \<Rightarrow> db \<times> User option" where
  "getSessionUser H policy now token s =
     (if token = [] then (s, None)
      else (case session_by_token H token s of
              None \<Rightarrow> (s, None)
            | Some x \<Rightarrow>
                if s_expiresAt x < now then (s, None)
                else if s_mobile x then (s, None)
                else (case user_by_id s (s_userId x) of
                        None \<Rightarrow> (s, None)
                      | Some u \<Rightarrow>
                          if u_status u \<noteq> UserStatus.ACTIVE then (s, None)
                          else if idleExpired (s_lastSeenAt x) now (sp_idleTimeoutMinutes policy)
                          then (delete_session_rows (\<lambda>y. s_id y = s_id x) s, None)
                          else (touch_session (s_id x) now s, Some u))))"

definition destroySession :: "(string \<Rightarrow> string) \<Rightarrow> string \<Rightarrow> db \<Rightarrow> db" where
  "destroySession H token s = delete_session_rows (\<lambda>x. s_tokenHash x = H token) s"

definition revokeSession :: "ident \<Rightarrow> db \<Rightarrow> db" where
  "revokeSession i s = delete_session_rows (\<lambda>x. s_id x = i) s"

definition sessionCookieMaxAgeSeconds :: "env \<Rightarrow> SessionPolicyRow \<Rightarrow> int" where
  "sessionCookieMaxAgeSeconds env policy =
     sessionTtlMs (sp_maxSessionHours policy) (envTtlHours env) div 1000"

definition sessionIdsToRevoke :: "string list \<Rightarrow> string option \<Rightarrow> string list" where
  "sessionIdsToRevoke requested currentId = filter (\<lambda>i. i \<noteq> [] \<and> Some i \<noteq> currentId) requested"

text \<open>A support cookie is tried first; it falls back to the session cookie when it is stale.\<close>

definition getCurrentUser ::
  "(string \<Rightarrow> string) \<Rightarrow> SessionPolicyRow \<Rightarrow> instant \<Rightarrow> string option \<Rightarrow> string option \<Rightarrow> db \<Rightarrow>
   db \<times> User option" where
  "getCurrentUser H policy now support token s =
     (let second = (\<lambda>s. if truthy token then getSessionUser H policy now (the token) s else (s, None)) in
      if truthy support then
        (case getSessionUser H policy now (the support) s of
           (s1, Some u) \<Rightarrow> (s1, Some u)
         | (s1, None) \<Rightarrow> second s1)
      else second s)"

definition logout :: "(string \<Rightarrow> string) \<Rightarrow> string option \<Rightarrow> string option \<Rightarrow> db \<Rightarrow> db" where
  "logout H token support s =
     (let s1 = (if truthy token then destroySession H (the token) s else s) in
      if truthy support then destroySession H (the support) s1 else s1)"

section \<open>App sessions\<close>

definition MOBILE_SESSION_DAYS :: int where
  "MOBILE_SESSION_DAYS = 30"

definition CODE_TTL_MS :: int where
  "CODE_TTL_MS = 2 * 60 * 1000"

definition DAY_MS :: int where
  "DAY_MS = 24 * 60 * 60 * 1000"

definition is_alpha :: "char \<Rightarrow> bool" where
  "is_alpha c \<longleftrightarrow> is_lower c \<or> is_upper c"

definition is_url64 :: "char \<Rightarrow> bool" where
  "is_url64 c \<longleftrightarrow> is_alpha c \<or> is_digit c \<or> c = CHR ''_'' \<or> c = CHR ''-''"

text \<open>\<^verbatim>\<open>/^[A-Za-z0-9_-]{43}$/\<close>\<close>

definition isPkceChallenge :: "string \<Rightarrow> bool" where
  "isPkceChallenge v \<longleftrightarrow> length v = 43 \<and> list_all is_url64 v"

text \<open>\<^verbatim>\<open>/^[A-Za-z0-9._~-]{43,128}$/\<close>\<close>

definition pkce_verifier :: "string \<Rightarrow> bool" where
  "pkce_verifier v \<longleftrightarrow>
     43 \<le> length v \<and> length v \<le> 128 \<and>
     list_all (\<lambda>c. is_url64 c \<or> c = CHR ''.'' \<or> c = CHR ''~'') v"

definition pkceMatches :: "(string \<Rightarrow> string) \<Rightarrow> js \<Rightarrow> string \<Rightarrow> bool" where
  "pkceMatches P verifier challenge =
     (case verifier of
        JStr v \<Rightarrow> if \<not> pkce_verifier v then False else P v = challenge
      | _ \<Rightarrow> False)"

definition issueMobileCode ::
  "(string \<Rightarrow> string) \<Rightarrow> ident \<Rightarrow> string \<Rightarrow> instant \<Rightarrow> ident \<Rightarrow> string \<Rightarrow> session_meta \<Rightarrow> db \<Rightarrow> db \<times> string" where
  "issueMobileCode H nid code now uid challenge meta s =
     (s\<lparr>sessions := insert_row
          \<lparr>s_id = nid, s_userId = uid, s_tokenHash = H code, s_expiresAt = now + CODE_TTL_MS,
           s_createdAt = now, s_lastSeenAt = now, s_userAgent = meta_userAgent meta,
           s_ip = meta_ip meta, s_amr = meta_amr meta, s_mobile = True,
           s_mobileChallenge = Some challenge\<rparr> (sessions s)\<rparr>, code)"

definition redeemed_row ::
  "(string \<Rightarrow> string) \<Rightarrow> string \<Rightarrow> instant \<Rightarrow> string option \<Rightarrow> Session \<Rightarrow> Session" where
  "redeemed_row H token now device x =
     x\<lparr>s_tokenHash := H token, s_mobileChallenge := None,
       s_expiresAt := now + MOBILE_SESSION_DAYS * DAY_MS, s_lastSeenAt := now,
       s_userAgent := (if truthy device then Some (take 200 (the device)) else s_userAgent x)\<rparr>"

definition redeemMobileCode ::
  "(string \<Rightarrow> string) \<Rightarrow> (string \<Rightarrow> string) \<Rightarrow> string \<Rightarrow> instant \<Rightarrow> js \<Rightarrow> js \<Rightarrow> string option \<Rightarrow> db \<Rightarrow>
   db \<times> (string \<times> ident) option" where
  "redeemMobileCode H P token now code verifier device s =
     (case code of
        JStr c \<Rightarrow>
          if c = [] then (s, None)
          else (case find_first (\<lambda>x. s_tokenHash x = H c \<and> s_mobile x \<and> s_mobileChallenge x \<noteq> None)
                       (sessions s) of
                  None \<Rightarrow> (s, None)
                | Some row \<Rightarrow>
                    if \<not> truthy (s_mobileChallenge row) then (s, None)
                    else if s_expiresAt row < now \<or> \<not> pkceMatches P verifier (the (s_mobileChallenge row))
                    then (delete_session_rows (\<lambda>x. s_id x = s_id row) s, None)
                    else
                      (let p = (\<lambda>x. s_id x = s_id row \<and> s_tokenHash x = H c) in
                       (s\<lparr>sessions := update_many p (redeemed_row H token now device) (sessions s)\<rparr>,
                        if count_rows p (sessions s) = 1 then Some (token, s_userId row) else None)))
      | _ \<Rightarrow> (s, None))"

text \<open>\<^verbatim>\<open>/^Bearer ([A-Za-z0-9_-]{20,200})$/\<close> on the trimmed header.\<close>

definition bearerToken :: "string option \<Rightarrow> string option" where
  "bearerToken authorization =
     (let h = trim (opt_text authorization); t = drop (length ''Bearer '') h in
      if starts_with h ''Bearer '' \<and> 20 \<le> length t \<and> length t \<le> 200 \<and> list_all is_url64 t
      then Some t else None)"

definition mobileSessionFromRequest ::
  "(string \<Rightarrow> string) \<Rightarrow> instant \<Rightarrow> string option \<Rightarrow> db \<Rightarrow> db \<times> (ident \<times> User) option" where
  "mobileSessionFromRequest H now authorization s =
     (case bearerToken authorization of
        None \<Rightarrow> (s, None)
      | Some token \<Rightarrow>
          (case find_first (\<lambda>x. s_tokenHash x = H token \<and> s_mobile x \<and> s_mobileChallenge x = None)
                  (sessions s) of
             None \<Rightarrow> (s, None)
           | Some x \<Rightarrow>
               (case user_by_id s (s_userId x) of
                  None \<Rightarrow> (s, None)
                | Some u \<Rightarrow>
                    if s_expiresAt x < now \<or> u_status u \<noteq> UserStatus.ACTIVE then (s, None)
                    else (touch_session (s_id x) now s, Some (s_id x, u)))))"

definition endMobileSession :: "ident \<Rightarrow> db \<Rightarrow> db" where
  "endMobileSession i s = delete_session_rows (\<lambda>x. s_id x = i \<and> s_mobile x) s"

definition mobileRoute ::
  "(string \<Rightarrow> string) \<Rightarrow> instant \<Rightarrow> Capability \<Rightarrow> (request \<Rightarrow> ident \<times> User \<Rightarrow> db \<Rightarrow> db \<times> 'a reply) \<Rightarrow>
   request \<Rightarrow> db \<Rightarrow> db \<times> 'a reply" where
  "mobileRoute H now cap handler req s =
     (case mobileSessionFromRequest H now (req_header req ''authorization'') s of
        (s1, None) \<Rightarrow> (s1, Err 401 ''unauthorized'')
      | (s1, Some session) \<Rightarrow>
          if \<not> can (u_role (snd session)) cap then (s1, Err 403 ''forbidden'')
          else handler req session s1)"

section \<open>The hand-off cookie\<close>

definition HANDOFF_TTL_SEC :: int where
  "HANDOFF_TTL_SEC = 10 * 60"

definition handoff_mac :: "(string \<Rightarrow> string) \<Rightarrow> string \<Rightarrow> string" where
  "handoff_mac M payload = M (''mobile-handoff:'' @ payload)"

definition signHandoff :: "(string \<Rightarrow> string) \<Rightarrow> string \<Rightarrow> instant \<Rightarrow> string" where
  "signHandoff M challenge now =
     (let payload = challenge @ ''.'' @ dec_int (now div 1000 + HANDOFF_TTL_SEC) in
      payload @ ''.'' @ handoff_mac M payload)"

definition readHandoff :: "(string \<Rightarrow> string) \<Rightarrow> string option \<Rightarrow> instant \<Rightarrow> string option" where
  "readHandoff M value now =
     (case or_null value of
        None \<Rightarrow> None
      | Some v \<Rightarrow>
          (case split_on CHR ''.'' v of
             [challenge, exp, sig] \<Rightarrow>
               if sig \<noteq> handoff_mac M (challenge @ ''.'' @ exp) then None
               else if exp = [] \<or> \<not> list_all is_digit exp \<or> int (undec exp) * 1000 < now then None
               else if isPkceChallenge challenge then Some challenge else None
           | _ \<Rightarrow> None))"

section \<open>A session speaks for an active user\<close>

lemma getSessionUser_sound:
  assumes "getSessionUser H policy now token s = (s', Some u)"
  shows "\<exists>x \<in> set (sessions s). s_tokenHash x = H token \<and> now \<le> s_expiresAt x \<and> \<not> s_mobile x \<and>
    user_by_id s (s_userId x) = Some u \<and> u_status u = UserStatus.ACTIVE \<and>
    \<not> idleExpired (s_lastSeenAt x) now (sp_idleTimeoutMinutes policy)"
  using assms
  by (auto simp: getSessionUser_def session_by_token_def not_less
      split: if_splits option.splits dest!: find_first_Some)

lemma delete_session_rows_simps [simp]:
  "sessions (delete_session_rows p s) = delete_many p (sessions s)"
  "users (delete_session_rows p s) = users s"
  "accessGrants (delete_session_rows p s) = accessGrants s"
  by (simp_all add: delete_session_rows_def Let_def)

lemma unknown_token_refused:
  assumes "\<forall>x \<in> set (sessions s). s_tokenHash x \<noteq> H token"
  shows "snd (getSessionUser H policy now token s) = None"
proof -
  have "session_by_token H token s = None"
    using assms by (simp add: session_by_token_def find_first_None)
  then show ?thesis by (simp add: getSessionUser_def)
qed

section \<open>The concurrent-session cap\<close>

lemma count_live_evicted:
  assumes "distinct (map s_id (sessions s))" and "sp_maxConcurrentPerUser policy = Some n" and "0 < n"
  shows "int (count_rows (live_console uid now) (sessions (evict_oldest policy uid now s))) \<le> n - 1"
proof -
  let ?rows = "sort_key s_createdAt (find_many (live_console uid now) (sessions s))"
  let ?evict = "evictionIds (map s_id ?rows) (Some n)"
  have d: "distinct (map s_id ?rows)"
    using assms(1) by (auto simp: distinct_map find_many_def inj_on_def)
  obtain k where k: "?evict = take k (map s_id ?rows)" using evictionIds_prefix by blast
  have "count_rows (live_console uid now) (sessions (evict_oldest policy uid now s))
      = count_rows (\<lambda>x. live_console uid now x \<and> s_id x \<notin> set ?evict) (sessions s)"
    using assms(2,3) by (simp add: evict_oldest_def)
  also have "\<dots> = length (filter (\<lambda>x. s_id x \<notin> set ?evict) ?rows)"
    unfolding filter_sort find_many_def filter_filter length_sort count_rows_def ..
  also have "filter (\<lambda>x. s_id x \<notin> set ?evict) ?rows = drop k ?rows"
  proof -
    have "?rows = take k ?rows @ drop k ?rows" by simp
    moreover have "s_id x \<notin> set ?evict" if "x \<in> set (drop k ?rows)" for x
    proof -
      have "distinct (map s_id (take k ?rows @ drop k ?rows))" using d by simp
      then have "s_id x \<notin> s_id ` set (take k ?rows)"
        using that unfolding map_append distinct_append by auto
      then show ?thesis unfolding k take_map by simp
    qed
    moreover have "s_id x \<in> set ?evict" if "x \<in> set (take k ?rows)" for x
      using that unfolding k take_map by simp
    ultimately show ?thesis
      by (metis (mono_tags, lifting) append_Nil filter_False filter_True filter_append)
  qed
  also have "length (drop k ?rows) = length ?rows - length ?evict" unfolding k by simp
  finally have "int (count_rows (live_console uid now) (sessions (evict_oldest policy uid now s)))
      = int (length ?rows) - int (length ?evict)"
    unfolding k by simp
  with evictionIds_room [OF refl assms(3), of "map s_id ?rows"] show ?thesis by auto
qed

lemma createSession_cap:
  assumes "distinct (map s_id (sessions s))" and "sp_maxConcurrentPerUser policy = Some n" and "0 < n"
  shows "int (count_rows (live_console uid now)
    (sessions (fst (createSession H env policy nid token now uid meta s)))) \<le> n"
  using count_live_evicted [OF assms, of uid now] by (simp add: createSession_def Let_def)

section \<open>Codes and bearer tokens\<close>

lemma redeem_Some:
  assumes "redeemMobileCode H P token now (JStr c) v d s = (s', Some (t, uid))"
  shows "\<exists>row \<in> set (sessions s). s_tokenHash row = H c \<and> s_mobile row \<and> now \<le> s_expiresAt row \<and>
    uid = s_userId row \<and> t = token \<and> (\<exists>ch. s_mobileChallenge row = Some ch \<and> pkceMatches P v ch)"
proof -
  obtain row where row: "find_first (\<lambda>x. s_tokenHash x = H c \<and> s_mobile x \<and> s_mobileChallenge x \<noteq> None)
      (sessions s) = Some row" "truthy (s_mobileChallenge row)" "\<not> s_expiresAt row < now"
    "pkceMatches P v (the (s_mobileChallenge row))" "t = token" "uid = s_userId row"
    using assms by (auto simp: redeemMobileCode_def Let_def split: if_splits option.splits)
  from find_first_Some [OF row(1)] row(2-) show ?thesis by auto
qed

lemma redeem_sessions:
  assumes "find_first (\<lambda>x. s_tokenHash x = H c \<and> s_mobile x \<and> s_mobileChallenge x \<noteq> None)
      (sessions s) = Some row" and "truthy (s_mobileChallenge row)" and "c \<noteq> []"
  shows "sessions (fst (redeemMobileCode H P token now (JStr c) v d s)) =
    (if s_expiresAt row < now \<or> \<not> pkceMatches P v (the (s_mobileChallenge row))
     then delete_many (\<lambda>x. s_id x = s_id row) (sessions s)
     else update_many (\<lambda>x. s_id x = s_id row \<and> s_tokenHash x = H c)
       (redeemed_row H token now d) (sessions s))"
  using assms unfolding redeemMobileCode_def by (simp add: Let_def)

lemma redeem_once:
  assumes "redeemMobileCode H P token now (JStr c) v d s = (s', r)"
    and "H token \<noteq> H c" and "distinct (map s_tokenHash (sessions s))"
  shows "snd (redeemMobileCode H P token' now' (JStr c) v' d' s') = None"
proof -
  have gone: "snd (redeemMobileCode H P token' now' (JStr c) v' d' s') = None"
    if "\<forall>x \<in> set (sessions s'). \<not> (s_tokenHash x = H c \<and> s_mobile x \<and> s_mobileChallenge x \<noteq> None)"
    using that by (auto simp: redeemMobileCode_def find_first_None split: option.splits dest: find_first_Some)
  let ?q = "\<lambda>x. s_tokenHash x = H c \<and> s_mobile x \<and> s_mobileChallenge x \<noteq> None"
  show ?thesis
  proof (cases "c = [] \<or> find_first ?q (sessions s) = None")
    case True
    with assms(1) have "s' = s" by (auto simp: redeemMobileCode_def split: option.splits)
    with True gone show ?thesis by (auto simp: redeemMobileCode_def find_first_None)
  next
    case False
    then obtain row where row: "find_first ?q (sessions s) = Some row" by auto
    note r = find_first_Some [OF row]
    have uniq: "x = row" if "x \<in> set (sessions s)" "s_tokenHash x = H c" for x
      using that r assms(3) inj_onD [of s_tokenHash "set (sessions s)" x row] by (simp add: distinct_map)
    show ?thesis
    proof (cases "truthy (s_mobileChallenge row)")
      case False
      then have "redeemMobileCode H P t n (JStr c) w e s = (s, None)" for t n w e
        using row by (auto simp: redeemMobileCode_def)
      with assms(1) show ?thesis by auto
    next
      case True
      have s': "sessions s' = update_many (\<lambda>x. s_id x = s_id row \<and> s_tokenHash x = H c)
            (redeemed_row H token now d) (sessions s) \<or>
          sessions s' = delete_many (\<lambda>x. s_id x = s_id row) (sessions s)"
        using redeem_sessions [of H c s row P token now v d] row True False assms(1)
        by (simp split: if_splits)
      have upd: "\<not> ?q x" if "x \<in> set (update_many (\<lambda>x. s_id x = s_id row \<and> s_tokenHash x = H c)
          (redeemed_row H token now d) (sessions s))" for x
        using that assms(2) by (auto simp: set_update_many redeemed_row_def dest: uniq)
      have del: "\<not> ?q x" if "x \<in> set (delete_many (\<lambda>x. s_id x = s_id row) (sessions s))" for x
        using that by (auto dest: uniq)
      have "\<not> ?q x" if "x \<in> set (sessions s')" for x
        using s'
      proof
        assume "sessions s' = update_many (\<lambda>x. s_id x = s_id row \<and> s_tokenHash x = H c)
          (redeemed_row H token now d) (sessions s)"
        with that show ?thesis by (intro upd) simp
      next
        assume "sessions s' = delete_many (\<lambda>x. s_id x = s_id row) (sessions s)"
        with that show ?thesis by (intro del) (simp only:)
      qed
      then show ?thesis by (intro gone ballI)
    qed
  qed
qed

text \<open>The console never accepts an app token, the app's interface never a console token.\<close>

lemma mobileSession_sound:
  assumes "mobileSessionFromRequest H now a s = (s', Some (i, u))"
  shows "\<exists>x token. bearerToken a = Some token \<and> x \<in> set (sessions s) \<and> s_tokenHash x = H token \<and>
    s_mobile x \<and> s_mobileChallenge x = None \<and> now \<le> s_expiresAt x \<and> s_id x = i \<and>
    user_by_id s (s_userId x) = Some u \<and> u_status u = UserStatus.ACTIVE"
  using assms
  by (auto simp: mobileSessionFromRequest_def not_less split: option.splits if_splits dest!: find_first_Some)

section \<open>Hand-off cookies read back\<close>

lemma url64_no_dot: "is_url64 c \<Longrightarrow> c \<noteq> CHR ''.''"
  by (auto simp: is_url64_def is_alpha_def is_lower_def is_upper_def is_digit_def)

lemma read_signed_handoff:
  assumes ch: "isPkceChallenge ch" and t: "0 \<le> t" and mac: "\<And>m. CHR ''.'' \<notin> set (M m)"
  shows "readHandoff M (Some (signHandoff M ch t)) now =
    (if now \<le> (t div 1000 + HANDOFF_TTL_SEC) * 1000 then Some ch else None)"
proof -
  let ?e = "dec_int (t div 1000 + HANDOFF_TTL_SEC)"
  let ?p = "ch @ ''.'' @ ?e"
  have nonneg: "0 \<le> t div 1000 + HANDOFF_TTL_SEC" using t by (simp add: HANDOFF_TTL_SEC_def pos_imp_zdiv_nonneg_iff)
  then have e: "?e = dec (nat (t div 1000 + HANDOFF_TTL_SEC))" by (simp add: dec_int_def)
  have nodot: "CHR ''.'' \<notin> set ch" "CHR ''.'' \<notin> set ?e"
  proof -
    show "CHR ''.'' \<notin> set ch" using ch url64_no_dot by (auto simp: isPkceChallenge_def list_all_iff)
    have "\<not> is_digit CHR ''.''" by (simp add: is_digit_def)
    then show "CHR ''.'' \<notin> set ?e" using digits_dec e by auto
  qed
  have "signHandoff M ch t = ch @ CHR ''.'' # ?e @ CHR ''.'' # handoff_mac M ?p"
    by (simp add: signHandoff_def Let_def)
  then have parts: "split_on CHR ''.'' (signHandoff M ch t) = [ch, ?e, handoff_mac M ?p]"
    using nodot mac by (simp add: split_on_append split_on_single handoff_mac_def)
  have "signHandoff M ch t \<noteq> []" by (simp add: signHandoff_def Let_def)
  moreover have "list_all is_digit ?e" using digits_dec by (simp add: e list_all_iff)
  ultimately show ?thesis
    using ch nonneg by (simp add: readHandoff_def or_null_def parts e not_less)
qed

section \<open>Properties\<close>

definition ex_session :: Session where
  "ex_session =
     \<lparr>s_id = ''x1'', s_userId = ''u1'', s_tokenHash = ''h1'', s_expiresAt = 1000, s_createdAt = 0,
      s_lastSeenAt = 0, s_userAgent = None, s_ip = None, s_amr = [], s_mobile = False,
      s_mobileChallenge = None\<rparr>"

definition ex_meta :: session_meta where
  "ex_meta = \<lparr>meta_userAgent = None, meta_ip = None, meta_amr = []\<rparr>"

definition ex_member :: User where
  "ex_member =
     \<lparr>u_id = ''u1'', u_email = ''m@example.com'', u_name = ''M'', u_phone = None, u_company = None,
      u_timezone = None, u_role = ADMIN, u_status = UserStatus.ACTIVE, u_createdAt = 0,
      u_directoryManaged = False, u_directoryLastVerifiedAt = None, u_centerRole = Some ''ADMIN''\<rparr>"

text \<open>C11: a token speaks for a user only through a stored session of that user that has not expired,
  is no app session and has not been idle too long, and only while the account is active.\<close>

theorem session_token_sound:
  assumes "getSessionUser H policy now token s = (s', Some u)"
  shows "u_status u = UserStatus.ACTIVE \<and>
    (\<exists>x \<in> set (sessions s). s_tokenHash x = H token \<and> s_userId x = u_id u \<and> now \<le> s_expiresAt x \<and>
      \<not> s_mobile x \<and> \<not> idleExpired (s_lastSeenAt x) now (sp_idleTimeoutMinutes policy))"
  using getSessionUser_sound [OF assms] user_by_id_Some by metis

theorem session_token_sound_witness:
  "snd (getSessionUser (\<lambda>t. t) EMPTY_POLICY 500 ''h1'' (empty_db\<lparr>users := [ex_member], sessions := [ex_session]\<rparr>))
     = Some ex_member \<and> u_status ex_member = UserStatus.ACTIVE"
proof -
  let ?s = "empty_db\<lparr>users := [ex_member], sessions := [ex_session]\<rparr>"
  have u: "snd (getSessionUser (\<lambda>t. t) EMPTY_POLICY 500 ''h1'' ?s) = Some ex_member"
    by (simp add: getSessionUser_def session_by_token_def find_first_def user_by_id_def ex_session_def
        ex_member_def empty_db_def EMPTY_POLICY_def idleExpired_def)
  then obtain s' where "getSessionUser (\<lambda>t. t) EMPTY_POLICY 500 ''h1'' ?s = (s', Some ex_member)"
    by (metis prod.collapse)
  from session_token_sound [OF this] u show ?thesis by simp
qed

text \<open>Signing out ends the session: the token that was given up is refused from then on, at any
  time and under any policy.\<close>

theorem signed_out_token_refused:
  "snd (getSessionUser H policy now token (destroySession H token s)) = None \<and>
   snd (getCurrentUser H policy now None (Some token) (logout H (Some token) support s)) = None"
proof -
  have "\<forall>x \<in> set (sessions (logout H (Some token) support s)). s_tokenHash x \<noteq> H token" if "token \<noteq> []"
    using that by (auto simp: logout_def truthy_def destroySession_def Let_def)
  then have "token \<noteq> [] \<Longrightarrow> snd (getSessionUser H policy now token (logout H (Some token) support s)) = None"
    by (rule unknown_token_refused)
  moreover have "snd (getSessionUser H policy now token (destroySession H token s)) = None"
    by (rule unknown_token_refused) (simp add: destroySession_def)
  ultimately show ?thesis by (simp add: getCurrentUser_def truthy_def)
qed

text \<open>The concurrent-session policy holds: with a cap of n, opening a session leaves the user at most
  n live console sessions, the new one included.\<close>

theorem concurrent_sessions_capped:
  assumes "distinct (map s_id (sessions s))" and "sp_maxConcurrentPerUser policy = Some n" and "0 < n"
  shows "int (count_rows (live_console uid now)
    (sessions (fst (createSession H env policy nid token now uid meta s)))) \<le> n"
  using assms by (rule createSession_cap)

theorem concurrent_sessions_capped_witness:
  "int (count_rows (live_console ''u1'' 500)
     (sessions (fst (createSession (\<lambda>t. t) (\<lambda>_. None) (EMPTY_POLICY\<lparr>sp_maxConcurrentPerUser := Some 1\<rparr>)
       ''x2'' ''t2'' 500 ''u1'' ex_meta (empty_db\<lparr>sessions := [ex_session]\<rparr>))))) \<le> 1"
  by (rule concurrent_sessions_capped) (simp_all add: ex_session_def)

text \<open>A hand-off code works once: after it has been presented, with the right or the wrong verifier,
  presenting it again yields nothing.\<close>

theorem mobile_code_single_use:
  assumes "distinct (map s_tokenHash (sessions s))" and "H token \<noteq> H c"
  shows "snd (redeemMobileCode H P token' now' (JStr c) v' d'
    (fst (redeemMobileCode H P token now (JStr c) v d s))) = None"
proof -
  obtain s' r where "redeemMobileCode H P token now (JStr c) v d s = (s', r)" by fastforce
  with redeem_once [OF this assms(2,1)] show ?thesis by simp
qed

theorem mobile_code_single_use_witness:
  "snd (redeemMobileCode (\<lambda>t. t) (\<lambda>v. v) ''t3'' 20 (JStr ''code'') (JStr ''v'') None
     (fst (redeemMobileCode (\<lambda>t. t) (\<lambda>v. v) ''t2'' 10 (JStr ''code'') (JStr ''v'') None
       (empty_db\<lparr>sessions := [ex_session\<lparr>s_tokenHash := ''code'', s_mobile := True, s_mobileChallenge := Some ''v''\<rparr>]\<rparr>))))
     = None"
  by (rule mobile_code_single_use) simp_all

text \<open>A hand-off cookie reads back as the challenge it was made for, for ten minutes and no longer.\<close>

theorem handoff_round_trip:
  assumes "isPkceChallenge ch" and "0 \<le> t" and "\<And>m. CHR ''.'' \<notin> set (M m)"
  shows "readHandoff M (Some (signHandoff M ch t)) now =
    (if now \<le> (t div 1000 + 600) * 1000 then Some ch else None)"
  using read_signed_handoff [where M = M, OF assms] by (simp add: HANDOFF_TTL_SEC_def)

theorem handoff_round_trip_witness:
  "readHandoff (\<lambda>m. ''mac'') (Some (signHandoff (\<lambda>m. ''mac'') (replicate 43 CHR ''a'') 5000)) 605000
     = Some (replicate 43 CHR ''a'')"
  by (subst handoff_round_trip) (simp_all add: isPkceChallenge_def is_url64_def is_alpha_def is_lower_def list_all_iff)

text \<open>The organisation's role is a ceiling. After a Captivo ID sign-in with an organisation role, the
  account is active, records that role, and its console role is one the centre allows: a plain
  member is never an administrator, and nobody managed by the centre is a vendor.\<close>

theorem center_role_ceiling:
  assumes "u_role u \<noteq> PLATFORM" and "grantRole \<noteq> JNull" and "grantRole \<noteq> JUndef"
  shows "let u' = apply_center (reconcileCenterRole u grantRole) u; c = centerRoleOf grantRole in
    u_status u' = UserStatus.ACTIVE \<and> u_centerRole u' = Some (center_text c) \<and>
    consoleRoleAllowed c (u_role u') \<and> u_role u' \<noteq> VENDOR \<and> \<not> (c = CR_MEMBER \<and> u_role u' = ADMIN)"
proof -
  let ?c = "centerRoleOf grantRole" and ?u = "apply_center (reconcileCenterRole u grantRole) u"
  have allowed: "consoleRoleAllowed c (accessRoleForGrant c)" for c
    by (cases c) (simp_all add: consoleRoleAllowed_def consoleRolesFor_def accessRoleForGrant_def)
  have "u_status ?u = UserStatus.ACTIVE \<and> u_centerRole ?u = Some (center_text ?c) \<and>
      consoleRoleAllowed ?c (u_role ?u)"
    using assms allowed [of ?c] by (auto simp: reconcileCenterRole_def apply_center_def Let_def)
  moreover have "r \<noteq> VENDOR \<and> \<not> (c = CR_MEMBER \<and> r = ADMIN)" if "consoleRoleAllowed c r" for c r
    using that by (auto simp: consoleRoleAllowed_def consoleRolesFor_def split: if_splits)
  ultimately show ?thesis unfolding Let_def by blast
qed

theorem center_role_ceiling_witness:
  "u_role (apply_center (reconcileCenterRole ex_member (JStr ''MEMBER'')) ex_member) \<noteq> ADMIN"
proof -
  have "centerRoleOf (JStr ''MEMBER'') = CR_MEMBER" by (simp add: centerRoleOf_def)
  with center_role_ceiling [of ex_member "JStr ''MEMBER''"] show ?thesis
    by (simp add: Let_def ex_member_def)
qed

end
