(* ===== verification/Schedule.thy ===== *)
theory Schedule
  imports JsValue
begin

text \<open>
  \<^verbatim>\<open>lib/access/schedule.ts\<close>: the recurring weekly window of a grant. \<^verbatim>\<open>Intl.DateTimeFormat\<close> and
  its time-zone database are the record \<open>intl\<close>: which zones the constructor accepts and the
  \<^verbatim>\<open>formatToParts\<close> result of an instant in a zone, a list of (type, value) pairs.
\<close>

record Schedule =
  sch_timezone :: string
  sch_days :: "int list"
  sch_start :: string
  sch_end :: string

record intl =
  intl_zone :: "string \<Rightarrow> bool"
  intl_parts :: "string \<Rightarrow> instant \<Rightarrow> (string \<times> string) list"

section \<open>Parsing\<close>

text \<open>\<open>TIME_RE\<close> is \<^verbatim>\<open>/^([01]\d|2[0-3]):([0-5]\d)$/\<close>.\<close>

definition TIME_RE :: "string \<Rightarrow> (string \<times> string) option" where
  "TIME_RE t =
     (case t of
        [a, b, c, d, e] \<Rightarrow>
          if ((a = CHR ''0'' \<or> a = CHR ''1'') \<and> is_digit b \<or>
              a = CHR ''2'' \<and> b \<in> set ''0123'') \<and>
             c = CHR '':'' \<and> d \<in> set ''012345'' \<and> is_digit e
          then Some ([a, b], [d, e]) else None
      | _ \<Rightarrow> None)"

definition timeToMinutes :: "string \<Rightarrow> nat option" where
  "timeToMinutes t =
     (case TIME_RE t of None \<Rightarrow> None | Some (h, m) \<Rightarrow> Some (undec h * 60 + undec m))"

definition isValidTimeZone :: "intl \<Rightarrow> string \<Rightarrow> bool" where
  "isValidTimeZone \<I> tz = intl_zone \<I> tz"

fun collect_days :: "js list \<Rightarrow> int list \<Rightarrow> int list option" where
  "collect_days [] days = Some days"
| "collect_days (d # ds) days =
     (case d of
        JNum (NInt n) \<Rightarrow>
          if n < 0 \<or> n > 6 then None
          else collect_days ds (if n \<in> set days then days else days @ [n])
      | _ \<Rightarrow> None)"

definition validateSchedule :: "intl \<Rightarrow> js \<Rightarrow> string + Schedule" where
  "validateSchedule \<I> value =
     (case value of
        JObj v \<Rightarrow>
          (case field v ''timezone'' of
             JStr tz \<Rightarrow>
               if \<not> isValidTimeZone \<I> tz then Inl ''bad_timezone''
               else (case field v ''days'' of
                  JArr ds \<Rightarrow>
                    if ds = [] then Inl ''bad_days''
                    else (case collect_days ds [] of
                       None \<Rightarrow> Inl ''bad_days''
                     | Some days \<Rightarrow>
                        (case (field v ''start'', field v ''end'') of
                           (JStr st, JStr en) \<Rightarrow>
                             (case (timeToMinutes st, timeToMinutes en) of
                                (Some s, Some e) \<Rightarrow>
                                  if s \<ge> e then Inl ''start_after_end''
                                  else Inr \<lparr>sch_timezone = tz, sch_days = sort days,
                                            sch_start = st, sch_end = en\<rparr>
                              | _ \<Rightarrow> Inl ''bad_time'')
                         | _ \<Rightarrow> Inl ''bad_time''))
                | _ \<Rightarrow> Inl ''bad_days'')
           | _ \<Rightarrow> Inl ''bad_timezone'')
      | JArr _ \<Rightarrow> Inl ''bad_timezone''
      | _ \<Rightarrow> Inl ''not_object'')"

definition parseSchedule :: "intl \<Rightarrow> js \<Rightarrow> Schedule option" where
  "parseSchedule \<I> value = (case validateSchedule \<I> value of Inr s \<Rightarrow> Some s | Inl _ \<Rightarrow> None)"

text \<open>A schedule as the \<^verbatim>\<open>Json\<close> column stores it.\<close>

definition schedule_json :: "Schedule \<Rightarrow> js" where
  "schedule_json s =
     JObj [(''timezone'', JStr (sch_timezone s)),
           (''days'', JArr (map (\<lambda>d. JNum (NInt d)) (sch_days s))),
           (''start'', JStr (sch_start s)), (''end'', JStr (sch_end s))]"

section \<open>Evaluating\<close>

definition WEEKDAY_INDEX :: "string \<Rightarrow> int" where
  "WEEKDAY_INDEX v =
     (case map_of [(''Sun'', 0), (''Mon'', 1), (''Tue'', 2), (''Wed'', 3), (''Thu'', 4),
                   (''Fri'', 5), (''Sat'', 6)] v of Some i \<Rightarrow> i | None \<Rightarrow> - 1)"

text \<open>The loop over the parts: (weekday, hour, minute).\<close>

definition read_part :: "int \<times> jnum \<times> jnum \<Rightarrow> string \<times> string \<Rightarrow> int \<times> jnum \<times> jnum" where
  "read_part acc p =
     (case acc of (w, h, m) \<Rightarrow> (case p of (ty, v) \<Rightarrow>
       if ty = ''weekday'' then (WEEKDAY_INDEX v, h, m)
       else if ty = ''hour'' then (w, number_of_string (if v = ''24'' then ''0'' else v), m)
       else if ty = ''minute'' then (w, h, number_of_string v)
       else acc))"

definition read_parts :: "(string \<times> string) list \<Rightarrow> int \<times> jnum \<times> jnum" where
  "read_parts ps = foldl read_part (- 1, NInt 0, NInt 0) ps"

text \<open>
  Intl formats hour and minute as digits; a value that is no integer is treated as
  \<^verbatim>\<open>NaN\<close>, for which both comparisons of the last line are false.
\<close>

definition minutes_of :: "jnum \<Rightarrow> jnum \<Rightarrow> int option" where
  "minutes_of h m = (case h of NInt a \<Rightarrow> (case m of NInt b \<Rightarrow> Some (a * 60 + b) | _ \<Rightarrow> None) | _ \<Rightarrow> None)"

definition in_window :: "nat option \<Rightarrow> nat option \<Rightarrow> int option \<Rightarrow> bool" where
  "in_window s e t =
     (case s of None \<Rightarrow> False | Some a \<Rightarrow> (case e of None \<Rightarrow> False | Some b \<Rightarrow>
       (case t of None \<Rightarrow> False | Some nowMin \<Rightarrow> int a \<le> nowMin \<and> nowMin \<le> int b)))"

definition isWithinSchedule :: "intl \<Rightarrow> Schedule \<Rightarrow> instant \<Rightarrow> bool" where
  "isWithinSchedule \<I> sch now =
     (let (weekday, hour, minute) = read_parts (intl_parts \<I> (sch_timezone sch) now) in
      if weekday < 0 \<or> weekday \<notin> set (sch_days sch) then False
      else in_window (timeToMinutes (sch_start sch)) (timeToMinutes (sch_end sch))
             (minutes_of hour minute))"

definition DAY_ABBR :: "string list" where
  "DAY_ABBR = [''Sun'', ''Mon'', ''Tue'', ''Wed'', ''Thu'', ''Fri'', ''Sat'']"

text \<open>
  The dash between the times is U+2013 in the source; its UTF-8 bytes stand for it here.
\<close>

definition en_dash :: string where
  "en_dash = [char_of (226::nat), char_of (128::nat), char_of (147::nat)]"

definition formatSchedule :: "Schedule \<Rightarrow> string" where
  "formatSchedule s =
     join_with '', '' (map (\<lambda>d. if 0 \<le> d \<and> d < 7 then DAY_ABBR ! nat d else ''undefined'')
       (sort (sch_days s)))
     @ '' '' @ sch_start s @ en_dash @ sch_end s @ '' ('' @ sch_timezone s @ '')''"

section \<open>What a valid schedule is\<close>

definition schedule_ok :: "intl \<Rightarrow> Schedule \<Rightarrow> bool" where
  "schedule_ok \<I> s \<longleftrightarrow>
     intl_zone \<I> (sch_timezone s) \<and>
     sch_days s \<noteq> [] \<and> sorted (sch_days s) \<and> distinct (sch_days s) \<and>
     (\<forall>d \<in> set (sch_days s). 0 \<le> d \<and> d \<le> 6) \<and>
     (\<exists>a b. timeToMinutes (sch_start s) = Some a \<and> timeToMinutes (sch_end s) = Some b \<and> a < b)"

lemma collect_days_ok:
  assumes "collect_days ds days = Some r"
    and "distinct days" and "\<forall>d \<in> set days. 0 \<le> d \<and> d \<le> 6"
  shows "distinct r \<and> (\<forall>d \<in> set r. 0 \<le> d \<and> d \<le> 6) \<and> set days \<subseteq> set r \<and>
    set r = set days \<union> {n. JNum (NInt n) \<in> set ds}"
  using assms
proof (induction ds arbitrary: days)
  case Nil
  then show ?case by simp
next
  case (Cons d ds)
  from Cons.prems(1) obtain n where d: "d = JNum (NInt n)" and n: "0 \<le> n" "n \<le> 6"
    and rest: "collect_days ds (if n \<in> set days then days else days @ [n]) = Some r"
    by (auto split: js.splits jnum.splits if_splits)
  show ?case
  proof (cases "n \<in> set days")
    case True
    with Cons.IH [of days] rest Cons.prems(2,3) d show ?thesis by auto
  next
    case False
    with Cons.IH [of "days @ [n]"] rest Cons.prems(2,3) d n show ?thesis by auto
  qed
qed

lemma collect_days_ints:
  assumes "\<forall>d \<in> set ds. 0 \<le> d \<and> d \<le> 6" and "distinct (days @ ds)"
  shows "collect_days (map (\<lambda>d. JNum (NInt d)) ds) days = Some (days @ ds)"
  using assms by (induction ds arbitrary: days) auto

lemma timeToMinutes_bound: "timeToMinutes t = Some m \<Longrightarrow> m < 24 * 60"
  by (auto simp: timeToMinutes_def TIME_RE_def undec_def digit_val_def is_digit_def
      split: list.splits if_splits)

lemma validateSchedule_ok:
  assumes "validateSchedule \<I> v = Inr s"
  shows "schedule_ok \<I> s"
proof -
  from assms obtain ds days a b where
    days: "collect_days ds [] = Some days" "ds \<noteq> []" and
    s: "sch_days s = sort days" "intl_zone \<I> (sch_timezone s)"
      "timeToMinutes (sch_start s) = Some a" "timeToMinutes (sch_end s) = Some b" "a < b"
    by (auto simp: validateSchedule_def isValidTimeZone_def not_le split: js.splits if_splits option.splits)
  from collect_days_ok [OF days(1)] have
    r: "distinct days" "\<forall>d \<in> set days. 0 \<le> d \<and> d \<le> 6" "set days = {n. JNum (NInt n) \<in> set ds}"
    by auto
  obtain d ds' where "ds = d # ds'" using days(2) by (cases ds) auto
  with days(1) obtain n where "JNum (NInt n) \<in> set ds"
    by (auto split: js.splits jnum.splits)
  with r(3) have "sort days \<noteq> []" by (metis empty_iff empty_set mem_Collect_eq set_sort)
  with r s show ?thesis by (auto simp: schedule_ok_def)
qed

lemma parse_schedule_json:
  assumes "schedule_ok \<I> s"
  shows "parseSchedule \<I> (schedule_json s) = Some s"
  using assms
  by (auto simp: parseSchedule_def validateSchedule_def schedule_json_def schedule_ok_def field_def
      isValidTimeZone_def collect_days_ints [of _ "[]", simplified] sorted_sort_id)

lemma parseSchedule_ok: "parseSchedule \<I> v = Some s \<Longrightarrow> schedule_ok \<I> s"
  unfolding parseSchedule_def by (auto split: sum.splits dest: validateSchedule_ok)

text \<open>Inside the window means: the local weekday is listed and the local time is in the closed
  interval of the two times.\<close>

lemma isWithinSchedule_iff:
  assumes parts: "read_parts (intl_parts \<I> (sch_timezone s) now) = (w, NInt h, NInt m)"
    and "timeToMinutes (sch_start s) = Some a" and "timeToMinutes (sch_end s) = Some b"
  shows "isWithinSchedule \<I> s now \<longleftrightarrow>
    0 \<le> w \<and> w \<in> set (sch_days s) \<and> int a \<le> h * 60 + m \<and> h * 60 + m \<le> int b"
  using assms by (auto simp: isWithinSchedule_def minutes_of_def in_window_def)

end
