(* ===== verification/Grants.thy ===== *)
theory Grants
  imports Database Schedule
begin

text \<open>
  \<^verbatim>\<open>lib/access/{evaluate,grants,grant-edit,deny-reason}.ts\<close>: the decision whether a user may
  open a site, and the life cycle of the grants it is based on. A grant is created by an
  administrator (effective at once) or by a vendor's request (pending until decided),
  then approved, denied, edited or revoked.
\<close>

section \<open>The decision\<close>

datatype DecisionReason =
    Allow | User_disabled | No_grant | Revoked | Denied | Not_yet | Off_schedule | Expired
  | Pending_approval

record Decision =
  d_allow :: bool
  d_reason :: DecisionReason

text \<open>The two entries that the source's table lacks are never looked up.\<close>

fun DENY_PRIORITY :: "DecisionReason \<Rightarrow> nat" where
  "DENY_PRIORITY Pending_approval = 5"
| "DENY_PRIORITY Not_yet = 4"
| "DENY_PRIORITY Off_schedule = 3"
| "DENY_PRIORITY Expired = 2"
| "DENY_PRIORITY Revoked = 1"
| "DENY_PRIORITY Denied = 1"
| "DENY_PRIORITY _ = 0"

definition is_before :: "instant \<Rightarrow> instant option \<Rightarrow> bool" where
  "is_before now t = (case t of None \<Rightarrow> False | Some v \<Rightarrow> now < v)"

definition is_after :: "instant \<Rightarrow> instant option \<Rightarrow> bool" where
  "is_after now t = (case t of None \<Rightarrow> False | Some v \<Rightarrow> now > v)"

definition off_schedule :: "intl \<Rightarrow> js \<Rightarrow> instant \<Rightarrow> bool" where
  "off_schedule \<I> sch now =
     (if sch = JNull \<or> sch = JUndef then False
      else (case parseSchedule \<I> sch of None \<Rightarrow> True | Some s \<Rightarrow> \<not> isWithinSchedule \<I> s now))"

definition classifyGrant :: "intl \<Rightarrow> AccessGrant \<Rightarrow> instant \<Rightarrow> DecisionReason" where
  "classifyGrant \<I> g now =
     (if g_status g = GrantStatus.REVOKED then Revoked
      else if g_status g = GrantStatus.DENIED then Denied
      else if is_before now (g_startsAt g) then Not_yet
      else if is_after now (g_endsAt g) then Expired
      else if g_requiresApproval g \<and> g_approvedAt g = None then Pending_approval
      else if off_schedule \<I> (g_schedule g) now then Off_schedule
      else Allow)"

fun best_reason :: "intl \<Rightarrow> instant \<Rightarrow> DecisionReason option \<Rightarrow> AccessGrant list \<Rightarrow> Decision" where
  "best_reason \<I> now best [] =
     \<lparr>d_allow = False, d_reason = (case best of Some r \<Rightarrow> r | None \<Rightarrow> No_grant)\<rparr>"
| "best_reason \<I> now best (g # gs) =
     (let d = classifyGrant \<I> g now in
      if d = Allow then \<lparr>d_allow = True, d_reason = Allow\<rparr>
      else best_reason \<I> now
             (case best of
                None \<Rightarrow> Some d
              | Some b \<Rightarrow> if DENY_PRIORITY d > DENY_PRIORITY b then Some d else best) gs)"

definition grants_of :: "db \<Rightarrow> ident \<Rightarrow> ident \<Rightarrow> AccessGrant list" where
  "grants_of s uid sid = find_many (\<lambda>g. g_userId g = uid \<and> g_siteId g = sid) (accessGrants s)"

definition evaluateAccess :: "intl \<Rightarrow> db \<Rightarrow> ident \<Rightarrow> ident \<Rightarrow> instant \<Rightarrow> Decision" where
  "evaluateAccess \<I> s uid sid now =
     (case user_by_id s uid of
        None \<Rightarrow> \<lparr>d_allow = False, d_reason = User_disabled\<rparr>
      | Some u \<Rightarrow>
          if u_status u \<noteq> UserStatus.ACTIVE then \<lparr>d_allow = False, d_reason = User_disabled\<rparr>
          else if grants_of s uid sid = [] then \<lparr>d_allow = False, d_reason = No_grant\<rparr>
          else best_reason \<I> now None (grants_of s uid sid))"

section \<open>Grants\<close>

record grant_input =
  gi_userId :: ident
  gi_siteId :: ident
  gi_startsAt :: "instant option"
  gi_endsAt :: "instant option"
  gi_note :: "string option"
  gi_schedule :: "Schedule option"

definition schedule_column :: "Schedule option \<Rightarrow> js" where
  "schedule_column sch = (case sch of None \<Rightarrow> JNull | Some s \<Rightarrow> schedule_json s)"

text \<open>An insert whose foreign keys do not resolve fails with Prisma's \<^verbatim>\<open>P2003\<close>.\<close>

definition grant_keys_ok :: "db \<Rightarrow> AccessGrant \<Rightarrow> bool" where
  "grant_keys_ok s g \<longleftrightarrow>
     user_by_id s (g_userId g) \<noteq> None \<and> site_by_id s (g_siteId g) \<noteq> None \<and>
     (case g_createdById g of None \<Rightarrow> True | Some c \<Rightarrow> user_by_id s c \<noteq> None)"

definition insert_grant :: "AccessGrant \<Rightarrow> db \<Rightarrow> db \<times> (string + ident)" where
  "insert_grant g s =
     (if grant_keys_ok s g
      then (s\<lparr>accessGrants := insert_row g (accessGrants s)\<rparr>, Inr (g_id g))
      else (s, Inl ''P2003''))"

definition createGrant ::
  "ident \<Rightarrow> instant \<Rightarrow> grant_input \<Rightarrow> ident \<Rightarrow> db \<Rightarrow> db \<times> (string + ident)" where
  "createGrant nid now i createdById s =
     insert_grant
       \<lparr>g_id = nid, g_userId = gi_userId i, g_siteId = gi_siteId i, g_startsAt = gi_startsAt i,
        g_endsAt = gi_endsAt i, g_status = GrantStatus.ACTIVE, g_note = gi_note i,
        g_denyReason = None, g_requiresApproval = False, g_approvedAt = None,
        g_approvedById = None, g_schedule = schedule_column (gi_schedule i),
        g_createdById = Some createdById, g_createdAt = now, g_directoryManaged = False\<rparr> s"

definition order_desc :: "('a \<Rightarrow> instant) \<Rightarrow> 'a list \<Rightarrow> 'a list" where
  "order_desc f t = sort_key (\<lambda>r. - f r) t"

definition with_user_and_site ::
  "db \<Rightarrow> AccessGrant \<Rightarrow> AccessGrant \<times> User option \<times> Site option" where
  "with_user_and_site s g = (g, user_by_id s (g_userId g), site_by_id s (g_siteId g))"

definition listGrants :: "db \<Rightarrow> (AccessGrant \<times> User option \<times> Site option) list" where
  "listGrants s = map (with_user_and_site s) (order_desc g_createdAt (accessGrants s))"

definition revokeGrant :: "ident \<Rightarrow> db \<Rightarrow> db" where
  "revokeGrant i s =
     s\<lparr>accessGrants :=
        update_many (\<lambda>g. g_id g = i) (\<lambda>g. g\<lparr>g_status := GrantStatus.REVOKED\<rparr>) (accessGrants s)\<rparr>"

definition listUserGrants :: "ident \<Rightarrow> db \<Rightarrow> AccessGrant list" where
  "listUserGrants uid s =
     order_desc g_createdAt (find_many (\<lambda>g. g_userId g = uid) (accessGrants s))"

definition PENDING_WHERE :: "AccessGrant \<Rightarrow> bool" where
  "PENDING_WHERE g \<longleftrightarrow>
     g_status g = GrantStatus.ACTIVE \<and> g_requiresApproval g \<and> g_approvedAt g = None"

text \<open>Returns \<open>Inr\<close> the id, \<open>Inl ''request_pending''\<close>, or \<open>Inl ''P2003''\<close> for a dangling key.\<close>

definition createAccessRequest ::
  "ident \<Rightarrow> instant \<Rightarrow> grant_input \<Rightarrow> db \<Rightarrow> db \<times> (string + ident)" where
  "createAccessRequest nid now i s =
     (case find_first (\<lambda>g. g_userId g = gi_userId i \<and> g_siteId g = gi_siteId i \<and> PENDING_WHERE g)
             (accessGrants s) of
        Some _ \<Rightarrow> (s, Inl ''request_pending'')
      | None \<Rightarrow>
          insert_grant
            \<lparr>g_id = nid, g_userId = gi_userId i, g_siteId = gi_siteId i,
             g_startsAt = gi_startsAt i, g_endsAt = gi_endsAt i, g_status = GrantStatus.ACTIVE,
             g_note = gi_note i, g_denyReason = None, g_requiresApproval = True,
             g_approvedAt = None, g_approvedById = None,
             g_schedule = schedule_column (gi_schedule i), g_createdById = Some (gi_userId i),
             g_createdAt = now, g_directoryManaged = False\<rparr> s)"

definition listSitesForRequest :: "intl \<Rightarrow> ident \<Rightarrow> instant \<Rightarrow> db \<Rightarrow> Site list" where
  "listSitesForRequest \<I> uid now s =
     (let all = sort_key site_name (sites s);
          held = map g_siteId
            (filter (\<lambda>g. classifyGrant \<I> g now \<notin> {Revoked, Denied, Expired}) (listUserGrants uid s))
      in filter (\<lambda>r. site_id r \<notin> set held) all)"

definition listPendingGrants :: "db \<Rightarrow> (AccessGrant \<times> User option \<times> Site option) list" where
  "listPendingGrants s =
     map (with_user_and_site s) (sort_key g_createdAt (find_many PENDING_WHERE (accessGrants s)))"

definition countPendingGrants :: "db \<Rightarrow> nat" where
  "countPendingGrants s = count_rows PENDING_WHERE (accessGrants s)"

datatype grant_decision = Approve | Deny

definition decision_data ::
  "grant_decision \<Rightarrow> ident \<Rightarrow> string option \<Rightarrow> instant \<Rightarrow> AccessGrant \<Rightarrow> AccessGrant" where
  "decision_data d adminId reason now g =
     (case d of
        Approve \<Rightarrow> g\<lparr>g_approvedAt := Some now, g_approvedById := Some adminId\<rparr>
      | Deny \<Rightarrow> g\<lparr>g_status := GrantStatus.DENIED, g_approvedAt := Some now,
                 g_approvedById := Some adminId, g_denyReason := reason\<rparr>)"

definition decideGrant ::
  "ident \<Rightarrow> grant_decision \<Rightarrow> ident \<Rightarrow> string option \<Rightarrow> instant \<Rightarrow> db \<Rightarrow> db \<times> nat" where
  "decideGrant i d adminId reason now s =
     (let p = (\<lambda>g. g_id g = i \<and> PENDING_WHERE g) in
      (s\<lparr>accessGrants := update_many p (decision_data d adminId reason now) (accessGrants s)\<rparr>,
       count_rows p (accessGrants s)))"

definition listUserRequests :: "ident \<Rightarrow> db \<Rightarrow> (AccessGrant \<times> Site option) list" where
  "listUserRequests uid s =
     map (\<lambda>g. (g, site_by_id s (g_siteId g)))
       (order_desc g_createdAt
         (find_many (\<lambda>g. g_userId g = uid \<and> g_requiresApproval g) (accessGrants s)))"

definition normalizeDenyReason :: "js \<Rightarrow> string option" where
  "normalizeDenyReason raw =
     (case raw of
        JStr r \<Rightarrow> (let t = trim r in if t = [] then None else Some (take 500 t))
      | _ \<Rightarrow> None)"

section \<open>Editing a grant\<close>

text \<open>\<open>None\<close> for the first argument is an invalid \<^verbatim>\<open>Date\<close> (its time is \<^verbatim>\<open>NaN\<close>).\<close>

definition grantEndsAtError ::
  "instant option \<Rightarrow> instant option \<Rightarrow> instant \<Rightarrow> string option" where
  "grantEndsAtError endsAt startsAt now =
     (case endsAt of
        None \<Rightarrow> Some ''invalid_ends_at''
      | Some e \<Rightarrow>
          if e \<le> now then Some ''ends_at_in_past''
          else (case startsAt of
                  Some st \<Rightarrow> if e \<le> st then Some ''ends_at_before_start'' else None
                | None \<Rightarrow> None))"

definition grantCapError ::
  "instant option \<Rightarrow> instant option \<Rightarrow> instant \<Rightarrow> int \<Rightarrow> string option" where
  "grantCapError startsAt endsAt now maxGrantDays =
     (if maxGrantDays \<le> 0 then None
      else (case endsAt of
              None \<Rightarrow> Some ''grant_requires_end''
            | Some e \<Rightarrow>
                (let start = (case startsAt of Some t \<Rightarrow> t | None \<Rightarrow> now);
                     maxMs = maxGrantDays * 24 * 60 * 60 * 1000
                 in if e - start > maxMs then Some ''grant_exceeds_max'' else None)))"

section \<open>The decision is sound and complete\<close>

lemma classifyGrant_allow_iff:
  "classifyGrant \<I> g now = Allow \<longleftrightarrow>
     g_status g = GrantStatus.ACTIVE \<and> \<not> is_before now (g_startsAt g) \<and> \<not> is_after now (g_endsAt g) \<and>
     (g_requiresApproval g \<longrightarrow> g_approvedAt g \<noteq> None) \<and> \<not> off_schedule \<I> (g_schedule g) now"
  by (cases "g_status g") (auto simp: classifyGrant_def)

lemma classifyGrant_priority:
  "classifyGrant \<I> g now \<noteq> Allow \<Longrightarrow>
     0 < DENY_PRIORITY (classifyGrant \<I> g now) \<and> classifyGrant \<I> g now \<notin> {No_grant, User_disabled}"
  by (auto simp: classifyGrant_def split: if_splits)

lemma best_reason_allow_iff:
  "d_allow (best_reason \<I> now best gs) \<longleftrightarrow> (\<exists>g \<in> set gs. classifyGrant \<I> g now = Allow)"
  by (induction gs arbitrary: best) (auto simp: Let_def)

lemma best_reason_allow_reason:
  "d_allow (best_reason \<I> now best gs) \<Longrightarrow> d_reason (best_reason \<I> now best gs) = Allow"
  by (induction gs arbitrary: best) (auto simp: Let_def split: if_splits)

lemma best_reason_deny:
  assumes "\<forall>g \<in> set gs. classifyGrant \<I> g now \<noteq> Allow" and "gs \<noteq> [] \<or> best \<noteq> None"
  shows "let r = d_reason (best_reason \<I> now best gs) in
    r \<in> (\<lambda>g. classifyGrant \<I> g now) ` set gs \<union> set_option best \<and>
    (\<forall>r' \<in> (\<lambda>g. classifyGrant \<I> g now) ` set gs \<union> set_option best.
       DENY_PRIORITY r' \<le> DENY_PRIORITY r)"
  using assms
proof (induction gs arbitrary: best)
  case Nil
  then show ?case by auto
next
  case (Cons g gs)
  let ?c = "classifyGrant \<I> g now"
  show ?case
  proof (cases best)
    case None
    with Cons.IH [of "Some ?c"] Cons.prems show ?thesis by (simp add: Let_def)
  next
    case (Some b)
    show ?thesis
    proof (cases "DENY_PRIORITY ?c > DENY_PRIORITY b")
      case True
      with Cons.IH [of "Some ?c"] Cons.prems Some show ?thesis
        by (simp add: Let_def)
    next
      case False
      with Cons.IH [of "Some b"] Cons.prems Some show ?thesis
        by (simp add: Let_def) (meson leI order_trans)
    qed
  qed
qed

lemma evaluateAccess_allow_iff:
  "d_allow (evaluateAccess \<I> s uid sid now) \<longleftrightarrow>
     (\<exists>u. user_by_id s uid = Some u \<and> u_status u = UserStatus.ACTIVE) \<and>
     (\<exists>g \<in> set (accessGrants s). g_userId g = uid \<and> g_siteId g = sid \<and>
        classifyGrant \<I> g now = Allow)"
  by (auto simp: evaluateAccess_def grants_of_def find_many_def best_reason_allow_iff
      filter_empty_conv split: option.splits)

lemma evaluateAccess_reason_allow:
  "d_reason (evaluateAccess \<I> s uid sid now) = Allow \<longleftrightarrow> d_allow (evaluateAccess \<I> s uid sid now)"
proof -
  have "d_reason (best_reason \<I> now None gs) \<noteq> Allow"
    if "\<not> d_allow (best_reason \<I> now None gs)" "gs \<noteq> []" for gs
    using that best_reason_deny [of gs \<I> now None] by (auto simp: best_reason_allow_iff Let_def)
  then show ?thesis
    using best_reason_allow_reason
    by (fastforce simp: evaluateAccess_def split: option.splits)
qed

lemma evaluateAccess_deny_reason:
  assumes "user_by_id s uid = Some u" "u_status u = UserStatus.ACTIVE"
    and "grants_of s uid sid \<noteq> []" and "\<not> d_allow (evaluateAccess \<I> s uid sid now)"
  shows "\<exists>g \<in> set (grants_of s uid sid).
    d_reason (evaluateAccess \<I> s uid sid now) = classifyGrant \<I> g now \<and>
    (\<forall>h \<in> set (grants_of s uid sid).
       DENY_PRIORITY (classifyGrant \<I> h now) \<le> DENY_PRIORITY (classifyGrant \<I> g now))"
proof -
  from assms have e: "evaluateAccess \<I> s uid sid now = best_reason \<I> now None (grants_of s uid sid)"
    by (simp add: evaluateAccess_def)
  with assms(4) have "\<forall>g \<in> set (grants_of s uid sid). classifyGrant \<I> g now \<noteq> Allow"
    by (simp add: best_reason_allow_iff)
  from best_reason_deny [OF this, of None] assms(3) e show ?thesis by (auto simp: Let_def)
qed

section \<open>Life cycle of a grant\<close>

text \<open>At most one undecided request per user and site.\<close>

definition one_pending :: "AccessGrant list \<Rightarrow> bool" where
  "one_pending t \<longleftrightarrow>
     (\<forall>u r. count_rows (\<lambda>g. g_userId g = u \<and> g_siteId g = r \<and> PENDING_WHERE g) t \<le> 1)"

lemma one_pending_update:
  assumes "one_pending t"
    and "\<And>g. q g \<Longrightarrow> PENDING_WHERE (f g) \<Longrightarrow>
      PENDING_WHERE g \<and> g_userId (f g) = g_userId g \<and> g_siteId (f g) = g_siteId g"
  shows "one_pending (update_many q f t)"
  unfolding one_pending_def
proof (intro allI)
  fix u r
  let ?p = "\<lambda>g. g_userId g = u \<and> g_siteId g = r \<and> PENDING_WHERE g"
  have "count_rows ?p (update_many q f t) \<le> count_rows ?p t"
    using assms(2) by (intro count_rows_update_many_le) metis
  also have "\<dots> \<le> 1" using assms(1) by (simp add: one_pending_def)
  finally show "count_rows ?p (update_many q f t) \<le> 1" .
qed

lemma one_pending_delete:
  assumes "one_pending t"
  shows "one_pending (delete_many q t)"
  unfolding one_pending_def count_rows_delete_many
proof (intro allI)
  fix u r
  have "count_rows (\<lambda>g. (g_userId g = u \<and> g_siteId g = r \<and> PENDING_WHERE g) \<and> \<not> q g) t
      \<le> count_rows (\<lambda>g. g_userId g = u \<and> g_siteId g = r \<and> PENDING_WHERE g) t"
    by (rule count_rows_mono) simp
  also have "\<dots> \<le> 1" using assms by (simp add: one_pending_def)
  finally show "count_rows (\<lambda>g. (g_userId g = u \<and> g_siteId g = r \<and> PENDING_WHERE g) \<and> \<not> q g) t \<le> 1" .
qed

lemma one_pending_insert:
  assumes "one_pending t"
    and "PENDING_WHERE g \<Longrightarrow>
      \<forall>h \<in> set t. \<not> (g_userId h = g_userId g \<and> g_siteId h = g_siteId g \<and> PENDING_WHERE h)"
  shows "one_pending (insert_row g t)"
  unfolding one_pending_def count_rows_insert_row
proof (intro allI)
  fix u r
  let ?p = "\<lambda>g. g_userId g = u \<and> g_siteId g = r \<and> PENDING_WHERE g"
  have "count_rows ?p t \<le> 1" using assms(1) by (simp add: one_pending_def)
  moreover have "count_rows ?p t = 0" if "?p g" using that assms(2) by (auto simp: count_rows_0)
  ultimately show "count_rows ?p t + (if ?p g then 1 else 0) \<le> 1" by auto
qed

lemma createGrant_grants:
  assumes "createGrant nid now i c s = (s', r)"
  shows "accessGrants s' = accessGrants s \<or>
    (\<exists>g. accessGrants s' = insert_row g (accessGrants s) \<and> g_id g = nid \<and> \<not> PENDING_WHERE g)"
  using assms by (auto simp: createGrant_def insert_grant_def PENDING_WHERE_def split: if_splits)

lemma createAccessRequest_grants:
  assumes "createAccessRequest nid now i s = (s', r)"
  shows "accessGrants s' = accessGrants s \<or>
    (\<exists>g. accessGrants s' = insert_row g (accessGrants s) \<and> g_id g = nid \<and> PENDING_WHERE g \<and>
      (\<forall>h \<in> set (accessGrants s).
        \<not> (g_userId h = g_userId g \<and> g_siteId h = g_siteId g \<and> PENDING_WHERE h)))"
  using assms
  by (auto simp: createAccessRequest_def insert_grant_def PENDING_WHERE_def find_first_None
      split: if_splits option.splits)

lemma decision_data_simps [simp]:
  "g_id (decision_data d a r now g) = g_id g"
  "g_userId (decision_data d a r now g) = g_userId g"
  "g_siteId (decision_data d a r now g) = g_siteId g"
  "g_requiresApproval (decision_data d a r now g) = g_requiresApproval g"
  "g_approvedAt (decision_data d a r now g) = Some now"
  "g_approvedById (decision_data d a r now g) = Some a"
  "g_startsAt (decision_data d a r now g) = g_startsAt g"
  "g_endsAt (decision_data d a r now g) = g_endsAt g"
  "g_schedule (decision_data d a r now g) = g_schedule g"
  by (simp_all add: decision_data_def split: grant_decision.splits)

lemma decision_data_not_pending [simp]: "\<not> PENDING_WHERE (decision_data d a r now g)"
  by (simp add: PENDING_WHERE_def)

section \<open>Properties\<close>

text \<open>Rows that the examples below share: an active vendor, a site, and a grant.\<close>

definition ex_user :: User where
  "ex_user =
     \<lparr>u_id = ''u1'', u_email = ''v@example.com'', u_name = ''V'', u_phone = None, u_company = None,
      u_timezone = None, u_role = VENDOR, u_status = UserStatus.ACTIVE, u_createdAt = 0,
      u_directoryManaged = False, u_directoryLastVerifiedAt = None, u_centerRole = None\<rparr>"

definition ex_site :: Site where
  "ex_site =
     \<lparr>site_id = ''s1'', site_connectorId = ''c1'', site_name = ''HMI'', site_hostname = None,
      site_customDomain = False, site_domainVerifiedAt = None, site_upstreamUrl = None,
      site_insecureSkipVerify = False, site_description = None, site_probedAt = None,
      site_probeOk = None, site_probeDetail = None, site_probeLatencyMs = None,
      site_recordSessions = False, site_keystrokeLogging = False, site_clipboardMode = None,
      site_watermark = None, site_fileTransferMode = ''none'', site_accessMode = GATEWAY,
      site_logo = None, site_createdAt = 0\<rparr>"

definition ex_grant :: AccessGrant where
  "ex_grant =
     \<lparr>g_id = ''g1'', g_userId = ''u1'', g_siteId = ''s1'', g_startsAt = None, g_endsAt = Some 1000,
      g_status = GrantStatus.ACTIVE, g_note = None, g_denyReason = None, g_requiresApproval = True,
      g_approvedAt = None, g_approvedById = None, g_schedule = JNull, g_createdById = Some ''u1'',
      g_createdAt = 0, g_directoryManaged = False\<rparr>"

definition ex_db :: db where
  "ex_db = empty_db\<lparr>users := [ex_user], sites := [ex_site], accessGrants := [ex_grant]\<rparr>"

definition ex_intl :: intl where
  "ex_intl = \<lparr>intl_zone = (\<lambda>z. z = ''UTC''),
     intl_parts = (\<lambda>z t. [(''weekday'', ''Mon''), (''hour'', ''09''), (''minute'', ''30'')])\<rparr>"

lemmas ex_defs = ex_user_def ex_site_def ex_grant_def ex_db_def empty_db_def

text \<open>C1: a user is let through to a site exactly when the account exists and is active and one
  of its grants for the site is active, inside its start and end, approved if it needs approval,
  and not outside its schedule.\<close>

theorem access_allow_iff:
  "d_allow (evaluateAccess \<I> s uid sid now) \<longleftrightarrow>
     (\<exists>u. user_by_id s uid = Some u \<and> u_status u = UserStatus.ACTIVE) \<and>
     (\<exists>g \<in> set (accessGrants s). g_userId g = uid \<and> g_siteId g = sid \<and>
        g_status g = GrantStatus.ACTIVE \<and>
        \<not> is_before now (g_startsAt g) \<and> \<not> is_after now (g_endsAt g) \<and>
        \<not> (g_requiresApproval g \<and> g_approvedAt g = None) \<and>
        \<not> off_schedule \<I> (g_schedule g) now)"
  by (auto simp: evaluateAccess_allow_iff classifyGrant_allow_iff)

text \<open>A refusal of an active user with grants is explained by a grant of that user for that
  site, and by one whose reason has the highest priority among them.\<close>

theorem access_deny_reason:
  assumes "user_by_id s uid = Some u" and "u_status u = UserStatus.ACTIVE"
    and "grants_of s uid sid \<noteq> []" and "\<not> d_allow (evaluateAccess \<I> s uid sid now)"
  shows "\<exists>g \<in> set (grants_of s uid sid).
    d_reason (evaluateAccess \<I> s uid sid now) = classifyGrant \<I> g now \<and>
    DENY_PRIORITY (classifyGrant \<I> g now) =
      Max ((\<lambda>h. DENY_PRIORITY (classifyGrant \<I> h now)) ` set (grants_of s uid sid))"
proof -
  from evaluateAccess_deny_reason [OF assms] obtain g where
    g: "g \<in> set (grants_of s uid sid)" "d_reason (evaluateAccess \<I> s uid sid now) = classifyGrant \<I> g now"
    "\<forall>h \<in> set (grants_of s uid sid).
       DENY_PRIORITY (classifyGrant \<I> h now) \<le> DENY_PRIORITY (classifyGrant \<I> g now)" by blast
  then have "Max ((\<lambda>h. DENY_PRIORITY (classifyGrant \<I> h now)) ` set (grants_of s uid sid))
      = DENY_PRIORITY (classifyGrant \<I> g now)"
    by (intro Max_eqI) auto
  with g show ?thesis by metis
qed

theorem access_deny_reason_witness:
  "d_reason (evaluateAccess ex_intl ex_db ''u1'' ''s1'' 500) = Pending_approval"
proof -
  have "user_by_id ex_db ''u1'' = Some ex_user" "u_status ex_user = UserStatus.ACTIVE"
    "grants_of ex_db ''u1'' ''s1'' = [ex_grant]" "classifyGrant ex_intl ex_grant 500 = Pending_approval"
    "\<not> d_allow (evaluateAccess ex_intl ex_db ''u1'' ''s1'' 500)"
    by (simp_all add: ex_defs user_by_id_def find_first_def grants_of_def find_many_def
        classifyGrant_def is_before_def is_after_def evaluateAccess_def)
  with access_deny_reason [of ex_db "''u1''" ex_user "''s1''" ex_intl 500] show ?thesis by auto
qed

text \<open>The order in which the database returns the grants does not matter: permuted tables
  give the same answer, and a refusal the same priority (only revoked and denied share one).\<close>

theorem access_order_independent:
  assumes "mset (accessGrants s) = mset (accessGrants s')" and "users s = users s'"
  shows "d_allow (evaluateAccess \<I> s uid sid now) = d_allow (evaluateAccess \<I> s' uid sid now) \<and>
    DENY_PRIORITY (d_reason (evaluateAccess \<I> s uid sid now)) =
      DENY_PRIORITY (d_reason (evaluateAccess \<I> s' uid sid now))"
proof -
  have sets: "set (accessGrants s) = set (accessGrants s')" using assms(1) by (rule mset_eq_setD)
  have user: "user_by_id s uid = user_by_id s' uid" using assms(2) by (simp add: user_by_id_def)
  have grants: "set (grants_of s uid sid) = set (grants_of s' uid sid)"
    using sets by (simp add: grants_of_def)
  have allow: "d_allow (evaluateAccess \<I> s uid sid now) = d_allow (evaluateAccess \<I> s' uid sid now)"
    by (simp add: evaluateAccess_allow_iff user sets)
  show ?thesis
  proof (cases "d_allow (evaluateAccess \<I> s uid sid now) \<or> grants_of s uid sid = [] \<or>
      (\<forall>u. user_by_id s uid = Some u \<longrightarrow> u_status u \<noteq> UserStatus.ACTIVE)")
    case True
    with allow grants user show ?thesis
      by (auto simp: evaluateAccess_reason_allow [symmetric])
        (auto simp: evaluateAccess_def split: option.splits)
  next
    case False
    then obtain u where u: "user_by_id s uid = Some u" "u_status u = UserStatus.ACTIVE"
      "grants_of s uid sid \<noteq> []" "\<not> d_allow (evaluateAccess \<I> s uid sid now)" by auto
    with user grants allow have u': "user_by_id s' uid = Some u" "grants_of s' uid sid \<noteq> []"
      "\<not> d_allow (evaluateAccess \<I> s' uid sid now)" by auto
    from evaluateAccess_deny_reason [OF u] evaluateAccess_deny_reason [OF u'(1) u(2) u'(2,3)] grants
    have "DENY_PRIORITY (d_reason (evaluateAccess \<I> s uid sid now)) =
        DENY_PRIORITY (d_reason (evaluateAccess \<I> s' uid sid now))"
      by (metis le_antisym)
    with allow show ?thesis by simp
  qed
qed

theorem access_order_independent_witness:
  "d_allow (evaluateAccess ex_intl (ex_db\<lparr>accessGrants := [ex_grant, ex_grant\<lparr>g_approvedAt := Some 1\<rparr>]\<rparr>)
     ''u1'' ''s1'' 500) =
   d_allow (evaluateAccess ex_intl (ex_db\<lparr>accessGrants := [ex_grant\<lparr>g_approvedAt := Some 1\<rparr>, ex_grant]\<rparr>)
     ''u1'' ''s1'' 500)"
  using access_order_independent
    [of "ex_db\<lparr>accessGrants := [ex_grant, ex_grant\<lparr>g_approvedAt := Some 1\<rparr>]\<rparr>"
      "ex_db\<lparr>accessGrants := [ex_grant\<lparr>g_approvedAt := Some 1\<rparr>, ex_grant]\<rparr>" ex_intl "''u1''" "''s1''" 500]
  by simp

text \<open>C2: a schedule that passed validation is stored, read back and enforced: the grant is
  off schedule exactly outside the window; a column that does not parse never lets anyone in.\<close>

theorem stored_schedule_enforced:
  assumes "validateSchedule \<I> v = Inr sch"
    and "validateSchedule \<I> w = Inl e" and "w \<noteq> JNull" and "w \<noteq> JUndef"
  shows "off_schedule \<I> (schedule_column (Some sch)) now = (\<not> isWithinSchedule \<I> sch now) \<and>
    classifyGrant \<I> (g\<lparr>g_schedule := w\<rparr>) now \<noteq> Allow"
proof -
  have "parseSchedule \<I> (schedule_json sch) = Some sch"
    using assms(1) validateSchedule_ok parse_schedule_json by blast
  then have "off_schedule \<I> (schedule_column (Some sch)) now = (\<not> isWithinSchedule \<I> sch now)"
    by (simp add: off_schedule_def schedule_column_def schedule_json_def)
  moreover have "off_schedule \<I> w now" using assms(2-4) by (simp add: off_schedule_def parseSchedule_def)
  ultimately show ?thesis by (simp add: classifyGrant_allow_iff)
qed

theorem stored_schedule_enforced_witness:
  "off_schedule ex_intl (schedule_column (Some
     \<lparr>sch_timezone = ''UTC'', sch_days = [1], sch_start = ''09:00'', sch_end = ''17:00''\<rparr>)) 0 = False \<and>
   classifyGrant ex_intl (ex_grant\<lparr>g_schedule := JObj []\<rparr>) 500 \<noteq> Allow"
proof -
  let ?sch = "\<lparr>sch_timezone = ''UTC'', sch_days = [1], sch_start = ''09:00'', sch_end = ''17:00''\<rparr>"
  have v: "validateSchedule ex_intl (JObj [(''timezone'', JStr ''UTC''), (''days'', JArr [JNum (NInt 1)]),
      (''start'', JStr ''09:00''), (''end'', JStr ''17:00'')]) = Inr ?sch"
    by code_simp
  have w: "validateSchedule ex_intl (JObj []) = Inl ''bad_timezone''" by code_simp
  have "isWithinSchedule ex_intl ?sch 0" by code_simp
  with stored_schedule_enforced [OF v w, of 0] stored_schedule_enforced [OF v w, of 500 ex_grant]
  show ?thesis by simp
qed

text \<open>C3: a decision on a request counts once: after any decision of a grant, a second one
  (approve or deny, by anyone) changes nothing and reports no row.\<close>

theorem decided_once:
  "decideGrant i d2 a2 r2 t2 (fst (decideGrant i d1 a1 r1 t1 s)) =
     (fst (decideGrant i d1 a1 r1 t1 s), 0)"
proof -
  let ?p = "\<lambda>g. g_id g = i \<and> PENDING_WHERE g"
  let ?s1 = "fst (decideGrant i d1 a1 r1 t1 s)"
  have s1: "accessGrants ?s1 = update_many ?p (decision_data d1 a1 r1 t1) (accessGrants s)"
    by (simp add: decideGrant_def Let_def)
  have none: "\<forall>g \<in> set (accessGrants ?s1). \<not> ?p g"
    unfolding s1 set_update_many by (intro ballI) (elim UnE imageE; simp)
  have "count_rows ?p (accessGrants ?s1) = 0" using none by (simp add: count_rows_0)
  moreover have "update_many ?p f (accessGrants ?s1) = accessGrants ?s1" for f
    using none by (rule update_many_none)
  ultimately show ?thesis by (simp add: decideGrant_def [of i d2] Let_def)
qed

text \<open>The duration policy accepts a window exactly when there is no cap, or the grant ends and
  its length, from its start or from now, is at most the cap.\<close>

theorem grant_cap_iff:
  "grantCapError st en now days = None \<longleftrightarrow>
     days \<le> 0 \<or>
     (\<exists>e. en = Some e \<and> e \<le> (case st of Some t \<Rightarrow> t | None \<Rightarrow> now) + days * 86400000)"
  by (auto simp: grantCapError_def Let_def split: option.splits)

end
