(* ===== verification/Hash_Chain.thy ===== *)
theory Hash_Chain
  imports Database
begin

text \<open>
  What the two tamper-evidence chains share (\<^verbatim>\<open>lib/audit/chain.ts\<close>, \<^verbatim>\<open>lib/audit/verify.ts\<close>): the hash of
  a row over its predecessor's hash and its canonical text, and the result type of a
  verification. The locale \<open>hash_chain\<close> states what a verifier must satisfy and derives
  what every such chain gives: appending keeps it valid, dropping the tail is noticed,
  and two valid histories under the same head agree on the attested text unless the
  hash function maps two of the hashed texts to one digest.
\<close>

section \<open>Hashing and results\<close>

definition US :: char where
  "US = CHR 0x1F"

definition NL :: char where
  "NL = CHR 0x0A"

definition GENESIS_PREV_HASH :: string where
  "GENESIS_PREV_HASH = []"

definition chainHash :: "(string \<Rightarrow> string) \<Rightarrow> string \<Rightarrow> string \<Rightarrow> string" where
  "chainHash H prevHash canonical = H (prevHash @ NL # canonical)"

datatype break_reason = Hash_mismatch | Prev_hash_mismatch | Head_mismatch

record ChainVerifyResult =
  cv_ok :: bool
  cv_count :: nat
  cv_firstSeq :: "string option"
  cv_lastSeq :: "string option"
  cv_retentionBoundary :: bool
  cv_brokenAtSeq :: "string option"
  cv_reason :: "break_reason option"

section \<open>Linked rows\<close>

definition chained ::
  "(string \<Rightarrow> string) \<Rightarrow> ('e \<Rightarrow> string) \<Rightarrow> ('e \<Rightarrow> string) \<Rightarrow> ('e \<Rightarrow> string) \<Rightarrow> 'e list \<Rightarrow> bool" where
  "chained H canon prev hash es \<longleftrightarrow>
     (\<forall>e \<in> set es. chainHash H (prev e) (canon e) = hash e) \<and>
     successively (\<lambda>a b. prev b = hash a) es"

definition head_matches ::
  "('e \<Rightarrow> int) \<Rightarrow> ('e \<Rightarrow> string) \<Rightarrow> 'e list \<Rightarrow> AuditChainState option \<Rightarrow> bool" where
  "head_matches seq hash es h \<longleftrightarrow>
     (case h of None \<Rightarrow> True
      | Some c \<Rightarrow> seq (last es) = cs_lastSeq c \<and> hash (last es) = cs_lastHash c)"

text \<open>The texts that were hashed for a list of rows.\<close>

definition hashed_texts :: "('e \<Rightarrow> string) \<Rightarrow> ('e \<Rightarrow> string) \<Rightarrow> 'e list \<Rightarrow> string set" where
  "hashed_texts canon prev es = (\<lambda>e. prev e @ NL # canon e) ` set es"

definition collision :: "(string \<Rightarrow> string) \<Rightarrow> string set \<Rightarrow> string set \<Rightarrow> bool" where
  "collision H xs ys \<longleftrightarrow> (\<exists>x \<in> xs. \<exists>y \<in> ys. x \<noteq> y \<and> H x = H y)"

lemma chained_simps:
  "chained H canon prev hash []"
  "chained H canon prev hash [e] \<longleftrightarrow> chainHash H (prev e) (canon e) = hash e"
  "chained H canon prev hash (e # f # es) \<longleftrightarrow>
     chainHash H (prev e) (canon e) = hash e \<and> prev f = hash e \<and> chained H canon prev hash (f # es)"
  by (auto simp: chained_def)

lemma chained_append:
  assumes "chained H canon prev hash es" "chained H canon prev hash fs"
    and "es \<noteq> [] \<Longrightarrow> fs \<noteq> [] \<Longrightarrow> prev (hd fs) = hash (last es)"
  shows "chained H canon prev hash (es @ fs)"
  using assms by (auto simp: chained_def successively_append_iff)

lemma chained_drop: "chained H canon prev hash (es @ fs) \<Longrightarrow> chained H canon prev hash fs"
  by (auto simp: chained_def successively_append_iff)

lemma chained_take: "chained H canon prev hash (es @ fs) \<Longrightarrow> chained H canon prev hash es"
  by (auto simp: chained_def successively_append_iff)

lemma collision_mono: "collision H xs ys \<Longrightarrow> xs \<subseteq> xs' \<Longrightarrow> ys \<subseteq> ys' \<Longrightarrow> collision H xs' ys'"
  by (auto simp: collision_def)

section \<open>The contract of a verifier\<close>

locale hash_chain =
  fixes H :: "string \<Rightarrow> string"
    and canon :: "'e \<Rightarrow> string"
    and seq :: "'e \<Rightarrow> int"
    and prev :: "'e \<Rightarrow> string"
    and hash :: "'e \<Rightarrow> string"
    and clean :: "'e \<Rightarrow> bool"
    and verify :: "'e list \<Rightarrow> AuditChainState option \<Rightarrow> ChainVerifyResult"
  assumes verify_ok_iff:
      "cv_ok (verify es h) \<longleftrightarrow>
         es = [] \<or> (chained H canon prev hash es \<and> head_matches seq hash es h)"
    and canon_split:
      "clean e \<Longrightarrow> clean f \<Longrightarrow> US \<notin> set p \<Longrightarrow> p @ NL # canon e = q @ NL # canon f \<Longrightarrow>
         p = q \<and> canon e = canon f"
begin

lemma append_verifies:
  assumes "cv_ok (verify es (Some h))" and "chained H canon prev hash fs" and "fs \<noteq> []"
    and "prev (hd fs) = cs_lastHash h"
  shows "cv_ok (verify (es @ fs) (Some \<lparr>cs_lastSeq = seq (last fs), cs_lastHash = hash (last fs)\<rparr>))"
  using assms by (auto simp: verify_ok_iff head_matches_def intro: chained_append)

lemma truncation_noticed:
  assumes "cv_ok (verify (es @ fs) (Some h))" and "es \<noteq> []" and "fs \<noteq> []"
    and "sorted_wrt (<) (map seq (es @ fs))"
  shows "\<not> cv_ok (verify es (Some h))"
proof -
  have "seq (last (es @ fs)) = cs_lastSeq h"
    using assms(1,2) by (simp add: verify_ok_iff head_matches_def)
  moreover have "seq (last es) < seq (last fs)"
    using assms(2-4) by (simp add: sorted_wrt_append)
  ultimately show ?thesis using assms(2,3) by (simp add: verify_ok_iff head_matches_def)
qed

text \<open>Comparing two chains from the end: the induction runs over the common length.\<close>

lemma same_tail:
  assumes "chained H canon prev hash es" and "chained H canon prev hash fs"
    and "length es = length fs" and "es \<noteq> []" and "hash (last es) = hash (last fs)"
    and "\<forall>e \<in> set es. clean e" and "\<forall>f \<in> set fs. clean f"
    and "US \<notin> set (prev (hd es))" and "\<And>x. US \<notin> set (H x)"
  shows "map canon es = map canon fs \<and> prev (hd es) = prev (hd fs) \<or>
    collision H (hashed_texts canon prev es) (hashed_texts canon prev fs)"
  using assms
proof (induction es arbitrary: fs rule: rev_induct)
  case Nil
  then show ?case by simp
next
  case (snoc e es)
  from snoc.prems(3) obtain fs' f where fs: "fs = fs' @ [f]" and len: "length es = length fs'"
    by (cases fs rule: rev_cases) auto
  have he: "H (prev e @ NL # canon e) = hash e" and hf: "H (prev f @ NL # canon f) = hash f"
    using snoc.prems(1,2) fs by (auto simp: chained_def chainHash_def)
  show ?case
  proof (cases "prev e @ NL # canon e = prev f @ NL # canon f")
    case False
    with he hf snoc.prems(5) have "collision H (hashed_texts canon prev (es @ [e])) (hashed_texts canon prev fs)"
      unfolding collision_def hashed_texts_def fs by (metis (no_types, lifting) image_eqI last_in_set last_snoc snoc_eq_iff_butlast)
    then show ?thesis ..
  next
    case True
    have clean_prev: "US \<notin> set (prev e)"
    proof (cases "es = []")
      case False
      then have "prev e = hash (last es)"
        using snoc.prems(1) by (simp add: chained_def successively_append_iff)
      moreover have "hash (last es) = H (prev (last es) @ NL # canon (last es))"
        using False snoc.prems(1) by (auto simp: chained_def chainHash_def)
      ultimately show ?thesis using snoc.prems(9) by simp
    qed (use snoc.prems(8) in simp)
    from canon_split [OF _ _ clean_prev True] snoc.prems(6,7) fs
    have ef: "prev e = prev f" "canon e = canon f" by auto
    show ?thesis
    proof (cases "es = []")
      case True
      with ef len fs show ?thesis by simp
    next
      case False
      with len have "fs' \<noteq> []" by auto
      with False snoc.prems(1,2) fs ef(1) have last_eq: "hash (last es) = hash (last fs')"
        by (simp add: chained_def successively_append_iff)
      have "map canon es = map canon fs' \<and> prev (hd es) = prev (hd fs') \<or>
          collision H (hashed_texts canon prev es) (hashed_texts canon prev fs')"
        by (rule snoc.IH)
          (use snoc.prems False fs len last_eq chained_take in \<open>auto simp: hd_append\<close>)
      then show ?thesis
      proof
        assume "map canon es = map canon fs' \<and> prev (hd es) = prev (hd fs')"
        with ef fs False \<open>fs' \<noteq> []\<close> show ?thesis by (simp add: hd_append)
      next
        assume "collision H (hashed_texts canon prev es) (hashed_texts canon prev fs')"
        then have "collision H (hashed_texts canon prev (es @ [e])) (hashed_texts canon prev fs)"
          by (rule collision_mono) (auto simp: hashed_texts_def fs)
        then show ?thesis ..
      qed
    qed
  qed
qed

text \<open>Two histories that verify under the same head, compared on the rows both still hold.\<close>

lemma same_head_same_history:
  assumes ok: "cv_ok (verify (old @ es) (Some h))" "cv_ok (verify fs (Some h))"
    and len: "length es = length fs" "es \<noteq> []"
    and clean: "\<forall>e \<in> set es. clean e" "\<forall>f \<in> set fs. clean f"
    and us: "US \<notin> set (prev (hd es))" "\<And>x. US \<notin> set (H x)"
  shows "map canon es = map canon fs \<and> prev (hd es) = prev (hd fs) \<or>
    collision H (hashed_texts canon prev es) (hashed_texts canon prev fs)"
proof -
  from len have "fs \<noteq> []" by auto
  with ok len have "chained H canon prev hash es" "chained H canon prev hash fs"
    "hash (last es) = hash (last fs)"
    by (auto simp: verify_ok_iff head_matches_def dest: chained_drop)
  from same_tail [OF this(1,2) len this(3) clean us] show ?thesis .
qed

end

section \<open>Splitting a hashed text\<close>

text \<open>A prefix without separators, a newline and joined fields can be taken apart again.\<close>

lemma count_join_with:
  assumes "\<forall>x \<in> set xs. c \<notin> set x" and "xs \<noteq> []"
  shows "count_list (join_with [c] xs) c = length xs - 1"
  using assms
proof (induction "[c]" xs rule: join_with.induct)
  case (3 x y ys)
  then show ?case by (auto simp: count_list_append)
qed auto

lemma join_with_split:
  assumes "US \<notin> set p" and "xs \<noteq> []" and "length ys = length xs"
    and "\<forall>x \<in> set xs. US \<notin> set x" and "\<forall>y \<in> set ys. US \<notin> set y"
    and "NL \<notin> set (hd xs)" and "NL \<notin> set (hd ys)"
    and eq: "p @ NL # join_with [US] xs = q @ NL # join_with [US] ys"
  shows "p = q \<and> xs = ys"
proof -
  have ys: "ys \<noteq> []" using assms(2,3) by auto
  have un: "US \<noteq> NL" by (simp add: US_def NL_def)
  from eq have "count_list (p @ NL # join_with [US] xs) US = count_list (q @ NL # join_with [US] ys) US"
    by simp
  with assms(1-5) ys un have "count_list q US = 0"
    by (simp add: count_list_append count_join_with)
  then have q: "US \<notin> set q" by (simp add: count_list_0_iff)
  obtain x xs' where xs: "xs = x # xs'" using assms(2) by (cases xs) auto
  obtain y ys' where ysy: "ys = y # ys'" using ys by (cases ys) auto
  have pull: "r @ NL # join_with [US] (z # zs) = join_with [US] ((r @ NL # z) # zs)" for r z zs
    by (cases zs) auto
  from eq have "join_with [US] ((p @ NL # x) # xs') = join_with [US] ((q @ NL # y) # ys')"
    by (simp only: xs ysy pull)
  then have "(p @ NL # x) # xs' = (q @ NL # y) # ys'"
    by (rule join_with_inject [rotated 4]) (use assms q un xs ysy in auto)
  then have "xs' = ys'" "p @ NL # x = q @ NL # y" by simp_all
  moreover from this(2) have "p = q \<and> x = y"
    using assms(6,7) xs ysy by (auto simp: append_eq_append_conv2 Cons_eq_append_conv append_eq_Cons_conv)
  ultimately show ?thesis using xs ysy by simp
qed

end
