(* ===== verification/Clock.thy ===== *)
theory Clock
  imports JsValue
begin

text \<open>
  \<^verbatim>\<open>Date.prototype.toISOString\<close>: the audit chain hashes the ISO form of a timestamp, so
  its injectivity is part of what makes the chain tamper-evident. The Gregorian calendar
  repeats every 400 years (146097 days), which bounds the search for the year.
\<close>

definition leap_year :: "int \<Rightarrow> bool" where
  "leap_year y \<longleftrightarrow> y mod 4 = 0 \<and> (y mod 100 \<noteq> 0 \<or> y mod 400 = 0)"

definition year_length :: "int \<Rightarrow> nat" where
  "year_length y = (if leap_year y then 366 else 365)"

function split_year :: "int \<Rightarrow> nat \<Rightarrow> int \<times> nat" where
  "split_year y d = (if d < year_length y then (y, d) else split_year (y + 1) (d - year_length y))"
  by pat_completeness auto
termination
  by (relation "measure (\<lambda>(y, d). d)") (auto simp: year_length_def)

declare split_year.simps [simp del]

definition month_lengths :: "int \<Rightarrow> nat list" where
  "month_lengths y = [31, if leap_year y then 29 else 28, 31, 30, 31, 30, 31, 31, 30, 31, 30, 31]"

fun split_month :: "nat list \<Rightarrow> nat \<Rightarrow> nat \<Rightarrow> nat \<times> nat" where
  "split_month [] m d = (m, d)"
| "split_month (l # ls) m d = (if d < l then (m, d) else split_month ls (Suc m) (d - l))"

definition year_string :: "int \<Rightarrow> string" where
  "year_string y =
     (if 0 \<le> y \<and> y \<le> 9999 then pad 4 (nat y)
      else (if y < 0 then CHR ''-'' else CHR ''+'') # pad 6 (nat \<bar>y\<bar>))"

definition day_string :: "nat \<times> nat \<Rightarrow> string" where
  "day_string md = CHR ''-'' # pad 2 (fst md) @ CHR ''-'' # pad 2 (Suc (snd md))"

definition time_string :: "nat \<Rightarrow> string" where
  "time_string ms =
     CHR ''T'' # pad 2 (ms div 3600000) @ CHR '':'' # pad 2 (ms div 60000 mod 60) @
     CHR '':'' # pad 2 (ms div 1000 mod 60) @ CHR ''.'' # pad 3 (ms mod 1000) @ ''Z''"

definition year_day :: "instant \<Rightarrow> int \<times> nat" where
  "year_day t =
     (let days = t div 86400000
      in split_year (1970 + 400 * (days div 146097)) (nat (days mod 146097)))"

definition toISOString :: "instant \<Rightarrow> string" where
  "toISOString t =
     (let (y, d) = year_day t
      in year_string y @ day_string (split_month (month_lengths y) 1 d) @
         time_string (nat (t mod 86400000)))"

section \<open>Padded numerals\<close>

lemma undec_zeros: "undec (replicate k CHR ''0'' @ s) = undec s"
proof -
  have z: "foldl (\<lambda>a c. 10 * a + digit_val c) 0 (replicate k CHR ''0'') = 0"
    by (induction k) (auto simp: digit_val_def)
  show ?thesis by (simp add: undec_def foldl_append z)
qed

lemma undec_pad [simp]: "undec (pad k n) = n"
  by (simp add: pad_def undec_zeros)

lemma length_dec:
  assumes "n < 10 ^ k" and "0 < k"
  shows "length (dec n) \<le> k"
  using assms
proof (induction k arbitrary: n)
  case 0
  then show ?case by simp
next
  case (Suc k)
  show ?case
  proof (cases "n < 10")
    case True
    then show ?thesis by (simp add: dec.simps [of n])
  next
    case False
    with Suc.prems have k: "0 < k" by (cases k) auto
    from Suc.prems(1) have "n div 10 < 10 ^ k" by (simp add: div_less_iff_less_mult mult.commute)
    then have "length (dec (n div 10)) \<le> k" using k by (rule Suc.IH)
    with False show ?thesis by (simp add: dec.simps [of n])
  qed
qed

lemma length_pad: "n < 10 ^ k \<Longrightarrow> 0 < k \<Longrightarrow> length (pad k n) = k"
  using length_dec by (simp add: pad_def)

lemma pad_inject [simp]: "pad k m = pad k n \<longleftrightarrow> m = n"
  by (metis undec_pad)

lemma pad_digits: "c \<in> set (pad k n) \<Longrightarrow> is_digit c"
  using digits_dec by (auto simp: pad_def is_digit_def split: if_splits)

lemma pad_not_sign: "c # s = pad k n \<Longrightarrow> is_digit c"
  using pad_digits by (metis list.set_intros(1))

lemma plus_not_digit [simp]: "\<not> is_digit CHR ''+''"
  by (simp add: is_digit_def)

lemma year_string_inject [simp]: "year_string x = year_string y \<longleftrightarrow> x = y"
proof
  assume eq: "year_string x = year_string y"
  have sign: "pad 4 a \<noteq> c # s" if "\<not> is_digit c" for a c s
    using that pad_not_sign by metis
  show "x = y"
  proof (cases "0 \<le> x \<and> x \<le> 9999"; cases "0 \<le> y \<and> y \<le> 9999")
    assume "0 \<le> x \<and> x \<le> 9999" "0 \<le> y \<and> y \<le> 9999"
    with eq show ?thesis by (simp add: year_string_def nat_eq_iff2)
  next
    assume "0 \<le> x \<and> x \<le> 9999" "\<not> (0 \<le> y \<and> y \<le> 9999)"
    with eq show ?thesis using sign by (simp add: year_string_def split: if_splits)
  next
    assume "\<not> (0 \<le> x \<and> x \<le> 9999)" "0 \<le> y \<and> y \<le> 9999"
    with eq [symmetric] show ?thesis using sign by (simp add: year_string_def split: if_splits)
  next
    assume "\<not> (0 \<le> x \<and> x \<le> 9999)" "\<not> (0 \<le> y \<and> y \<le> 9999)"
    with eq have "(x < 0) = (y < 0)" "nat \<bar>x\<bar> = nat \<bar>y\<bar>"
      by (simp_all add: year_string_def split: if_splits)
    then show ?thesis by (cases "x < 0"; cases "y < 0"; linarith)
  qed
qed simp

section \<open>The calendar is injective\<close>

text \<open>Days from the start of year 1 to the start of year \<open>y\<close>, in closed form.\<close>

definition days_to_year :: "int \<Rightarrow> int" where
  "days_to_year y = 365 * y + (y - 1) div 4 - (y - 1) div 100 + (y - 1) div 400"

lemma div_step:
  assumes "(0::int) < k"
  shows "y div k = (y - 1) div k + (if y mod k = 0 then 1 else 0)"
proof -
  have y: "y = k * (y div k) + y mod k" by (rule mult_div_mod_eq [symmetric])
  have bounds: "0 \<le> y mod k" "y mod k < k" using assms by simp_all
  show ?thesis
  proof (cases "y mod k = 0")
    case True
    with y have "y - 1 = k * (y div k - 1) + (k - 1)" by (simp add: right_diff_distrib)
    then have "(y - 1) div k = y div k - 1"
      by (rule int_div_pos_eq) (use assms in simp_all)
    with True show ?thesis by simp
  next
    case False
    from y have "y - 1 = k * (y div k) + (y mod k - 1)" by linarith
    then have "(y - 1) div k = y div k" by (rule int_div_pos_eq) (use False bounds in linarith)+
    with False show ?thesis by simp
  qed
qed

lemma mod_zero_dvd: "b dvd a \<Longrightarrow> y mod a = 0 \<Longrightarrow> y mod b = 0" for y :: int
  by (meson dvd_trans mod_0_imp_dvd mod_eq_0_iff_dvd)

lemma days_to_year_step: "days_to_year (y + 1) = days_to_year y + int (year_length y)"
proof -
  have "y mod 100 \<noteq> 0" if "y mod 4 \<noteq> 0" using that mod_zero_dvd [of 4 100 y] by auto
  moreover have "y mod 400 \<noteq> 0" if "y mod 100 \<noteq> 0" using that mod_zero_dvd [of 100 400 y] by auto
  ultimately have "int (year_length y) = 365 + (if y mod 4 = 0 then 1 else 0)
      - (if y mod 100 = 0 then 1 else 0) + (if y mod 400 = 0 then 1 else 0)"
    by (auto simp: year_length_def leap_year_def)
  then show ?thesis
    unfolding days_to_year_def
    by (simp only: div_step [of 4 y] div_step [of 100 y] div_step [of 400 y] add_diff_cancel_right') simp
qed

lemma days_to_year_cycle: "days_to_year (1970 + 400 * q) = days_to_year 1970 + 146097 * q"
proof -
  have "(1969 + 400 * q) div 4 = 492 + 100 * q" by (rule int_div_pos_eq [of _ 4 _ 1]) simp_all
  moreover have "(1969 + 400 * q) div 100 = 19 + 4 * q"
    by (rule int_div_pos_eq [of _ 100 _ 69]) simp_all
  moreover have "(1969 + 400 * q) div 400 = 4 + q"
    by (rule int_div_pos_eq [of _ 400 _ 369]) simp_all
  ultimately show ?thesis by (simp add: days_to_year_def)
qed

lemma split_year_days:
  "split_year y d = (y', d') \<Longrightarrow> days_to_year y' + int d' = days_to_year y + int d"
proof (induction y d rule: split_year.induct)
  case (1 y d)
  show ?case
  proof (cases "d < year_length y")
    case True
    with "1.prems" show ?thesis by (simp add: split_year.simps [of y d])
  next
    case False
    with "1.prems" have "split_year (y + 1) (d - year_length y) = (y', d')"
      by (simp add: split_year.simps [of y d])
    with "1.IH" [OF False] False show ?thesis by (simp add: days_to_year_step)
  qed
qed

lemma year_day_days:
  assumes "year_day t = (y, d)"
  shows "t div 86400000 = days_to_year y + int d - days_to_year 1970"
proof -
  define n where "n = t div 86400000"
  from assms have "split_year (1970 + 400 * (n div 146097)) (nat (n mod 146097)) = (y, d)"
    by (simp add: year_day_def n_def Let_def)
  from split_year_days [OF this] have
    "days_to_year y + int d = days_to_year 1970 + 146097 * (n div 146097) + n mod 146097"
    by (simp add: days_to_year_cycle)
  moreover have "146097 * (n div 146097) + n mod 146097 = n" by simp
  ultimately show ?thesis unfolding n_def [symmetric] by linarith
qed

lemma split_month_days:
  "split_month ls m d = (m', d') \<Longrightarrow> m \<le> m' \<and> d = sum_list (take (m' - m) ls) + d'"
proof (induction ls m d rule: split_month.induct)
  case (1 m d)
  then show ?case by simp
next
  case (2 l ls m d)
  show ?case
  proof (cases "d < l")
    case True
    with "2.prems" show ?thesis by simp
  next
    case False
    with 2 have "Suc m \<le> m'" "d - l = sum_list (take (m' - Suc m) ls) + d'" by auto
    with False show ?thesis by (simp add: take_Cons' Suc_diff_le)
  qed
qed

lemma split_month_inject: "split_month ls m d = split_month ls m e \<Longrightarrow> d = e"
  by (metis split_month_days surj_pair)

lemma split_month_bounds:
  "split_month ls m d = (m', d') \<Longrightarrow> d < sum_list ls \<Longrightarrow>
     m' < m + length ls \<and> (\<exists>l \<in> set ls. d' < l)"
proof (induction ls m d rule: split_month.induct)
  case (1 m d)
  then show ?case by simp
next
  case (2 l ls m d)
  then show ?case by (cases "d < l") auto
qed

lemma split_year_bound: "split_year y d = (y', d') \<Longrightarrow> d' < year_length y'"
proof (induction y d rule: split_year.induct)
  case (1 y d)
  show ?case
  proof (cases "d < year_length y")
    case True
    with "1.prems" show ?thesis by (simp add: split_year.simps [of y d])
  next
    case False
    with "1.prems" have "split_year (y + 1) (d - year_length y) = (y', d')"
      by (simp add: split_year.simps [of y d])
    with "1.IH" [OF False] show ?thesis .
  qed
qed

lemma length_day_string:
  assumes "d < year_length y"
  shows "length (day_string (split_month (month_lengths y) 1 d)) = 6"
proof -
  obtain m e where md: "split_month (month_lengths y) 1 d = (m, e)" by fastforce
  have "d < sum_list (month_lengths y)"
    using assms by (simp add: month_lengths_def year_length_def split: if_splits)
  from split_month_bounds [OF md this] have "m < 100" "Suc e < 100"
    by (auto simp: month_lengths_def split: if_splits)
  then show ?thesis unfolding md by (simp add: day_string_def length_pad)
qed

lemma length_time_string: "ms < 86400000 \<Longrightarrow> length (time_string ms) = 14"
  by (simp add: time_string_def length_pad less_mult_imp_div_less)

lemma day_string_inject:
  assumes "fst a < 100" "fst b < 100" "day_string a = day_string b"
  shows "a = b"
  using assms by (simp add: day_string_def length_pad append_eq_append_conv prod_eq_iff)

lemma time_string_inject:
  assumes "a < 86400000" "b < 86400000" "time_string a = time_string b"
  shows "a = b"
proof -
  have h: "x div 3600000 < 10 ^ 2" if "x < 86400000" for x :: nat
    using that by (simp add: less_mult_imp_div_less)
  have eqs: "a div 3600000 = b div 3600000" "a div 60000 mod 60 = b div 60000 mod 60"
    "a div 1000 mod 60 = b div 1000 mod 60" "a mod 1000 = b mod 1000"
    using assms h [of a] h [of b]
    by (simp_all add: time_string_def length_pad append_eq_append_conv)
  have parts: "x = ((x div 3600000 * 60 + x div 60000 mod 60) * 60 + x div 1000 mod 60) * 1000
      + x mod 1000" for x :: nat
  proof -
    have "x div 3600000 = x div 60000 div 60" "x div 60000 = x div 1000 div 60"
      by (simp_all add: div_mult2_eq [symmetric])
    then show ?thesis by (metis div_mult_mod_eq)
  qed
  show ?thesis using parts [of a] parts [of b] eqs by metis
qed

lemma year_day_bound: "year_day t = (y, d) \<Longrightarrow> d < year_length y"
  unfolding year_day_def Let_def by (rule split_year_bound)

lemma day_of_year_inject:
  assumes "d < year_length y" "e < year_length y"
    and "day_string (split_month (month_lengths y) 1 d) = day_string (split_month (month_lengths y) 1 e)"
  shows "d = e"
proof -
  have month: "fst (split_month (month_lengths y) 1 n) < 100" if "n < year_length y" for n
  proof -
    obtain m k where md: "split_month (month_lengths y) 1 n = (m, k)" by fastforce
    have "n < sum_list (month_lengths y)"
      using that by (simp add: month_lengths_def year_length_def split: if_splits)
    from split_month_bounds [OF md this] show ?thesis unfolding md by (simp add: month_lengths_def)
  qed
  from day_string_inject [OF month month assms(3)] assms(1,2) show ?thesis
    by (auto dest: split_month_inject)
qed

theorem toISOString_inject [simp]: "toISOString s = toISOString t \<longleftrightarrow> s = t"
proof
  assume eq: "toISOString s = toISOString t"
  obtain y d where yd: "year_day s = (y, d)" by fastforce
  obtain z e where ze: "year_day t = (z, e)" by fastforce
  have ms: "nat (u mod 86400000) < 86400000" for u :: int
    by (simp add: nat_less_iff)
  note d = year_day_bound [OF yd] and e = year_day_bound [OF ze]
  have "year_string y = year_string z \<and>
      day_string (split_month (month_lengths y) 1 d) = day_string (split_month (month_lengths z) 1 e) \<and>
      time_string (nat (s mod 86400000)) = time_string (nat (t mod 86400000))"
    using eq length_day_string [OF d] length_day_string [OF e]
      length_time_string [OF ms [of s]] length_time_string [OF ms [of t]]
    unfolding toISOString_def yd ze by (auto simp: append_eq_append_conv)
  then have "y = z" and ms_eq: "nat (s mod 86400000) = nat (t mod 86400000)"
    and ds: "day_string (split_month (month_lengths y) 1 d) = day_string (split_month (month_lengths z) 1 e)"
    using time_string_inject [OF ms ms] by auto
  then have "d = e" using day_of_year_inject [OF d] e by simp
  with \<open>y = z\<close> year_day_days [OF yd] year_day_days [OF ze]
  have "s div 86400000 = t div 86400000" by simp
  moreover from ms_eq have "s mod 86400000 = t mod 86400000" by (simp add: eq_nat_nat_iff)
  ultimately show "s = t" by (metis mult_div_mod_eq)
qed simp

definition iso_char :: "char \<Rightarrow> bool" where
  "iso_char c \<longleftrightarrow> is_digit c \<or> c \<in> set ''-+:.TZ''"

lemma toISOString_chars: "c \<in> set (toISOString t) \<Longrightarrow> iso_char c"
  by (auto simp: toISOString_def year_string_def day_string_def time_string_def iso_char_def
      dest: pad_digits split: prod.splits if_splits)

end
