(* ===== verification/Audit_Chain.thy ===== *)
theory Audit_Chain
  imports Hash_Chain Clock
begin

text \<open>
  \<^verbatim>\<open>lib/audit/{chain,verify,append}.ts\<close> and the routes that verify, ingest and purge the
  access log: an append-only log in which every row carries the hash of its content and
  of its predecessor's hash, and a head row with the last sequence number and hash.
  \<^verbatim>\<open>createHash("sha256")\<close> is the parameter \<open>H\<close> (text to hex digest).
\<close>

section \<open>Hashing an event\<close>

definition decision_text :: "AuditDecision \<Rightarrow> string" where
  "decision_text d = (case d of ALLOW \<Rightarrow> ''ALLOW'' | DENY \<Rightarrow> ''DENY'')"

definition canonical_fields :: "AuditEvent \<Rightarrow> string list" where
  "canonical_fields e =
     [dec_int (ae_seq e), toISOString (ae_timestamp e), opt_text (ae_userId e),
      opt_text (ae_siteId e), ae_host e, ae_method e, ae_path e, dec_int (ae_status e),
      dec_int (ae_bytesOut e), decision_text (ae_decision e), opt_text (ae_reason e),
      opt_text (ae_clientIp e), opt_text (ae_userAgent e)]"

definition canonicalize :: "AuditEvent \<Rightarrow> string" where
  "canonicalize e = join_with [US] (canonical_fields e)"

definition computeHash :: "(string \<Rightarrow> string) \<Rightarrow> string \<Rightarrow> AuditEvent \<Rightarrow> string" where
  "computeHash H prevHash e = chainHash H prevHash (canonicalize e)"

section \<open>Verification\<close>

text \<open>The loop over the events: the first offending event and what is wrong with it.\<close>

fun verify_loop ::
  "(string \<Rightarrow> string) \<Rightarrow> string option \<Rightarrow> AuditEvent list \<Rightarrow> (AuditEvent \<times> break_reason) option" where
  "verify_loop H prevHash [] = None"
| "verify_loop H prevHash (e # es) =
     (if computeHash H (ae_prevHash e) e \<noteq> ae_hash e then Some (e, Hash_mismatch)
      else if prevHash \<noteq> None \<and> prevHash \<noteq> Some (ae_prevHash e) then Some (e, Prev_hash_mismatch)
      else verify_loop H (Some (ae_hash e)) es)"

definition verifyChain ::
  "(string \<Rightarrow> string) \<Rightarrow> AuditEvent list \<Rightarrow> AuditChainState option \<Rightarrow> ChainVerifyResult" where
  "verifyChain H events expectedHead =
     (if events = [] then
        \<lparr>cv_ok = True, cv_count = 0, cv_firstSeq = None, cv_lastSeq = None,
         cv_retentionBoundary = False, cv_brokenAtSeq = None, cv_reason = None\<rparr>
      else
        (let retentionBoundary = ae_prevHash (hd events) \<noteq> GENESIS_PREV_HASH;
             final = last events;
             result = (\<lambda>ok at r.
               \<lparr>cv_ok = ok, cv_count = length events, cv_firstSeq = Some (dec_int (ae_seq (hd events))),
                cv_lastSeq = Some (dec_int (ae_seq final)), cv_retentionBoundary = retentionBoundary,
                cv_brokenAtSeq = at, cv_reason = r\<rparr>)
         in case verify_loop H None events of
              Some (e, r) \<Rightarrow> result False (Some (dec_int (ae_seq e))) (Some r)
            | None \<Rightarrow>
                (case expectedHead of
                   Some h \<Rightarrow>
                     if ae_seq final \<noteq> cs_lastSeq h \<or> ae_hash final \<noteq> cs_lastHash h
                     then result False (Some (dec_int (ae_seq final))) (Some Head_mismatch)
                     else result True None None
                 | None \<Rightarrow> result True None None)))"

section \<open>Appending\<close>

record AuditInput =
  ai_timestamp :: "string option"
  ai_userId :: "string option"
  ai_siteId :: "string option"
  ai_host :: "string option"
  ai_method :: "string option"
  ai_path :: "string option"
  ai_status :: "int option"
  ai_bytesOut :: "jnum option"
  ai_decision :: "string option"
  ai_reason :: "string option"
  ai_clientIp :: "string option"
  ai_userAgent :: "string option"

text \<open>\<^verbatim>\<open>BigInt(Math.max(0, Math.trunc(n)))\<close>; a number that is not finite raises a range error,
  except that \<^verbatim>\<open>Math.max(0, -Infinity)\<close> is 0.\<close>

definition bytes_of :: "jnum option \<Rightarrow> int option" where
  "bytes_of b =
     (case b of
        None \<Rightarrow> Some 0
      | Some n \<Rightarrow>
          if jnum_is_finite n then Some (max 0 (jnum_trunc n))
          else if n = NNegInf then Some 0 else None)"

text \<open>
  \<open>parse_date\<close> is \<^verbatim>\<open>new Date(text)\<close>, \<open>None\<close> for an invalid date. An invalid timestamp or byte
  count makes the batch fail (\<^verbatim>\<open>toISOString\<close> and \<^verbatim>\<open>BigInt\<close> throw), here \<open>None\<close>. The chain columns are
  filled by the append.
\<close>

definition normalizeAuditInput ::
  "(string \<Rightarrow> instant option) \<Rightarrow> instant \<Rightarrow> db \<Rightarrow> AuditInput \<Rightarrow> AuditEvent option" where
  "normalizeAuditInput parse_date now s e =
     (let user = (if truthy (ai_userId e) then user_by_id s (the (ai_userId e)) else None);
          site = (if truthy (ai_siteId e) then site_by_id s (the (ai_siteId e)) else None);
          ts = (if truthy (ai_timestamp e) then parse_date (the (ai_timestamp e)) else Some now)
      in case ts of None \<Rightarrow> None | Some t \<Rightarrow>
         (case bytes_of (ai_bytesOut e) of None \<Rightarrow> None | Some b \<Rightarrow>
           Some \<lparr>ae_timestamp = t, ae_userId = ai_userId e,
                 ae_userEmail = map_option u_email user, ae_userName = map_option u_name user,
                 ae_company = Option.bind user u_company, ae_siteId = ai_siteId e,
                 ae_siteName = map_option site_name site, ae_host = opt_text (ai_host e),
                 ae_method = opt_text (ai_method e), ae_path = opt_text (ai_path e),
                 ae_status = (case ai_status e of Some n \<Rightarrow> n | None \<Rightarrow> 0), ae_bytesOut = b,
                 ae_decision = (if ai_decision e = Some ''DENY'' then DENY else ALLOW),
                 ae_reason = ai_reason e, ae_clientIp = ai_clientIp e,
                 ae_userAgent = ai_userAgent e, ae_seq = 0, ae_prevHash = [], ae_hash = []\<rparr>))"

definition new_head :: AuditChainState where
  "new_head = \<lparr>cs_lastSeq = 0, cs_lastHash = []\<rparr>"

definition upsert_head :: "AuditChainState option \<Rightarrow> AuditChainState" where
  "upsert_head h = (case h of None \<Rightarrow> new_head | Some c \<Rightarrow> c)"

definition seal :: "(string \<Rightarrow> string) \<Rightarrow> AuditChainState \<Rightarrow> AuditEvent \<Rightarrow> AuditEvent" where
  "seal H h n =
     (let e = n\<lparr>ae_seq := cs_lastSeq h + 1\<rparr> in
      e\<lparr>ae_prevHash := cs_lastHash h, ae_hash := computeHash H (cs_lastHash h) e\<rparr>)"

fun chain_rows ::
  "(string \<Rightarrow> string) \<Rightarrow> AuditChainState \<Rightarrow> AuditEvent list \<Rightarrow> AuditEvent list \<times> AuditChainState" where
  "chain_rows H h [] = ([], h)"
| "chain_rows H h (n # ns) =
     (let e = seal H h n;
          (rows, h') = chain_rows H \<lparr>cs_lastSeq = ae_seq e, cs_lastHash = ae_hash e\<rparr> ns
      in (e # rows, h'))"

fun all_some :: "'a option list \<Rightarrow> 'a list option" where
  "all_some [] = Some []"
| "all_some (None # xs) = None"
| "all_some (Some x # xs) = map_option (Cons x) (all_some xs)"

definition appendAuditEvents ::
  "(string \<Rightarrow> string) \<Rightarrow> (string \<Rightarrow> instant option) \<Rightarrow> instant \<Rightarrow> AuditInput list \<Rightarrow> db \<Rightarrow>
   db \<times> nat option" where
  "appendAuditEvents H parse_date now events s =
     (if events = [] then (s, Some 0)
      else (case all_some (map (normalizeAuditInput parse_date now s) events) of
              None \<Rightarrow> (s, None)
            | Some normalized \<Rightarrow>
                (let (rows, h) = chain_rows H (upsert_head (accessChain s)) normalized in
                 (s\<lparr>auditEvents := auditEvents s @ rows, accessChain := Some h\<rparr>,
                  Some (length rows)))))"

section \<open>Reading the log back, and retention\<close>

text \<open>
  The verification route snapshots the head, then reads the rows with \<^verbatim>\<open>seq <= lastSeq\<close> in pages of
  \<open>PAGE\<close>, each page resuming after the last sequence number of the previous one.
\<close>

definition PAGE :: nat where
  "PAGE = 1000"

definition select_page ::
  "AuditChainState option \<Rightarrow> int option \<Rightarrow> nat \<Rightarrow> AuditEvent list \<Rightarrow> AuditEvent list" where
  "select_page head cursorSeq n t =
     take n (sort_key ae_seq (find_many
       (\<lambda>e. (case head of None \<Rightarrow> True | Some h \<Rightarrow> ae_seq e \<le> cs_lastSeq h) \<and>
            (case cursorSeq of None \<Rightarrow> True | Some c \<Rightarrow> ae_seq e > c)) t))"

definition after_cursor :: "int option \<Rightarrow> AuditEvent list \<Rightarrow> AuditEvent list" where
  "after_cursor cursorSeq t =
     filter (\<lambda>e. case cursorSeq of None \<Rightarrow> True | Some c \<Rightarrow> ae_seq e > c) t"

lemma select_page_advances:
  assumes "select_page head c n t \<noteq> []"
  shows "length (after_cursor (Some (ae_seq (last (select_page head c n t)))) t)
    < length (after_cursor c t)"
proof -
  let ?e = "last (select_page head c n t)"
  have "?e \<in> set (select_page head c n t)" using assms by simp
  then have "?e \<in> set (sort_key ae_seq (find_many
      (\<lambda>e. (case head of None \<Rightarrow> True | Some h \<Rightarrow> ae_seq e \<le> cs_lastSeq h) \<and>
           (case c of None \<Rightarrow> True | Some c \<Rightarrow> ae_seq e > c)) t))"
    unfolding select_page_def by (meson in_set_takeD)
  then have e: "?e \<in> set t" "case c of None \<Rightarrow> True | Some c \<Rightarrow> ae_seq ?e > c" by auto
  have "after_cursor (Some (ae_seq ?e)) t = filter (\<lambda>x. ae_seq x > ae_seq ?e) (after_cursor c t)"
    using e(2) by (auto simp: after_cursor_def intro!: filter_cong split: option.splits)
  moreover have "?e \<in> set (after_cursor c t)" using e by (simp add: after_cursor_def)
  ultimately show ?thesis by (simp add: length_filter_less [of ?e])
qed

function read_pages ::
  "AuditChainState option \<Rightarrow> nat \<Rightarrow> AuditEvent list \<Rightarrow> int option \<Rightarrow> AuditEvent list" where
  "read_pages head n t cursorSeq =
     (let batch = select_page head cursorSeq n t in
      if batch = [] then []
      else if length batch < n then batch
      else batch @ read_pages head n t (Some (ae_seq (last batch))))"
  by pat_completeness auto
termination
  by (relation "measure (\<lambda>(head, n, t, c). length (after_cursor c t))")
    (simp_all add: select_page_advances)

declare read_pages.simps [simp del]

definition verify_access_log :: "(string \<Rightarrow> string) \<Rightarrow> db \<Rightarrow> ChainVerifyResult" where
  "verify_access_log H s =
     verifyChain H (read_pages (accessChain s) PAGE (auditEvents s) None) (accessChain s)"

text \<open>The retention job deletes the prefix up to the greatest sequence number older than the
  cutoff, not the old rows themselves.\<close>

definition audit_retention :: "jnum \<Rightarrow> instant \<Rightarrow> db \<Rightarrow> db \<times> nat" where
  "audit_retention retentionDays now s =
     (let cutoff = now + jnum_scale retentionDays (- (24 * 60 * 60 * 1000));
          old = map ae_seq (find_many (\<lambda>e. ae_timestamp e < cutoff) (auditEvents s))
      in if old = [] then (s, 0)
         else (s\<lparr>auditEvents := delete_many (\<lambda>e. ae_seq e \<le> Max (set old)) (auditEvents s)\<rparr>,
               count_rows (\<lambda>e. ae_seq e \<le> Max (set old)) (auditEvents s)))"

section \<open>The verifier meets the contract of a hash chain\<close>

lemma verify_loop_None_iff:
  "verify_loop H p es = None \<longleftrightarrow>
     chained H canonicalize ae_prevHash ae_hash es \<and>
     (case p of None \<Rightarrow> True | Some h \<Rightarrow> es = [] \<or> ae_prevHash (hd es) = h)"
proof (induction es arbitrary: p)
  case Nil
  then show ?case by (simp add: chained_def split: option.splits)
next
  case (Cons e es)
  then show ?case
    by (cases es) (auto simp: chained_simps computeHash_def split: option.splits)
qed

lemma verifyChain_ok_iff:
  "cv_ok (verifyChain H es h) \<longleftrightarrow>
     es = [] \<or> (chained H canonicalize ae_prevHash ae_hash es \<and> head_matches ae_seq ae_hash es h)"
proof (cases "verify_loop H None es")
  case None
  moreover from this have "chained H canonicalize ae_prevHash ae_hash es"
    using verify_loop_None_iff [of H None es] by simp
  ultimately show ?thesis
    by (cases h) (auto simp: verifyChain_def Let_def head_matches_def)
next
  case (Some er)
  then have "\<not> chained H canonicalize ae_prevHash ae_hash es"
    using verify_loop_None_iff [of H None es] by simp
  with Some show ?thesis
    by (cases er) (auto simp: verifyChain_def Let_def chained_simps)
qed

text \<open>The comment on \<^verbatim>\<open>US\<close> in the source: the separator never occurs in a field value.\<close>

definition clean_event :: "AuditEvent \<Rightarrow> bool" where
  "clean_event e \<longleftrightarrow>
     list_all (\<lambda>t. US \<notin> set t)
       [opt_text (ae_userId e), opt_text (ae_siteId e), ae_host e, ae_method e, ae_path e,
        opt_text (ae_reason e), opt_text (ae_clientIp e), opt_text (ae_userAgent e)]"

lemma separators_not_iso [simp]: "\<not> iso_char US" "\<not> iso_char NL"
  by (simp_all add: iso_char_def US_def NL_def is_digit_def)

lemma separators_not_numeral [simp]:
  "US \<notin> set (dec_int i)" "NL \<notin> set (dec_int i)"
  "US \<notin> set (toISOString t)" "US \<notin> set (decision_text d)"
proof -
  have "\<not> is_digit US" "\<not> is_digit NL" "US \<noteq> CHR ''-''" "NL \<noteq> CHR ''-''"
    by (simp_all add: US_def NL_def is_digit_def)
  then show "US \<notin> set (dec_int i)" "NL \<notin> set (dec_int i)" using dec_int_chars by blast+
  show "US \<notin> set (toISOString t)" using toISOString_chars separators_not_iso by blast
  show "US \<notin> set (decision_text d)" by (cases d) (simp_all add: decision_text_def US_def)
qed

lemma clean_fields: "clean_event e \<Longrightarrow> x \<in> set (canonical_fields e) \<Longrightarrow> US \<notin> set x"
  by (auto simp: clean_event_def canonical_fields_def)

lemma canonical_fields_shape [simp]:
  "canonical_fields e \<noteq> []" "length (canonical_fields e) = 13" "hd (canonical_fields e) = dec_int (ae_seq e)"
  by (simp_all add: canonical_fields_def)

lemma canonicalize_split:
  assumes "clean_event e" "clean_event f" "US \<notin> set p"
    and "p @ NL # canonicalize e = q @ NL # canonicalize f"
  shows "p = q \<and> canonicalize e = canonicalize f"
  using join_with_split [of p "canonical_fields e" "canonical_fields f" q] assms clean_fields
  by (auto simp: canonicalize_def)

interpretation access_chain: hash_chain H canonicalize ae_seq ae_prevHash ae_hash clean_event
  "verifyChain H" for H
  by unfold_locales (use verifyChain_ok_iff canonicalize_split in blast)+

text \<open>The record that the hash attests, with the conversion of an absent value to the empty
  text that \<open>canonicalize\<close> applies.\<close>

definition attested ::
  "AuditEvent \<Rightarrow> int \<times> instant \<times> string list \<times> int \<times> int \<times> AuditDecision" where
  "attested e =
     (ae_seq e, ae_timestamp e,
      [opt_text (ae_userId e), opt_text (ae_siteId e), ae_host e, ae_method e, ae_path e,
       opt_text (ae_reason e), opt_text (ae_clientIp e), opt_text (ae_userAgent e)],
      ae_status e, ae_bytesOut e, ae_decision e)"

lemma decision_text_inject [simp]: "decision_text a = decision_text b \<longleftrightarrow> a = b"
  by (cases a; cases b) (simp_all add: decision_text_def)

lemma canonicalize_inject:
  assumes "clean_event e" "clean_event f"
  shows "canonicalize e = canonicalize f \<longleftrightarrow> attested e = attested f"
proof
  assume "canonicalize e = canonicalize f"
  then have "canonical_fields e = canonical_fields f"
    unfolding canonicalize_def
    by (rule join_with_inject [rotated 4]) (use assms clean_fields in auto)
  then show "attested e = attested f" by (simp add: canonical_fields_def attested_def)
qed (simp add: attested_def canonicalize_def canonical_fields_def)

section \<open>Appending and retention keep the log verifiable\<close>

text \<open>
  The invariant of the log: the rows are contiguous in sequence number, linked, and end at
  the head. The log may be empty below a non-initial head: retention has purged it.
\<close>

definition access_log_ok :: "(string \<Rightarrow> string) \<Rightarrow> db \<Rightarrow> bool" where
  "access_log_ok H s \<longleftrightarrow>
     (case accessChain s of
        None \<Rightarrow> auditEvents s = []
      | Some h \<Rightarrow>
          chained H canonicalize ae_prevHash ae_hash (auditEvents s) \<and>
          map ae_seq (auditEvents s) = [cs_lastSeq h - int (length (auditEvents s)) + 1..cs_lastSeq h] \<and>
          (auditEvents s = [] \<or> ae_hash (last (auditEvents s)) = cs_lastHash h))"

lemma seal_simps [simp]:
  "ae_seq (seal H h n) = cs_lastSeq h + 1"
  "ae_prevHash (seal H h n) = cs_lastHash h"
  "chainHash H (cs_lastHash h) (canonicalize (seal H h n)) = ae_hash (seal H h n)"
  by (simp_all add: seal_def Let_def computeHash_def canonicalize_def canonical_fields_def)

lemma chain_rows_ok:
  assumes "chain_rows H h ns = (rows, h')"
  shows "chained H canonicalize ae_prevHash ae_hash rows \<and> length rows = length ns \<and>
    map ae_seq rows = [cs_lastSeq h + 1..cs_lastSeq h'] \<and>
    cs_lastSeq h' = cs_lastSeq h + int (length rows) \<and>
    (rows \<noteq> [] \<longrightarrow> ae_prevHash (hd rows) = cs_lastHash h \<and> ae_hash (last rows) = cs_lastHash h') \<and>
    (rows = [] \<longrightarrow> h' = h)"
  using assms
proof (induction ns arbitrary: h rows)
  case Nil
  then show ?case by (auto simp: chained_simps)
next
  case (Cons n ns)
  let ?e = "seal H h n" and ?h = "\<lparr>cs_lastSeq = cs_lastSeq h + 1, cs_lastHash = ae_hash (seal H h n)\<rparr>"
  obtain rs where rs: "chain_rows H ?h ns = (rs, h')" and rows: "rows = ?e # rs"
    using Cons.prems by (auto simp: Let_def split: prod.splits)
  note ih = Cons.IH [OF rs]
  have "chained H canonicalize ae_prevHash ae_hash rows"
    using ih rows by (cases rs) (auto simp: chained_simps)
  moreover have "[cs_lastSeq h + 1..cs_lastSeq h'] = (cs_lastSeq h + 1) # [cs_lastSeq h + 1 + 1..cs_lastSeq h']"
    using ih by (simp add: upto_rec1)
  ultimately show ?case using ih rows by (cases rs) auto
qed

lemma append_access_log_ok:
  assumes "access_log_ok H s" and "appendAuditEvents H pd now evs s = (s', r)"
  shows "access_log_ok H s'"
proof (cases "s' = s")
  case False
  with assms(2) obtain ns rows h' where
    rows: "chain_rows H (upsert_head (accessChain s)) ns = (rows, h')" and
    s': "s' = s\<lparr>auditEvents := auditEvents s @ rows, accessChain := Some h'\<rparr>"
    by (auto simp: appendAuditEvents_def split: if_splits option.splits prod.splits)
  let ?h = "upsert_head (accessChain s)" and ?t = "auditEvents s"
  note r = chain_rows_ok [OF rows]
  have t: "chained H canonicalize ae_prevHash ae_hash ?t"
    "map ae_seq ?t = [cs_lastSeq ?h - int (length ?t) + 1..cs_lastSeq ?h]"
    "?t = [] \<or> ae_hash (last ?t) = cs_lastHash ?h"
    using assms(1) by (auto simp: access_log_ok_def upsert_head_def chained_simps split: option.splits)
  have "chained H canonicalize ae_prevHash ae_hash (?t @ rows)"
    by (rule chained_append) (use t r in auto)
  moreover have "map ae_seq (?t @ rows) =
      [cs_lastSeq h' - int (length (?t @ rows)) + 1..cs_lastSeq h']"
    using t(2) r upto_split2 [of "cs_lastSeq ?h - int (length ?t) + 1" "cs_lastSeq ?h" "cs_lastSeq h'"]
    by (cases "?t = []") (simp_all add: algebra_simps Suc_le_eq)
  moreover have "?t @ rows = [] \<or> ae_hash (last (?t @ rows)) = cs_lastHash h'"
    using t(3) r by auto
  ultimately show ?thesis by (simp add: access_log_ok_def s')
qed (use assms in simp)

lemma filter_sorted_dropWhile:
  fixes f :: "'a \<Rightarrow> int"
  assumes "sorted (map f xs)"
  shows "filter (\<lambda>x. \<not> f x \<le> m) xs = dropWhile (\<lambda>x. f x \<le> m) xs"
  using assms
proof (induction xs)
  case (Cons a xs)
  then show ?case
    by (cases xs) (auto simp: filter_id_conv dropWhile_eq_self_iff)
qed simp

lemma retention_access_log_ok:
  assumes "access_log_ok H s" and "audit_retention days now s = (s', n)"
  shows "access_log_ok H s'"
proof (cases "s' = s")
  case False
  with assms(2) obtain m where s': "s' = s\<lparr>auditEvents := delete_many (\<lambda>e. ae_seq e \<le> m) (auditEvents s)\<rparr>"
    by (auto simp: audit_retention_def Let_def split: if_splits)
  let ?t = "auditEvents s"
  from False s' have ne: "?t \<noteq> []" by (auto simp: delete_many_def)
  with assms(1) obtain h where h: "accessChain s = Some h"
    "chained H canonicalize ae_prevHash ae_hash ?t"
    "map ae_seq ?t = [cs_lastSeq h - int (length ?t) + 1..cs_lastSeq h]"
    "ae_hash (last ?t) = cs_lastHash h"
    by (auto simp: access_log_ok_def split: option.splits)
  have mono: "sorted (map ae_seq ?t)" unfolding h(3) by simp
  define k where "k = length (takeWhile (\<lambda>e. ae_seq e \<le> m) ?t)"
  have kept: "delete_many (\<lambda>e. ae_seq e \<le> m) ?t = drop k ?t"
    using filter_sorted_dropWhile [OF mono, of m] by (simp add: delete_many_def k_def dropWhile_eq_drop)
  have k: "k \<le> length ?t" by (simp add: k_def length_takeWhile_le)
  have chain: "chained H canonicalize ae_prevHash ae_hash (drop k ?t)"
    using h(2) chained_drop [of H canonicalize ae_prevHash ae_hash "take k ?t" "drop k ?t"] by simp
  have seqs: "map ae_seq (drop k ?t) = [cs_lastSeq h - int (length (drop k ?t)) + 1..cs_lastSeq h]"
  proof -
    have "map ae_seq (drop k ?t) = drop k [cs_lastSeq h - int (length ?t) + 1..cs_lastSeq h]"
      by (simp add: drop_map [symmetric] h(3))
    also have "\<dots> = [cs_lastSeq h - int (length ?t) + 1 + int k..cs_lastSeq h]"
      using k by (intro nth_equalityI) auto
    finally show ?thesis using k by (simp add: algebra_simps)
  qed
  have "drop k ?t = [] \<or> ae_hash (last (drop k ?t)) = cs_lastHash h"
    using h(4) last_drop [of k ?t] by (cases "k < length ?t") auto
  with chain seqs show ?thesis
    by (simp add: access_log_ok_def s' h(1) kept del: length_drop drop_eq_Nil)
qed (use assms in simp)

section \<open>Paging reads the whole log\<close>

definition log_upto :: "AuditChainState option \<Rightarrow> AuditEvent list \<Rightarrow> AuditEvent list" where
  "log_upto head t =
     sort_key ae_seq (filter (\<lambda>e. case head of None \<Rightarrow> True | Some h \<Rightarrow> ae_seq e \<le> cs_lastSeq h) t)"

lemma select_page_eq: "select_page head c n t = take n (after_cursor c (log_upto head t))"
  by (simp add: select_page_def after_cursor_def log_upto_def find_many_def filter_sort conj_commute)

lemma filter_after_last:
  assumes "sorted_wrt (<) (map ae_seq xs)" and "take n xs \<noteq> []" and "length (take n xs) = n"
  shows "filter (\<lambda>e. ae_seq e > ae_seq (last (take n xs))) xs = drop n xs"
proof -
  have split: "xs = take n xs @ drop n xs" by simp
  have before: "ae_seq e \<le> ae_seq (last (take n xs))" if "e \<in> set (take n xs)" for e
  proof -
    have "sorted_wrt (<) (map ae_seq (take n xs))"
      using assms(1) by (metis take_map sorted_wrt_take)
    with that assms(2) show ?thesis
      by (cases "take n xs" rule: rev_cases) (auto simp: sorted_wrt_append)
  qed
  have after: "ae_seq e > ae_seq (last (take n xs))" if "e \<in> set (drop n xs)" for e
  proof -
    have "sorted_wrt (<) (map ae_seq (take n xs @ drop n xs))" using assms(1) by simp
    then show ?thesis using that assms(2) by (simp add: sorted_wrt_append del: append_take_drop_id)
  qed
  have "filter (\<lambda>e. ae_seq e > ae_seq (last (take n xs))) (take n xs @ drop n xs) = drop n xs"
    unfolding filter_append using before after
    by (simp add: filter_empty_conv filter_id_conv linorder_not_less del: append_take_drop_id)
  then show ?thesis by simp
qed

lemma read_pages_eq:
  assumes "0 < n" and "distinct (map ae_seq t)"
  shows "read_pages head n t c = after_cursor c (log_upto head t)"
  using assms
proof (induction head n t c rule: read_pages.induct)
  case (1 head n t c)
  let ?l = "log_upto head t" let ?b = "take n (after_cursor c ?l)"
  have strict: "sorted_wrt (<) (map ae_seq ?l)"
  proof -
    have "distinct (map ae_seq ?l)"
      using "1.prems"(2) by (simp add: log_upto_def distinct_map inj_on_def)
    then show ?thesis by (simp add: log_upto_def strict_sorted_iff)
  qed
  then have strict_c: "sorted_wrt (<) (map ae_seq (after_cursor c ?l))"
    by (simp add: after_cursor_def sorted_wrt_map sorted_wrt_filter)
  consider "?b = []" | "?b \<noteq> []" "length ?b < n" | "?b \<noteq> []" "length ?b = n"
    by (metis length_take min.cobounded2 nat_less_le)
  then show ?case
  proof cases
    case 1
    then show ?thesis
      using "1.prems"(1) by (simp add: read_pages.simps [of head n t c] select_page_eq)
  next
    case 2
    then show ?thesis by (auto simp: read_pages.simps [of head n t c] select_page_eq Let_def)
  next
    case 3
    have "read_pages head n t c = ?b @ read_pages head n t (Some (ae_seq (last ?b)))"
      using 3 by (simp add: read_pages.simps [of head n t c] select_page_eq Let_def)
    also have "read_pages head n t (Some (ae_seq (last ?b))) = after_cursor (Some (ae_seq (last ?b))) ?l"
      by (rule "1.IH" [OF select_page_eq [symmetric]]) (use 3 "1.prems" in auto)
    also have "\<dots> = filter (\<lambda>e. ae_seq e > ae_seq (last ?b)) (after_cursor c ?l)"
    proof -
      have "last ?b \<in> set (after_cursor c ?l)" using 3(1) by (meson in_set_takeD last_in_set)
      then have "case c of None \<Rightarrow> True | Some v \<Rightarrow> ae_seq (last ?b) > v"
        unfolding after_cursor_def [of c] by (simp only: set_filter mem_Collect_eq)
      then show ?thesis
        by (auto simp: after_cursor_def intro!: filter_cong split: option.splits)
    qed
    also have "\<dots> = drop n (after_cursor c ?l)"
      by (rule filter_after_last [OF strict_c 3])
    finally show ?thesis by simp
  qed
qed

lemma access_log_verifies:
  assumes "access_log_ok H s"
  shows "cv_ok (verify_access_log H s)"
proof (cases "accessChain s")
  case None
  with assms have "auditEvents s = []" by (simp add: access_log_ok_def)
  then show ?thesis
    by (simp add: verify_access_log_def read_pages.simps select_page_def find_many_def verifyChain_ok_iff)
next
  case (Some h)
  let ?t = "auditEvents s"
  from assms Some have t: "chained H canonicalize ae_prevHash ae_hash ?t"
    "map ae_seq ?t = [cs_lastSeq h - int (length ?t) + 1..cs_lastSeq h]"
    "?t = [] \<or> ae_hash (last ?t) = cs_lastHash h"
    by (auto simp: access_log_ok_def)
  have "\<forall>e \<in> set ?t. ae_seq e \<le> cs_lastSeq h"
    using t(2) by (metis atLeastAtMost_iff imageI list.set_map set_upto)
  moreover have "sorted (map ae_seq ?t)" "distinct (map ae_seq ?t)" unfolding t(2) by simp_all
  ultimately have "read_pages (Some h) PAGE ?t None = ?t"
    by (simp add: read_pages_eq PAGE_def after_cursor_def log_upto_def sort_key_id_if_sorted filter_id_conv)
  moreover have "?t \<noteq> [] \<Longrightarrow> ae_seq (last ?t) = cs_lastSeq h"
    using t(2) by (metis last_map last_snoc list.map_disc_iff not_le upto_Nil upto_rec2)
  ultimately show ?thesis using t Some
    by (auto simp: verify_access_log_def verifyChain_ok_iff head_matches_def)
qed

section \<open>Properties\<close>

text \<open>The operations on the access log, as steps of the tenant's database.\<close>

inductive log_step :: "(string \<Rightarrow> string) \<Rightarrow> db \<Rightarrow> db \<Rightarrow> bool" for H where
  ingest: "appendAuditEvents H pd now evs s = (s', r) \<Longrightarrow> log_step H s s'"
| purge: "audit_retention days now s = (s', n) \<Longrightarrow> log_step H s s'"

inductive_cases log_stepE: "log_step H s s'"

lemma log_step_ok: "log_step H s s' \<Longrightarrow> access_log_ok H s \<Longrightarrow> access_log_ok H s'"
  by (erule log_stepE) (blast intro: append_access_log_ok retention_access_log_ok)+

lemma log_steps_ok: "(log_step H)\<^sup>*\<^sup>* s s' \<Longrightarrow> access_log_ok H s \<Longrightarrow> access_log_ok H s'"
  by (induction rule: rtranclp_induct) (auto intro: log_step_ok)

definition ex_input :: AuditInput where
  "ex_input =
     \<lparr>ai_timestamp = None, ai_userId = Some ''u1'', ai_siteId = None, ai_host = Some ''h'',
      ai_method = Some ''GET'', ai_path = Some ''/'', ai_status = Some 200, ai_bytesOut = None,
      ai_decision = Some ''ALLOW'', ai_reason = None, ai_clientIp = None, ai_userAgent = None\<rparr>"

definition ex_event :: AuditEvent where
  "ex_event =
     \<lparr>ae_timestamp = 0, ae_userId = Some ''u1'', ae_userEmail = None, ae_userName = None,
      ae_company = None, ae_siteId = None, ae_siteName = None, ae_host = ''h'', ae_method = ''GET'',
      ae_path = ''/'', ae_status = 200, ae_bytesOut = 0, ae_decision = ALLOW, ae_reason = None,
      ae_clientIp = None, ae_userAgent = None, ae_seq = 1, ae_prevHash = [], ae_hash = []\<rparr>"

text \<open>C4: whatever batches are ingested and whenever the retention job runs, a log that started empty
  verifies: the verification route, reading it page by page against the stored head, reports ok.\<close>

theorem access_log_always_verifies:
  assumes "(log_step H)\<^sup>*\<^sup>* s0 s" and "auditEvents s0 = []" and "accessChain s0 = None"
  shows "cv_ok (verify_access_log H s)"
  using assms by (intro access_log_verifies log_steps_ok [OF assms(1)]) (simp add: access_log_ok_def)

theorem access_log_always_verifies_witness:
  "cv_ok (verify_access_log (\<lambda>x. x) (fst (appendAuditEvents (\<lambda>x. x) (\<lambda>_. None) 5 [ex_input, ex_input] empty_db)))"
proof -
  let ?s = "fst (appendAuditEvents (\<lambda>x. x) (\<lambda>_. None) 5 [ex_input, ex_input] empty_db)"
  have "log_step (\<lambda>x. x) empty_db ?s" by (rule log_step.ingest [OF prod.collapse [symmetric]])
  then have "(log_step (\<lambda>x. x))\<^sup>*\<^sup>* empty_db ?s" by (rule r_into_rtranclp)
  then show ?thesis by (rule access_log_always_verifies) (simp_all add: empty_db_def)
qed



text \<open>Deleting rows from the end of the log is noticed as long as one row is left: the head no
  longer matches.\<close>

theorem access_log_truncation_noticed:
  assumes "cv_ok (verifyChain H (es @ fs) (Some h))" and "es \<noteq> []" and "fs \<noteq> []"
    and "sorted_wrt (<) (map ae_seq (es @ fs))"
  shows "\<not> cv_ok (verifyChain H es (Some h)) \<and> cv_reason (verifyChain H es (Some h)) = Some Head_mismatch"
proof -
  have no: "\<not> cv_ok (verifyChain H es (Some h))"
    using access_chain.truncation_noticed [OF assms] .
  moreover have "chained H canonicalize ae_prevHash ae_hash es"
    using assms(1,2) chained_take by (auto simp: verifyChain_ok_iff)
  then have "verify_loop H None es = None" by (simp add: verify_loop_None_iff)
  ultimately show ?thesis
    using assms(2) by (auto simp: verifyChain_def Let_def split: if_splits)
qed

theorem access_log_truncation_noticed_witness:
  "\<not> cv_ok (verifyChain (\<lambda>x. ''d'') [seal (\<lambda>x. ''d'') new_head ex_event]
     (Some \<lparr>cs_lastSeq = 2, cs_lastHash = ''d''\<rparr>))"
proof -
  let ?H = "\<lambda>x::string. ''d''" let ?e = "seal ?H new_head ex_event"
  let ?f = "seal ?H \<lparr>cs_lastSeq = 1, cs_lastHash = ''d''\<rparr> ex_event"
  let ?h = "\<lparr>cs_lastSeq = 2, cs_lastHash = ''d''\<rparr>"
  have "cv_ok (verifyChain ?H ([?e] @ [?f]) (Some ?h))"
    by (simp add: verifyChain_ok_iff chained_simps head_matches_def chainHash_def seal_def
        Let_def computeHash_def new_head_def)
  from access_log_truncation_noticed [OF this] show ?thesis by (simp add: new_head_def)
qed

text \<open>Reading the log in pages is reading it whole: for any page size the pages put together
  are the rows up to the head in sequence order.\<close>

theorem paging_reads_whole_log:
  assumes "0 < n" and "distinct (map ae_seq t)"
  shows "read_pages head n t None =
    sort_key ae_seq (filter (\<lambda>e. case head of None \<Rightarrow> True | Some h \<Rightarrow> ae_seq e \<le> cs_lastSeq h) t)"
  using read_pages_eq [OF assms, of head None] by (simp add: after_cursor_def log_upto_def)

theorem paging_reads_whole_log_witness:
  "read_pages None 1 [ex_event\<lparr>ae_seq := 2\<rparr>, ex_event] None = [ex_event, ex_event\<lparr>ae_seq := 2\<rparr>]"
  using paging_reads_whole_log [of 1 "[ex_event\<lparr>ae_seq := 2\<rparr>, ex_event]" None]
  by (simp add: ex_event_def)

text \<open>What the verification cannot see. With every row deleted the route answers ok whatever
  the head says; the names shown beside the ids are not part of the hashed text.\<close>

lemma empty_log_verifies: "cv_ok (verifyChain H [] (Some h))"
  by (simp add: verifyChain_ok_iff)

lemma display_names_unattested:
  "canonicalize (e\<lparr>ae_userEmail := a, ae_userName := b, ae_company := c, ae_siteName := d\<rparr>) = canonicalize e"
  by (simp add: canonicalize_def canonical_fields_def)

end
