(* ===== verification/Admin_Chain.thy ===== *)
theory Admin_Chain
  imports Audit_Chain
begin

text \<open>
  \<^verbatim>\<open>lib/audit/{admin-chain,admin,admin-backfill}.ts\<close>: the second tamper-evident log, of
  administrative actions, with its own canonical text (the metadata object is printed with
  sorted keys) and its own copy of the verifier.
\<close>

section \<open>Hashing an administrative event\<close>

text \<open>The members are printed before sorting by key, which gives the same text.\<close>

fun stableStringify :: "js \<Rightarrow> string" where
  "stableStringify JUndef = ''null''"
| "stableStringify JNull = ''null''"
| "stableStringify (JBool b) = (if b then ''true'' else ''false'')"
| "stableStringify (JNum n) = json_num n"
| "stableStringify (JStr s) = json_string s"
| "stableStringify (JArr vs) = ''['' @ join_with '','' (map stableStringify vs) @ '']''"
| "stableStringify (JObj ms) =
     ''{'' @ join_with '',''
       (map snd (sort_key fst (map (\<lambda>(k, v). (k, json_string k @ '':'' @ stableStringify v)) ms))) @ ''}''"

definition nullish :: "js \<Rightarrow> js" where
  "nullish v = (if v = JUndef then JNull else v)"

definition admin_seq :: "AdminAuditEvent \<Rightarrow> int" where
  "admin_seq e = (case aa_seq e of Some n \<Rightarrow> n | None \<Rightarrow> 0)"

definition admin_fields :: "AdminAuditEvent \<Rightarrow> string list" where
  "admin_fields e =
     [dec_int (admin_seq e), toISOString (aa_timestamp e), opt_text (aa_actorId e),
      opt_text (aa_actorEmail e), aa_action e, opt_text (aa_targetType e),
      opt_text (aa_targetId e), aa_summary e, stableStringify (nullish (aa_metadata e)),
      opt_text (aa_clientIp e)]"

definition canonicalizeAdmin :: "AdminAuditEvent \<Rightarrow> string" where
  "canonicalizeAdmin e = join_with [US] (admin_fields e)"

definition computeAdminHash :: "(string \<Rightarrow> string) \<Rightarrow> string \<Rightarrow> AdminAuditEvent \<Rightarrow> string" where
  "computeAdminHash H prevHash e = chainHash H prevHash (canonicalizeAdmin e)"

section \<open>Verification\<close>

fun admin_loop ::
  "(string \<Rightarrow> string) \<Rightarrow> string option \<Rightarrow> AdminAuditEvent list \<Rightarrow>
   (AdminAuditEvent \<times> break_reason) option" where
  "admin_loop H prevHash [] = None"
| "admin_loop H prevHash (e # es) =
     (if computeAdminHash H (aa_prevHash e) e \<noteq> aa_hash e then Some (e, Hash_mismatch)
      else if prevHash \<noteq> None \<and> prevHash \<noteq> Some (aa_prevHash e) then Some (e, Prev_hash_mismatch)
      else admin_loop H (Some (aa_hash e)) es)"

definition verifyAdminChain ::
  "(string \<Rightarrow> string) \<Rightarrow> AdminAuditEvent list \<Rightarrow> AuditChainState option \<Rightarrow> ChainVerifyResult" where
  "verifyAdminChain H events expectedHead =
     (if events = [] then
        \<lparr>cv_ok = True, cv_count = 0, cv_firstSeq = None, cv_lastSeq = None,
         cv_retentionBoundary = False, cv_brokenAtSeq = None, cv_reason = None\<rparr>
      else
        (let retentionBoundary = aa_prevHash (hd events) \<noteq> GENESIS_PREV_HASH;
             firstSeq = dec_int (admin_seq (hd events));
             lastSeqStr = dec_int (admin_seq (last events));
             result = (\<lambda>ok at r.
               \<lparr>cv_ok = ok, cv_count = length events, cv_firstSeq = Some firstSeq,
                cv_lastSeq = Some lastSeqStr, cv_retentionBoundary = retentionBoundary,
                cv_brokenAtSeq = at, cv_reason = r\<rparr>)
         in case admin_loop H None events of
              Some (e, r) \<Rightarrow> result False (Some (dec_int (admin_seq e))) (Some r)
            | None \<Rightarrow>
                (case expectedHead of
                   Some h \<Rightarrow>
                     if admin_seq (last events) \<noteq> cs_lastSeq h \<or> aa_hash (last events) \<noteq> cs_lastHash h
                     then result False (Some lastSeqStr) (Some Head_mismatch)
                     else result True None None
                 | None \<Rightarrow> result True None None)))"

section \<open>Recording an action\<close>

record AdminAction =
  act_actorId :: string
  act_actorEmail :: "string option"
  act_action :: string
  act_targetType :: "string option"
  act_targetId :: "string option"
  act_summary :: string
  act_metadata :: js
  act_clientIp :: "string option"

text \<open>
  The hash is taken over the metadata as passed; the column receives it as JSON
  (\<open>json_stored\<close>). A failing insert is logged and swallowed in the source, which the model
  has no case for: every modelled insert succeeds.
\<close>

definition admin_event ::
  "(string \<Rightarrow> string) \<Rightarrow> ident \<Rightarrow> instant \<Rightarrow> AuditChainState \<Rightarrow> AdminAction \<Rightarrow> AdminAuditEvent" where
  "admin_event H nid now head a =
     (let e = \<lparr>aa_id = nid, aa_timestamp = now, aa_actorId = Some (act_actorId a),
               aa_actorEmail = act_actorEmail a, aa_action = act_action a,
               aa_targetType = act_targetType a, aa_targetId = act_targetId a,
               aa_summary = act_summary a, aa_metadata = nullish (act_metadata a),
               aa_clientIp = act_clientIp a, aa_createdAt = now,
               aa_seq = Some (cs_lastSeq head + 1), aa_prevHash = [], aa_hash = []\<rparr>
      in e\<lparr>aa_metadata :=
             (if act_metadata a = JUndef \<or> act_metadata a = JNull then JNull
              else json_stored (act_metadata a)),
           aa_prevHash := cs_lastHash head,
           aa_hash := computeAdminHash H (cs_lastHash head) e\<rparr>)"

definition recordAdminAction ::
  "(string \<Rightarrow> string) \<Rightarrow> ident \<Rightarrow> instant \<Rightarrow> AdminAction \<Rightarrow> db \<Rightarrow> db" where
  "recordAdminAction H nid now a s =
     (let e = admin_event H nid now (upsert_head (adminChain s)) a in
      s\<lparr>adminAuditEvents := insert_row e (adminAuditEvents s),
        adminChain := Some \<lparr>cs_lastSeq = admin_seq e, cs_lastHash = aa_hash e\<rparr>\<rparr>)"

text \<open>The one-time backfill chains the rows that have no sequence number yet.\<close>

definition backfill_row ::
  "(string \<Rightarrow> string) \<Rightarrow> AdminAuditEvent list \<times> AuditChainState \<Rightarrow> AdminAuditEvent \<Rightarrow>
   AdminAuditEvent list \<times> AuditChainState" where
  "backfill_row H acc r =
     (let (t, h) = acc;
          n = cs_lastSeq h + 1;
          hash = computeAdminHash H (cs_lastHash h) (r\<lparr>aa_seq := Some n\<rparr>)
      in (update_many (\<lambda>x. aa_id x = aa_id r)
            (\<lambda>x. x\<lparr>aa_seq := Some n, aa_prevHash := cs_lastHash h, aa_hash := hash\<rparr>) t,
          \<lparr>cs_lastSeq = n, cs_lastHash = hash\<rparr>))"

definition backfillAdminChain :: "(string \<Rightarrow> string) \<Rightarrow> db \<Rightarrow> db \<times> nat" where
  "backfillAdminChain H s =
     (let pending = sort_key aa_createdAt (sort_key aa_id
            (find_many (\<lambda>e. aa_seq e = None) (adminAuditEvents s)))
      in if pending = [] then (s, 0)
         else (let (t, h) = foldl (backfill_row H) (adminAuditEvents s, upsert_head (adminChain s)) pending
               in (s\<lparr>adminAuditEvents := t, adminChain := Some h\<rparr>, length pending)))"

text \<open>The verification route of the admin log.\<close>

definition admin_rows :: "AdminAuditEvent list \<Rightarrow> AdminAuditEvent list" where
  "admin_rows t = sort_key admin_seq (find_many (\<lambda>e. aa_seq e \<noteq> None) t)"

definition verify_admin_log :: "(string \<Rightarrow> string) \<Rightarrow> db \<Rightarrow> ChainVerifyResult" where
  "verify_admin_log H s =
     verifyAdminChain H
       (sort_key admin_seq (find_many
          (\<lambda>e. case aa_seq e of
                 None \<Rightarrow> False
               | Some n \<Rightarrow> (case adminChain s of None \<Rightarrow> True | Some h \<Rightarrow> n \<le> cs_lastSeq h))
          (adminAuditEvents s)))
       (adminChain s)"

section \<open>The verifier meets the contract of a hash chain\<close>

lemma admin_loop_None_iff:
  "admin_loop H p es = None \<longleftrightarrow>
     chained H canonicalizeAdmin aa_prevHash aa_hash es \<and>
     (case p of None \<Rightarrow> True | Some h \<Rightarrow> es = [] \<or> aa_prevHash (hd es) = h)"
proof (induction es arbitrary: p)
  case Nil
  then show ?case by (simp add: chained_def split: option.splits)
next
  case (Cons e es)
  then show ?case
    by (cases es) (auto simp: chained_simps computeAdminHash_def split: option.splits)
qed

lemma verifyAdminChain_ok_iff:
  "cv_ok (verifyAdminChain H es h) \<longleftrightarrow>
     es = [] \<or> (chained H canonicalizeAdmin aa_prevHash aa_hash es \<and> head_matches admin_seq aa_hash es h)"
proof (cases "admin_loop H None es")
  case None
  moreover from this have "chained H canonicalizeAdmin aa_prevHash aa_hash es"
    using admin_loop_None_iff [of H None es] by simp
  ultimately show ?thesis
    by (cases h) (auto simp: verifyAdminChain_def Let_def head_matches_def)
next
  case (Some er)
  then have "\<not> chained H canonicalizeAdmin aa_prevHash aa_hash es"
    using admin_loop_None_iff [of H None es] by simp
  with Some show ?thesis
    by (cases er) (auto simp: verifyAdminChain_def Let_def chained_simps)
qed

definition clean_admin :: "AdminAuditEvent \<Rightarrow> bool" where
  "clean_admin e \<longleftrightarrow>
     list_all (\<lambda>t. US \<notin> set t)
       [opt_text (aa_actorId e), opt_text (aa_actorEmail e), aa_action e, opt_text (aa_targetType e),
        opt_text (aa_targetId e), aa_summary e, stableStringify (nullish (aa_metadata e)),
        opt_text (aa_clientIp e)]"

lemma clean_admin_fields: "clean_admin e \<Longrightarrow> x \<in> set (admin_fields e) \<Longrightarrow> US \<notin> set x"
  by (auto simp: clean_admin_def admin_fields_def)

lemma admin_fields_shape [simp]:
  "admin_fields e \<noteq> []" "length (admin_fields e) = 10" "hd (admin_fields e) = dec_int (admin_seq e)"
  by (simp_all add: admin_fields_def)

lemma canonicalizeAdmin_split:
  assumes "clean_admin e" "clean_admin f" "US \<notin> set p"
    and "p @ NL # canonicalizeAdmin e = q @ NL # canonicalizeAdmin f"
  shows "p = q \<and> canonicalizeAdmin e = canonicalizeAdmin f"
  using join_with_split [of p "admin_fields e" "admin_fields f" q] assms clean_admin_fields
  by (auto simp: canonicalizeAdmin_def)

interpretation admin_chain: hash_chain H canonicalizeAdmin admin_seq aa_prevHash aa_hash clean_admin
  "verifyAdminChain H" for H
  by unfold_locales (use verifyAdminChain_ok_iff canonicalizeAdmin_split in blast)+

section \<open>Recording keeps the log verifiable\<close>

text \<open>Metadata that the JSON column returns unchanged.\<close>

fun defined_json :: "js \<Rightarrow> bool" where
  "defined_json JUndef = False"
| "defined_json (JArr vs) = list_all defined_json vs"
| "defined_json (JObj ms) = list_all (\<lambda>(k, v). defined_json v) ms"
| "defined_json (JNum n) = jnum_is_finite n"
| "defined_json _ = True"

lemma json_stored_defined: "defined_json v \<Longrightarrow> json_stored v = v"
proof (induction v rule: json_stored.induct)
  case (2 vs)
  then show ?case by (simp add: list_all_iff map_idI)
next
  case (3 ms)
  then have "filter (\<lambda>(k, v). v \<noteq> JUndef) ms = ms"
    by (auto simp: list_all_iff filter_id_conv)
  with 3 show ?case by (auto simp: list_all_iff intro!: map_idI)
qed auto

definition admin_chain_ok :: "(string \<Rightarrow> string) \<Rightarrow> AdminAuditEvent list \<Rightarrow> AuditChainState \<Rightarrow> bool" where
  "admin_chain_ok H t h \<longleftrightarrow>
     chained H canonicalizeAdmin aa_prevHash aa_hash t \<and>
     map admin_seq t = [1..cs_lastSeq h] \<and> 0 \<le> cs_lastSeq h \<and>
     (if t = [] then cs_lastHash h = GENESIS_PREV_HASH else aa_hash (last t) = cs_lastHash h)"

definition admin_log_ok :: "(string \<Rightarrow> string) \<Rightarrow> db \<Rightarrow> bool" where
  "admin_log_ok H s \<longleftrightarrow>
     distinct (map aa_id (adminAuditEvents s)) \<and>
     admin_chain_ok H (admin_rows (adminAuditEvents s)) (upsert_head (adminChain s))"

lemma admin_chain_ok_snoc:
  assumes "admin_chain_ok H t h" and "admin_seq e = cs_lastSeq h + 1"
    and "aa_prevHash e = cs_lastHash h" and "chainHash H (cs_lastHash h) (canonicalizeAdmin e) = aa_hash e"
  shows "admin_chain_ok H (t @ [e]) \<lparr>cs_lastSeq = admin_seq e, cs_lastHash = aa_hash e\<rparr>"
proof -
  have "chained H canonicalizeAdmin aa_prevHash aa_hash (t @ [e])"
    by (rule chained_append) (use assms in \<open>auto simp: admin_chain_ok_def chained_simps\<close>)
  moreover have "[1..cs_lastSeq h + 1] = [1..cs_lastSeq h] @ [cs_lastSeq h + 1]"
    using assms(1) by (simp add: admin_chain_ok_def upto_rec2)
  ultimately show ?thesis using assms by (simp add: admin_chain_ok_def)
qed

lemma admin_rows_add:
  assumes ok: "admin_chain_ok H (admin_rows t) h"
    and new: "mset (find_many (\<lambda>e. aa_seq e \<noteq> None) t') = add_mset e (mset (find_many (\<lambda>e. aa_seq e \<noteq> None) t))"
    and seq: "admin_seq e = cs_lastSeq h + 1"
  shows "admin_rows t' = admin_rows t @ [e]"
proof -
  have seqs: "map admin_seq (admin_rows t) = [1..cs_lastSeq h]" using ok by (simp add: admin_chain_ok_def)
  have "mset (find_many (\<lambda>e. aa_seq e \<noteq> None) t') = mset (admin_rows t @ [e])"
    using new by (simp add: admin_rows_def)
  moreover have "map admin_seq (admin_rows t @ [e]) = [1..cs_lastSeq h] @ [cs_lastSeq h + 1]"
    by (simp add: seqs seq)
  then have s: "sorted (map admin_seq (admin_rows t @ [e]))" "distinct (map admin_seq (admin_rows t @ [e]))"
    by (simp_all add: sorted_append)
  moreover have "inj_on admin_seq (set (admin_rows t @ [e]))" using s(2) by (simp only: distinct_map)
  ultimately show ?thesis
    by (metis admin_rows_def mset_eq_setD sort_key_inj_key_eq)
qed

lemma recordAdminAction_log_ok:
  assumes "admin_log_ok H s" and "nid \<notin> aa_id ` set (adminAuditEvents s)"
    and "act_metadata a = JUndef \<or> defined_json (act_metadata a)"
  shows "admin_log_ok H (recordAdminAction H nid now a s)"
proof -
  let ?h = "upsert_head (adminChain s)" let ?e = "admin_event H nid now ?h a"
  have "json_stored (act_metadata a) = act_metadata a" if "act_metadata a \<noteq> JUndef"
    using that assms(3) json_stored_defined by blast
  then have e: "admin_seq ?e = cs_lastSeq ?h + 1" "aa_prevHash ?e = cs_lastHash ?h" "aa_id ?e = nid"
    "chainHash H (cs_lastHash ?h) (canonicalizeAdmin ?e) = aa_hash ?e" "aa_seq ?e \<noteq> None"
    by (auto simp: admin_event_def admin_seq_def Let_def computeAdminHash_def canonicalizeAdmin_def
        admin_fields_def nullish_def)
  have ok: "admin_chain_ok H (admin_rows (adminAuditEvents s)) ?h"
    using assms(1) by (simp add: admin_log_ok_def)
  have rows: "admin_rows (insert_row ?e (adminAuditEvents s)) = admin_rows (adminAuditEvents s) @ [?e]"
    by (rule admin_rows_add [OF ok _ e(1)]) (use e(5) in simp)
  show ?thesis
    using assms(1,2) e(3) admin_chain_ok_snoc [OF ok e(1,2,4)] rows
    by (auto simp: admin_log_ok_def recordAdminAction_def Let_def upsert_head_def insert_row_def)
qed

lemma backfill_row_ok:
  assumes "admin_chain_ok H (admin_rows t) h" and "distinct (map aa_id t)"
    and "r \<in> set t" and "aa_seq r = None" and "backfill_row H (t, h) r = (t', h')"
  shows "admin_chain_ok H (admin_rows t') h' \<and> map aa_id t' = map aa_id t \<and>
    (\<forall>x \<in> set t. aa_id x \<noteq> aa_id r \<longrightarrow> x \<in> set t')"
proof -
  let ?n = "cs_lastSeq h + 1"
  let ?hash = "computeAdminHash H (cs_lastHash h) (r\<lparr>aa_seq := Some ?n\<rparr>)"
  let ?f = "\<lambda>x. x\<lparr>aa_seq := Some ?n, aa_prevHash := cs_lastHash h, aa_hash := ?hash\<rparr>"
  have t': "t' = update_many (\<lambda>x. aa_id x = aa_id r) ?f t" and h': "h' = \<lparr>cs_lastSeq = ?n, cs_lastHash = ?hash\<rparr>"
    using assms(5) by (auto simp: backfill_row_def Let_def)
  obtain xs ys where t: "t = xs @ r # ys" using split_list [OF assms(3)] by blast
  with assms(2) have "aa_id r \<notin> aa_id ` (set xs \<union> set ys)" by auto
  then have others: "\<forall>x \<in> set xs \<union> set ys. aa_id x \<noteq> aa_id r" by (metis imageI)
  then have upd: "t' = xs @ ?f r # ys"
    unfolding t' t by (auto simp: update_many_def map_idI)
  have rows: "admin_rows t' = admin_rows t @ [?f r]"
    by (rule admin_rows_add [OF assms(1)])
      (use assms(4) in \<open>auto simp: upd t find_many_def admin_seq_def\<close>)
  have "admin_chain_ok H (admin_rows t @ [?f r]) \<lparr>cs_lastSeq = admin_seq (?f r), cs_lastHash = aa_hash (?f r)\<rparr>"
    by (rule admin_chain_ok_snoc [OF assms(1)])
      (simp_all add: admin_seq_def computeAdminHash_def canonicalizeAdmin_def admin_fields_def)
  then have "admin_chain_ok H (admin_rows t') h'" by (simp add: rows h' admin_seq_def)
  with upd t show ?thesis by auto
qed

lemma backfill_rows_ok:
  assumes "admin_chain_ok H (admin_rows t) h" and "distinct (map aa_id t)"
    and "set rs \<subseteq> {r \<in> set t. aa_seq r = None}" and "distinct (map aa_id rs)"
    and "foldl (backfill_row H) (t, h) rs = (t', h')"
  shows "admin_chain_ok H (admin_rows t') h' \<and> map aa_id t' = map aa_id t"
  using assms
proof (induction rs arbitrary: t h)
  case (Cons r rs)
  obtain t1 h1 where step: "backfill_row H (t, h) r = (t1, h1)" by fastforce
  from Cons.prems have r: "r \<in> set t" "aa_seq r = None" by auto
  note one = backfill_row_ok [OF Cons.prems(1,2) r step]
  have "set rs \<subseteq> {x \<in> set t1. aa_seq x = None}"
  proof
    fix x
    assume x: "x \<in> set rs"
    with Cons.prems(3,4) have "x \<in> set t" "aa_seq x = None" "aa_id x \<noteq> aa_id r"
      by (auto simp: image_iff)
    with one show "x \<in> {x \<in> set t1. aa_seq x = None}" by simp
  qed
  with Cons.IH [of t1 h1] one Cons.prems step show ?case by simp
qed simp

lemma backfillAdminChain_log_ok:
  assumes "admin_log_ok H s" and "backfillAdminChain H s = (s', n)"
  shows "admin_log_ok H s'"
proof (cases "s' = s")
  case False
  let ?p = "sort_key aa_createdAt (sort_key aa_id (find_many (\<lambda>e. aa_seq e = None) (adminAuditEvents s)))"
  obtain t h where th: "foldl (backfill_row H) (adminAuditEvents s, upsert_head (adminChain s)) ?p = (t, h)"
    by fastforce
  with False assms(2) have s': "s' = s\<lparr>adminAuditEvents := t, adminChain := Some h\<rparr>"
    by (auto simp: backfillAdminChain_def Let_def split: if_splits)
  have "distinct (map aa_id ?p)"
    using assms(1) by (auto simp: admin_log_ok_def distinct_map find_many_def inj_on_def)
  with backfill_rows_ok [OF _ _ _ _ th] assms(1)
  have "admin_chain_ok H (admin_rows t) h \<and> map aa_id t = map aa_id (adminAuditEvents s)"
    by (simp add: admin_log_ok_def)
  with assms(1) show ?thesis by (simp add: admin_log_ok_def s' upsert_head_def)
qed (use assms in simp)

lemma admin_log_verifies:
  assumes "admin_log_ok H s"
  shows "cv_ok (verify_admin_log H s)"
proof -
  let ?t = "adminAuditEvents s" let ?h = "upsert_head (adminChain s)"
  have ok: "admin_chain_ok H (admin_rows ?t) ?h" using assms by (simp add: admin_log_ok_def)
  have "admin_seq e \<le> cs_lastSeq ?h" if "e \<in> set (admin_rows ?t)" for e
    using that ok by (metis admin_chain_ok_def atLeastAtMost_iff imageI list.set_map set_upto)
  then have "find_many (\<lambda>e. case aa_seq e of None \<Rightarrow> False
      | Some n \<Rightarrow> (case adminChain s of None \<Rightarrow> True | Some h \<Rightarrow> n \<le> cs_lastSeq h)) ?t
    = find_many (\<lambda>e. aa_seq e \<noteq> None) ?t"
    by (auto simp: find_many_def admin_rows_def admin_seq_def upsert_head_def intro!: filter_cong
        split: option.splits) fastforce
  then have v: "verify_admin_log H s = verifyAdminChain H (admin_rows ?t) (adminChain s)"
    by (simp add: verify_admin_log_def admin_rows_def)
  have "admin_seq (last (admin_rows ?t)) = cs_lastSeq ?h" if "admin_rows ?t \<noteq> []"
    using that ok unfolding admin_chain_ok_def
    by (metis last_map last_snoc list.map_disc_iff not_le upto_Nil upto_rec2)
  then show ?thesis
    using ok unfolding v verifyAdminChain_ok_iff
    by (auto simp: admin_chain_ok_def head_matches_def upsert_head_def split: option.splits if_splits)
qed

section \<open>Properties\<close>

text \<open>Recording an action (with a fresh row id and metadata that JSON can hold) and the backfill.\<close>

inductive admin_step :: "(string \<Rightarrow> string) \<Rightarrow> db \<Rightarrow> db \<Rightarrow> bool" for H where
  recorded: "nid \<notin> aa_id ` set (adminAuditEvents s) \<Longrightarrow>
     act_metadata a = JUndef \<or> defined_json (act_metadata a) \<Longrightarrow>
     admin_step H s (recordAdminAction H nid now a s)"
| backfilled: "backfillAdminChain H s = (s', n) \<Longrightarrow> admin_step H s s'"

inductive_cases admin_stepE: "admin_step H s s'"

lemma admin_step_ok: "admin_step H s s' \<Longrightarrow> admin_log_ok H s \<Longrightarrow> admin_log_ok H s'"
  by (erule admin_stepE) (blast intro: recordAdminAction_log_ok backfillAdminChain_log_ok)+

lemma admin_steps_ok: "(admin_step H)\<^sup>*\<^sup>* s s' \<Longrightarrow> admin_log_ok H s \<Longrightarrow> admin_log_ok H s'"
  by (induction rule: rtranclp_induct) (auto intro: admin_step_ok)

definition ex_action :: AdminAction where
  "ex_action =
     \<lparr>act_actorId = ''a'', act_actorEmail = None, act_action = ''grant.edit'',
      act_targetType = Some ''grant'', act_targetId = Some ''g1'', act_summary = ''Edited grant'',
      act_metadata = JUndef, act_clientIp = None\<rparr>"



definition undefined_metadata :: AdminAction where
  "undefined_metadata = ex_action\<lparr>act_metadata := JObj [(''endsAt'', JUndef)]\<rparr>"

text \<open>An object with an undefined member is hashed with a null in its place but stored without
  the member, so the first row with such metadata no longer verifies (unless the two hashed texts
  collide): the log reports tampering although nobody touched it.\<close>

theorem undefined_metadata_breaks_chain:
  assumes "computeAdminHash H [] e \<noteq> computeAdminHash H [] (e\<lparr>aa_metadata := JObj []\<rparr>)"
    and "e = (admin_event H nid now new_head undefined_metadata)\<lparr>aa_metadata := JObj [(''endsAt'', JUndef)]\<rparr>"
  shows "cv_reason (verify_admin_log H (recordAdminAction H nid now undefined_metadata empty_db))
    = Some Hash_mismatch"
proof -
  let ?e = "admin_event H nid now new_head undefined_metadata"
  have row: "?e = e\<lparr>aa_metadata := JObj []\<rparr>"
    using assms(2) by (simp add: admin_event_def Let_def undefined_metadata_def)
  have hash: "aa_hash ?e = computeAdminHash H [] e" and seq: "aa_seq ?e = Some 1" and prev: "aa_prevHash ?e = []"
    using assms(2) by (simp_all add: admin_event_def Let_def undefined_metadata_def new_head_def nullish_def
        computeAdminHash_def canonicalizeAdmin_def admin_fields_def admin_seq_def)
  have content: "computeAdminHash H [] ?e = computeAdminHash H [] (e\<lparr>aa_metadata := JObj []\<rparr>)"
    by (simp add: row)
  have "admin_loop H None [?e] = Some (?e, Hash_mismatch)"
    using assms(1) hash content prev by simp
  then show ?thesis
    using seq
    by (simp add: verify_admin_log_def recordAdminAction_def Let_def empty_db_def insert_row_def
        upsert_head_def find_many_def admin_seq_def verifyAdminChain_def)
qed

theorem undefined_metadata_breaks_chain_witness:
  "cv_reason (verify_admin_log (\<lambda>x. x) (recordAdminAction (\<lambda>x. x) ''e1'' 5 undefined_metadata empty_db))
     = Some Hash_mismatch"
proof -
  let ?e = "(admin_event (\<lambda>x. x) ''e1'' 5 new_head undefined_metadata)\<lparr>aa_metadata := JObj [(''endsAt'', JUndef)]\<rparr>"
  have "canonicalizeAdmin ?e \<noteq> canonicalizeAdmin (?e\<lparr>aa_metadata := JObj []\<rparr>)"
    by (simp add: canonicalizeAdmin_def admin_fields_def nullish_def)
  then have "computeAdminHash (\<lambda>x. x) [] ?e \<noteq> computeAdminHash (\<lambda>x. x) [] (?e\<lparr>aa_metadata := JObj []\<rparr>)"
    by (simp add: computeAdminHash_def chainHash_def)
  then show ?thesis by (rule undefined_metadata_breaks_chain) simp
qed



end
