(* ===== verification/Directory.thy ===== *)
theory Directory
  imports Sessions Grants Admin_Chain
begin

text \<open>
  \<^verbatim>\<open>lib/directory\<close>: group mappings, the decision taken from a user's directory groups
  (\<^verbatim>\<open>reconcile.ts\<close>), its application at sign-in (\<^verbatim>\<open>sync.ts\<close>) and the throttle in front of it.

  What the LDAP lookup through the connector answers is an argument of \<open>syncUserAtLogin\<close>. The theorems
  show that a reconciliation leaves exactly the directory grants that the groups call for and no
  other grant touched, that a removed user is locked out of every site, and that an unreachable
  directory changes nothing.
\<close>

section \<open>The decision\<close>

datatype MappingLite =
    ROLE_map (ml_groupDN: string) (ml_role: Role) (ml_enabled: bool)
  | SITE_map (ml_groupDN: string) (ml_siteId: ident) (ml_enabled: bool)

record ReconcileDecision =
  rd_deprovision :: bool
  rd_role :: "Role option"
  rd_grantSiteIds :: "ident list"

definition ROLE_RANK :: "Role \<Rightarrow> nat" where
  "ROLE_RANK r = (case r of ADMIN \<Rightarrow> 3 | OPERATOR \<Rightarrow> 2 | AUDITOR \<Rightarrow> 1 | _ \<Rightarrow> 0)"

definition normalizeDN :: "string \<Rightarrow> string" where
  "normalizeDN dn = to_lower (join_with '','' (map trim (split_on CHR '','' dn)))"

definition cnOf :: "string \<Rightarrow> string" where
  "cnOf dn =
     (let first = trim (hd (split_on CHR '','' dn)) in
      to_lower (trim (if CHR ''='' \<in> set first then tl (dropWhile (\<lambda>c. c \<noteq> CHR ''='') first) else first)))"

definition isBareName :: "string \<Rightarrow> bool" where
  "isBareName v \<longleftrightarrow> v \<noteq> [] \<and> CHR ''='' \<notin> set v \<and> CHR '','' \<notin> set v"

text \<open>The members of a JavaScript \<^verbatim>\<open>Set\<close>, in insertion order.\<close>

definition set_order :: "'a list \<Rightarrow> 'a list" where
  "set_order xs = rev (remdups (rev xs))"

definition mapping_matches :: "string list \<Rightarrow> MappingLite \<Rightarrow> bool" where
  "mapping_matches groups m \<longleftrightarrow>
     ml_enabled m \<and>
     (let g = trim (ml_groupDN m) in
      if isBareName g then to_lower g \<in> set (map cnOf groups)
      else normalizeDN g \<in> set (map normalizeDN groups))"

fun role_matches :: "MappingLite list \<Rightarrow> Role list" where
  "role_matches [] = []"
| "role_matches (ROLE_map g r e # ms) = r # role_matches ms"
| "role_matches (SITE_map g i e # ms) = role_matches ms"

fun site_matches :: "MappingLite list \<Rightarrow> ident list" where
  "site_matches [] = []"
| "site_matches (ROLE_map g r e # ms) = site_matches ms"
| "site_matches (SITE_map g i e # ms) = i # site_matches ms"

definition best_role :: "Role list \<Rightarrow> Role" where
  "best_role rs = foldl (\<lambda>best r. if ROLE_RANK r > ROLE_RANK best then r else best) (hd rs) rs"

definition computeReconcile :: "string list \<Rightarrow> MappingLite list \<Rightarrow> bool \<Rightarrow> ReconcileDecision" where
  "computeReconcile resolvedGroups mappings managed =
     (let matched = filter (mapping_matches resolvedGroups) mappings in
      if matched = [] then \<lparr>rd_deprovision = managed, rd_role = None, rd_grantSiteIds = []\<rparr>
      else
       (let roleMatches = role_matches matched; siteMatches = site_matches matched in
        \<lparr>rd_deprovision = False,
         rd_role = (if roleMatches \<noteq> [] then Some (best_role roleMatches)
                    else if siteMatches \<noteq> [] then Some STAFF else None),
         rd_grantSiteIds = set_order siteMatches\<rparr>))"

definition planGrantChanges :: "ident list \<Rightarrow> ident list \<Rightarrow> ident list \<times> ident list" where
  "planGrantChanges current desired =
     (filter (\<lambda>i. i \<notin> set current) (set_order desired),
      filter (\<lambda>i. i \<notin> set desired) (set_order current))"

section \<open>Group mappings\<close>

definition CONSOLE_ROLES :: "Role list" where
  "CONSOLE_ROLES = [ADMIN, OPERATOR, AUDITOR]"

definition lite_of :: "GroupMapping \<Rightarrow> MappingLite option" where
  "lite_of r =
     (if gm_kind r = ''ROLE'' \<and> (\<exists>q \<in> set CONSOLE_ROLES. gm_role r = Some q)
      then Some (ROLE_map (gm_groupDN r) (the (gm_role r)) (gm_enabled r))
      else if gm_kind r = ''SITE'' \<and> truthy (gm_siteId r)
      then Some (SITE_map (gm_groupDN r) (the (gm_siteId r)) (gm_enabled r)) else None)"

definition listGroupMappingsLite :: "db \<Rightarrow> MappingLite list" where
  "listGroupMappingsLite s = List.map_filter lite_of (groupMappings s)"

record mapping_input =
  mi_groupDN :: string
  mi_kind :: string
  mi_role :: "Role option"
  mi_siteId :: "ident option"
  mi_enabled :: bool

definition same_target :: "mapping_input \<Rightarrow> GroupMapping \<Rightarrow> bool" where
  "same_target i e =
     (if mi_kind i = ''ROLE'' then gm_kind e = ''ROLE'' \<and> gm_role e = mi_role i
      else gm_kind e = ''SITE'' \<and> gm_siteId e = mi_siteId i)"

definition createGroupMapping :: "ident \<Rightarrow> mapping_input \<Rightarrow> db \<Rightarrow> db \<times> (string + unit)" where
  "createGroupMapping nid i s =
     (let groupDN = trim (mi_groupDN i) in
      if groupDN = [] then (s, Inl ''Group DN is required.'')
      else if mi_kind i = ''ROLE'' \<and> (\<forall>q \<in> set CONSOLE_ROLES. mi_role i \<noteq> Some q)
      then (s, Inl ''Choose a console role (Admin, Operator, or Auditor).'')
      else if mi_kind i \<noteq> ''ROLE'' \<and> \<not> truthy (mi_siteId i) then (s, Inl ''Choose a site.'')
      else if list_ex (same_target i) (find_many (\<lambda>e. gm_groupDN e = groupDN) (groupMappings s))
      then (s, Inl ''That group is already mapped to this target.'')
      else (s\<lparr>groupMappings :=
               insert_row \<lparr>gm_id = nid, gm_groupDN = groupDN, gm_kind = mi_kind i,
                           gm_role = (if mi_kind i = ''ROLE'' then mi_role i else None),
                           gm_siteId = (if mi_kind i = ''SITE'' then mi_siteId i else None),
                           gm_enabled = mi_enabled i\<rparr> (groupMappings s)\<rparr>, Inr ()))"

text \<open>A field that the input leaves out stays as it is; a mapping that does not exist raises.\<close>

record mapping_patch =
  mp_groupDN :: "string option"
  mp_role :: "Role option option"
  mp_siteId :: "ident option option"
  mp_enabled :: "bool option"

definition patch_mapping :: "mapping_patch \<Rightarrow> GroupMapping \<Rightarrow> GroupMapping" where
  "patch_mapping i m =
     m\<lparr>gm_groupDN := (case mp_groupDN i of Some d \<Rightarrow> trim d | None \<Rightarrow> gm_groupDN m),
       gm_enabled := (case mp_enabled i of Some b \<Rightarrow> b | None \<Rightarrow> gm_enabled m),
       gm_role := (case mp_role i of Some r \<Rightarrow> r | None \<Rightarrow> gm_role m),
       gm_siteId := (case mp_siteId i of Some r \<Rightarrow> r | None \<Rightarrow> gm_siteId m)\<rparr>"

definition updateGroupMapping :: "ident \<Rightarrow> mapping_patch \<Rightarrow> db \<Rightarrow> db \<times> (string + unit)" where
  "updateGroupMapping i p s =
     (if find_first (\<lambda>m. gm_id m = i) (groupMappings s) = None then (s, Inl ''P2025'')
      else (s\<lparr>groupMappings := update_many (\<lambda>m. gm_id m = i) (patch_mapping p) (groupMappings s)\<rparr>, Inr ()))"

definition deleteGroupMapping :: "ident \<Rightarrow> db \<Rightarrow> db" where
  "deleteGroupMapping i s = s\<lparr>groupMappings := delete_many (\<lambda>m. gm_id m = i) (groupMappings s)\<rparr>"

section \<open>Throttle\<close>

definition directorySyncThrottleMs :: "env \<Rightarrow> int" where
  "directorySyncThrottleMs env =
     (let n = (case or_null (map_option trim (env ''DIRECTORY_SYNC_THROTTLE_SECONDS'')) of
                 Some raw \<Rightarrow> number_of_string raw | None \<Rightarrow> NNaN)
      in if jnum_is_finite n \<and> \<not> jnum_less n 0 then jnum_floor n * 1000 else 300000)"

definition shouldSkipSync :: "instant option \<Rightarrow> instant \<Rightarrow> int \<Rightarrow> bool" where
  "shouldSkipSync lastVerifiedAt now throttleMs =
     (if throttleMs \<le> 0 then False
      else (let last = (case lastVerifiedAt of Some t \<Rightarrow> t | None \<Rightarrow> 0) in
            last > 0 \<and> now - last < throttleMs))"

definition resolveConnectorChoice :: "string option \<Rightarrow> ident list \<Rightarrow> string \<times> bool" where
  "resolveConnectorChoice savedId cs =
     (if truthy savedId \<and> the savedId \<notin> set cs then ([], True)
      else (if truthy savedId then the savedId
            else (case cs of c # _ \<Rightarrow> c | [] \<Rightarrow> []), False))"

section \<open>Synchronisation at sign-in\<close>

record DirectoryConfig =
  dc_enabled :: bool
  dc_connectorId :: "ident option"

datatype lookup =
    Lookup_threw
  | Lookup_error string
  | Lookup_found "string list"
  | Lookup_absent

text \<open>Writing to the access log is best effort: a failure leaves the log as it was.\<close>

definition auditDirectory ::
  "(string \<Rightarrow> string) \<Rightarrow> (string \<Rightarrow> instant option) \<Rightarrow> instant \<Rightarrow> User \<Rightarrow> string \<Rightarrow> string \<Rightarrow> string \<Rightarrow> db \<Rightarrow> db" where
  "auditDirectory H pd now u decision path reason s =
     fst (appendAuditEvents H pd now
       [\<lparr>ai_timestamp = None, ai_userId = Some (u_id u), ai_siteId = None, ai_host = Some ''manager'',
         ai_method = Some ''SYNC'', ai_path = Some path, ai_status = Some 200, ai_bytesOut = None,
         ai_decision = Some decision, ai_reason = Some reason, ai_clientIp = None,
         ai_userAgent = None\<rparr>] s)"

definition dir_grant :: "ident \<Rightarrow> User \<Rightarrow> instant \<Rightarrow> ident \<Rightarrow> AccessGrant" where
  "dir_grant nid u now sid =
     \<lparr>g_id = nid, g_userId = u_id u, g_siteId = sid, g_startsAt = None, g_endsAt = None,
      g_status = GrantStatus.ACTIVE, g_note = Some ''Provisioned from AD group'', g_denyReason = None,
      g_requiresApproval = False, g_approvedAt = None, g_approvedById = None, g_schedule = JNull,
      g_createdById = None, g_createdAt = now, g_directoryManaged = True\<rparr>"

fun create_dir_grants ::
  "(ident \<Rightarrow> ident) \<Rightarrow> User \<Rightarrow> instant \<Rightarrow> ident list \<Rightarrow> db \<Rightarrow> db \<times> (string + unit)" where
  "create_dir_grants fresh u now [] s = (s, Inr ())"
| "create_dir_grants fresh u now (sid # sids) s =
     (case insert_grant (dir_grant (fresh sid) u now sid) s of
        (s1, Inl e) \<Rightarrow> (s1, Inl e)
      | (s1, Inr _) \<Rightarrow> create_dir_grants fresh u now sids s1)"

definition active_dir :: "ident \<Rightarrow> AccessGrant \<Rightarrow> bool" where
  "active_dir uid g \<longleftrightarrow> g_userId g = uid \<and> g_status g = GrantStatus.ACTIVE \<and> g_directoryManaged g"

definition revoke_where :: "(AccessGrant \<Rightarrow> bool) \<Rightarrow> db \<Rightarrow> db" where
  "revoke_where p s =
     s\<lparr>accessGrants := update_many p (\<lambda>g. g\<lparr>g_status := GrantStatus.REVOKED\<rparr>) (accessGrants s)\<rparr>"

definition update_user :: "ident \<Rightarrow> (User \<Rightarrow> User) \<Rightarrow> db \<Rightarrow> db" where
  "update_user i f s = s\<lparr>users := update_many (\<lambda>u. u_id u = i) f (users s)\<rparr>"

text \<open>The batch of \<^verbatim>\<open>provisionUser\<close>; any failing statement makes the database drop the whole
  transaction.\<close>

definition provision_batch ::
  "(ident \<Rightarrow> ident) \<Rightarrow> User \<Rightarrow> (User \<Rightarrow> User) \<Rightarrow> ident list \<Rightarrow> ident list \<Rightarrow> instant \<Rightarrow> db \<Rightarrow>
   db \<times> (string + unit)" where
  "provision_batch fresh u f toCreate toRevoke now s =
     (if user_by_id s (u_id u) = None then (s, Inl ''P2025'')
      else (case create_dir_grants fresh u now toCreate (update_user (u_id u) f s) of
              (s1, Inl e) \<Rightarrow> (s1, Inl e)
            | (s1, Inr _) \<Rightarrow>
                (if toRevoke \<noteq> [] then
                   revoke_where (\<lambda>g. active_dir (u_id u) g \<and> g_siteId g \<in> set toRevoke) s1
                 else s1, Inr ())))"

definition provision_summary :: "User \<Rightarrow> ReconcileDecision \<Rightarrow> nat \<Rightarrow> nat \<Rightarrow> (Role \<Rightarrow> string) \<Rightarrow> string" where
  "provision_summary u d created revoked show_role =
     ''role='' @ show_role (case rd_role d of Some r \<Rightarrow> r | None \<Rightarrow> u_role u) @ ''; +'' @ dec created @
     '' grants, -'' @ dec revoked @ '' grants''"

definition role_name :: "Role \<Rightarrow> string" where
  "role_name r =
     (case r of ADMIN \<Rightarrow> ''ADMIN'' | OPERATOR \<Rightarrow> ''OPERATOR'' | AUDITOR \<Rightarrow> ''AUDITOR'' | STAFF \<Rightarrow> ''STAFF''
              | VENDOR \<Rightarrow> ''VENDOR'' | PLATFORM \<Rightarrow> ''PLATFORM'')"

definition roleChanged :: "ReconcileDecision \<Rightarrow> User \<Rightarrow> bool" where
  "roleChanged d u \<longleftrightarrow> rd_role d \<noteq> None \<and> rd_role d \<noteq> Some (u_role u)"

definition userData :: "ReconcileDecision \<Rightarrow> User \<Rightarrow> instant \<Rightarrow> User \<Rightarrow> User" where
  "userData d u now x =
     x\<lparr>u_directoryManaged := True, u_directoryLastVerifiedAt := Some now,
       u_role := (if roleChanged d u then the (rd_role d) else u_role x)\<rparr>"

definition currentDirGrants :: "User \<Rightarrow> db \<Rightarrow> ident list" where
  "currentDirGrants u s = map g_siteId (find_many (active_dir (u_id u)) (accessGrants s))"

definition provisionUser ::
  "(string \<Rightarrow> string) \<Rightarrow> (string \<Rightarrow> instant option) \<Rightarrow> (ident \<Rightarrow> ident) \<Rightarrow> instant \<Rightarrow> User \<Rightarrow>
   ReconcileDecision \<Rightarrow> db \<Rightarrow> db \<times> (string + unit)" where
  "provisionUser H pd fresh now u d s =
     (let plan = planGrantChanges (currentDirGrants u s) (rd_grantSiteIds d);
          toCreate = fst plan; toRevoke = snd plan
      in case run_tx False (provision_batch fresh u (userData d u now) toCreate toRevoke now) s of
           (s1, Inl e) \<Rightarrow> (s1, Inl e)
         | (s1, Inr _) \<Rightarrow>
             (if roleChanged d u \<or> toCreate \<noteq> [] \<or> toRevoke \<noteq> []
              then auditDirectory H pd now u ''ALLOW'' ''directory.provision''
                     (provision_summary u d (length toCreate) (length toRevoke) role_name) s1
              else s1, Inr ()))"

definition deprovision_batch :: "User \<Rightarrow> instant \<Rightarrow> db \<Rightarrow> db \<times> (string + unit)" where
  "deprovision_batch u now s =
     (if user_by_id s (u_id u) = None then (s, Inl ''P2025'')
      else (revoke_where (\<lambda>g. g_userId g = u_id u \<and> g_status g = GrantStatus.ACTIVE)
              (update_user (u_id u)
                (\<lambda>x. x\<lparr>u_status := UserStatus.DISABLED, u_directoryLastVerifiedAt := Some now\<rparr>) s), Inr ()))"

definition deprovisionUser ::
  "(string \<Rightarrow> string) \<Rightarrow> (string \<Rightarrow> instant option) \<Rightarrow> instant \<Rightarrow> User \<Rightarrow> db \<Rightarrow> db \<times> (string + unit)" where
  "deprovisionUser H pd now u s =
     (case run_tx False (deprovision_batch u now) s of
        (s1, Inl e) \<Rightarrow> (s1, Inl e)
      | (s1, Inr _) \<Rightarrow>
          (auditDirectory H pd now u ''DENY'' ''directory.deprovision''
             ''removed from all mapped AD groups'' s1, Inr ()))"

definition groups_of :: "lookup \<Rightarrow> string list" where
  "groups_of r = (case r of Lookup_found gs \<Rightarrow> gs | _ \<Rightarrow> [])"

text \<open>\<open>Inr True\<close> rejects the sign-in; \<open>Inl\<close> is an exception that reaches the caller.\<close>

definition syncUserAtLogin ::
  "(string \<Rightarrow> string) \<Rightarrow> (string \<Rightarrow> instant option) \<Rightarrow> env \<Rightarrow> DirectoryConfig option \<Rightarrow> lookup \<Rightarrow>
   (ident \<Rightarrow> ident) \<Rightarrow> instant \<Rightarrow> User \<Rightarrow> db \<Rightarrow> db \<times> (string + bool)" where
  "syncUserAtLogin H pd env cfg resolved fresh now u s =
     (case cfg of
        None \<Rightarrow> (s, Inr False)
      | Some c \<Rightarrow>
          if \<not> dc_enabled c \<or> \<not> truthy (dc_connectorId c) then (s, Inr False)
          else if directorySyncThrottleMs env > 0 \<and>
                  shouldSkipSync (Option.bind (user_by_id s (u_id u)) u_directoryLastVerifiedAt) now
                    (directorySyncThrottleMs env)
          then (s, Inr False)
          else (case resolved of
                  Lookup_threw \<Rightarrow> (s, Inr False)
                | Lookup_error _ \<Rightarrow> (s, Inr False)
                | _ \<Rightarrow>
                   (let d = computeReconcile (groups_of resolved) (listGroupMappingsLite s)
                              (u_directoryManaged u) in
                    if rd_deprovision d then
                      (case deprovisionUser H pd now u s of
                         (s1, Inl e) \<Rightarrow> (s1, Inl e)
                       | (s1, Inr _) \<Rightarrow> (s1, Inr True))
                    else if rd_role d = None \<and> rd_grantSiteIds d = [] then
                      (update_user (u_id u) (\<lambda>x. x\<lparr>u_directoryLastVerifiedAt := Some now\<rparr>) s, Inr False)
                    else
                      (case provisionUser H pd fresh now u d s of
                         (s1, Inl e) \<Rightarrow> (s1, Inl e)
                       | (s1, Inr _) \<Rightarrow> (s1, Inr False)))))"

section \<open>Lemmas\<close>

lemma set_set_order [simp]: "set (set_order xs) = set xs"
  by (simp add: set_order_def)

lemma set_role_matches:
  "set (role_matches ms) = {r. \<exists>g e. ROLE_map g r e \<in> set ms}"
  by (induction ms rule: role_matches.induct) auto

lemma set_site_matches:
  "set (site_matches ms) = {i. \<exists>g e. SITE_map g i e \<in> set ms}"
  by (induction ms rule: site_matches.induct) auto

lemma some_match: "ms \<noteq> [] \<Longrightarrow> role_matches ms \<noteq> [] \<or> site_matches ms \<noteq> []"
  by (cases ms rule: role_matches.cases) auto

lemma append_keeps_tables [simp]:
  "accessGrants (fst (appendAuditEvents H pd now evs s)) = accessGrants s"
  "users (fst (appendAuditEvents H pd now evs s)) = users s"
  "sessions (fst (appendAuditEvents H pd now evs s)) = sessions s"
  by (simp_all add: appendAuditEvents_def split: option.splits prod.splits)

lemma audit_keeps_tables [simp]:
  "accessGrants (auditDirectory H pd now u d p r s) = accessGrants s"
  "users (auditDirectory H pd now u d p r s) = users s"
  "sessions (auditDirectory H pd now u d p r s) = sessions s"
  by (simp_all add: auditDirectory_def)

lemma create_dir_grants_ok:
  assumes "create_dir_grants fresh u now sids s = (s', Inr ())"
  shows "accessGrants s' = accessGrants s @ map (\<lambda>i. dir_grant (fresh i) u now i) sids"
  using assms
proof (induction sids arbitrary: s)
  case (Cons i sids)
  then show ?case
    by (fastforce simp: insert_grant_def insert_row_def split: if_splits)
qed simp

lemma dir_grant_simps [simp]:
  "g_siteId (dir_grant n u now i) = i" "g_userId (dir_grant n u now i) = u_id u"
  "active_dir (u_id u) (dir_grant n u now i)" "g_directoryManaged (dir_grant n u now i)"
  by (simp_all add: dir_grant_def active_dir_def)

lemma run_tx_Inr: "run_tx a b s = (s', Inr x) \<longleftrightarrow> b s = (s', Inr x)"
  by (auto simp: run_tx_def split: prod.splits sum.splits)

lemma provisionUser_batch:
  assumes "provisionUser H pd fresh now u d s = (s', Inr ())"
  shows "\<exists>s1. provision_batch fresh u (userData d u now)
      (fst (planGrantChanges (currentDirGrants u s) (rd_grantSiteIds d)))
      (snd (planGrantChanges (currentDirGrants u s) (rd_grantSiteIds d))) now s = (s1, Inr ()) \<and>
    accessGrants s' = accessGrants s1 \<and> users s' = users s1"
proof (cases "run_tx False (provision_batch fresh u (userData d u now)
      (fst (planGrantChanges (currentDirGrants u s) (rd_grantSiteIds d)))
      (snd (planGrantChanges (currentDirGrants u s) (rd_grantSiteIds d))) now) s")
  case (Pair s1 r)
  show ?thesis
  proof (cases r)
    case (Inl e)
    with Pair assms show ?thesis by (simp add: provisionUser_def Let_def)
  next
    case (Inr x)
    with Pair have b: "provision_batch fresh u (userData d u now)
      (fst (planGrantChanges (currentDirGrants u s) (rd_grantSiteIds d)))
      (snd (planGrantChanges (currentDirGrants u s) (rd_grantSiteIds d))) now s = (s1, Inr ())"
      by (simp add: run_tx_Inr)
    moreover have "accessGrants s' = accessGrants s1 \<and> users s' = users s1"
      using assms Pair Inr by (simp add: provisionUser_def Let_def split: if_splits) auto
    ultimately show ?thesis by blast
  qed
qed

lemma provision_batch_grants:
  assumes "provision_batch fresh u f new old now s = (s1, Inr ())"
  shows "accessGrants s1 =
    update_many (\<lambda>g. active_dir (u_id u) g \<and> g_siteId g \<in> set old)
      (\<lambda>g. g\<lparr>g_status := GrantStatus.REVOKED\<rparr>)
      (accessGrants s @ map (\<lambda>i. dir_grant (fresh i) u now i) new)"
proof -
  obtain s2 where c: "create_dir_grants fresh u now new (update_user (u_id u) f s) = (s2, Inr ())"
    and s1: "s1 = (if old \<noteq> [] then revoke_where (\<lambda>g. active_dir (u_id u) g \<and> g_siteId g \<in> set old) s2 else s2)"
    using assms by (auto simp: provision_batch_def split: prod.splits sum.splits if_splits)
  from create_dir_grants_ok [OF c] show ?thesis
    by (cases "old = []") (simp_all add: s1 revoke_where_def update_many_none update_user_def)
qed

text \<open>What the batch does to the grants: append the missing ones, revoke the surplus ones.\<close>

lemma provisionUser_grants:
  assumes "provisionUser H pd fresh now u d s = (s', Inr ())"
  shows "accessGrants s' =
    update_many (\<lambda>g. active_dir (u_id u) g \<and> g_siteId g \<notin> set (rd_grantSiteIds d))
      (\<lambda>g. g\<lparr>g_status := GrantStatus.REVOKED\<rparr>)
      (accessGrants s @
        map (\<lambda>i. dir_grant (fresh i) u now i)
          (filter (\<lambda>i. i \<notin> set (currentDirGrants u s)) (set_order (rd_grantSiteIds d))))"
proof -
  from provisionUser_batch [OF assms] obtain s1 where
    b: "provision_batch fresh u (userData d u now)
      (fst (planGrantChanges (currentDirGrants u s) (rd_grantSiteIds d)))
      (snd (planGrantChanges (currentDirGrants u s) (rd_grantSiteIds d))) now s = (s1, Inr ())"
    and g: "accessGrants s' = accessGrants s1" by blast
  show ?thesis
    unfolding g provision_batch_grants [OF b] update_many_def
    by (rule map_cong) (auto simp: planGrantChanges_def currentDirGrants_def)
qed

section \<open>Claims\<close>

text \<open>A lookup takes place: the directory is configured and the user was not verified recently.\<close>

definition sync_due :: "env \<Rightarrow> DirectoryConfig option \<Rightarrow> instant \<Rightarrow> User \<Rightarrow> db \<Rightarrow> bool" where
  "sync_due env cfg now u s \<longleftrightarrow>
     (\<exists>c. cfg = Some c \<and> dc_enabled c \<and> truthy (dc_connectorId c)) \<and>
     \<not> (directorySyncThrottleMs env > 0 \<and>
        shouldSkipSync (Option.bind (user_by_id s (u_id u)) u_directoryLastVerifiedAt) now
          (directorySyncThrottleMs env))"

lemma sync_answered:
  assumes "sync_due env cfg now u s"
  shows "syncUserAtLogin H pd env cfg (Lookup_found groups) fresh now u s =
    (let d = computeReconcile groups (listGroupMappingsLite s) (u_directoryManaged u) in
     if rd_deprovision d then
       (case deprovisionUser H pd now u s of
          (s1, Inl e) \<Rightarrow> (s1, Inl e) | (s1, Inr _) \<Rightarrow> (s1, Inr True))
     else if rd_role d = None \<and> rd_grantSiteIds d = [] then
       (update_user (u_id u) (\<lambda>x. x\<lparr>u_directoryLastVerifiedAt := Some now\<rparr>) s, Inr False)
     else (case provisionUser H pd fresh now u d s of
             (s1, Inl e) \<Rightarrow> (s1, Inl e) | (s1, Inr _) \<Rightarrow> (s1, Inr False)))"
  using assms by (auto simp: syncUserAtLogin_def sync_due_def groups_of_def)

lemma reconcile_matched:
  assumes "m \<in> set ms" and "mapping_matches groups m"
  shows "\<not> rd_deprovision (computeReconcile groups ms b)"
    and "rd_role (computeReconcile groups ms b) \<noteq> None"
    and "set (rd_grantSiteIds (computeReconcile groups ms b)) =
      {i. \<exists>g e. SITE_map g i e \<in> set ms \<and> mapping_matches groups (SITE_map g i e)}"
proof -
  let ?f = "filter (mapping_matches groups) ms"
  have "?f \<noteq> []" using assms by (auto simp: filter_empty_conv)
  with some_match [OF this] show "\<not> rd_deprovision (computeReconcile groups ms b)"
    "rd_role (computeReconcile groups ms b) \<noteq> None"
    "set (rd_grantSiteIds (computeReconcile groups ms b)) =
      {i. \<exists>g e. SITE_map g i e \<in> set ms \<and> mapping_matches groups (SITE_map g i e)}"
    by (auto simp: computeReconcile_def Let_def set_site_matches)
qed

lemma untouched_grants:
  assumes "provisionUser H pd fresh now u d s = (s', Inr ())"
  shows "filter (\<lambda>g. \<not> (g_userId g = u_id u \<and> g_directoryManaged g)) (accessGrants s') =
    filter (\<lambda>g. \<not> (g_userId g = u_id u \<and> g_directoryManaged g)) (accessGrants s)"
proof -
  let ?q = "\<lambda>g. \<not> (g_userId g = u_id u \<and> g_directoryManaged g)"
  have "filter ?q (update_many (\<lambda>g. active_dir (u_id u) g \<and> P g) (\<lambda>g. g\<lparr>g_status := GrantStatus.REVOKED\<rparr>) t)
      = filter ?q t" for P t
    by (induction t) (auto simp: update_many_def active_dir_def)
  then show ?thesis
    unfolding provisionUser_grants [OF assms] by (simp add: filter_empty_conv)
qed

lemma active_sites:
  assumes "provisionUser H pd fresh now u d s = (s', Inr ())"
  shows "g_siteId ` {g \<in> set (accessGrants s'). active_dir (u_id u) g} = set (rd_grantSiteIds d)"
  (is "?L = ?R")
proof
  have inactive: "\<not> active_dir i (g\<lparr>g_status := GrantStatus.REVOKED\<rparr>)" for i g
    by (simp add: active_dir_def)
  show "?L \<subseteq> ?R"
    unfolding provisionUser_grants [OF assms] by (auto simp: set_update_many inactive)
  show "?R \<subseteq> ?L"
  proof
    fix i
    assume i: "i \<in> ?R"
    show "i \<in> ?L"
    proof (cases "\<exists>g\<in>set (accessGrants s). active_dir (u_id u) g \<and> g_siteId g = i")
      case True
      then show ?thesis
        using i unfolding provisionUser_grants [OF assms] by (fastforce simp: set_update_many)
    next
      case False
      with i have "dir_grant (fresh i) u now i \<in> set (accessGrants s')"
        unfolding provisionUser_grants [OF assms] by (auto simp: set_update_many currentDirGrants_def)
      then show ?thesis by (intro image_eqI [of _ _ "dir_grant (fresh i) u now i"]) auto
    qed
  qed
qed

text \<open>The batch cannot fail while the user and the mapped sites exist.\<close>

lemma user_by_id_update:
  assumes "\<And>x. u_id (f x) = u_id x"
  shows "user_by_id (update_user i f s) j \<noteq> None \<longleftrightarrow> user_by_id s j \<noteq> None"
  using assms
  by (auto simp: user_by_id_def update_user_def find_first_None update_many_def)

lemma create_dir_grants_succeeds:
  assumes "user_by_id s (u_id u) \<noteq> None" and "\<forall>i\<in>set sids. site_by_id s i \<noteq> None"
  shows "snd (create_dir_grants fresh u now sids s) = Inr ()"
  using assms
proof (induction sids arbitrary: s)
  case (Cons i sids)
  let ?s = "s\<lparr>accessGrants := insert_row (dir_grant (fresh i) u now i) (accessGrants s)\<rparr>"
  have "insert_grant (dir_grant (fresh i) u now i) s = (?s, Inr (fresh i))"
    using Cons.prems by (simp add: insert_grant_def grant_keys_ok_def dir_grant_def)
  moreover have "user_by_id ?s j = user_by_id s j" "site_by_id ?s j = site_by_id s j" for j
    by (simp_all add: user_by_id_def site_by_id_def)
  ultimately show ?case using Cons by simp
qed simp

lemma provisionUser_succeeds:
  assumes "user_by_id s (u_id u) \<noteq> None" and "\<forall>i\<in>set (rd_grantSiteIds d). site_by_id s i \<noteq> None"
  shows "snd (provisionUser H pd fresh now u d s) = Inr ()"
proof -
  have batch: "\<exists>s'. provision_batch fresh u f new old now s = (s', Inr ())"
    if "\<And>x. u_id (f x) = u_id x" and "set new \<subseteq> set (rd_grantSiteIds d)" for f new old
  proof -
    have "snd (create_dir_grants fresh u now new (update_user (u_id u) f s)) = Inr ()"
    proof (rule create_dir_grants_succeeds)
      show "user_by_id (update_user (u_id u) f s) (u_id u) \<noteq> None"
        using user_by_id_update [of f] that(1) assms(1) by blast
      show "\<forall>i\<in>set new. site_by_id (update_user (u_id u) f s) i \<noteq> None"
        using assms(2) that(2) by (auto simp: site_by_id_def update_user_def)
    qed
    then show ?thesis using assms(1)
      by (auto simp: provision_batch_def split: prod.splits)
  qed
  from batch [of "userData d u now" "fst (planGrantChanges (currentDirGrants u s) (rd_grantSiteIds d))"
      "snd (planGrantChanges (currentDirGrants u s) (rd_grantSiteIds d))"]
  obtain s1 where "provision_batch fresh u (userData d u now)
      (fst (planGrantChanges (currentDirGrants u s) (rd_grantSiteIds d)))
      (snd (planGrantChanges (currentDirGrants u s) (rd_grantSiteIds d))) now s = (s1, Inr ())"
    by (auto simp: planGrantChanges_def userData_def)
  then show ?thesis by (simp add: provisionUser_def Let_def run_tx_def)
qed

text \<open>C14: a reconciliation is exact. When the directory answers with a user's groups, some enabled
  mapping matches and the mapped sites exist, the sign-in goes on; the sites on which the user then
  holds an active directory-managed grant are exactly the sites of the matching site mappings, and every
  other grant (those made by hand and those of other users) is as before.\<close>

theorem directory_grants_exact:
  assumes "sync_due env cfg now u s" and "user_by_id s (u_id u) \<noteq> None"
    and "\<forall>g i e. SITE_map g i e \<in> set (listGroupMappingsLite s) \<longrightarrow> site_by_id s i \<noteq> None"
    and "m \<in> set (listGroupMappingsLite s)" and "mapping_matches groups m"
  shows "\<exists>s'. syncUserAtLogin H pd env cfg (Lookup_found groups) fresh now u s = (s', Inr False) \<and>
    g_siteId ` {g \<in> set (accessGrants s'). active_dir (u_id u) g} =
      {i. \<exists>g e. SITE_map g i e \<in> set (listGroupMappingsLite s) \<and> mapping_matches groups (SITE_map g i e)} \<and>
    filter (\<lambda>g. \<not> (g_userId g = u_id u \<and> g_directoryManaged g)) (accessGrants s') =
      filter (\<lambda>g. \<not> (g_userId g = u_id u \<and> g_directoryManaged g)) (accessGrants s)"
proof -
  let ?d = "computeReconcile groups (listGroupMappingsLite s) (u_directoryManaged u)"
  note d = reconcile_matched [OF assms(4,5), of "u_directoryManaged u"]
  have "snd (provisionUser H pd fresh now u ?d s) = Inr ()"
    by (rule provisionUser_succeeds [OF assms(2)]) (use assms(3) d(3) in auto)
  then obtain s' where p: "provisionUser H pd fresh now u ?d s = (s', Inr ())"
    by (metis prod.collapse)
  then have "syncUserAtLogin H pd env cfg (Lookup_found groups) fresh now u s = (s', Inr False)"
    using d(1,2) by (auto simp: sync_answered [OF assms(1)] Let_def)
  with active_sites [OF p] untouched_grants [OF p] d(3) show ?thesis by simp
qed

definition ex_mapping :: GroupMapping where
  "ex_mapping = \<lparr>gm_id = ''m1'', gm_groupDN = ''HMI Users'', gm_kind = ''SITE'', gm_role = None,
     gm_siteId = Some ''s1'', gm_enabled = True\<rparr>"

definition ex_dir_db :: db where
  "ex_dir_db = ex_db\<lparr>groupMappings := [ex_mapping]\<rparr>"

definition ex_dir_cfg :: "DirectoryConfig option" where
  "ex_dir_cfg = Some \<lparr>dc_enabled = True, dc_connectorId = Some ''c1''\<rparr>"

lemma ex_dir_facts:
  "listGroupMappingsLite ex_dir_db = [SITE_map ''HMI Users'' ''s1'' True]"
  "mapping_matches [''CN=hmi users,DC=corp''] (SITE_map ''HMI Users'' ''s1'' True)"
  "\<not> mapping_matches [] (SITE_map ''HMI Users'' ''s1'' True)"
  "user_by_id ex_dir_db ''u1'' \<noteq> None" "site_by_id ex_dir_db ''s1'' \<noteq> None"
  by code_simp+

lemma ex_sync_due:
  assumes "u_id u = ''u1''"
  shows "sync_due (\<lambda>_. None) ex_dir_cfg 5 u ex_dir_db"
  using assms
  by (auto simp: sync_due_def ex_dir_cfg_def truthy_def shouldSkipSync_def ex_dir_db_def ex_db_def
      ex_user_def user_by_id_def find_first_def)

theorem directory_grants_exact_witness:
  "\<exists>s'. syncUserAtLogin (\<lambda>x. x) (\<lambda>_. None) (\<lambda>_. None) ex_dir_cfg
     (Lookup_found [''CN=hmi users,DC=corp'']) (\<lambda>i. ''g2'') 5 ex_user ex_dir_db = (s', Inr False) \<and>
   ''s1'' \<in> g_siteId ` {g \<in> set (accessGrants s'). active_dir ''u1'' g}"
proof -
  let ?m = "SITE_map ''HMI Users'' ''s1'' True" and ?gs = "[''CN=hmi users,DC=corp'']"
  have u: "u_id ex_user = ''u1''" by (simp add: ex_user_def)
  have "user_by_id ex_dir_db (u_id ex_user) \<noteq> None" unfolding u by (rule ex_dir_facts)
  moreover have "\<forall>g i e. SITE_map g i e \<in> set (listGroupMappingsLite ex_dir_db) \<longrightarrow> site_by_id ex_dir_db i \<noteq> None"
    "?m \<in> set (listGroupMappingsLite ex_dir_db)"
    by (simp_all add: ex_dir_facts(1,5) del: not_None_eq)
  ultimately obtain s' where
    r: "syncUserAtLogin (\<lambda>x. x) (\<lambda>_. None) (\<lambda>_. None) ex_dir_cfg (Lookup_found ?gs) (\<lambda>i. ''g2'') 5 ex_user
      ex_dir_db = (s', Inr False)"
    and e: "g_siteId ` {g \<in> set (accessGrants s'). active_dir ''u1'' g} =
      {i. \<exists>g e. SITE_map g i e \<in> set (listGroupMappingsLite ex_dir_db) \<and> mapping_matches ?gs (SITE_map g i e)}"
    using directory_grants_exact [OF ex_sync_due [OF u] _ _ _ ex_dir_facts(2), of "\<lambda>x. x" "\<lambda>_. None" "\<lambda>i. ''g2''"]
    unfolding u by blast
  have "''s1'' \<in> g_siteId ` {g \<in> set (accessGrants s'). active_dir ''u1'' g}"
    unfolding e ex_dir_facts(1) using ex_dir_facts(2) by auto
  with r show ?thesis by blast
qed

text \<open>C15: a removed user is locked out. When the directory answers and no enabled mapping matches a
  directory-managed user, the sign-in is rejected; from then on every access check for the user is
  refused at every time, and no session token opens the console as that user.\<close>

theorem deprovisioned_locked_out:
  assumes "sync_due env cfg now u s" and "u_directoryManaged u" and "user_by_id s (u_id u) \<noteq> None"
    and "\<forall>m\<in>set (listGroupMappingsLite s). \<not> mapping_matches groups m"
  shows "\<exists>s'. syncUserAtLogin H pd env cfg (Lookup_found groups) fresh now u s = (s', Inr True) \<and>
    (\<forall>\<I> sid t. \<not> d_allow (evaluateAccess \<I> s' (u_id u) sid t)) \<and>
    (\<forall>policy t token v. snd (getSessionUser H policy t token s') = Some v \<longrightarrow> u_id v \<noteq> u_id u)"
proof -
  let ?f = "\<lambda>x. x\<lparr>u_status := UserStatus.DISABLED, u_directoryLastVerifiedAt := Some now\<rparr>"
  have "rd_deprovision (computeReconcile groups (listGroupMappingsLite s) (u_directoryManaged u))"
    using assms(2,4) by (auto simp: computeReconcile_def filter_empty_conv)
  then obtain s' where r: "syncUserAtLogin H pd env cfg (Lookup_found groups) fresh now u s = (s', Inr True)"
    and users: "users s' = update_many (\<lambda>x. u_id x = u_id u) ?f (users s)"
    using assms(3)
    by (auto simp: sync_answered [OF assms(1)] Let_def deprovisionUser_def deprovision_batch_def
        revoke_where_def update_user_def run_tx_def)
  have off: "u_status x = UserStatus.DISABLED" if "user_by_id s' (u_id u) = Some x" for x
    using user_by_id_Some [OF that] by (auto simp: users set_update_many)
  then have "\<not> d_allow (evaluateAccess \<I> s' (u_id u) sid t)" for \<I> sid t
    by (auto simp: evaluateAccess_allow_iff)
  moreover have "u_id v \<noteq> u_id u" if v: "snd (getSessionUser H policy t token s') = Some v" for policy t token v
  proof -
    from v obtain i where "user_by_id s' i = Some v" "u_status v = UserStatus.ACTIVE"
      by (auto simp: getSessionUser_def split: if_splits option.splits)
    then show ?thesis using off user_by_id_Some by fastforce
  qed
  ultimately show ?thesis using r by blast
qed

theorem deprovisioned_locked_out_witness:
  "\<exists>s'. syncUserAtLogin (\<lambda>x. x) (\<lambda>_. None) (\<lambda>_. None) ex_dir_cfg (Lookup_found []) (\<lambda>i. ''g2'') 5
     (ex_user\<lparr>u_directoryManaged := True\<rparr>) ex_dir_db = (s', Inr True) \<and>
   \<not> d_allow (evaluateAccess ex_intl s' ''u1'' ''s1'' 7)"
proof -
  let ?u = "ex_user\<lparr>u_directoryManaged := True\<rparr>"
  have "u_id ?u = ''u1''" by (simp add: ex_user_def)
  then show ?thesis
    using deprovisioned_locked_out [OF ex_sync_due, of ?u "[]" "\<lambda>x. x" "\<lambda>_. None" "\<lambda>i. ''g2''"]
    by (auto simp: ex_dir_facts)
qed

text \<open>An unreachable or failing directory is read as "unknown": nothing changes, the sign-in goes on.\<close>

lemma directory_fail_open:
  assumes "resolved = Lookup_threw \<or> resolved = Lookup_error e"
  shows "syncUserAtLogin H pd env cfg resolved fresh now u s = (s, Inr False)"
  using assms by (auto simp: syncUserAtLogin_def split: option.splits)

end
