(* ===== verification/Network.thy ===== *)
theory Network
  imports JsValue "HOL-Library.Word"
begin

text \<open>
  \<^verbatim>\<open>lib/request-ip.ts\<close>, \<^verbatim>\<open>lib/rate-limit.ts\<close> and \<^verbatim>\<open>lib/net/cidr.ts\<close>: the address of the client, the
  fixed-window rate limiter and the vendor IP allowlist.

  Of Node's \<^verbatim>\<open>net\<close> module the allowlist uses \<^verbatim>\<open>isIP\<close> and \<^verbatim>\<open>BlockList\<close>; both are modelled on 32- and
  128-bit words. The allowlist is shown to mean what an administrator reads in it: an address
  is allowed when it lies in one of the address blocks, a block being an interval of
  numbers (\<open>allowed_spec\<close>).
\<close>

section \<open>The client's address\<close>

type_synonym headers = "string \<Rightarrow> string option"

definition clientIp :: "headers \<Rightarrow> string option" where
  "clientIp h =
     (if truthy (map_option trim (h ''x-real-ip'')) then map_option trim (h ''x-real-ip'')
      else (case or_null (h ''x-forwarded-for'') of
              None \<Rightarrow> None
            | Some xff \<Rightarrow>
                (let hops = filter (\<lambda>t. t \<noteq> []) (map trim (split_on CHR '','' xff)) in
                 if hops \<noteq> [] then Some (last hops) else None)))"

section \<open>Rate limit\<close>

record hit =
  hit_count :: nat
  hit_reset :: instant

record limiter =
  hits :: "string \<Rightarrow> hit option"
  lastSweep :: instant

definition new_limiter :: limiter where
  "new_limiter = \<lparr>hits = (\<lambda>_. None), lastSweep = 0\<rparr>"

definition expired_hit :: "instant \<Rightarrow> hit option \<Rightarrow> bool" where
  "expired_hit now e = (case e of None \<Rightarrow> True | Some v \<Rightarrow> hit_reset v < now)"

definition sweep :: "instant \<Rightarrow> limiter \<Rightarrow> limiter" where
  "sweep now l =
     (if now - lastSweep l < 1000 then l
      else \<lparr>hits = (\<lambda>k. if expired_hit now (hits l k) then None else hits l k), lastSweep = now\<rparr>)"

definition checkRateLimit ::
  "string \<Rightarrow> nat \<Rightarrow> int \<Rightarrow> instant \<Rightarrow> limiter \<Rightarrow> limiter \<times> bool" where
  "checkRateLimit key limit windowMs now l0 =
     (let l = sweep now l0 in
      case hits l key of
        None \<Rightarrow> (l\<lparr>hits := (hits l)(key \<mapsto> \<lparr>hit_count = 1, hit_reset = now + windowMs\<rparr>)\<rparr>, True)
      | Some e \<Rightarrow>
          if hit_reset e < now
          then (l\<lparr>hits := (hits l)(key \<mapsto> \<lparr>hit_count = 1, hit_reset = now + windowMs\<rparr>)\<rparr>, True)
          else if hit_count e \<ge> limit then (l, False)
          else (l\<lparr>hits := (hits l)(key \<mapsto> e\<lparr>hit_count := hit_count e + 1\<rparr>)\<rparr>, True))"

record rate_call =
  rc_key :: string
  rc_limit :: nat
  rc_window :: int
  rc_at :: instant

text \<open>The calls that are let through, in order.\<close>

fun admitted :: "limiter \<Rightarrow> rate_call list \<Rightarrow> rate_call list" where
  "admitted l [] = []"
| "admitted l (c # cs) =
     (let (l', ok) = checkRateLimit (rc_key c) (rc_limit c) (rc_window c) (rc_at c) l
      in (if ok then [c] else []) @ admitted l' cs)"

section \<open>Addresses (\<^verbatim>\<open>net.isIP\<close>)\<close>

datatype sock = V4 "32 word" | V6 "128 word"

definition v4_octet :: "string \<Rightarrow> nat option" where
  "v4_octet s =
     (if s \<noteq> [] \<and> length s \<le> 3 \<and> list_all is_digit s \<and> (hd s = CHR ''0'' \<longrightarrow> length s = 1)
         \<and> undec s \<le> 255
      then Some (undec s) else None)"

fun collect :: "('a \<Rightarrow> 'b option) \<Rightarrow> 'a list \<Rightarrow> 'b list option" where
  "collect f [] = Some []"
| "collect f (x # xs) =
     (case f x of
        None \<Rightarrow> None
      | Some y \<Rightarrow> (case collect f xs of None \<Rightarrow> None | Some ys \<Rightarrow> Some (y # ys)))"

definition parse_v4 :: "string \<Rightarrow> 32 word option" where
  "parse_v4 s =
     (case collect v4_octet (split_on CHR ''.'' s) of
        Some [a, b, c, d] \<Rightarrow> Some (word_of_nat (((a * 256 + b) * 256 + c) * 256 + d))
      | _ \<Rightarrow> None)"

definition v6_group :: "string \<Rightarrow> nat option" where
  "v6_group s =
     (if s \<noteq> [] \<and> length s \<le> 4 \<and> list_all (\<lambda>c. radix_digit c < 16) s
      then Some (foldl (\<lambda>a c. 16 * a + radix_digit c) 0 s) else None)"

text \<open>The groups of a part of an IPv6 address; the last one may be in dotted form.\<close>

definition v6_groups :: "bool \<Rightarrow> string \<Rightarrow> nat list option" where
  "v6_groups final s =
     (if s = [] then Some []
      else
       (let ps = split_on CHR '':'' s in
        if final \<and> parse_v4 (last ps) \<noteq> None
        then map_option (\<lambda>gs. gs @ [unat (the (parse_v4 (last ps))) div 65536,
                                    unat (the (parse_v4 (last ps))) mod 65536])
               (collect v6_group (butlast ps))
        else collect v6_group ps))"

fun split_double :: "string \<Rightarrow> (string \<times> string) option" where
  "split_double (a # b # s) =
     (if a = CHR '':'' \<and> b = CHR '':'' then Some ([], s)
      else map_option (\<lambda>(l, r). (a # l, r)) (split_double (b # s)))"
| "split_double _ = None"

definition v6_number :: "nat list \<Rightarrow> 128 word" where
  "v6_number gs = word_of_nat (foldl (\<lambda>a g. a * 65536 + g) 0 gs)"

definition parse_v6_plain :: "string \<Rightarrow> 128 word option" where
  "parse_v6_plain s =
     (case split_double s of
        None \<Rightarrow>
          (case v6_groups True s of
             Some gs \<Rightarrow> if length gs = 8 then Some (v6_number gs) else None
           | None \<Rightarrow> None)
      | Some (l, r) \<Rightarrow>
          (case v6_groups False l of
             Some ls \<Rightarrow>
               (case v6_groups True r of
                  Some rs \<Rightarrow>
                    if length ls + length rs \<le> 7
                    then Some (v6_number (ls @ replicate (8 - length ls - length rs) 0 @ rs)) else None
                | None \<Rightarrow> None)
           | None \<Rightarrow> None))"

definition zone_char :: "char \<Rightarrow> bool" where
  "zone_char c \<longleftrightarrow> is_digit c \<or> is_lower c \<or> is_upper c \<or> c \<in> set ''-.:''"

definition parse_v6 :: "string \<Rightarrow> 128 word option" where
  "parse_v6 s =
     (let zone = dropWhile (\<lambda>c. c \<noteq> CHR ''%'') s in
      if zone = [] \<or> (tl zone \<noteq> [] \<and> list_all zone_char (tl zone))
      then parse_v6_plain (takeWhile (\<lambda>c. c \<noteq> CHR ''%'') s) else None)"

definition sock_of :: "string \<Rightarrow> sock option" where
  "sock_of s =
     (case parse_v4 s of Some a \<Rightarrow> Some (V4 a) | None \<Rightarrow> map_option V6 (parse_v6 s))"

section \<open>\<^verbatim>\<open>net.BlockList\<close>\<close>

datatype rule = Address sock | Subnet sock nat

definition mapped :: "32 word \<Rightarrow> 128 word" where
  "mapped a = 0xFFFF00000000 + ucast a"

fun is_match :: "sock \<Rightarrow> sock \<Rightarrow> bool" where
  "is_match (V4 a) (V4 b) = (a = b)"
| "is_match (V6 a) (V6 b) = (a = b)"
| "is_match (V4 a) (V6 b) = (mapped a = b)"
| "is_match (V6 a) (V4 b) = (a = mapped b)"

fun is_in_network :: "sock \<Rightarrow> sock \<Rightarrow> nat \<Rightarrow> bool" where
  "is_in_network (V4 a) (V4 n) p = (drop_bit (32 - p) a = drop_bit (32 - p) n)"
| "is_in_network (V6 a) (V6 n) p = (drop_bit (128 - p) a = drop_bit (128 - p) n)"
| "is_in_network (V4 a) (V6 n) p = (drop_bit (128 - p) (mapped a) = drop_bit (128 - p) n)"
| "is_in_network (V6 a) (V4 n) p =
     (drop_bit 32 a = 0xFFFF \<and> drop_bit (32 - p) (ucast a :: 32 word) = drop_bit (32 - p) n)"

fun rule_matches :: "sock \<Rightarrow> rule \<Rightarrow> bool" where
  "rule_matches ip (Address a) = is_match a ip"
| "rule_matches ip (Subnet n p) = is_in_network ip n p"

definition bl_check :: "rule list \<Rightarrow> sock \<Rightarrow> bool" where
  "bl_check bl ip = list_ex (rule_matches ip) bl"

fun max_prefix :: "sock \<Rightarrow> int" where
  "max_prefix (V4 _) = 32"
| "max_prefix (V6 _) = 128"

section \<open>The allowlist\<close>

definition entriesOf :: "string \<Rightarrow> string list" where
  "entriesOf raw =
     filter (\<lambda>t. t \<noteq> [])
       (map trim (split_on CHR '','' (map (\<lambda>c. if is_ws c then CHR '','' else c) raw)))"

definition addEntry :: "rule list \<Rightarrow> string \<Rightarrow> rule list \<times> bool" where
  "addEntry bl entry =
     (if CHR ''/'' \<in> set entry then
        (let addr = takeWhile (\<lambda>c. c \<noteq> CHR ''/'') entry;
             prefix = number_of_string (tl (dropWhile (\<lambda>c. c \<noteq> CHR ''/'') entry))
         in case sock_of addr of
              None \<Rightarrow> (bl, False)
            | Some a \<Rightarrow>
                (case prefix of
                   NInt p \<Rightarrow>
                     if 0 \<le> p \<and> p \<le> max_prefix a then (bl @ [Subnet a (nat p)], True) else (bl, False)
                 | _ \<Rightarrow> (bl, False)))
      else (case sock_of entry of
              None \<Rightarrow> (bl, False)
            | Some a \<Rightarrow> (bl @ [Address a], True)))"

definition validateAllowlist :: "string \<Rightarrow> string list" where
  "validateAllowlist raw = filter (\<lambda>e. \<not> snd (addEntry [] e)) (entriesOf raw)"

definition build_loop :: "string list \<Rightarrow> rule list \<times> bool" where
  "build_loop es =
     foldl (\<lambda>(bl, any) e. let (bl', ok) = addEntry bl e in (bl', any \<or> ok)) ([], False) es"

definition build :: "string \<Rightarrow> rule list option" where
  "build raw =
     (let entries = entriesOf raw in
      if entries = [] then None
      else (let (bl, any) = build_loop entries in if any then Some bl else None))"

definition dotted_quad :: "string \<Rightarrow> bool" where
  "dotted_quad s =
     (let ps = split_on CHR ''.'' s in
      length ps = 4 \<and> list_all (\<lambda>p. p \<noteq> [] \<and> length p \<le> 3 \<and> list_all is_digit p) ps)"

definition normalizeIp :: "string \<Rightarrow> string" where
  "normalizeIp ip =
     (if starts_with (to_lower ip) ''::ffff:'' \<and> dotted_quad (drop 7 ip) then drop 7 ip else ip)"

type_synonym allowlist_cache = "(string \<times> rule list option) option"

definition cached_list :: "allowlist_cache \<Rightarrow> string \<Rightarrow> rule list option" where
  "cached_list cached raw =
     (case cached of Some (r, bl) \<Rightarrow> if r = raw then bl else build raw | None \<Rightarrow> build raw)"

definition ipAllowed :: "string \<Rightarrow> string \<Rightarrow> allowlist_cache \<Rightarrow> allowlist_cache \<times> bool" where
  "ipAllowed raw ip cached =
     (let bl = cached_list cached raw in
      (Some (raw, bl),
       case bl of
         None \<Rightarrow> True
       | Some rules \<Rightarrow>
           (case sock_of (normalizeIp ip) of None \<Rightarrow> False | Some a \<Rightarrow> bl_check rules a)))"

section \<open>Properties of the rate limiter\<close>

lemma expired_hit_simps [simp]:
  "expired_hit now None"
  "expired_hit now (Some e) \<longleftrightarrow> hit_reset e < now"
  by (simp_all add: expired_hit_def)

text \<open>Sweeping is invisible: it only forgets entries that count as absent.\<close>

lemma hits_sweep:
  "hits (sweep now l) k = (if expired_hit now (hits l k) \<and> \<not> now - lastSweep l < 1000 then None else hits l k)"
  by (auto simp: sweep_def)

definition admits :: "nat \<Rightarrow> instant \<Rightarrow> hit option \<Rightarrow> bool" where
  "admits limit now e \<longleftrightarrow> expired_hit now e \<or> hit_count (the e) < limit"

definition next_hit :: "nat \<Rightarrow> int \<Rightarrow> instant \<Rightarrow> hit option \<Rightarrow> hit option" where
  "next_hit limit w now e =
     (if expired_hit now e then Some \<lparr>hit_count = 1, hit_reset = now + w\<rparr>
      else if hit_count (the e) < limit then Some ((the e)\<lparr>hit_count := hit_count (the e) + 1\<rparr>)
      else e)"

lemma checkRateLimit_own:
  "snd (checkRateLimit k limit w now l) = admits limit now (hits l k)"
  "hits (fst (checkRateLimit k limit w now l)) k = next_hit limit w now (hits l k)"
  by (cases "hits l k";
      auto simp: checkRateLimit_def Let_def hits_sweep admits_def next_hit_def not_less)+

lemma checkRateLimit_other:
  assumes "k' \<noteq> k"
  shows "hits (fst (checkRateLimit k' limit w now l)) k = hits l k \<or>
         (hits (fst (checkRateLimit k' limit w now l)) k = None \<and> expired_hit now (hits l k))"
  using assms by (auto simp: checkRateLimit_def Let_def hits_sweep split: option.splits)

text \<open>What an entry still allows up to the instant \<open>t\<close>: nothing new if it is not live.\<close>

definition room :: "nat \<Rightarrow> hit option \<Rightarrow> nat" where
  "room limit e = (case e of None \<Rightarrow> 0 | Some v \<Rightarrow> limit - hit_count v)"

definition calls_of :: "string \<Rightarrow> rate_call list \<Rightarrow> rate_call list" where
  "calls_of k cs = filter (\<lambda>c. rc_key c = k) cs"

definition regular :: "string \<Rightarrow> nat \<Rightarrow> int \<Rightarrow> instant \<Rightarrow> rate_call \<Rightarrow> bool" where
  "regular k limit w t0 c \<longleftrightarrow>
     t0 \<le> rc_at c \<and> rc_at c \<le> t0 + w \<and> (rc_key c = k \<longrightarrow> rc_limit c = limit \<and> rc_window c = w)"

lemma admitted_live:
  assumes "hits l k = Some e" and "t0 + w \<le> hit_reset e" and "\<forall>c\<in>set cs. regular k limit w t0 c"
  shows "length (calls_of k (admitted l cs)) \<le> limit - hit_count e"
  using assms
proof (induction cs arbitrary: l e)
  case Nil
  then show ?case by (simp add: calls_of_def)
next
  case (Cons c cs)
  let ?l = "fst (checkRateLimit (rc_key c) (rc_limit c) (rc_window c) (rc_at c) l)"
  have reg: "regular k limit w t0 c" and rest: "\<forall>c\<in>set cs. regular k limit w t0 c"
    using Cons.prems(3) by auto
  have live: "\<not> expired_hit (rc_at c) (hits l k)"
    using Cons.prems(1,2) reg by (auto simp: regular_def)
  show ?case
  proof (cases "rc_key c = k")
    case True
    then have "hits ?l k = next_hit limit w (rc_at c) (Some e)"
      using reg Cons.prems(1) by (auto simp: checkRateLimit_own regular_def)
    then show ?thesis
      using Cons.IH [of ?l] Cons.prems(1,2) rest live reg True
        checkRateLimit_own(1) [of k limit w "rc_at c" l]
      by (fastforce simp: calls_of_def next_hit_def admits_def regular_def split: prod.splits if_splits)
  next
    case False
    then have "hits ?l k = Some e"
      using checkRateLimit_other [of "rc_key c" k] live Cons.prems(1) by metis
    then show ?thesis
      using Cons.IH [of ?l] Cons.prems(2) rest False
      by (auto simp: calls_of_def split: prod.splits)
  qed
qed

lemma admitted_bound:
  assumes "\<forall>c\<in>set cs. regular k limit w t0 c"
  shows "length (calls_of k (admitted l cs)) \<le> room limit (hits l k) + max 1 limit"
  using assms
proof (induction cs arbitrary: l)
  case Nil
  then show ?case by (simp add: calls_of_def)
next
  case (Cons c cs)
  let ?l = "fst (checkRateLimit (rc_key c) (rc_limit c) (rc_window c) (rc_at c) l)"
  have reg: "regular k limit w t0 c" and rest: "\<forall>c\<in>set cs. regular k limit w t0 c"
    using Cons.prems by auto
  note IH = Cons.IH [of ?l, OF rest]
  show ?case
  proof (cases "rc_key c = k")
    case False
    then have "room limit (hits ?l k) \<le> room limit (hits l k)"
      using checkRateLimit_other [of "rc_key c" k "rc_limit c" "rc_window c" "rc_at c" l]
      by (auto simp: room_def)
    then show ?thesis using IH False by (auto simp: calls_of_def split: prod.splits)
  next
    case True
    then have own: "hits ?l k = next_hit limit w (rc_at c) (hits l k)"
      and ok: "snd (checkRateLimit (rc_key c) (rc_limit c) (rc_window c) (rc_at c) l)
                 = admits limit (rc_at c) (hits l k)"
      using reg by (auto simp: checkRateLimit_own regular_def)
    show ?thesis
    proof (cases "expired_hit (rc_at c) (hits l k)")
      case True
      then have "hits ?l k = Some \<lparr>hit_count = 1, hit_reset = rc_at c + w\<rparr>"
        using own by (simp add: next_hit_def)
      then have "length (calls_of k (admitted ?l cs)) \<le> limit - 1"
        using admitted_live [of ?l k _ t0 w cs limit] rest reg by (fastforce simp: regular_def)
      then show ?thesis using \<open>rc_key c = k\<close> by (auto simp: calls_of_def split: prod.splits)
    next
      case False
      then obtain e where e: "hits l k = Some e" by (cases "hits l k") auto
      then show ?thesis
        using IH own ok False True
        by (auto simp: calls_of_def next_hit_def admits_def room_def split: prod.splits if_splits)
    qed
  qed
qed

section \<open>The meaning of the allowlist\<close>

fun addr_num :: "sock \<Rightarrow> nat" where
  "addr_num (V4 a) = 0xFFFF * 2 ^ 32 + unat a"
| "addr_num (V6 a) = unat a"

text \<open>A block is a number and how many of its low bits are free.\<close>

fun block_of :: "rule \<Rightarrow> nat \<times> nat" where
  "block_of (Address a) = (addr_num a, 0)"
| "block_of (Subnet n p) = (addr_num n, nat (max_prefix n) - p)"

definition in_block :: "nat \<Rightarrow> nat \<times> nat \<Rightarrow> bool" where
  "in_block x b = (let lo = fst b div 2 ^ snd b * 2 ^ snd b in lo \<le> x \<and> x < lo + 2 ^ snd b)"

definition entry_rule :: "string \<Rightarrow> rule option" where
  "entry_rule entry =
     (if CHR ''/'' \<in> set entry then
        (case (sock_of (takeWhile (\<lambda>c. c \<noteq> CHR ''/'') entry),
               number_of_string (tl (dropWhile (\<lambda>c. c \<noteq> CHR ''/'') entry))) of
           (Some a, NInt p) \<Rightarrow> if 0 \<le> p \<and> p \<le> max_prefix a then Some (Subnet a (nat p)) else None
         | _ \<Rightarrow> None)
      else map_option Address (sock_of entry))"

definition allowed_spec :: "string \<Rightarrow> string \<Rightarrow> bool" where
  "allowed_spec raw ip \<longleftrightarrow>
     (let blocks = map block_of (List.map_filter entry_rule (entriesOf raw)) in
      blocks = [] \<or>
      (\<exists>a. sock_of (normalizeIp ip) = Some a \<and> list_ex (in_block (addr_num a)) blocks))"

lemma in_block_iff: "in_block x (n, k) \<longleftrightarrow> x div 2 ^ k = n div 2 ^ k"
proof -
  have "x div d = q \<longleftrightarrow> q * d \<le> x \<and> x < q * d + d" if "d > 0" for q d :: nat
    using that dividend_less_div_times [of d x]
    by (auto simp: ac_simps intro: div_nat_eqI)
  from this [of "2 ^ k"] show ?thesis by (simp add: in_block_def Let_def)
qed

lemma drop_bit_eq_iff: "drop_bit k a = drop_bit k (b :: 'a::len word) \<longleftrightarrow> unat a div 2 ^ k = unat b div 2 ^ k"
  by (metis unat_drop_bit_eq drop_bit_eq_div word_unat_eq_iff)

lemma unat_mapped: "unat (mapped a) = 0xFFFF * 2 ^ 32 + unat a"
proof -
  have "unat a < 2 ^ 32" using unsigned_less [of a] by simp
  then show ?thesis by (simp add: mapped_def unat_word_ariths unsigned_ucast_eq take_bit_nat_eq_self)
qed

lemma high_and_low:
  fixes x n h a b :: nat
  assumes "n < a * b"
  shows "x div (a * b) = h \<and> (x mod (a * b)) div a = n div a \<longleftrightarrow> x div a = (h * (a * b) + n) div a"
proof -
  have pos: "0 < a" "0 < b" using assms by (auto intro: Nat.gr0I)
  have low: "(x mod (a * b)) div a = x div a mod b"
    using pos by (simp add: mod_mult2_eq)
  have "n div a < b" using assms by (simp add: less_mult_imp_div_less mult.commute)
  moreover have "(h * (a * b) + n) div a = h * b + n div a"
  proof -
    have eq: "h * (a * b) + n = n + (h * b) * a" by (simp add: algebra_simps)
    show ?thesis unfolding eq using pos by simp
  qed
  moreover have "y div b = h \<and> y mod b = m \<longleftrightarrow> y = h * b + m" if "m < b" for y m
    using that by (auto simp: div_mult_mod_eq)
  ultimately show ?thesis unfolding low div_mult2_eq by simp
qed

lemma rule_matches_iff:
  assumes "case r of Subnet n p \<Rightarrow> int p \<le> max_prefix n | _ \<Rightarrow> True"
  shows "rule_matches ip r \<longleftrightarrow> in_block (addr_num ip) (block_of r)"
proof (cases r)
  case (Address a)
  then show ?thesis
    by (cases a; cases ip) (auto simp: in_block_iff unat_mapped word_unat_eq_iff)
next
  case (Subnet n p)
  show ?thesis
  proof (cases n)
    case (V6 w)
    then show ?thesis using Subnet
      by (cases ip) (simp_all add: in_block_iff drop_bit_eq_iff unat_mapped)
  next
    case n4: (V4 w)
    then have "32 - p + p = 32" using assms Subnet by simp
    then have b: "(2 :: nat) ^ (32 - p) * 2 ^ p = 2 ^ 32" by (metis power_add)
    have up: "unat v < 2 ^ (32 - p) * 2 ^ p" for v :: "32 word"
      using unsigned_less [of v] by (simp add: b)
    note mixed = high_and_low [OF up [of w], where h = 65535, unfolded b]
    show ?thesis
    proof (cases ip)
      case (V4 a)
      have "(65535 * 2 ^ 32 + unat a) div 2 ^ 32 = 65535" "(65535 * 2 ^ 32 + unat a) mod 2 ^ 32 = unat a"
        using up [of a] unfolding b by (simp_all add: div_plus_div_distrib_dvd_left mod_mult_self3 del: power_numeral)
      then show ?thesis using Subnet n4 V4 mixed [of "65535 * 2 ^ 32 + unat a"]
        by (simp add: in_block_iff drop_bit_eq_iff del: power_numeral)
    next
      case (V6 a)
      have "unat (drop_bit 32 a) = unat a div 2 ^ 32"
        by (rule trans [OF unat_drop_bit_eq drop_bit_eq_div])
      then have "drop_bit 32 a = 0xFFFF \<longleftrightarrow> unat a div 2 ^ 32 = 65535"
        by (simp only: word_unat_eq_iff) simp
      moreover have "unat (ucast a :: 32 word) = unat a mod 2 ^ 32"
        by (simp add: unsigned_ucast_eq take_bit_eq_mod)
      ultimately show ?thesis using Subnet n4 V6 mixed [of "unat a"]
        by (simp only: rule_matches.simps is_in_network.simps block_of.simps addr_num.simps in_block_iff
            drop_bit_eq_iff max_prefix.simps) simp
    qed
  qed
qed

lemma addEntry_entry_rule:
  "addEntry bl e = (case entry_rule e of None \<Rightarrow> (bl, False) | Some r \<Rightarrow> (bl @ [r], True))"
  by (simp add: addEntry_def entry_rule_def Let_def split: option.splits jnum.splits)

lemma entry_rule_prefix:
  assumes "entry_rule e = Some r"
  shows "case r of Subnet n p \<Rightarrow> int p \<le> max_prefix n | _ \<Rightarrow> True"
  using assms by (auto simp: entry_rule_def split: if_splits option.splits jnum.splits)

lemma build_loop_map_filter:
  "build_loop es = (List.map_filter entry_rule es, List.map_filter entry_rule es \<noteq> [])"
  by (induction es rule: rev_induct)
     (auto simp: build_loop_def addEntry_entry_rule List.map_filter_def Let_def split: option.splits)

lemma build_eq:
  "build raw = (let rs = List.map_filter entry_rule (entriesOf raw) in if rs = [] then None else Some rs)"
  by (auto simp: build_def build_loop_map_filter Let_def List.map_filter_def)

lemma rule_matches_list:
  "list_ex (rule_matches a) (List.map_filter entry_rule es) =
   list_ex (in_block (addr_num a)) (map block_of (List.map_filter entry_rule es))"
proof -
  have "rule_matches a r = in_block (addr_num a) (block_of r)"
    if "r \<in> set (List.map_filter entry_rule es)" for r
  proof (rule rule_matches_iff)
    from that obtain e where "entry_rule e = Some r"
      by (auto simp: List.map_filter_def)
    then show "case r of Subnet n p \<Rightarrow> int p \<le> max_prefix n | _ \<Rightarrow> True"
      by (rule entry_rule_prefix)
  qed
  then show ?thesis by (auto simp: list_ex_iff)
qed

text \<open>The slot in front of \<open>build\<close> is transparent: it holds a list together with the list compiled
  from it.\<close>

definition slot_ok :: "allowlist_cache \<Rightarrow> bool" where
  "slot_ok cached \<longleftrightarrow> (\<forall>raw bl. cached = Some (raw, bl) \<longrightarrow> bl = build raw)"

lemma cached_list_build:
  assumes "slot_ok cached"
  shows "cached_list cached raw = build raw"
  using assms by (auto simp: slot_ok_def cached_list_def split: option.splits)

lemma ipAllowed_spec:
  assumes "slot_ok cached"
  shows "snd (ipAllowed raw ip cached) = allowed_spec raw ip"
    and "slot_ok (fst (ipAllowed raw ip cached))"
  using assms
  by (auto simp: ipAllowed_def cached_list_build build_eq allowed_spec_def bl_check_def rule_matches_list
      slot_ok_def Let_def split: option.splits)

fun check_all :: "allowlist_cache \<Rightarrow> (string \<times> string) list \<Rightarrow> bool list" where
  "check_all cached [] = []"
| "check_all cached ((raw, ip) # qs) =
     (let (cached', ok) = ipAllowed raw ip cached in ok # check_all cached' qs)"

lemma check_all_spec:
  assumes "slot_ok cached"
  shows "check_all cached qs = map (\<lambda>(raw, ip). allowed_spec raw ip) qs"
  using assms
proof (induction cached qs rule: check_all.induct)
  case (2 cached raw ip qs)
  then show ?case
    using ipAllowed_spec [of cached raw ip]
    by (auto simp: Let_def split: prod.splits)
qed simp

section \<open>Claims\<close>


definition ex_call :: "instant \<Rightarrow> rate_call" where
  "ex_call t = \<lparr>rc_key = ''k'', rc_limit = 2, rc_window = 10, rc_at = t\<rparr>"


text \<open>C13: the compiled and cached allowlist means what it says: for any series of checks with any
  lists, each answer is that of a list read afresh, and an address is allowed exactly when no entry
  of the list is well-formed or the number of the address (an IPv4 address counts as its
  IPv4-mapped IPv6 one) lies in the interval of one of the well-formed entries.\<close>

theorem ip_allowlist_meaning:
  "check_all None qs = map (\<lambda>(raw, ip). allowed_spec raw ip) qs"
  by (rule check_all_spec) (simp add: slot_ok_def)

text \<open>An entry that ends in a slash has the prefix \<^verbatim>\<open>Number("")\<close>, which is 0: it passes validation
  and admits every IPv4 address.\<close>

lemma empty_prefix_admits_all:
  assumes "sock_of addr = Some (V4 n)" and "CHR ''/'' \<notin> set addr"
    and "entriesOf raw = [addr @ ''/'']" and "sock_of (normalizeIp ip) = Some (V4 a)"
  shows "validateAllowlist raw = [] \<and> allowed_spec raw ip"
proof -
  have s: "CHR ''/'' \<in> set (addr @ ''/'')" by simp
  have tw: "takeWhile (\<lambda>c. c \<noteq> CHR ''/'') (addr @ ''/'') = addr"
    "dropWhile (\<lambda>c. c \<noteq> CHR ''/'') (addr @ ''/'') = ''/''"
    using assms(2) by (auto simp: takeWhile_append dropWhile_append)
  have "number_of_string [] = NInt 0" by (simp add: number_of_string_def trim_def)
  then have r: "entry_rule (addr @ ''/'') = Some (Subnet (V4 n) 0)"
    unfolding entry_rule_def tw using assms(1) by simp
  have "(65535 * 2 ^ 32 + unat v) div 2 ^ 32 = 65535" for v :: "32 word"
  proof -
    have "unat v < 2 ^ 32" using unsigned_less [of v] by simp
    then show ?thesis by (simp add: div_plus_div_distrib_dvd_left del: power_numeral)
  qed
  then have "in_block (addr_num (V4 a)) (block_of (Subnet (V4 n) 0))"
    unfolding addr_num.simps block_of.simps in_block_iff by simp
  then show ?thesis
    using assms(3,4) r
    by (simp add: validateAllowlist_def addEntry_entry_rule allowed_spec_def List.map_filter_def)
qed

end
