(* ===== verification/Request.thy ===== *)
theory Request
  imports Directory Network
begin

text \<open>
  What a console request carries into a route handler: the deployment (environment, hash functions,
  date parsing), the caller's cookies and headers, the session policy and envelope in force, one
  clock reading and the identifiers the handler generates. The settings are the row of the tenant
  (\<open>settings_in\<close>): the cache in front of it is shown transparent in \<^verbatim>\<open>Settings\<close>. The guards that every handler opens
  with (\<^verbatim>\<open>getCurrentUser\<close>, then \<^verbatim>\<open>can\<close>), the audit record it closes with and the
  conversions of a JSON body are defined once here.
\<close>

section \<open>The context of a request\<close>

record ctx =
  cx_H :: "string \<Rightarrow> string"
  cx_parse_date :: "string \<Rightarrow> instant option"
  cx_intl :: intl
  cx_env :: env
  cx_policy :: SessionPolicyRow
  cx_envelope :: TenantEnvelope
  cx_tenant :: ident
  cx_now :: instant
  cx_support :: "string option"
  cx_token :: "string option"
  cx_headers :: headers
  cx_fresh :: ident
  cx_auditId :: ident

definition settings_in :: "db \<Rightarrow> PlatformSettings" where
  "settings_in s = settings_of_row (platformSettings s)"

definition current_user :: "ctx \<Rightarrow> db \<Rightarrow> db \<times> User option" where
  "current_user cx s = getCurrentUser (cx_H cx) (cx_policy cx) (cx_now cx) (cx_support cx) (cx_token cx) s"

definition with_user :: "ctx \<Rightarrow> (User \<Rightarrow> db \<Rightarrow> db \<times> 'a reply) \<Rightarrow> db \<Rightarrow> db \<times> 'a reply" where
  "with_user cx body s =
     (case current_user cx s of
        (s1, None) \<Rightarrow> (s1, Err 401 ''unauthorized'')
      | (s1, Some u) \<Rightarrow> body u s1)"

definition with_capability ::
  "ctx \<Rightarrow> Capability \<Rightarrow> (User \<Rightarrow> db \<Rightarrow> db \<times> 'a reply) \<Rightarrow> db \<Rightarrow> db \<times> 'a reply" where
  "with_capability cx cap body =
     with_user cx (\<lambda>u s. if can (u_role u) cap then body u s else (s, Err 403 ''forbidden''))"

definition audit ::
  "ctx \<Rightarrow> User \<Rightarrow> string \<Rightarrow> string \<Rightarrow> string option \<Rightarrow> string \<Rightarrow> js \<Rightarrow> db \<Rightarrow> db" where
  "audit cx u action targetType targetId summary metadata s =
     recordAdminAction (cx_H cx) (cx_auditId cx) (cx_now cx)
       \<lparr>act_actorId = u_id u, act_actorEmail = Some (u_email u), act_action = action,
        act_targetType = Some targetType, act_targetId = targetId, act_summary = summary,
        act_metadata = metadata, act_clientIp = clientIp (cx_headers cx)\<rparr> s"

section \<open>JSON bodies\<close>

text \<open>\<^verbatim>\<open>req.json().catch(() => ({}))\<close> read as a record: a body that is not an object has no members,
  and reading a member of a \<^verbatim>\<open>null\<close> body throws (\<open>with_body\<close>).\<close>

definition with_body :: "js \<Rightarrow> (db \<Rightarrow> db \<times> 'a reply) \<Rightarrow> db \<Rightarrow> db \<times> 'a reply" where
  "with_body body h s = (if body = JNull then (s, Throw ''TypeError'') else h s)"

definition body_field :: "js \<Rightarrow> string \<Rightarrow> js" where
  "body_field body k = (case body of JObj ob \<Rightarrow> field ob k | _ \<Rightarrow> JUndef)"

definition body_has :: "js \<Rightarrow> string \<Rightarrow> bool" where
  "body_has body k = (case body of JObj ob \<Rightarrow> has_key ob k | _ \<Rightarrow> False)"

text \<open>\<^verbatim>\<open>typeof v === "string" ? v.trim() : ""\<close>, and the same without the trim.\<close>

definition text_of :: "js \<Rightarrow> string \<Rightarrow> string" where
  "text_of body k = trim (str_or_empty (body_field body k))"

definition raw_text_of :: "js \<Rightarrow> string \<Rightarrow> string" where
  "raw_text_of body k = str_or_empty (body_field body k)"

text \<open>The routes' \<^verbatim>\<open>parseDate\<close>: \<open>None\<close> is a value that is no date, \<open>Some None\<close> an absent one.\<close>

definition parseDate :: "ctx \<Rightarrow> js \<Rightarrow> instant option option" where
  "parseDate cx v =
     (case v of
        JUndef \<Rightarrow> Some None
      | JNull \<Rightarrow> Some None
      | JStr t \<Rightarrow> if t = [] then Some None else map_option Some (cx_parse_date cx t)
      | _ \<Rightarrow> None)"

section \<open>The tenant of a data-plane payload\<close>

text \<open>
  The owner-defined functions of \<^verbatim>\<open>bootstrap.sql\<close> read every tenant's rows; the keys are unique
  across tenants, so the first tenant holding the row is the only one.
\<close>

definition owner_of :: "(db \<Rightarrow> bool) \<Rightarrow> cloud \<Rightarrow> ident option" where
  "owner_of p c = map_option t_id (find_first (\<lambda>t. p (data c (t_id t))) (tenants c))"

definition resolveTenantByUser :: "ident \<Rightarrow> cloud \<Rightarrow> ident option" where
  "resolveTenantByUser i c = owner_of (\<lambda>s. user_by_id s i \<noteq> None) c"

definition resolveTenantBySite :: "ident \<Rightarrow> cloud \<Rightarrow> ident option" where
  "resolveTenantBySite i c = owner_of (\<lambda>s. site_by_id s i \<noteq> None) c"

definition resolveTenantBySessionToken :: "string \<Rightarrow> cloud \<Rightarrow> ident option" where
  "resolveTenantBySessionToken h c = owner_of (\<lambda>s. list_ex (\<lambda>x. s_tokenHash x = h) (sessions s)) c"

definition resolveTenantByRecordingKey :: "string \<Rightarrow> cloud \<Rightarrow> ident option" where
  "resolveTenantByRecordingKey k c =
     owner_of (\<lambda>s. list_ex (\<lambda>r. rec_recordingKey r = k) (sessionRecordings s)) c"

definition resolveTenantByConnector :: "ident \<Rightarrow> cloud \<Rightarrow> ident option" where
  "resolveTenantByConnector i c = owner_of (\<lambda>s. connector_by_id s i \<noteq> None) c"

definition resolveTenantByHostname :: "string \<Rightarrow> cloud \<Rightarrow> ident option" where
  "resolveTenantByHostname host c = resolve_tenant_by_hostname (trim (to_lower host)) c"

section \<open>Lemmas\<close>

text \<open>Signing a request only touches the caller's own sessions.\<close>

lemma getSessionUser_frame:
  "accessGrants (fst (getSessionUser H p t tok s)) = accessGrants s"
  "users (fst (getSessionUser H p t tok s)) = users s"
  "sites (fst (getSessionUser H p t tok s)) = sites s"
  "connectors (fst (getSessionUser H p t tok s)) = connectors s"
  "connectorPairings (fst (getSessionUser H p t tok s)) = connectorPairings s"
  "vaultCredentials (fst (getSessionUser H p t tok s)) = vaultCredentials s"
  "invites (fst (getSessionUser H p t tok s)) = invites s"
  "passkeys (fst (getSessionUser H p t tok s)) = passkeys s"
  "sessionRecordings (fst (getSessionUser H p t tok s)) = sessionRecordings s"
  "groupMappings (fst (getSessionUser H p t tok s)) = groupMappings s"
  by (simp_all add: getSessionUser_def touch_session_def delete_session_rows_def Let_def
      split: option.splits)

lemma current_user_frame [simp]:
  "accessGrants (fst (current_user cx s)) = accessGrants s"
  "users (fst (current_user cx s)) = users s"
  "sites (fst (current_user cx s)) = sites s"
  "connectors (fst (current_user cx s)) = connectors s"
  "connectorPairings (fst (current_user cx s)) = connectorPairings s"
  "vaultCredentials (fst (current_user cx s)) = vaultCredentials s"
  "invites (fst (current_user cx s)) = invites s"
  "passkeys (fst (current_user cx s)) = passkeys s"
  "sessionRecordings (fst (current_user cx s)) = sessionRecordings s"
  "groupMappings (fst (current_user cx s)) = groupMappings s"
  unfolding current_user_def getCurrentUser_def Let_def
  by (simp_all add: getSessionUser_frame split: prod.splits option.splits)
     (metis fst_conv getSessionUser_frame)+

lemma audit_frame [simp]:
  "accessGrants (audit cx u a tt ti sm md s) = accessGrants s"
  "users (audit cx u a tt ti sm md s) = users s"
  "sites (audit cx u a tt ti sm md s) = sites s"
  "connectors (audit cx u a tt ti sm md s) = connectors s"
  "connectorPairings (audit cx u a tt ti sm md s) = connectorPairings s"
  "vaultCredentials (audit cx u a tt ti sm md s) = vaultCredentials s"
  "invites (audit cx u a tt ti sm md s) = invites s"
  "passkeys (audit cx u a tt ti sm md s) = passkeys s"
  "sessions (audit cx u a tt ti sm md s) = sessions s"
  "sessionRecordings (audit cx u a tt ti sm md s) = sessionRecordings s"
  by (simp_all add: audit_def recordAdminAction_def Let_def)

text \<open>
  The guard principle: what holds of the state after \<open>current_user\<close> and of every outcome of the
  body for an allowed user holds of the handler.
\<close>

lemma with_capability_cases:
  obtains
    (nobody) s1 where "current_user cx s = (s1, None)"
      "with_capability cx cap body s = (s1, Err 401 ''unauthorized'')"
  | (forbidden) s1 u where "current_user cx s = (s1, Some u)" "\<not> can (u_role u) cap"
      "with_capability cx cap body s = (s1, Err 403 ''forbidden'')"
  | (allowed) s1 u where "current_user cx s = (s1, Some u)" "can (u_role u) cap"
      "with_capability cx cap body s = body u s1"
  by (cases "current_user cx s"; cases "snd (current_user cx s)")
     (auto simp: with_capability_def with_user_def split: if_splits)

lemma with_user_cases:
  obtains
    (nobody) s1 where "current_user cx s = (s1, None)" "with_user cx body s = (s1, Err 401 ''unauthorized'')"
  | (user) s1 u where "current_user cx s = (s1, Some u)" "with_user cx body s = body u s1"
  by (cases "current_user cx s"; cases "snd (current_user cx s)") (auto simp: with_user_def)

text \<open>
  The contract between the guards and an invariant of the stored data: signing in and appending to the
  administrators' log keep it. Every guarded handler then keeps it as soon as its body does.
\<close>

locale guarded_invariant =
  fixes inv :: "db \<Rightarrow> bool"
  assumes signing_in: "inv s \<Longrightarrow> inv (fst (current_user cx s))"
    and logging: "inv s \<Longrightarrow> inv (audit cx u action targetType targetId summary metadata s)"
begin

lemma capability_keeps:
  assumes "with_capability cx cap body s = (s', a)" and "inv s"
    and "\<And>u s1 s2 b. inv s1 \<Longrightarrow> body u s1 = (s2, b) \<Longrightarrow> inv s2"
  shows "inv s'"
proof -
  note start = signing_in [OF assms(2), of cx]
  show ?thesis
    by (rule with_capability_cases [of cx s cap body]) (use assms(1,3) start in \<open>simp_all, metis?\<close>)
qed

lemma user_keeps:
  assumes "with_user cx body s = (s', a)" and "inv s"
    and "\<And>u s1 s2 b. inv s1 \<Longrightarrow> body u s1 = (s2, b) \<Longrightarrow> inv s2"
  shows "inv s'"
proof -
  note start = signing_in [OF assms(2), of cx]
  show ?thesis
    by (rule with_user_cases [of cx s body]) (use assms(1,3) start in \<open>simp_all, metis?\<close>)
qed

end

text \<open>A concrete request by a signed-in administrator.\<close>

definition ex_ctx :: ctx where
  "ex_ctx =
     \<lparr>cx_H = (\<lambda>t. t), cx_parse_date = (\<lambda>_. None), cx_intl = ex_intl, cx_env = (\<lambda>_. None),
      cx_policy = EMPTY_POLICY, cx_envelope = EMPTY_ENVELOPE, cx_tenant = DEFAULT_TENANT,
      cx_now = 500, cx_support = None, cx_token = Some ''h2'', cx_headers = (\<lambda>_. None),
      cx_fresh = ''n1'', cx_auditId = ''aa1''\<rparr>"

definition ex_admin :: User where
  "ex_admin = ex_member\<lparr>u_id := ''a1'', u_email := ''a@example.com''\<rparr>"

definition ex_signed_in :: "db \<Rightarrow> db" where
  "ex_signed_in s =
     s\<lparr>users := ex_admin # users s,
       sessions := ex_session\<lparr>s_id := ''x2'', s_userId := ''a1'', s_tokenHash := ''h2''\<rparr> # sessions s\<rparr>"

lemma ex_current_user:
  "current_user ex_ctx (ex_signed_in s) = (touch_session ''x2'' 500 (ex_signed_in s), Some ex_admin)"
  by (simp add: current_user_def getCurrentUser_def ex_ctx_def truthy_def getSessionUser_def
      session_by_token_def find_first_def ex_signed_in_def ex_session_def user_by_id_def ex_admin_def
      ex_member_def idleExpired_def EMPTY_POLICY_def)

lemma ex_with_capability:
  "can ADMIN cap \<Longrightarrow> with_capability ex_ctx cap body (ex_signed_in s) =
     body ex_admin (touch_session ''x2'' 500 (ex_signed_in s))"
  by (simp add: with_capability_def with_user_def ex_current_user ex_admin_def ex_member_def)

lemma ex_with_user:
  "with_user ex_ctx body (ex_signed_in s) = body ex_admin (touch_session ''x2'' 500 (ex_signed_in s))"
  by (simp add: with_user_def ex_current_user)

end
