(* ===== verification/Recordings.thy ===== *)
theory Recordings
  imports Request "HOL-Library.AList" "HOL-Library.Product_Lexorder"
begin

text \<open>
  \<^verbatim>\<open>lib/recording/\<close> and the recording routes. The bytes of a recording live on the connector of its
  site; the control plane keeps an index row per recording. This theory models the index: ingest
  reports, erasure requests and their confirmation, retention, the filtered list and the command
  search that fans out to the connectors, and the reassembly of what a connector streams back.

  The answers of the connectors and \<^verbatim>\<open>JSON.parse\<close> are parameters.
\<close>

section \<open>Heartbeats of the cron jobs\<close>

definition recordCronRun :: "string \<Rightarrow> instant \<Rightarrow> db \<Rightarrow> db" where
  "recordCronRun job now s =
     (if list_ex (\<lambda>r. cr_job r = job) (cronRuns s)
      then s\<lparr>cronRuns := update_many (\<lambda>r. cr_job r = job) (\<lambda>r. r\<lparr>cr_ranAt := now\<rparr>) (cronRuns s)\<rparr>
      else s\<lparr>cronRuns := insert_row \<lparr>cr_job = job, cr_ranAt = now\<rparr> (cronRuns s)\<rparr>)"

record CronHealth =
  ch_anyRun :: bool
  ch_stale :: "(string \<times> instant option) list"

definition last_run :: "db \<Rightarrow> string \<Rightarrow> instant option" where
  "last_run s job = map_option cr_ranAt (find_first (\<lambda>r. cr_job r = job) (cronRuns s))"

definition agedOut :: "instant \<Rightarrow> int \<Rightarrow> instant \<Rightarrow> bool" where
  "agedOut now ms d \<longleftrightarrow> now - d > ms"

definition stale_daily :: "db \<Rightarrow> instant \<Rightarrow> bool \<Rightarrow> string \<Rightarrow> (string \<times> instant option) list" where
  "stale_daily s now relevant job =
     (case last_run s job of
        Some d \<Rightarrow> if relevant \<and> agedOut now (26 * 3600000) d then [(job, Some d)] else []
      | None \<Rightarrow> [])"

definition schedulerHealthy :: "db \<Rightarrow> instant \<Rightarrow> bool" where
  "schedulerHealthy s now =
     (case last_run s ''site-health'' of None \<Rightarrow> False | Some d \<Rightarrow> \<not> agedOut now (20 * 60000) d)"

definition cronHealth :: "instant \<Rightarrow> db \<Rightarrow> CronHealth" where
  "cronHealth now s =
     (let settings = settings_of_row (platformSettings s);
          recRetention = (case ps_recordingRetentionDays settings of None \<Rightarrow> 0 | Some d \<Rightarrow> d);
          anchorOn = (ps_externalAnchorEnabled settings = Some True)
      in \<lparr>ch_anyRun = cronRuns s \<noteq> [],
          ch_stale =
            (if \<not> schedulerHealthy s now then [(''site-health'', last_run s ''site-health'')]
             else stale_daily s now True ''audit-retention'' @
                  stale_daily s now (recRetention > 0) ''recording-retention'' @
                  stale_daily s now anchorOn ''audit-anchor'')\<rparr>)"

text \<open>The guard in front of every job.\<close>

definition cronAuthorized :: "env \<Rightarrow> headers \<Rightarrow> bool" where
  "cronAuthorized env h =
     (case or_null (env ''CRON_SECRET'') of
        None \<Rightarrow> False
      | Some k \<Rightarrow> timingSafeEqualStr (h ''authorization'') (Some (''Bearer '' @ k)))"

section \<open>Erasure\<close>

definition recording_by_id :: "db \<Rightarrow> ident \<Rightarrow> SessionRecording option" where
  "recording_by_id s i = find_first (\<lambda>r. rec_id r = i) (sessionRecordings s)"

definition pending_erasure :: "SessionRecording \<Rightarrow> bool" where
  "pending_erasure r \<longleftrightarrow> rec_purgePendingAt r \<noteq> None"

definition requestErasure :: "ident \<Rightarrow> instant \<Rightarrow> db \<Rightarrow> db \<times> bool" where
  "requestErasure i now s =
     (case recording_by_id s i of
        None \<Rightarrow> (s, False)
      | Some _ \<Rightarrow>
          (s\<lparr>sessionRecordings :=
              update_many (\<lambda>r. rec_id r = i) (\<lambda>r. r\<lparr>rec_purgePendingAt := Some now\<rparr>)
                (sessionRecordings s)\<rparr>, True))"

text \<open>\<^verbatim>\<open>connectorBySite.get(siteId)\<close>, and the insertion-ordered \<^verbatim>\<open>Map\<close> from a key to the list pushed
  under it.\<close>

definition connector_of_site :: "db \<Rightarrow> ident \<Rightarrow> ident option" where
  "connector_of_site s sid = or_null (map_option site_connectorId (site_by_id s sid))"

fun push_under :: "'k \<Rightarrow> 'v \<Rightarrow> ('k \<times> 'v list) list \<Rightarrow> ('k \<times> 'v list) list" where
  "push_under k v [] = [(k, [v])]"
| "push_under k v ((k', vs) # m) =
     (if k' = k then (k', vs @ [v]) # m else (k', vs) # push_under k v m)"

fun group_by_connector ::
  "('a \<Rightarrow> ident option) \<Rightarrow> ('a \<Rightarrow> 'v) \<Rightarrow> (ident \<times> 'v list) list \<Rightarrow> 'a list \<Rightarrow> (ident \<times> 'v list) list" where
  "group_by_connector conn key out [] = out"
| "group_by_connector conn key out (p # ps) =
     group_by_connector conn key
       (case conn p of None \<Rightarrow> out | Some cid \<Rightarrow> push_under cid (key p) out) ps"

definition pendingErasuresByConnector :: "db \<Rightarrow> (ident \<times> string list) list" where
  "pendingErasuresByConnector s =
     group_by_connector (\<lambda>r. connector_of_site s (rec_siteId r)) rec_recordingKey []
       (find_many pending_erasure (sessionRecordings s))"

definition confirmErasures :: "string list \<Rightarrow> db \<Rightarrow> db \<times> nat" where
  "confirmErasures keys s =
     (if keys = [] then (s, 0)
      else
        (let p = (\<lambda>r. rec_recordingKey r \<in> set keys \<and> pending_erasure r) in
         (s\<lparr>sessionRecordings := delete_many p (sessionRecordings s)\<rparr>,
          count_rows p (sessionRecordings s))))"

definition trimIndexAfterRetention :: "int \<Rightarrow> instant \<Rightarrow> db \<Rightarrow> db \<times> nat" where
  "trimIndexAfterRetention retentionDays now s =
     (if retentionDays \<le> 0 then (s, 0)
      else
        (let cutoff = now - retentionDays * 24 * 60 * 60 * 1000;
             p = (\<lambda>r. rec_lastEventAt r < cutoff)
         in (s\<lparr>sessionRecordings := delete_many p (sessionRecordings s)\<rparr>,
             count_rows p (sessionRecordings s))))"

definition connectorForRecording :: "ident \<Rightarrow> db \<Rightarrow> ident option" where
  "connectorForRecording siteId s =
     (if siteId = [] then None else map_option site_connectorId (site_by_id s siteId))"

text \<open>What a policy push carries to a connector, and the nightly re-push.\<close>

record ConnectorPolicy =
  pol_connectorId :: ident
  pol_egressAllowedTargets :: string
  pol_logLevel :: string
  pol_tenantId :: ident
  pol_recordingRetentionDays :: int
  pol_purgeRecordingKeys :: "string list"

definition owed_keys :: "ident \<Rightarrow> db \<Rightarrow> string list" where
  "owed_keys cid s =
     (case map_of (pendingErasuresByConnector s) cid of None \<Rightarrow> [] | Some ks \<Rightarrow> ks)"

definition pushConnectorPolicy :: "TenantEnvelope \<Rightarrow> ident \<Rightarrow> ident \<Rightarrow> db \<Rightarrow> ConnectorPolicy" where
  "pushConnectorPolicy e tid cid s =
     (let c = connector_by_id s cid; settings = settings_in s in
      \<lparr>pol_connectorId = cid,
       pol_egressAllowedTargets = opt_text (Option.bind c c_egressPolicy),
       pol_logLevel = resolvedConnectorLogLevel (Option.bind c c_logLevel) settings,
       pol_tenantId = tid,
       pol_recordingRetentionDays = resolvedRecordingRetentionDays e settings,
       pol_purgeRecordingKeys = owed_keys cid s\<rparr>)"

definition reconcilePendingErasures :: "TenantEnvelope \<Rightarrow> ident \<Rightarrow> db \<Rightarrow> ConnectorPolicy list" where
  "reconcilePendingErasures e tid s =
     map (\<lambda>(cid, _). pushConnectorPolicy e tid cid s) (pendingErasuresByConnector s)"

section \<open>The routes that change the index\<close>

definition manager_event :: "string \<Rightarrow> string \<Rightarrow> string \<Rightarrow> AuditInput" where
  "manager_event method path reason =
     \<lparr>ai_timestamp = None, ai_userId = None, ai_siteId = None, ai_host = Some ''manager'',
      ai_method = Some method, ai_path = Some path, ai_status = Some 200, ai_bytesOut = None,
      ai_decision = Some ''ALLOW'', ai_reason = Some reason, ai_clientIp = None,
      ai_userAgent = None\<rparr>"

text \<open>An audit append that fails is logged and does not fail the caller.\<close>

definition append_best_effort :: "ctx \<Rightarrow> AuditInput list \<Rightarrow> db \<Rightarrow> db" where
  "append_best_effort cx evs s =
     fst (appendAuditEvents (cx_H cx) (cx_parse_date cx) (cx_now cx) evs s)"

definition string_elements :: "js \<Rightarrow> string list" where
  "string_elements v =
     (case v of
        JArr vs \<Rightarrow> concat (map (\<lambda>x. case x of JStr k \<Rightarrow> [k] | _ \<Rightarrow> []) vs)
      | _ \<Rightarrow> [])"

definition positive_number :: "js \<Rightarrow> bool" where
  "positive_number v = (case v of JNum n \<Rightarrow> jnum_greater n 0 | _ \<Rightarrow> False)"

definition ack_reason :: "nat \<Rightarrow> nat \<Rightarrow> string" where
  "ack_reason confirmed trimmed =
     ''Connector confirmed recording erasure: '' @ dec confirmed @ '' requested erasure(s) completed'' @
     (if trimmed > 0
      then '', '' @ dec trimmed @ '' index row(s) trimmed after a retention sweep'' else [])"

definition ack_confirm :: "js \<Rightarrow> db \<Rightarrow> db \<times> nat" where
  "ack_confirm body s = confirmErasures (string_elements (body_field body ''purgedKeys'')) s"

definition ack_trim :: "ctx \<Rightarrow> js \<Rightarrow> db \<Rightarrow> db \<times> nat" where
  "ack_trim cx body s =
     (if positive_number (body_field body ''retentionRemoved'')
      then trimIndexAfterRetention (resolvedRecordingRetentionDays (cx_envelope cx) (settings_in s))
             (cx_now cx) s
      else (s, 0))"

definition erasure_ack :: "ctx \<Rightarrow> js \<Rightarrow> db \<Rightarrow> db \<times> (nat \<times> nat) reply" where
  "erasure_ack cx body =
     with_body body (\<lambda>s.
       let (s1, confirmed) = ack_confirm body s;
           (s2, trimmed) = ack_trim cx body s1;
           s3 = (if confirmed > 0 \<or> trimmed > 0
                 then append_best_effort cx
                        [manager_event ''DELETE'' ''/api/internal/recording/erasure-ack''
                          (ack_reason confirmed trimmed)] s2
                 else s2)
       in (s3, Ok 200 (confirmed, trimmed)))"

definition contentLengthExceeds :: "headers \<Rightarrow> int \<Rightarrow> bool" where
  "contentLengthExceeds h maxBytes =
     (case or_null (h ''content-length'') of
        None \<Rightarrow> False
      | Some raw \<Rightarrow>
          (let len = number_of_string raw in jnum_is_finite len \<and> jnum_greater len maxBytes))"

text \<open>
  The columns \<^verbatim>\<open>eventCount\<close> and \<^verbatim>\<open>bytes\<close> are 32-bit: a value that does not fit, and a value of
  another type than the column's, make the statement fail.
\<close>

definition fits_int4 :: "int \<Rightarrow> bool" where
  "fits_int4 n \<longleftrightarrow> - (2 ^ 31) \<le> n \<and> n < 2 ^ 31"

definition ingest_bytes :: "js \<Rightarrow> int option" where
  "ingest_bytes v =
     (case v of
        JNum n \<Rightarrow>
          if jnum_less n 0 \<or> n = NNaN then Some 0
          else (case n of NInt k \<Rightarrow> if fits_int4 k then Some k else None | _ \<Rightarrow> None)
      | _ \<Rightarrow> Some 0)"

definition text_column :: "js \<Rightarrow> string option" where
  "text_column v = (case v of JStr t \<Rightarrow> Some t | JUndef \<Rightarrow> Some [] | JNull \<Rightarrow> Some [] | _ \<Rightarrow> None)"

text \<open>\<^verbatim>\<open>v || null\<close> as a nullable text column: \<open>None\<close> when the type is wrong.\<close>

definition falsy :: "js \<Rightarrow> bool" where
  "falsy v \<longleftrightarrow>
     v \<in> {JUndef, JNull, JBool False, JStr [], JNum (NInt 0), JNum NNaN}"

definition text_or_null :: "js \<Rightarrow> string option option" where
  "text_or_null v =
     (if falsy v then Some None else (case v of JStr t \<Rightarrow> Some (Some t) | _ \<Rightarrow> None))"

definition ingest_format :: "js \<Rightarrow> RecordingFormat" where
  "ingest_format v = (if v = JStr ''guac'' then GUAC else if v = JStr ''video'' then VIDEO else RRWEB)"

definition new_recording ::
  "ident \<Rightarrow> instant \<Rightarrow> string \<Rightarrow> js \<Rightarrow> int \<Rightarrow> bool \<Rightarrow> SessionRecording option" where
  "new_recording nid now key body bytes truncated =
     (case (text_column (body_field body ''userId''), text_column (body_field body ''siteId''),
            text_column (body_field body ''host''), text_or_null (body_field body ''protocol'')) of
        (Some uid, Some sid, Some host, Some proto) \<Rightarrow>
          Some \<lparr>rec_id = nid, rec_recordingKey = key, rec_siteId = sid, rec_userId = uid,
                rec_host = host, rec_startedAt = now, rec_lastEventAt = now,
                rec_eventCount = (if truncated then 0 else 1),
                rec_bytes = (if truncated then 0 else bytes),
                rec_format = ingest_format (body_field body ''format''),
                rec_purgePendingAt = None, rec_protocol = proto, rec_encrypted = True,
                rec_truncated = truncated\<rparr>
      | _ \<Rightarrow> None)"

definition grown_recording :: "instant \<Rightarrow> int \<Rightarrow> bool \<Rightarrow> SessionRecording \<Rightarrow> SessionRecording" where
  "grown_recording now bytes truncated r =
     (if truncated then r\<lparr>rec_truncated := True\<rparr>
      else r\<lparr>rec_eventCount := rec_eventCount r + 1, rec_bytes := rec_bytes r + bytes,
             rec_lastEventAt := now\<rparr>)"

definition counters_fit :: "SessionRecording \<Rightarrow> bool" where
  "counters_fit r \<longleftrightarrow> fits_int4 (rec_eventCount r) \<and> fits_int4 (rec_bytes r)"

text \<open>The upsert of one report; \<open>Inl\<close> is the error the statement raises. Prisma builds both halves
  of the upsert, so an ill-typed \<^verbatim>\<open>create\<close> fails even when the row exists.\<close>

definition upsert_recording ::
  "ident \<Rightarrow> instant \<Rightarrow> string \<Rightarrow> js \<Rightarrow> db \<Rightarrow> db \<times> (string + unit)" where
  "upsert_recording nid now key body s =
     (let truncated = (body_field body ''truncated'' = JBool True);
          is_key = (\<lambda>r. rec_recordingKey r = key)
      in case ingest_bytes (body_field body ''bytes'') of
           None \<Rightarrow> (s, Inl ''PrismaClientValidationError'')
         | Some bytes \<Rightarrow>
           (case new_recording nid now key body bytes truncated of
              None \<Rightarrow> (s, Inl ''PrismaClientValidationError'')
            | Some row \<Rightarrow>
              (case find_first is_key (sessionRecordings s) of
                 None \<Rightarrow> (s\<lparr>sessionRecordings := insert_row row (sessionRecordings s)\<rparr>, Inr ())
               | Some r \<Rightarrow>
                   if counters_fit (grown_recording now bytes truncated r)
                   then (s\<lparr>sessionRecordings :=
                            update_many is_key (grown_recording now bytes truncated)
                              (sessionRecordings s)\<rparr>, Inr ())
                   else (s, Inl ''integer out of range''))))"

definition dataplaneAuthorized :: "env \<Rightarrow> headers \<Rightarrow> bool" where
  "dataplaneAuthorized env h =
     (case or_null (env ''DATAPLANE_SECRET'') of
        None \<Rightarrow> False
      | Some k \<Rightarrow> timingSafeEqualStr (h ''x-dataplane-secret'') (Some k))"

definition store_report :: "ctx \<Rightarrow> js \<Rightarrow> db \<Rightarrow> db \<times> unit reply" where
  "store_report cx body s =
     (case body_field body ''recordingKey'' of
        JStr key \<Rightarrow>
          (case run_tx (multiTenantEnabled (cx_env cx))
                  (upsert_recording (cx_fresh cx) (cx_now cx) key body) s of
             (s', Inr _) \<Rightarrow> (s', Ok 204 ())
           | (s', Inl _) \<Rightarrow> (s', Err 500 []))
      | _ \<Rightarrow> (s, Err 500 []))"

definition recording_ingest :: "ctx \<Rightarrow> js \<Rightarrow> db \<Rightarrow> db \<times> unit reply" where
  "recording_ingest cx body s =
     (if \<not> dataplaneAuthorized (cx_env cx) (cx_headers cx) then (s, Err 403 ''forbidden'')
      else if \<not> recordingEnabled (cx_env cx) then (s, Err 403 ''not found'')
      else if contentLengthExceeds (cx_headers cx) (16 * 2 ^ 20) then (s, Err 413 [])
      else if body = JNull then (s, Err 500 [])
      else if falsy (body_field body ''recordingKey'') then (s, Ok 204 ())
      else store_report cx body s)"

definition erasure_reason :: "SessionRecording \<Rightarrow> User option \<Rightarrow> string" where
  "erasure_reason r vendor =
     ''Requested erasure of session recording (vendor '' @
     (case vendor of Some u \<Rightarrow> u_email u | None \<Rightarrow> rec_userId r) @ '', '' @
     dec_int (rec_eventCount r) @ '' chunks, '' @ dec_int (rec_bytes r) @ '' bytes, started '' @
     toISOString (rec_startedAt r) @
     ''); the content is on the customer'' @ [CHR 0x27] @
     ''s connector and is removed when that connector confirms''"

definition erase_recording :: "ctx \<Rightarrow> ident \<Rightarrow> User \<Rightarrow> db \<Rightarrow> db \<times> string reply" where
  "erase_recording cx i admin s =
     (case recording_by_id s i of
        None \<Rightarrow> (s, Err 404 ''not_found'')
      | Some r \<Rightarrow>
          (let s1 = fst (requestErasure i (cx_now cx) s);
               ev = (manager_event ''DELETE'' (''/admin/recordings/'' @ i)
                      (erasure_reason r (user_by_id s (rec_userId r))))
                    \<lparr>ai_userId := Some (u_id admin), ai_siteId := Some (rec_siteId r),
                     ai_clientIp := clientIp (cx_headers cx),
                     ai_userAgent := cx_headers cx ''user-agent''\<rparr>;
               s2 = append_best_effort cx [ev] s1;
               s3 = audit cx admin ''recording.erasure_requested'' ''recording'' (Some i)
                      (''Requested erasure of recording '' @ i @ '' (applied when its connector confirms)'')
                      JUndef s2
           in (s3, Ok 202 ''erasure_pending'')))"

definition delete_recording :: "ctx \<Rightarrow> ident \<Rightarrow> db \<Rightarrow> db \<times> string reply" where
  "delete_recording cx i = with_capability cx Configure (erase_recording cx i)"

definition retention_reason :: "nat \<Rightarrow> int \<Rightarrow> string" where
  "retention_reason n days =
     ''Recording retention: deleted '' @ dec n @ '' session recording(s) older than '' @ dec_int days @
     '' days''"

definition recording_retention :: "ctx \<Rightarrow> db \<Rightarrow> db \<times> (nat \<times> bool) reply" where
  "recording_retention cx s =
     (let s0 = recordCronRun ''recording-retention'' (cx_now cx) s;
          days = resolvedRecordingRetentionDays (cx_envelope cx) (settings_in s0)
      in if days \<le> 0 then (s0, Ok 200 (0, True))
         else
           (let cutoff = cx_now cx - days * 24 * 60 * 60 * 1000;
                old = (\<lambda>r. rec_startedAt r < cutoff);
                n = count_rows old (sessionRecordings s0);
                s1 = s0\<lparr>sessionRecordings := delete_many old (sessionRecordings s0)\<rparr>;
                s2 = (if n > 0
                      then append_best_effort cx
                             [manager_event ''DELETE'' ''/api/cron/recording-retention''
                               (retention_reason n days)] s1
                      else s1)
            in (s2, Ok 200 (n, False))))"

section \<open>Listing and searching\<close>

record RecordingFilter =
  rf_q :: "string option"
  rf_cmd :: "string option"
  rf_userId :: "string option"
  rf_siteId :: "string option"
  rf_from :: "instant option"
  rf_to :: "instant option"
  rf_limit :: int
  rf_offset :: int

definition contains :: "string \<Rightarrow> string \<Rightarrow> bool" where
  "contains t p \<longleftrightarrow> list_ex (\<lambda>i. starts_with (drop i t) p) [0..<Suc (length t)]"

definition commandTextMatches :: "string \<Rightarrow> string \<Rightarrow> bool" where
  "commandTextMatches decrypted query \<longleftrightarrow>
     (if query = [] then False else contains (to_lower decrypted) (to_lower query))"

definition buildRecordingWhere :: "RecordingFilter \<Rightarrow> SessionRecording \<Rightarrow> bool" where
  "buildRecordingWhere f r \<longleftrightarrow>
     (case or_null (rf_userId f) of None \<Rightarrow> True | Some u \<Rightarrow> rec_userId r = u) \<and>
     (case or_null (rf_siteId f) of None \<Rightarrow> True | Some i \<Rightarrow> rec_siteId r = i) \<and>
     (case rf_from f of None \<Rightarrow> True | Some d \<Rightarrow> d \<le> rec_startedAt r) \<and>
     (case rf_to f of None \<Rightarrow> True | Some d \<Rightarrow> rec_startedAt r \<le> d) \<and>
     (case map_option trim (rf_q f) of
        None \<Rightarrow> True
      | Some q \<Rightarrow> length q \<ge> 2 \<longrightarrow> contains (to_lower (rec_host r)) (to_lower q))"

text \<open>\<^verbatim>\<open>URLSearchParams.get\<close> is a function from names; \<^verbatim>\<open>Number(null)\<close> is 0.\<close>

type_synonym search_params = "string \<Rightarrow> string option"

definition param_text :: "search_params \<Rightarrow> string \<Rightarrow> string option" where
  "param_text sp k = or_null (map_option trim (sp k))"

definition param_date :: "(string \<Rightarrow> instant option) \<Rightarrow> search_params \<Rightarrow> string \<Rightarrow> instant option" where
  "param_date parse_date sp k = Option.bind (or_null (sp k)) parse_date"

definition param_number :: "search_params \<Rightarrow> string \<Rightarrow> jnum" where
  "param_number sp k = (case sp k of None \<Rightarrow> NInt 0 | Some t \<Rightarrow> number_of_string t)"

definition parseRecordingFilter ::
  "(string \<Rightarrow> instant option) \<Rightarrow> search_params \<Rightarrow> int \<Rightarrow> int \<Rightarrow> RecordingFilter" where
  "parseRecordingFilter parse_date sp defaultLimit maxLimit =
     \<lparr>rf_q = param_text sp ''q'', rf_cmd = param_text sp ''cmd'', rf_userId = param_text sp ''userId'',
      rf_siteId = param_text sp ''siteId'', rf_from = param_date parse_date sp ''from'',
      rf_to = param_date parse_date sp ''to'',
      rf_limit =
        (let n = param_number sp ''limit'' in
         if jnum_is_finite n \<and> jnum_greater n 0 then min (jnum_floor n) maxLimit else defaultLimit),
      rf_offset =
        (let n = param_number sp ''offset'' in
         if jnum_is_finite n \<and> \<not> jnum_less n 0 then jnum_floor n else 0)\<rparr>"

text \<open>One connector's answer: unreachable, or whether it stopped at its budget and the
  (key, snippet) pairs it found.\<close>

datatype search_answer = Unreachable | Answer bool "(string \<times> string) list"

record FanOutResult =
  fan_matchedKeys :: "string list"
  fan_snippets :: "(string \<times> string) list"
  fan_truncated :: bool
  fan_partial :: bool
  fan_unreachable :: "ident list"

definition empty_fan :: FanOutResult where
  "empty_fan = \<lparr>fan_matchedKeys = [], fan_snippets = [], fan_truncated = False, fan_partial = False,
     fan_unreachable = []\<rparr>"

definition add_match :: "FanOutResult \<Rightarrow> string \<times> string \<Rightarrow> FanOutResult" where
  "add_match f m =
     f\<lparr>fan_matchedKeys := (if fst m \<in> set (fan_matchedKeys f) then fan_matchedKeys f
                          else fan_matchedKeys f @ [fst m]),
       fan_snippets := (if truthy (map_of (fan_snippets f) (fst m)) then fan_snippets f
                       else AList.update (fst m) (snd m) (fan_snippets f))\<rparr>"

definition merge_answer :: "FanOutResult \<Rightarrow> ident \<times> search_answer \<Rightarrow> FanOutResult" where
  "merge_answer f a =
     (case snd a of
        Unreachable \<Rightarrow> f\<lparr>fan_unreachable := fan_unreachable f @ [fst a], fan_partial := True\<rparr>
      | Answer tr ms \<Rightarrow>
          foldl add_match (f\<lparr>fan_truncated := (if tr then True else fan_truncated f)\<rparr>) ms)"

definition searchRecordingsOnConnectors ::
  "(ident \<Rightarrow> string \<Rightarrow> string list \<Rightarrow> search_answer) \<Rightarrow> string \<Rightarrow> (string \<times> ident option) list \<Rightarrow>
   FanOutResult" where
  "searchRecordingsOnConnectors ask query0 candidates =
     (let query = trim query0 in
      if query = [] \<or> candidates = [] then empty_fan
      else
        (let byConnector = group_by_connector (\<lambda>c. or_null (snd c)) fst [] candidates;
             start = empty_fan\<lparr>fan_partial := list_ex (\<lambda>c. or_null (snd c) = None) candidates\<rparr>
         in foldl merge_answer start (map (\<lambda>(cid, ks). (cid, ask cid query ks)) byConnector)))"

record recording_page =
  pg_rows :: "SessionRecording list"
  pg_total :: nat
  pg_tooBroad :: bool
  pg_partial :: bool
  pg_unreachable :: "ident list"

definition page_of ::
  "RecordingFilter \<Rightarrow> (SessionRecording \<Rightarrow> bool) \<Rightarrow> db \<Rightarrow> recording_page" where
  "page_of f p s =
     \<lparr>pg_rows = take (nat (rf_limit f)) (drop (nat (rf_offset f))
        (order_desc rec_startedAt (find_many p (sessionRecordings s)))),
      pg_total = count_rows p (sessionRecordings s),
      pg_tooBroad = False, pg_partial = False, pg_unreachable = []\<rparr>"

definition no_page :: recording_page where
  "no_page = \<lparr>pg_rows = [], pg_total = 0, pg_tooBroad = False, pg_partial = False, pg_unreachable = []\<rparr>"

definition search_candidates :: "RecordingFilter \<Rightarrow> db \<Rightarrow> (string \<times> ident option) list" where
  "search_candidates f s =
     map (\<lambda>r. (rec_recordingKey r, map_option site_connectorId (site_by_id s (rec_siteId r))))
       (find_many (buildRecordingWhere f) (sessionRecordings s))"

definition listRecordings ::
  "(ident \<Rightarrow> string \<Rightarrow> string list \<Rightarrow> search_answer) \<Rightarrow> RecordingFilter \<Rightarrow> db \<Rightarrow> recording_page" where
  "listRecordings ask f s =
     (case map_option trim (rf_cmd f) of
        None \<Rightarrow> page_of f (buildRecordingWhere f) s
      | Some cmd \<Rightarrow>
          if length cmd < 2 then page_of f (buildRecordingWhere f) s
          else if search_candidates f s = [] then no_page
          else
            (let fan = searchRecordingsOnConnectors ask cmd (search_candidates f s) in
             if fan_truncated fan \<and> fan_matchedKeys fan = [] then no_page\<lparr>pg_tooBroad := True\<rparr>
             else if fan_matchedKeys fan = [] then
               no_page\<lparr>pg_partial := fan_partial fan, pg_unreachable := fan_unreachable fan\<rparr>
             else page_of f (\<lambda>r. buildRecordingWhere f r \<and>
                               rec_recordingKey r \<in> set (fan_matchedKeys fan)) s))"

section \<open>Replay\<close>

definition lines_of :: "string \<Rightarrow> string list" where
  "lines_of text = filter (\<lambda>l. l \<noteq> []) (map trim (split_on (CHR 0x0A) text))"

definition assembleEvents :: "(string \<Rightarrow> js option) \<Rightarrow> string \<Rightarrow> js list" where
  "assembleEvents json_parse text =
     concat (map (\<lambda>l. case json_parse l of
                        None \<Rightarrow> []
                      | Some (JArr vs) \<Rightarrow> vs
                      | Some v \<Rightarrow> [v]) (lines_of text))"

definition hasFullSnapshot :: "js list \<Rightarrow> bool" where
  "hasFullSnapshot events =
     list_ex (\<lambda>e. case e of JObj ob \<Rightarrow> field ob ''type'' = JNum (NInt 2) | _ \<Rightarrow> False) events"

record KeyEvent =
  ke_atMs :: jnum
  ke_kind :: string
  ke_masked :: bool
  ke_text :: string

text \<open>Four bullets, as UTF-8 bytes.\<close>

definition MASK :: string where
  "MASK = concat (replicate 4 [CHR 0xE2, CHR 0x80, CHR 0xA2])"

definition key_event :: "js \<Rightarrow> KeyEvent list" where
  "key_event e =
     (case e of
        JObj ob \<Rightarrow>
          (let masked = (field ob ''masked'' = JBool True) in
           [\<lparr>ke_atMs = (case field ob ''atMs'' of JNum n \<Rightarrow> n | _ \<Rightarrow> NInt 0),
             ke_kind = (if field ob ''kind'' = JStr ''command'' then ''command'' else ''text''),
             ke_masked = masked,
             ke_text = (if masked then MASK else str_or_empty (field ob ''text''))\<rparr>])
      | JArr vs \<Rightarrow>
          [\<lparr>ke_atMs = NInt 0, ke_kind = ''text'', ke_masked = False, ke_text = []\<rparr>]
      | _ \<Rightarrow> [])"

definition key_batch :: "js option \<Rightarrow> KeyEvent list" where
  "key_batch v = (case v of Some (JArr es) \<Rightarrow> concat (map key_event es) | _ \<Rightarrow> [])"

text \<open>The order of \<^verbatim>\<open>a.atMs - b.atMs\<close> on decimal numbers: by the integer below, then by the distance
  above it, whose digits are the fraction's own, or their complement below zero.\<close>

definition fraction_above :: "int \<Rightarrow> string \<Rightarrow> string" where
  "fraction_above n t =
     (let ds = drop 1 (dropWhile (\<lambda>c. c \<noteq> CHR ''.'') t) in
      if n < 0 then map (\<lambda>c. digit_char (9 - digit_val c)) ds @ '':'' else ds)"

definition at_order :: "KeyEvent \<Rightarrow> int \<times> string" where
  "at_order k =
     (case ke_atMs k of
        NInt n \<Rightarrow> (n, [])
      | NFrac n t \<Rightarrow> (n, fraction_above n t)
      | _ \<Rightarrow> (0, []))"

definition assembleKeyEvents :: "(string \<Rightarrow> js option) \<Rightarrow> string \<Rightarrow> KeyEvent list" where
  "assembleKeyEvents json_parse text =
     sort_key at_order (concat (map (\<lambda>l. key_batch (json_parse l)) (lines_of text)))"

text \<open>
  The stored form of a gateway chunk: compressed, then sealed. The codecs are parameters
  (\<^verbatim>\<open>node:zlib\<close>, \<^verbatim>\<open>node:crypto\<close>); decoding fails with \<open>None\<close>.
\<close>

record codec =
  gzip :: "string \<Rightarrow> string"
  gunzip :: "string \<Rightarrow> string option"
  encryptBytes :: "string \<Rightarrow> string"
  decryptBytes :: "string \<Rightarrow> string option"

definition serializeGuacChunk :: "codec \<Rightarrow> string \<Rightarrow> string" where
  "serializeGuacChunk K raw = encryptBytes K (gzip K raw)"

definition decode_chunk :: "codec \<Rightarrow> bool \<Rightarrow> string \<Rightarrow> string" where
  "decode_chunk K encrypted d =
     (case (if encrypted then decryptBytes K d else Some d) of
        None \<Rightarrow> []
      | Some gz \<Rightarrow> (case gunzip K gz of None \<Rightarrow> [] | Some raw \<Rightarrow> raw))"

definition assembleGuac :: "codec \<Rightarrow> (int \<times> string) list \<Rightarrow> bool \<Rightarrow> string" where
  "assembleGuac K chunks encrypted =
     concat (map (\<lambda>c. decode_chunk K encrypted (snd c)) (sort_key fst chunks))"

definition recordings_list ::
  "ctx \<Rightarrow> (ident \<Rightarrow> string \<Rightarrow> string list \<Rightarrow> search_answer) \<Rightarrow> search_params \<Rightarrow> db \<Rightarrow>
   db \<times> (recording_page \<times> (User option \<times> Site option) list) reply" where
  "recordings_list cx ask sp =
     with_capability cx Configure (\<lambda>admin s.
       let page = listRecordings ask (parseRecordingFilter (cx_parse_date cx) sp 50 200) s in
       (s, Ok 200 (page, map (\<lambda>r. (user_by_id s (rec_userId r), site_by_id s (rec_siteId r))) (pg_rows page))))"

text \<open>The two replay routes: a recording that cannot be reached is answered 503, never as empty.
  \<open>fetch\<close> is \<^verbatim>\<open>fetchFromConnector\<close> (format, connector, key).\<close>

definition with_stream ::
  "ctx \<Rightarrow> (string \<Rightarrow> ident \<Rightarrow> string \<Rightarrow> string option) \<Rightarrow> string \<Rightarrow>
   (SessionRecording \<Rightarrow> string \<Rightarrow> 'a) \<Rightarrow> ident \<Rightarrow> db \<Rightarrow> db \<times> 'a reply" where
  "with_stream cx fetch format render i =
     with_capability cx Configure (\<lambda>admin s.
       case recording_by_id s i of
         None \<Rightarrow> (s, Err 404 ''not_found'')
       | Some r \<Rightarrow>
           (case or_null (connectorForRecording (rec_siteId r) s) of
              None \<Rightarrow> (s, Err 503 ''no_connector'')
            | Some cid \<Rightarrow>
                (case fetch format cid (rec_recordingKey r) of
                   None \<Rightarrow> (s, Err 503 ''connector_offline'')
                 | Some raw \<Rightarrow> (s, Ok 200 (render r raw)))))"

definition recording_events ::
  "ctx \<Rightarrow> (string \<Rightarrow> js option) \<Rightarrow> (string \<Rightarrow> ident \<Rightarrow> string \<Rightarrow> string option) \<Rightarrow> ident \<Rightarrow> db \<Rightarrow>
   db \<times> (ident \<times> instant \<times> js list) reply" where
  "recording_events cx json_parse fetch =
     with_stream cx fetch ''rrweb'' (\<lambda>r raw. (rec_id r, rec_startedAt r, assembleEvents json_parse raw))"

definition recording_keyevents ::
  "ctx \<Rightarrow> (string \<Rightarrow> js option) \<Rightarrow> (string \<Rightarrow> ident \<Rightarrow> string \<Rightarrow> string option) \<Rightarrow> ident \<Rightarrow> db \<Rightarrow>
   db \<times> KeyEvent list reply" where
  "recording_keyevents cx json_parse fetch =
     with_stream cx fetch ''keys'' (\<lambda>r raw. assembleKeyEvents json_parse raw)"

section \<open>What each connector owes\<close>

lemma map_of_push_under:
  "map_of (push_under k v m) k' =
     (if k' = k then Some ((case map_of m k of None \<Rightarrow> [] | Some vs \<Rightarrow> vs) @ [v]) else map_of m k')"
  by (induction k v m rule: push_under.induct) auto

lemma map_of_group_by_connector:
  "map_of (group_by_connector conn key out ps) cid =
     (let ks = map key (filter (\<lambda>p. conn p = Some cid) ps) in
      if ks = [] then map_of out cid
      else Some ((case map_of out cid of None \<Rightarrow> [] | Some vs \<Rightarrow> vs) @ ks))"
  by (induction conn key out ps rule: group_by_connector.induct)
     (auto simp: Let_def map_of_push_under split: option.splits)

lemma keys_push_under: "set (map fst (push_under k v m)) = insert k (set (map fst m))"
  by (induction k v m rule: push_under.induct) auto

lemma owed_keys_eq:
  "owed_keys cid s =
     map rec_recordingKey
       (filter (\<lambda>r. pending_erasure r \<and> connector_of_site s (rec_siteId r) = Some cid) (sessionRecordings s))"
  by (simp add: owed_keys_def pendingErasuresByConnector_def map_of_group_by_connector find_many_def
      Let_def conj_commute)

section \<open>An accepted erasure stays owed\<close>

lemma owed_keys_iff:
  "k \<in> set (owed_keys cid s) \<longleftrightarrow>
     (\<exists>r \<in> set (sessionRecordings s). pending_erasure r \<and> rec_recordingKey r = k \<and>
        connector_of_site s (rec_siteId r) = Some cid)"
  by (auto simp: owed_keys_eq)

lemma append_best_effort_frame [simp]:
  "sessionRecordings (append_best_effort cx evs s) = sessionRecordings s"
  "sites (append_best_effort cx evs s) = sites s"
  "users (append_best_effort cx evs s) = users s"
  "accessGrants (append_best_effort cx evs s) = accessGrants s"
  "connectors (append_best_effort cx evs s) = connectors s"
  by (simp_all add: append_best_effort_def appendAuditEvents_def split: option.splits prod.splits)

lemma sites_frame:
  "sites s' = sites s \<Longrightarrow> connector_of_site s' = connector_of_site s"
  by (simp add: fun_eq_iff connector_of_site_def site_by_id_def)

text \<open>
  \<open>keeps_owed k s s'\<close>: the sites are the same and every row of \<open>s\<close> that is pending under the key \<open>k\<close>
  has a pending row of the same key and site in \<open>s'\<close>.
\<close>

definition keeps_owed :: "string \<Rightarrow> db \<Rightarrow> db \<Rightarrow> bool" where
  "keeps_owed k s s' \<longleftrightarrow>
     sites s' = sites s \<and>
     (\<forall>r \<in> set (sessionRecordings s). pending_erasure r \<longrightarrow> rec_recordingKey r = k \<longrightarrow>
        (\<exists>r' \<in> set (sessionRecordings s'). pending_erasure r' \<and> rec_recordingKey r' = k \<and>
           rec_siteId r' = rec_siteId r))"

lemma keeps_owed_owed:
  "keeps_owed k s s' \<Longrightarrow> k \<in> set (owed_keys cid s) \<Longrightarrow> k \<in> set (owed_keys cid s')"
  unfolding keeps_owed_def owed_keys_iff using sites_frame by metis

lemma keeps_owed_refl [simp]: "keeps_owed k s s"
  by (auto simp: keeps_owed_def)

lemma keeps_owed_rows:
  assumes "sites s' = sites s"
    and "\<And>r. r \<in> set (sessionRecordings s) \<Longrightarrow> pending_erasure r \<Longrightarrow> rec_recordingKey r = k \<Longrightarrow>
      \<exists>r' \<in> set (sessionRecordings s'). pending_erasure r' \<and> rec_recordingKey r' = k \<and>
        rec_siteId r' = rec_siteId r"
  shows "keeps_owed k s s'"
  using assms by (auto simp: keeps_owed_def)

lemma keeps_owed_update:
  assumes "sites s' = sites s" and "sessionRecordings s' = update_many p f (sessionRecordings s)"
    and "\<And>r. rec_recordingKey (f r) = rec_recordingKey r" "\<And>r. rec_siteId (f r) = rec_siteId r"
    and "\<And>r. pending_erasure r \<Longrightarrow> pending_erasure (f r)"
  shows "keeps_owed k s s'"
proof (rule keeps_owed_rows)
  fix r
  assume r: "r \<in> set (sessionRecordings s)" "pending_erasure r" "rec_recordingKey r = k"
  show "\<exists>r' \<in> set (sessionRecordings s'). pending_erasure r' \<and> rec_recordingKey r' = k \<and>
      rec_siteId r' = rec_siteId r"
    using r assms by (cases "p r") (force simp: update_many_def)+
qed (fact assms(1))

lemma pending_grown [simp]: "pending_erasure (grown_recording now b t r) = pending_erasure r"
  by (simp add: pending_erasure_def grown_recording_def)

lemma grown_keys [simp]:
  "rec_recordingKey (grown_recording now b t r) = rec_recordingKey r"
  "rec_siteId (grown_recording now b t r) = rec_siteId r"
  by (simp_all add: grown_recording_def)

lemma upsert_cases:
  obtains (failed) e where "upsert_recording nid now key body s = (s, Inl e)"
  | (created) row where
      "upsert_recording nid now key body s =
         (s\<lparr>sessionRecordings := insert_row row (sessionRecordings s)\<rparr>, Inr ())"
      "\<forall>r \<in> set (sessionRecordings s). rec_recordingKey r \<noteq> key"
      "ingest_bytes (body_field body ''bytes'') \<noteq> None"
      "new_recording nid now key body (the (ingest_bytes (body_field body ''bytes'')))
         (body_field body ''truncated'' = JBool True) = Some row"
  | (grown) b t r where
      "upsert_recording nid now key body s =
         (s\<lparr>sessionRecordings :=
             update_many (\<lambda>r. rec_recordingKey r = key) (grown_recording now b t) (sessionRecordings s)\<rparr>,
          Inr ())"
      "r \<in> set (sessionRecordings s)" "rec_recordingKey r = key" "counters_fit (grown_recording now b t r)"
      "ingest_bytes (body_field body ''bytes'') = Some b"
proof (cases "ingest_bytes (body_field body ''bytes'')")
  case None
  then show thesis by (intro failed) (simp add: upsert_recording_def)
next
  case b: (Some b)
  let ?t = "body_field body ''truncated'' = JBool True"
  show thesis
  proof (cases "new_recording nid now key body b ?t")
    case None
    with b show thesis by (intro failed) (simp add: upsert_recording_def)
  next
    case row: (Some row)
    show thesis
    proof (cases "find_first (\<lambda>r. rec_recordingKey r = key) (sessionRecordings s)")
      case None
      with b row show thesis
        by (intro created [of row]) (simp_all add: upsert_recording_def Let_def find_first_None [symmetric])
    next
      case r: (Some r)
      show thesis
      proof (cases "counters_fit (grown_recording now b ?t r)")
        case True
        with b row r find_first_Some [OF r] show thesis
          by (intro grown [of b ?t r]) (simp_all add: upsert_recording_def Let_def)
      next
        case False
        with b row r show thesis by (intro failed) (simp add: upsert_recording_def)
      qed
    qed
  qed
qed

lemma upsert_failed_same:
  "upsert_recording nid now key body s = (s', Inl e) \<Longrightarrow> s' = s"
  by (rule upsert_cases [of nid now key body s]) auto

text \<open>A report changes nothing or is one successful upsert.\<close>

lemma store_report_cases:
  obtains (same) "fst (store_report cx body s) = s"
  | (stored) key where
      "store_report cx body s =
         (fst (upsert_recording (cx_fresh cx) (cx_now cx) key body s), Ok 204 ())"
      "snd (upsert_recording (cx_fresh cx) (cx_now cx) key body s) = Inr ()"
proof (cases "body_field body ''recordingKey''")
  case (JStr key)
  let ?u = "upsert_recording (cx_fresh cx) (cx_now cx) key body s"
  show thesis
  proof (cases "snd ?u")
    case (Inl e)
    then have "?u = (s, Inl e)" by (metis prod.collapse upsert_failed_same)
    with JStr show thesis by (intro same) (simp add: store_report_def run_tx_def)
  next
    case (Inr x)
    then have u: "?u = (fst ?u, Inr ())" by (metis prod.collapse unit.exhaust)
    have "run_tx b (upsert_recording (cx_fresh cx) (cx_now cx) key body) s = (fst ?u, Inr ())" for b
      by (subst run_tx_def, subst u) simp
    then have "store_report cx body s = (fst ?u, Ok 204 ())" by (simp add: store_report_def JStr)
    with Inr show thesis by (intro stored) auto
  qed
qed (rule same, simp add: store_report_def)+

lemma ingest_cases:
  obtains (same) "fst (recording_ingest cx body s) = s"
  | (stored) key where
      "fst (recording_ingest cx body s) = fst (upsert_recording (cx_fresh cx) (cx_now cx) key body s)"
      "snd (upsert_recording (cx_fresh cx) (cx_now cx) key body s) = Inr ()"
proof -
  have "fst (recording_ingest cx body s) \<in> {s, fst (store_report cx body s)}"
    by (simp add: recording_ingest_def)
  then show thesis using same stored by (rule_tac store_report_cases [of cx body s]) auto
qed

lemma ingest_keeps_owed: "keeps_owed k s (fst (recording_ingest cx body s))"
proof (rule ingest_cases [of cx body s])
  fix key
  assume st: "fst (recording_ingest cx body s) =
    fst (upsert_recording (cx_fresh cx) (cx_now cx) key body s)"
  show ?thesis
  proof (rule upsert_cases [of "cx_fresh cx" "cx_now cx" key body s])
    fix row
    assume "upsert_recording (cx_fresh cx) (cx_now cx) key body s =
      (s\<lparr>sessionRecordings := insert_row row (sessionRecordings s)\<rparr>, Inr ())"
    with st show ?thesis by (intro keeps_owed_rows) auto
  next
    fix b t r
    assume "upsert_recording (cx_fresh cx) (cx_now cx) key body s =
      (s\<lparr>sessionRecordings :=
          update_many (\<lambda>r. rec_recordingKey r = key) (grown_recording (cx_now cx) b t) (sessionRecordings s)\<rparr>,
       Inr ())"
    with st show ?thesis
      by (intro keeps_owed_update [of _ _ "\<lambda>r. rec_recordingKey r = key" "grown_recording (cx_now cx) b t"])
         simp_all
  qed (use st in simp)
qed simp


lemma request_keeps_owed: "keeps_owed k s (fst (requestErasure i now s))"
proof (cases "recording_by_id s i")
  case (Some r)
  then show ?thesis
    by (intro keeps_owed_update [of _ _ "\<lambda>r. rec_id r = i" "\<lambda>r. r\<lparr>rec_purgePendingAt := Some now\<rparr>"])
       (simp_all add: requestErasure_def pending_erasure_def)
qed (simp add: requestErasure_def)

lemma request_sites [simp]: "sites (fst (requestErasure i now s)) = sites s"
  by (simp add: requestErasure_def split: option.splits)

text \<open>The index after an acknowledgement, whatever the body.\<close>

definition acked_away :: "ctx \<Rightarrow> js \<Rightarrow> db \<Rightarrow> SessionRecording \<Rightarrow> bool" where
  "acked_away cx body s r \<longleftrightarrow>
     pending_erasure r \<and> rec_recordingKey r \<in> set (string_elements (body_field body ''purgedKeys''))"

definition swept_away :: "ctx \<Rightarrow> js \<Rightarrow> db \<Rightarrow> SessionRecording \<Rightarrow> bool" where
  "swept_away cx body s r \<longleftrightarrow>
     (let days = resolvedRecordingRetentionDays (cx_envelope cx) (settings_in s) in
      positive_number (body_field body ''retentionRemoved'') \<and> 0 < days \<and>
      rec_lastEventAt r < cx_now cx - days * 24 * 60 * 60 * 1000)"

lemma erasure_ack_rows:
  "sessionRecordings (fst (erasure_ack cx body s)) =
     filter (\<lambda>r. \<not> acked_away cx body s r \<and> \<not> swept_away cx body s r) (sessionRecordings s)"
proof (cases "body = JNull")
  case True
  then show ?thesis
    by (simp add: erasure_ack_def with_body_def acked_away_def swept_away_def body_field_def
        string_elements_def positive_number_def)
next
  case False
  have 1: "sessionRecordings (fst (ack_confirm body s)) =
      filter (\<lambda>r. \<not> acked_away cx body s r) (sessionRecordings s)"
    by (simp add: ack_confirm_def confirmErasures_def acked_away_def delete_many_def Let_def conj_commute)
  have 2: "platformSettings (fst (ack_confirm body s)) = platformSettings s"
    by (simp add: ack_confirm_def confirmErasures_def Let_def)
  have 3: "sessionRecordings (fst (ack_trim cx body s1)) =
      filter (\<lambda>r. \<not> swept_away cx body s1 r) (sessionRecordings s1)" for s1
    by (auto simp: ack_trim_def trimIndexAfterRetention_def swept_away_def delete_many_def Let_def)
  from 2 have 4: "swept_away cx body (fst (ack_confirm body s)) = swept_away cx body s"
    by (simp add: fun_eq_iff swept_away_def settings_in_def)
  have "sessionRecordings (fst (erasure_ack cx body s)) =
      sessionRecordings (fst (ack_trim cx body (fst (ack_confirm body s))))"
    using False by (simp add: erasure_ack_def with_body_def Let_def split: prod.splits)
  then show ?thesis by (simp add: 3 1 4 conj_commute)
qed

lemma erasure_ack_sites: "sites (fst (erasure_ack cx body s)) = sites s"
  by (simp add: erasure_ack_def with_body_def ack_confirm_def confirmErasures_def ack_trim_def
      trimIndexAfterRetention_def Let_def split: prod.splits)

text \<open>
  The life of the index for one key: reports, further requests, and acknowledgements that neither
  name the key nor announce a retention sweep.
\<close>

inductive index_step :: "string \<Rightarrow> db \<Rightarrow> db \<Rightarrow> bool" for k where
  report: "recording_ingest cx body s = (s', a) \<Longrightarrow> index_step k s s'"
| request: "requestErasure i now s = (s', b) \<Longrightarrow> index_step k s s'"
| acknowledge: "erasure_ack cx body s = (s', a) \<Longrightarrow>
    k \<notin> set (string_elements (body_field body ''purgedKeys'')) \<Longrightarrow>
    \<not> positive_number (body_field body ''retentionRemoved'') \<Longrightarrow> index_step k s s'"

inductive_cases index_stepE: "index_step k s s'"

lemma index_step_keeps: "index_step k s s' \<Longrightarrow> keeps_owed k s s'"
proof (erule index_stepE)
  fix cx body a
  assume "erasure_ack cx body s = (s', a)" "k \<notin> set (string_elements (body_field body ''purgedKeys''))"
    "\<not> positive_number (body_field body ''retentionRemoved'')"
  then have "s' = fst (erasure_ack cx body s)" "\<And>r. \<not> swept_away cx body s r"
    "\<And>r. rec_recordingKey r = k \<Longrightarrow> \<not> acked_away cx body s r"
    by (auto simp: swept_away_def acked_away_def Let_def)
  then show ?thesis
    by (intro keeps_owed_rows) (auto simp: erasure_ack_rows erasure_ack_sites)
qed (metis fst_conv ingest_keeps_owed request_keeps_owed)+

lemma index_steps_owed:
  "(index_step k)\<^sup>*\<^sup>* s s' \<Longrightarrow> k \<in> set (owed_keys cid s) \<Longrightarrow> k \<in> set (owed_keys cid s')"
  by (induction rule: rtranclp_induct) (auto intro: keeps_owed_owed index_step_keeps)

lemma requested_owed:
  assumes "recording_by_id s i = Some r" and "connector_of_site s (rec_siteId r) = Some cid"
  shows "rec_recordingKey r \<in> set (owed_keys cid (fst (requestErasure i now s)))"
proof -
  let ?r = "r\<lparr>rec_purgePendingAt := Some now\<rparr>"
  from assms(1) have r: "r \<in> set (sessionRecordings s)" "rec_id r = i"
    using find_first_Some [of "\<lambda>r. rec_id r = i" "sessionRecordings s" r] by (auto simp: recording_by_id_def)
  have "?r \<in> set (sessionRecordings (fst (requestErasure i now s)))"
    using assms(1) r by (auto simp: requestErasure_def set_update_many)
  moreover have "connector_of_site (fst (requestErasure i now s)) = connector_of_site s"
    by (rule sites_frame) simp
  ultimately show ?thesis
    unfolding owed_keys_iff using assms(2) by (intro bexI [of _ ?r]) (simp_all add: pending_erasure_def)
qed


lemma erase_recording_index:
  "sessionRecordings (fst (erase_recording cx i u s)) = sessionRecordings (fst (requestErasure i (cx_now cx) s))"
  "sites (fst (erase_recording cx i u s)) = sites s"
  by (simp_all add: erase_recording_def requestErasure_def Let_def split: option.splits)

lemma delete_recording_owed:
  assumes "delete_recording cx i s = (s', Ok n m)"
    and "recording_by_id s i = Some r" and "connector_of_site s (rec_siteId r) = Some cid"
  shows "rec_recordingKey r \<in> set (owed_keys cid s')"
  using assms(1) unfolding delete_recording_def
proof (cases rule: with_capability_cases [of cx s Configure "erase_recording cx i"])
  case (allowed s1 u)
  have e: "fst (current_user cx s) = s1" unfolding allowed(1) by (rule fst_conv)
  have s1: "sessionRecordings s1 = sessionRecordings s" "sites s1 = sites s"
    by (simp_all flip: e)
  let ?q = "fst (requestErasure i (cx_now cx) s1)"
  from s1 assms(2,3) have "recording_by_id s1 i = Some r" "connector_of_site s1 (rec_siteId r) = Some cid"
    by (simp_all add: recording_by_id_def sites_frame [OF s1(2)])
  then have "rec_recordingKey r \<in> set (owed_keys cid ?q)" by (rule requested_owed)
  moreover have "erase_recording cx i u s1 = (s', Ok n m)"
    using trans [OF allowed(3) [symmetric] assms(1) [unfolded delete_recording_def]] .
  then have "s' = fst (erase_recording cx i u s1)" by (simp only: fst_conv)
  then have q: "sessionRecordings s' = sessionRecordings ?q" "sites s' = sites ?q"
    by (simp_all add: erase_recording_index)
  ultimately show ?thesis by (simp add: owed_keys_iff sites_frame [OF q(2)])
qed (use assms(1) in \<open>auto simp: delete_recording_def\<close>)


text \<open>Retention, by contrast, forgets erasures that no connector has confirmed: the nightly job and a
  connector's sweep report both delete rows by age alone, pending or not, whichever connector holds
  the bytes.\<close>

lemma retention_forgets_erasures:
  assumes "r \<in> set (sessionRecordings s)"
    and "0 < resolvedRecordingRetentionDays (cx_envelope cx) (settings_in s)"
    and "rec_startedAt r < cx_now cx - resolvedRecordingRetentionDays (cx_envelope cx) (settings_in s) * 86400000"
  shows "r \<notin> set (sessionRecordings (fst (recording_retention cx s)))"
proof -
  have "settings_in (recordCronRun j t s) = settings_in s"
    "sessionRecordings (recordCronRun j t s) = sessionRecordings s" for j t
    by (simp_all add: recordCronRun_def settings_in_def)
  with assms show ?thesis by (simp add: recording_retention_def Let_def)
qed

lemma sweep_forgets_other_connectors:
  assumes "r \<in> set (sessionRecordings s)"
    and "0 < resolvedRecordingRetentionDays (cx_envelope cx) (settings_in s)"
    and "rec_lastEventAt r < cx_now cx - resolvedRecordingRetentionDays (cx_envelope cx) (settings_in s) * 86400000"
  shows "r \<notin> set (sessionRecordings (fst (erasure_ack cx
    (JObj [(''connectorId'', JStr other), (''retentionRemoved'', JNum (NInt 1))]) s)))"
  using assms
  by (simp add: erasure_ack_rows swept_away_def body_field_def field_def positive_number_def Let_def)


definition ex_recording :: SessionRecording where
  "ex_recording =
     \<lparr>rec_id = ''r1'', rec_recordingKey = ''k1'', rec_siteId = ''s1'', rec_userId = ''u1'', rec_host = ''h'',
      rec_startedAt = 0, rec_lastEventAt = 0, rec_eventCount = 1, rec_bytes = 10, rec_format = GUAC,
      rec_purgePendingAt = None, rec_protocol = Some ''ssh'', rec_encrypted = True,
      rec_truncated = False\<rparr>"

definition ex_rec_db :: db where
  "ex_rec_db = ex_signed_in (empty_db\<lparr>sites := [ex_site], sessionRecordings := [ex_recording]\<rparr>)"


section \<open>A negative search answer is complete\<close>

lemma add_match_keys:
  "set (fan_matchedKeys (foldl add_match f ms)) = set (fan_matchedKeys f) \<union> fst ` set ms"
  by (induction ms arbitrary: f) (auto simp: add_match_def)

lemma add_match_flags [simp]:
  "fan_truncated (foldl add_match f ms) = fan_truncated f"
  "fan_partial (foldl add_match f ms) = fan_partial f"
  "fan_unreachable (foldl add_match f ms) = fan_unreachable f"
  by (induction ms arbitrary: f) (simp_all add: add_match_def)

text \<open>\<open>found_in a\<close>, \<open>lost a\<close> and \<open>cut a\<close>: what one answer contributes to the merged result.\<close>

fun found_in :: "search_answer \<Rightarrow> string set" where
  "found_in Unreachable = {}"
| "found_in (Answer t ms) = fst ` set ms"

fun cut_short :: "search_answer \<Rightarrow> bool" where
  "cut_short Unreachable = False"
| "cut_short (Answer t ms) = t"

lemma merge_answers:
  "set (fan_matchedKeys (foldl merge_answer f as)) =
     set (fan_matchedKeys f) \<union> (\<Union>a \<in> set as. found_in (snd a))"
  "fan_truncated (foldl merge_answer f as) \<longleftrightarrow> fan_truncated f \<or> (\<exists>a \<in> set as. cut_short (snd a))"
  "fan_partial (foldl merge_answer f as) \<longleftrightarrow> fan_partial f \<or> Unreachable \<in> snd ` set as"
proof (induction as arbitrary: f)
  case (Cons a as)
  {
    case 1 show ?case using Cons.IH(1) by (cases "snd a") (auto simp: merge_answer_def add_match_keys)
  next
    case 2 show ?case using Cons.IH(2) by (cases "snd a") (auto simp: merge_answer_def)
  next
    case 3 show ?case using Cons.IH(3) by (cases "snd a") (auto simp: merge_answer_def)
  }
qed auto

lemma distinct_keys_push: "distinct (map fst m) \<Longrightarrow> distinct (map fst (push_under k v m))"
proof (induction k v m rule: push_under.induct)
  case (2 k v k' vs m)
  then show ?case using keys_push_under [of k v m] by auto
qed simp

lemma distinct_group_by_connector:
  "distinct (map fst out) \<Longrightarrow> distinct (map fst (group_by_connector conn key out ps))"
  by (induction conn key out ps rule: group_by_connector.induct)
     (auto simp: distinct_keys_push split: option.splits)

text \<open>What was asked of whom: one question per connector, with exactly the keys it holds.\<close>

definition keys_held :: "(string \<times> ident option) list \<Rightarrow> ident \<Rightarrow> string list" where
  "keys_held cands cid = map fst (filter (\<lambda>c. or_null (snd c) = Some cid) cands)"

lemma grouped_set:
  "set (group_by_connector (\<lambda>c. or_null (snd c)) fst [] cands) =
     {(cid, ks). ks = keys_held cands cid \<and> ks \<noteq> []}"
proof -
  let ?g = "group_by_connector (\<lambda>c. or_null (snd c)) fst [] cands"
  have "(cid, ks) \<in> set ?g \<longleftrightarrow> map_of ?g cid = Some ks" for cid ks
    using distinct_group_by_connector [of "[]" "\<lambda>c. or_null (snd c)" fst cands]
    by (auto dest: map_of_SomeD intro: map_of_is_SomeI)
  moreover have "map_of ?g cid = (if keys_held cands cid = [] then None else Some (keys_held cands cid))" for cid
    by (simp add: map_of_group_by_connector keys_held_def Let_def)
  ultimately have "(cid, ks) \<in> set ?g \<longleftrightarrow> ks = keys_held cands cid \<and> ks \<noteq> []" for cid ks
    by auto
  then show ?thesis by auto
qed

lemma fan_out_meaning:
  fixes ask :: "ident \<Rightarrow> string \<Rightarrow> string list \<Rightarrow> search_answer"
  assumes "trim query \<noteq> []" and "cands \<noteq> []"
  defines "fan \<equiv> searchRecordingsOnConnectors ask query cands"
    and "asked \<equiv> {cid. keys_held cands cid \<noteq> []}"
    and "answer \<equiv> \<lambda>cid. ask cid (trim query) (keys_held cands cid)"
  shows "set (fan_matchedKeys fan) = (\<Union>cid \<in> asked. found_in (answer cid))"
    and "fan_truncated fan \<longleftrightarrow> (\<exists>cid \<in> asked. cut_short (answer cid))"
    and "fan_partial fan \<longleftrightarrow> (\<exists>c \<in> set cands. or_null (snd c) = None) \<or> (\<exists>cid \<in> asked. answer cid = Unreachable)"
proof -
  let ?as = "map (\<lambda>(cid, ks). (cid, ask cid (trim query) ks))
    (group_by_connector (\<lambda>c. or_null (snd c)) fst [] cands)"
  have as: "set ?as = (\<lambda>cid. (cid, answer cid)) ` asked"
    unfolding set_map grouped_set asked_def answer_def by auto
  have fan: "fan = foldl merge_answer
      (empty_fan\<lparr>fan_partial := list_ex (\<lambda>c. or_null (snd c) = None) cands\<rparr>) ?as"
    using assms(1,2) by (simp add: fan_def searchRecordingsOnConnectors_def Let_def)
  show "set (fan_matchedKeys fan) = (\<Union>cid \<in> asked. found_in (answer cid))"
    unfolding fan merge_answers as by (simp add: empty_fan_def)
  show "fan_truncated fan \<longleftrightarrow> (\<exists>cid \<in> asked. cut_short (answer cid))"
    unfolding fan merge_answers as by (simp add: empty_fan_def)
  show "fan_partial fan \<longleftrightarrow> (\<exists>c \<in> set cands. or_null (snd c) = None) \<or> (\<exists>cid \<in> asked. answer cid = Unreachable)"
    unfolding fan merge_answers as by (simp add: list_ex_iff image_image image_iff) metis
qed

lemma dropWhile_rev_dropWhile:
  "dropWhile p (rev (dropWhile p (rev (dropWhile p xs)))) = rev (dropWhile p (rev (dropWhile p xs)))"
proof (cases "dropWhile p xs")
  case Nil
  show ?thesis unfolding Nil by simp
next
  case (Cons y ys)
  then have "\<not> p y" by (metis hd_dropWhile list.sel(1) list.simps(3))
  then show ?thesis
    unfolding Cons by (simp add: dropWhile_append)
qed

lemma trim_trim [simp]: "trim (trim t) = trim t"
  by (simp add: trim_def dropWhile_rev_dropWhile)

text \<open>The candidates of a search, with the recordings they stand for.\<close>

lemma search_candidates_set:
  "set (search_candidates f s) =
     (\<lambda>r. (rec_recordingKey r, map_option site_connectorId (site_by_id s (rec_siteId r)))) `
       {r \<in> set (sessionRecordings s). buildRecordingWhere f r}"
  by (simp add: search_candidates_def)

text \<open>When a command search reports nothing found, and neither an incomplete nor a too broad
  search, then every recording the other filters select is held by a connector that was asked,
  answered within its budget and did not find the command in it. The connectors are relied on to
  report only recordings they were asked about.\<close>
theorem search_negative_complete:
  assumes only_asked: "\<And>cid q ks. found_in (ask cid q ks) \<subseteq> set ks"
    and cmd: "rf_cmd f = Some c" "2 \<le> length (trim c)"
    and negative: "pg_total (listRecordings ask f s) = 0" "\<not> pg_partial (listRecordings ask f s)"
      "\<not> pg_tooBroad (listRecordings ask f s)"
    and r: "r \<in> set (sessionRecordings s)" "buildRecordingWhere f r"
  shows "\<exists>cid ms. connector_of_site s (rec_siteId r) = Some cid \<and>
    ask cid (trim c) (keys_held (search_candidates f s) cid) = Answer False ms \<and>
    rec_recordingKey r \<in> set (keys_held (search_candidates f s) cid) \<and>
    rec_recordingKey r \<notin> fst ` set ms"
proof -
  let ?cs = "search_candidates f s"
  let ?fan = "searchRecordingsOnConnectors ask (trim c) ?cs"
  have r_in: "(rec_recordingKey r, map_option site_connectorId (site_by_id s (rec_siteId r))) \<in> set ?cs"
    using r by (auto simp: search_candidates_set)
  then have ne: "?cs \<noteq> []" "trim (trim c) \<noteq> []" using cmd(2) by auto
  note fan = fan_out_meaning [OF ne(2,1), of ask, unfolded trim_trim]
  have "fan_matchedKeys ?fan = []"
  proof (rule ccontr)
    assume m: "fan_matchedKeys ?fan \<noteq> []"
    then obtain k where k: "k \<in> set (fan_matchedKeys ?fan)" by (meson last_in_set)
    with fan(1) only_asked obtain cid where "k \<in> set (keys_held ?cs cid)" by blast
    then obtain r' where "r' \<in> set (sessionRecordings s)" "buildRecordingWhere f r'" "rec_recordingKey r' = k"
      by (auto simp: keys_held_def search_candidates_set)
    with k m negative(1) cmd ne(1) show False
      by (auto simp: listRecordings_def Let_def page_of_def count_rows_0)
  qed
  with negative cmd ne(1) have flags: "\<not> fan_truncated ?fan" "\<not> fan_partial ?fan"
    by (simp_all add: listRecordings_def Let_def no_page_def split: if_splits)
  from flags(2) r_in fan(3) obtain cid where
    cid: "or_null (map_option site_connectorId (site_by_id s (rec_siteId r))) = Some cid"
    by fastforce
  with r_in have held: "rec_recordingKey r \<in> set (keys_held ?cs cid)"
    by (force simp: keys_held_def)
  then have ne': "keys_held ?cs cid \<noteq> []" by auto
  with flags fan have "ask cid (trim c) (keys_held ?cs cid) \<noteq> Unreachable"
    "\<not> cut_short (ask cid (trim c) (keys_held ?cs cid))" by auto
  then obtain ms where ms: "ask cid (trim c) (keys_held ?cs cid) = Answer False ms"
    by (cases "ask cid (trim c) (keys_held ?cs cid)") auto
  with fan(1) \<open>fan_matchedKeys ?fan = []\<close> ne' have "fst ` set ms = {}" by force
  with cid held ms show ?thesis by (auto simp: connector_of_site_def)
qed

theorem search_negative_complete_witness:
  "\<exists>cid. connector_of_site (empty_db\<lparr>sites := [ex_site], sessionRecordings := [ex_recording]\<rparr>) ''s1'' = Some cid"
proof -
  let ?f = "\<lparr>rf_q = None, rf_cmd = Some ''ls'', rf_userId = None, rf_siteId = None, rf_from = None,
    rf_to = None, rf_limit = 50, rf_offset = 0\<rparr>"
  let ?s = "empty_db\<lparr>sites := [ex_site], sessionRecordings := [ex_recording]\<rparr>"
  let ?ask = "\<lambda>cid q ks. Answer False []"
  have 1: "listRecordings ?ask ?f ?s = no_page"
    by code_simp
  have 2: "buildRecordingWhere ?f ex_recording" "2 \<le> length (trim ''ls'')" by code_simp+
  from search_negative_complete [of ?ask ?f "''ls''" ?s ex_recording] 1 2 show ?thesis
    by (auto simp: no_page_def ex_recording_def)
qed

text \<open>An incomplete search that finds something says so nowhere: the flags of the fan-out are dropped
  as soon as one key matches.\<close>

lemma partial_search_with_hits_unreported:
  assumes "rf_cmd f = Some c" and "2 \<le> length (trim c)" and "search_candidates f s \<noteq> []"
    and "fan_matchedKeys (searchRecordingsOnConnectors ask (trim c) (search_candidates f s)) \<noteq> []"
  shows "\<not> pg_partial (listRecordings ask f s) \<and> pg_unreachable (listRecordings ask f s) = [] \<and>
    \<not> pg_tooBroad (listRecordings ask f s)"
  using assms by (simp add: listRecordings_def Let_def page_of_def)

section \<open>Counters and replay\<close>

text \<open>The columns hold what their type can: counters stay non-negative 32-bit numbers.\<close>

definition index_typed :: "db \<Rightarrow> bool" where
  "index_typed s \<longleftrightarrow>
     list_all (\<lambda>r. counters_fit r \<and> 0 \<le> rec_eventCount r \<and> 0 \<le> rec_bytes r) (sessionRecordings s)"

lemma ingest_bytes_range: "ingest_bytes v = Some b \<Longrightarrow> 0 \<le> b \<and> fits_int4 b"
  by (auto simp: ingest_bytes_def fits_int4_def split: js.splits jnum.splits if_splits)

lemma new_recording_typed:
  assumes "new_recording nid now key body b t = Some row" and "0 \<le> b" "fits_int4 b"
  shows "counters_fit row \<and> 0 \<le> rec_eventCount row \<and> 0 \<le> rec_bytes row"
  using assms by (auto simp: new_recording_def counters_fit_def fits_int4_def split: option.splits)


lemma grown_typed:
  assumes "counters_fit (grown_recording now b t r)" and "0 \<le> rec_eventCount r" "0 \<le> rec_bytes r" "0 \<le> b"
  shows "0 \<le> rec_eventCount (grown_recording now b t r) \<and> 0 \<le> rec_bytes (grown_recording now b t r)"
  using assms by (simp add: grown_recording_def)

text \<open>Keys are unique in the index, so the row that is checked is the one that grows.\<close>

definition unique_keys :: "db \<Rightarrow> bool" where
  "unique_keys s \<longleftrightarrow> distinct (map rec_recordingKey (sessionRecordings s))"

lemma index_typed_upsert:
  assumes typed: "index_typed s" "unique_keys s" and u: "upsert_recording nid now key body s = (s', Inr x)"
  shows "index_typed s' \<and> unique_keys s'"
proof (rule upsert_cases [of nid now key body s])
  fix row
  assume c: "upsert_recording nid now key body s =
      (s\<lparr>sessionRecordings := insert_row row (sessionRecordings s)\<rparr>, Inr ())"
    "\<forall>r \<in> set (sessionRecordings s). rec_recordingKey r \<noteq> key"
    "ingest_bytes (body_field body ''bytes'') \<noteq> None"
    "new_recording nid now key body (the (ingest_bytes (body_field body ''bytes'')))
       (body_field body ''truncated'' = JBool True) = Some row"
  from c(3) obtain b where b: "ingest_bytes (body_field body ''bytes'') = Some b" by blast
  with ingest_bytes_range [OF b] new_recording_typed c(4)
  have "counters_fit row \<and> 0 \<le> rec_eventCount row \<and> 0 \<le> rec_bytes row" by auto
  moreover from c(4) have "rec_recordingKey row = key"
    by (auto simp: new_recording_def split: option.splits)
  moreover from c(2) have "key \<notin> rec_recordingKey ` set (sessionRecordings s)" by auto
  ultimately show ?thesis
    using typed u c(1) by (auto simp: index_typed_def unique_keys_def insert_row_def list_all_iff)
next
  fix b t r
  let ?up = "update_many (\<lambda>r. rec_recordingKey r = key) (grown_recording now b t) (sessionRecordings s)"
  assume g: "upsert_recording nid now key body s = (s\<lparr>sessionRecordings := ?up\<rparr>, Inr ())"
    "r \<in> set (sessionRecordings s)" "rec_recordingKey r = key" "counters_fit (grown_recording now b t r)"
    "ingest_bytes (body_field body ''bytes'') = Some b"
  have only: "r' = r" if "r' \<in> set (sessionRecordings s)" "rec_recordingKey r' = key" for r'
    using typed(2) g(2,3) that by (auto simp: unique_keys_def distinct_map inj_on_def)
  have "0 \<le> rec_eventCount r" "0 \<le> rec_bytes r"
    using typed(1) g(2) by (auto simp: index_typed_def list_all_iff)
  note grown_typed [OF g(4) this] ingest_bytes_range [OF g(5)]
  then have "counters_fit r' \<and> 0 \<le> rec_eventCount r' \<and> 0 \<le> rec_bytes r'" if "r' \<in> set ?up" for r'
    using that typed(1) only g(4) by (auto simp: set_update_many index_typed_def list_all_iff)
  moreover have "unique_keys (s\<lparr>sessionRecordings := ?up\<rparr>)"
    using typed(2) by (simp add: unique_keys_def map_update_many)
  ultimately show ?thesis using u g(1) by (auto simp: index_typed_def list_all_iff)
qed (use u in auto)

text \<open>Ingest reports, whatever they contain, keep the index well typed: keys stay unique and the
  chunk and byte counters stay non-negative 32-bit numbers.\<close>
theorem ingest_keeps_index_typed:
  assumes "index_typed s" and "unique_keys s"
  shows "index_typed (fst (recording_ingest cx body s)) \<and> unique_keys (fst (recording_ingest cx body s))"
proof (rule ingest_cases [of cx body s])
  fix key
  assume k: "fst (recording_ingest cx body s) = fst (upsert_recording (cx_fresh cx) (cx_now cx) key body s)"
    "snd (upsert_recording (cx_fresh cx) (cx_now cx) key body s) = Inr ()"
  show ?thesis
    unfolding k(1)
    by (rule index_typed_upsert [OF assms, of "cx_fresh cx" "cx_now cx" key body _ "()"])
       (metis k(2) prod.collapse)
qed (use assms in simp)

theorem ingest_keeps_index_typed_witness:
  "index_typed (fst (recording_ingest ex_ctx (JObj []) (empty_db\<lparr>sessionRecordings := [ex_recording]\<rparr>)))"
  using ingest_keeps_index_typed [of "empty_db\<lparr>sessionRecordings := [ex_recording]\<rparr>" ex_ctx "JObj []"]
  by (simp add: index_typed_def unique_keys_def ex_recording_def counters_fit_def fits_int4_def)

text \<open>The price of the 32-bit column: once a recording's bytes would pass it, every further report of
  that recording fails and changes nothing, its time of last activity included.\<close>

lemma oversized_recording_freezes:
  assumes "find_first (\<lambda>r. rec_recordingKey r = key) (sessionRecordings s) = Some r"
    and "body_field body ''recordingKey'' = JStr key" and "body_field body ''truncated'' \<noteq> JBool True"
    and "body_field body ''bytes'' = JNum (NInt b)" and "0 \<le> b" and "2 ^ 31 \<le> rec_bytes r + b"
  shows "fst (recording_ingest cx body s) = s"
proof -
  have "\<not> counters_fit (grown_recording (cx_now cx) b False r)"
    using assms(6) by (simp add: grown_recording_def counters_fit_def fits_int4_def)
  then have "\<exists>e. upsert_recording (cx_fresh cx) (cx_now cx) key body s = (s, Inl e)"
    using assms by (auto simp: upsert_recording_def ingest_bytes_def Let_def split: option.splits)
  then show ?thesis
    by (auto simp: recording_ingest_def store_report_def assms(2) run_tx_def)
qed

text \<open>Replay: chunks that were stored compressed and sealed come back as the original bytes, in sequence
  order whatever order they are read in. The codecs are relied on to invert each other.\<close>

lemma sort_key_int_enumeration:
  assumes "mset xs = mset (map (\<lambda>i. (int i, f i)) [0..<n])"
  shows "sort_key fst xs = map (\<lambda>i. (int i, f i)) [0..<n]"
proof (rule sort_key_inj_key_eq [OF assms])
  show "sorted (map fst (map (\<lambda>i. (int i, f i)) [0..<n]))"
    by (simp add: sorted_map comp_def sorted_wrt_map)
  have "set xs = set (map (\<lambda>i. (int i, f i)) [0..<n])" using assms by (metis set_mset_mset)
  then show "inj_on fst (set xs)" by (auto simp: inj_on_def)
qed

text \<open>Reading back a gateway recording gives the bytes that were written, chunk by chunk in
  sequence order, whatever order the store returns the chunks in.\<close>
theorem guac_round_trip:
  assumes "\<And>x. gunzip K (gzip K x) = Some x" and "\<And>x. decryptBytes K (encryptBytes K x) = Some x"
    and "mset chunks = mset (map (\<lambda>i. (int i, serializeGuacChunk K (raws ! i))) [0..<length raws])"
  shows "assembleGuac K chunks True = concat raws"
proof -
  have "decode_chunk K True (serializeGuacChunk K x) = x" for x
    by (simp add: decode_chunk_def serializeGuacChunk_def assms(1,2))
  then show ?thesis
    by (simp add: assembleGuac_def sort_key_int_enumeration [OF assms(3)] comp_def map_nth)
qed

theorem guac_round_trip_witness:
  "assembleGuac \<lparr>gzip = (\<lambda>x. x @ ''z''), gunzip = (\<lambda>x. Some (butlast x)),
      encryptBytes = rev, decryptBytes = (\<lambda>x. Some (rev x))\<rparr>
    [(1, ''zb''), (0, ''za'')] True = ''ab''"
  by (rule guac_round_trip [of _ _ "[''a'', ''b'']", simplified]) (simp_all add: serializeGuacChunk_def)

lemma masked_never_shown:
  "k \<in> set (assembleKeyEvents json_parse text) \<Longrightarrow> ke_masked k \<Longrightarrow> ke_text k = MASK"
proof -
  assume k: "k \<in> set (assembleKeyEvents json_parse text)" "ke_masked k"
  then obtain e where "k \<in> set (key_event e)"
    by (auto simp: assembleKeyEvents_def key_batch_def split: option.splits js.splits)
  with k(2) show ?thesis by (cases e) (auto simp: key_event_def Let_def)
qed

text \<open>Paging never leaves its bounds.\<close>

lemma recording_page_bounds:
  assumes "0 \<le> d" "d \<le> m" "0 \<le> m"
  shows "0 \<le> rf_limit (parseRecordingFilter pd sp d m) \<and> rf_limit (parseRecordingFilter pd sp d m) \<le> m \<and>
    0 \<le> rf_offset (parseRecordingFilter pd sp d m)"
proof -
  have "jnum_greater n 0 \<Longrightarrow> 0 \<le> jnum_floor n" "\<not> jnum_less n 0 \<Longrightarrow> 0 \<le> jnum_floor n" for n
    by (cases n; simp)+
  with assms show ?thesis by (auto simp: parseRecordingFilter_def Let_def)
qed


end
