(* ===== verification/Connectors.thy ===== *)
theory Connectors
  imports Recordings
begin

text \<open>
  \<^verbatim>\<open>lib/connector/{enrollment,repair,deletion,health,policy}.ts\<close>, \<^verbatim>\<open>lib/updates/semver.ts\<close>, \<^verbatim>\<open>lib/url.ts\<close>,
  \<^verbatim>\<open>lib/images.ts\<close> and the connector routes of the console and of the data plane: pairing codes and
  their redemption, the bearer token of a connector, status reports, revocation, re-pairing and
  deletion.

  Argon2 is a parameter (\<open>argon\<close>), as are \<^verbatim>\<open>new URL\<close> and the generated codes, tokens and ids. The
  messages to the data plane (kick, policy push) carry no state back and are not modelled further.
\<close>

section \<open>Versions\<close>

definition semver_part :: "string \<Rightarrow> (nat \<times> string) option" where
  "semver_part t =
     (let ds = takeWhile is_digit t in if ds = [] then None else Some (undec ds, dropWhile is_digit t))"

definition semver_dot :: "string \<Rightarrow> string option" where
  "semver_dot t = (case t of c # r \<Rightarrow> if c = CHR ''.'' then Some r else None | [] \<Rightarrow> None)"

definition strip_v :: "string \<Rightarrow> string" where
  "strip_v t = (case t of c # r \<Rightarrow> if c = CHR ''v'' \<or> c = CHR ''V'' then r else t | [] \<Rightarrow> t)"

definition semver_parse :: "string option \<Rightarrow> (nat \<times> nat \<times> nat) option" where
  "semver_parse v =
     Option.bind (or_null v) (\<lambda>t.
     Option.bind (semver_part (strip_v (trim t))) (\<lambda>(a, r1).
     Option.bind (semver_dot r1) (\<lambda>r1'.
     Option.bind (semver_part r1') (\<lambda>(b, r2).
     Option.bind (semver_dot r2) (\<lambda>r2'.
     Option.bind (semver_part r2') (\<lambda>(c, _). Some (a, b, c)))))))"

fun compare_parts :: "nat list \<Rightarrow> nat list \<Rightarrow> int" where
  "compare_parts (x # xs) (y # ys) =
     (if x < y then -1 else if x > y then 1 else compare_parts xs ys)"
| "compare_parts _ _ = 0"

definition compareSemver :: "string option \<Rightarrow> string option \<Rightarrow> int option" where
  "compareSemver a b =
     (case (semver_parse a, semver_parse b) of
        (Some (a1, a2, a3), Some (b1, b2, b3)) \<Rightarrow> Some (compare_parts [a1, a2, a3] [b1, b2, b3])
      | _ \<Rightarrow> None)"

definition isConnectorOutdated :: "string option \<Rightarrow> string \<Rightarrow> bool" where
  "isConnectorOutdated connectorVersion managerVersion \<longleftrightarrow>
     compareSemver connectorVersion (Some managerVersion) = Some (-1)"

definition isUpdateAvailable :: "string option \<Rightarrow> string \<Rightarrow> bool" where
  "isUpdateAvailable latestVersion managerVersion \<longleftrightarrow>
     compareSemver latestVersion (Some managerVersion) = Some 1"

section \<open>Addresses and install commands\<close>

text \<open>What \<^verbatim>\<open>new URL\<close> gives, and the request's own \<^verbatim>\<open>nextUrl\<close>.\<close>

record url_parts =
  url_protocol :: string
  url_host :: string
  url_port :: string

record web =
  w_parse :: "string \<Rightarrow> url_parts option"
  w_protocol :: string
  w_origin :: string

definition url_hostname_of :: "web \<Rightarrow> string \<Rightarrow> string option" where
  "url_hostname_of w raw = map_option url_host (w_parse w raw)"

definition strip_slashes :: "string \<Rightarrow> string" where
  "strip_slashes t = rev (dropWhile (\<lambda>c. c = CHR ''/'') (rev t))"

definition nullish_or :: "string option \<Rightarrow> string option \<Rightarrow> string option" where
  "nullish_or a b = (case a of Some _ \<Rightarrow> a | None \<Rightarrow> b)"

definition managerBaseUrlFromHeaders ::
  "web \<Rightarrow> env \<Rightarrow> headers \<Rightarrow> string option \<Rightarrow> string option \<Rightarrow> string" where
  "managerBaseUrlFromHeaders w env h defaultProto fallbackOrigin =
     (let host = nullish_or (h ''x-forwarded-host'') (h ''host'');
          forwarded = or_null (map_option (\<lambda>p. trim (hd (split_on (CHR '','') p))) (h ''x-forwarded-proto''));
          proto = (case forwarded of Some p \<Rightarrow> p
                   | None \<Rightarrow> (case or_null defaultProto of Some p \<Rightarrow> p | None \<Rightarrow> ''https''));
          own = (case or_null host of None \<Rightarrow> opt_text fallbackOrigin | Some v \<Rightarrow> proto @ ''://'' @ v)
      in if multiTenantEnabled env \<and> truthy host \<and>
            truthy (slugFromHost (opt_text host) (consoleDomain (url_hostname_of w) env)) then own
         else (case or_null (map_option trim (env ''MANAGER_PUBLIC_URL'')) of
                 Some configured \<Rightarrow> strip_slashes configured
               | None \<Rightarrow> own))"

definition managerBaseUrl :: "web \<Rightarrow> env \<Rightarrow> headers \<Rightarrow> string" where
  "managerBaseUrl w env h =
     managerBaseUrlFromHeaders w env h (Some (remove1 (CHR '':'') (w_protocol w))) (Some (w_origin w))"

definition CONNECTOR_TUNNEL_PLACEHOLDER :: string where
  "CONNECTOR_TUNNEL_PLACEHOLDER = ''wss://connect.<your-access-domain>''"

definition deriveTunnelUrl :: "web \<Rightarrow> string option \<Rightarrow> string option" where
  "deriveTunnelUrl w managerPublicUrl =
     (case or_null (map_option trim managerPublicUrl) of
        None \<Rightarrow> None
      | Some raw \<Rightarrow>
          (case w_parse w raw of
             None \<Rightarrow> None
           | Some u \<Rightarrow>
               if url_port u \<noteq> [] then None
               else if \<not> starts_with (url_host u) ''manager.'' then None
               else Some ((if url_protocol u = ''https:'' then ''wss'' else ''ws'') @ ''://connect.'' @
                          drop (length ''manager.'') (url_host u))))"

definition connectorTunnelUrl :: "web \<Rightarrow> env \<Rightarrow> string" where
  "connectorTunnelUrl w env =
     (case or_null (map_option trim (env ''CONNECTOR_TUNNEL_URL'')) of
        Some configured \<Rightarrow> strip_slashes configured
      | None \<Rightarrow>
          (case deriveTunnelUrl w (env ''MANAGER_PUBLIC_URL'') of
             Some u \<Rightarrow> u | None \<Rightarrow> CONNECTOR_TUNNEL_PLACEHOLDER))"

definition local_rest :: "string \<Rightarrow> string \<Rightarrow> bool" where
  "local_rest host t \<longleftrightarrow>
     starts_with t host \<and>
     (let r = drop (length host) t in r = [] \<or> hd r = CHR '':'' \<or> hd r = CHR ''/'')"

definition isLocalManagerUrl :: "string \<Rightarrow> bool" where
  "isLocalManagerUrl managerUrl \<longleftrightarrow>
     (let u = to_lower managerUrl;
          r = (if starts_with u ''http://'' then Some (drop 7 u)
               else if starts_with u ''https://'' then Some (drop 8 u) else None)
      in case r of
           None \<Rightarrow> False
         | Some t \<Rightarrow> local_rest ''localhost'' t \<or> local_rest ''127.0.0.1'' t \<or> local_rest ''[::1]'' t)"

definition IMAGE_REGISTRY :: string where "IMAGE_REGISTRY = ''ghcr.io''"

definition IMAGE_OWNER :: string where "IMAGE_OWNER = ''captivo-io''"

definition IMAGE_PREFIX :: string where
  "IMAGE_PREFIX = IMAGE_REGISTRY @ ''/'' @ IMAGE_OWNER @ ''/captivo-access''"

definition accessImage :: "string \<Rightarrow> string" where
  "accessImage name = IMAGE_PREFIX @ ''-'' @ name @ '':latest''"

definition PRUNE_LABEL_FILTER :: string where
  "PRUNE_LABEL_FILTER = ''label=org.opencontainers.image.title=captivo-access''"

definition GATEWAY_NETWORK :: string where "GATEWAY_NETWORK = ''captivo-gateway''"

definition GUACD :: string where "GUACD = ''guacamole/guacd:1.6.0''"
definition cmd_network :: string where
  "cmd_network =
     ''docker network inspect '' @ GATEWAY_NETWORK @ '' >/dev/null 2>&1 || docker network create '' @
     GATEWAY_NETWORK @ '' >/dev/null 2>&1; ''"

definition cmd_chown :: string where
  "cmd_chown =
     ''docker run --rm --user 0 --entrypoint chown -v captivo_guacd_recordings:/rec -v captivo_guacd_logs:/log -v captivo_guacd_drive:/drive2 '' @
     GUACD @ '' -R 1000:1000 /rec /log /drive2; ''"

definition cmd_clear :: "bool \<Rightarrow> string" where
  "cmd_clear clearVolume =
     (if clearVolume
      then ''docker rm -f access-connector >/dev/null 2>&1; docker volume rm access_connector_data >/dev/null 2>&1; ''
      else [])"

definition cmd_connector :: "string \<Rightarrow> string \<Rightarrow> string option \<Rightarrow> string" where
  "cmd_connector managerUrl tunnelUrl code =
     (let img = accessImage ''connector'' in
      ''docker pull '' @ img @ ''; docker rm -f access-connector >/dev/null 2>&1; '' @
      ''docker run -d --name access-connector --restart unless-stopped --network '' @ GATEWAY_NETWORK @ '' '' @
      ''-e MANAGER_URL='' @ managerUrl @ '' -e DATAPLANE_URL='' @ tunnelUrl @ '' '' @
      (case or_null code of None \<Rightarrow> [] | Some c \<Rightarrow> ''-e PAIR_CODE='' @ c @ '' '') @
      ''-v access_connector_data:/data -v captivo_guacd_logs:/guaclog:ro -v captivo_guacd_drive:/drive:rw -v captivo_kasm_logs:/kasmlog:ro '' @
      img @ ''; '')"

definition cmd_guacd :: string where
  "cmd_guacd =
     ''docker rm -f captivo-guacd >/dev/null 2>&1; '' @
     ''docker run -d --name captivo-guacd --restart unless-stopped --network '' @ GATEWAY_NETWORK @ '' '' @
     ''-v captivo_guacd_recordings:/recordings -v captivo_guacd_logs:/guaclog -v captivo_guacd_drive:/drive '' @
     ''--entrypoint /bin/sh '' @ GUACD @ '' -c '' @ [CHR 0x27] @
     ''/opt/guacamole/sbin/guacd -b 0.0.0.0 -L info -f 2>&1 | tee /guaclog/guacd.log'' @ [CHR 0x27] @ ''; ''"

definition cmd_kasm :: string where
  "cmd_kasm =
     (let img = accessImage ''kasm-browser'' in
      ''docker pull '' @ img @
      ''; docker rm -f captivo-kasm >/dev/null 2>&1; docker run -d --name captivo-kasm --restart unless-stopped --network '' @
      GATEWAY_NETWORK @ '' --shm-size=1g -v captivo_kasm_logs:/kasmlog '' @ img @ ''; '')"

definition cmd_prune :: string where
  "cmd_prune = ''docker image prune -f --filter '' @ PRUNE_LABEL_FILTER @ '' >/dev/null 2>&1''"

definition runCommand :: "string \<Rightarrow> string \<Rightarrow> string option \<Rightarrow> bool \<Rightarrow> string" where
  "runCommand managerUrl tunnelUrl code clearVolume =
     cmd_network @ cmd_chown @ cmd_clear clearVolume @ cmd_connector managerUrl tunnelUrl code @
     cmd_guacd @ cmd_kasm @ cmd_prune"

definition buildInstallCommand :: "string \<Rightarrow> string \<Rightarrow> string \<Rightarrow> string" where
  "buildInstallCommand code managerUrl tunnelUrl = runCommand managerUrl tunnelUrl (Some code) False"

definition buildReconfigureCommand :: "string \<Rightarrow> string \<Rightarrow> string \<Rightarrow> string" where
  "buildReconfigureCommand code managerUrl tunnelUrl = runCommand managerUrl tunnelUrl (Some code) True"

definition buildConnectorUpdateCommand :: "string \<Rightarrow> string \<Rightarrow> string" where
  "buildConnectorUpdateCommand managerUrl tunnelUrl = runCommand managerUrl tunnelUrl None False"

section \<open>Pairing\<close>

record argon =
  hashToken :: "string \<Rightarrow> string"
  verifyTokenHash :: "string \<Rightarrow> string \<Rightarrow> bool"

definition createPairing ::
  "argon \<Rightarrow> ident \<Rightarrow> string \<Rightarrow> instant \<Rightarrow> string \<Rightarrow> ident option \<Rightarrow> db \<Rightarrow> db" where
  "createPairing A nid code now name connectorId s =
     s\<lparr>connectorPairings := insert_row
        \<lparr>cp_id = nid, cp_codeHash = hashToken A code, cp_name = name, cp_connectorId = connectorId,
         cp_expiresAt = now + 15 * 60000, cp_usedAt = None, cp_createdAt = now\<rparr>
        (connectorPairings s)\<rparr>"

record pair_meta =
  meta_name :: "string option"
  meta_version :: "string option"

record fresh =
  new_id :: ident
  new_token :: string

definition unused :: "ident \<Rightarrow> ConnectorPairing \<Rightarrow> bool" where
  "unused i q \<longleftrightarrow> cp_id q = i \<and> cp_usedAt q = None"

definition consume :: "ident \<Rightarrow> instant \<Rightarrow> db \<Rightarrow> db" where
  "consume i now s =
     s\<lparr>connectorPairings :=
        update_many (unused i) (\<lambda>q. q\<lparr>cp_usedAt := Some now\<rparr>) (connectorPairings s)\<rparr>"

definition rotatable :: "ident \<Rightarrow> Connector \<Rightarrow> bool" where
  "rotatable cid c \<longleftrightarrow> c_id c = cid \<and> c_status c \<noteq> ConnectorStatus.REVOKED"

definition rotate :: "ident \<Rightarrow> string \<Rightarrow> string option \<Rightarrow> db \<Rightarrow> db" where
  "rotate cid tokenHash version s =
     s\<lparr>connectors :=
        update_many (rotatable cid)
          (\<lambda>c. c\<lparr>c_tokenHash := tokenHash, c_status := PENDING,
                 c_version := nullish_or version (c_version c)\<rparr>) (connectors s)\<rparr>"

definition enrolled :: "argon \<Rightarrow> fresh \<Rightarrow> instant \<Rightarrow> ConnectorPairing \<Rightarrow> pair_meta \<Rightarrow> Connector" where
  "enrolled A f now p m =
     \<lparr>c_id = new_id f,
      c_name = (case or_null (map_option trim (meta_name m)) of Some n \<Rightarrow> n | None \<Rightarrow> cp_name p),
      c_tokenHash = hashToken A (new_token f), c_status = PENDING, c_lastSeenAt = None,
      c_version = meta_version m, c_remoteAddr = None, c_egressPolicy = None, c_logLevel = None,
      c_createdAt = now\<rparr>"

definition redeem_tx ::
  "argon \<Rightarrow> fresh \<Rightarrow> instant \<Rightarrow> ConnectorPairing \<Rightarrow> pair_meta \<Rightarrow> db \<Rightarrow> db \<times> (string + ident)" where
  "redeem_tx A f now p m s =
     (if count_rows (unused (cp_id p)) (connectorPairings s) = 0 then (s, Inl ''PAIRING_ALREADY_USED'')
      else
        (let s1 = consume (cp_id p) now s in
         case or_null (cp_connectorId p) of
           Some cid \<Rightarrow>
             if count_rows (rotatable cid) (connectors s1) = 0 then (s1, Inl ''CONNECTOR_GONE'')
             else (rotate cid (hashToken A (new_token f)) (meta_version m) s1, Inr cid)
         | None \<Rightarrow>
             (s1\<lparr>connectors := insert_row (enrolled A f now p m) (connectors s1)\<rparr>, Inr (new_id f))))"

definition finishRedeem ::
  "argon \<Rightarrow> fresh \<Rightarrow> bool \<Rightarrow> instant \<Rightarrow> ConnectorPairing \<Rightarrow> pair_meta \<Rightarrow> db \<Rightarrow>
   db \<times> (ident \<times> string) option" where
  "finishRedeem A f ambient now p m s =
     (case run_tx ambient (redeem_tx A f now p m) s of
        (s', Inl _) \<Rightarrow> (s', None)
      | (s', Inr cid) \<Rightarrow> (s', Some (cid, new_token f)))"

text \<open>The rows an RLS-bypassing scan sees, in the order of the tenants.\<close>

definition scanPairingCandidates :: "cloud \<Rightarrow> (ident \<times> ConnectorPairing) list" where
  "scanPairingCandidates c =
     concat (map (\<lambda>t. map (Pair (t_id t)) (connectorPairings (data c (t_id t)))) (tenants c))"

definition scanConnectorTokenCandidates :: "cloud \<Rightarrow> (ident \<times> Connector) list" where
  "scanConnectorTokenCandidates c =
     concat (map (\<lambda>t. map (Pair (t_id t)) (connectors (data c (t_id t)))) (tenants c))"

definition live_pairing :: "instant \<Rightarrow> ConnectorPairing \<Rightarrow> bool" where
  "live_pairing now p \<longleftrightarrow> cp_usedAt p = None \<and> now < cp_expiresAt p"

definition redeem_refetched ::
  "argon \<Rightarrow> fresh \<Rightarrow> instant \<Rightarrow> ident \<Rightarrow> pair_meta \<Rightarrow> db \<Rightarrow> db \<times> (ident \<times> string) option reply" where
  "redeem_refetched A f now i m s =
     (case find_first (\<lambda>q. cp_id q = i) (connectorPairings s) of
        None \<Rightarrow> (s, Ok 200 None)
      | Some full \<Rightarrow>
          if \<not> live_pairing now full then (s, Ok 200 None)
          else (let (s', r) = finishRedeem A f True now full m s in (s', Ok 200 r)))"

definition answered :: "'a option reply \<Rightarrow> 'a option" where
  "answered r = (case r of Ok _ v \<Rightarrow> v | _ \<Rightarrow> None)"

definition redeemPairing ::
  "argon \<Rightarrow> env \<Rightarrow> fresh \<Rightarrow> instant \<Rightarrow> string \<Rightarrow> pair_meta \<Rightarrow> cloud \<Rightarrow>
   cloud \<times> (ident \<times> string) option" where
  "redeemPairing A env f now code m c =
     (if multiTenantEnabled env then
        (case find_first (\<lambda>(tid, p). live_pairing now p \<and> verifyTokenHash A code (cp_codeHash p))
                (scanPairingCandidates c) of
           None \<Rightarrow> (c, None)
         | Some (tid, p) \<Rightarrow>
             (let (c', r) = withTenant env tid (redeem_refetched A f now (cp_id p) m) c in
              (c', answered r)))
      else
        (let s = data c DEFAULT_TENANT in
         case find_first (\<lambda>p. verifyTokenHash A code (cp_codeHash p))
                (find_many (live_pairing now) (connectorPairings s)) of
           None \<Rightarrow> (c, None)
         | Some p \<Rightarrow>
             (let (s', r) = finishRedeem A f False now p m s in
              (c\<lparr>data := (data c)(DEFAULT_TENANT := s')\<rparr>, r))))"

definition validateConnectorToken ::
  "argon \<Rightarrow> env \<Rightarrow> string \<Rightarrow> cloud \<Rightarrow> (ident \<times> ident option) option" where
  "validateConnectorToken A env token c =
     (if multiTenantEnabled env then
        (case find_first (\<lambda>(tid, k). verifyTokenHash A token (c_tokenHash k))
                (scanConnectorTokenCandidates c) of
           None \<Rightarrow> None
         | Some (tid, k) \<Rightarrow>
             (case connector_by_id (data c tid) (c_id k) of
                None \<Rightarrow> None
              | Some live \<Rightarrow>
                  if c_status live = ConnectorStatus.REVOKED then None else Some (c_id k, Some tid)))
      else
        map_option (\<lambda>k. (c_id k, None))
          (find_first (\<lambda>k. verifyTokenHash A token (c_tokenHash k))
            (find_many (\<lambda>k. c_status k \<noteq> ConnectorStatus.REVOKED) (connectors (data c DEFAULT_TENANT)))))"

section \<open>Console routes\<close>

record pair_reply =
  pr_code :: string
  pr_command :: string
  pr_local :: bool

definition not_revoked :: "Connector \<Rightarrow> bool" where
  "not_revoked c \<longleftrightarrow> c_status c \<noteq> ConnectorStatus.REVOKED"

definition quoted :: "string \<Rightarrow> string" where
  "quoted t = [CHR 0x22] @ t @ [CHR 0x22]"

definition create_connector ::
  "argon \<Rightarrow> web \<Rightarrow> ctx \<Rightarrow> string \<Rightarrow> js \<Rightarrow> db \<Rightarrow> db \<times> pair_reply reply" where
  "create_connector A w cx code body =
     with_capability cx Configure (\<lambda>admin. with_body body (\<lambda>s.
       let name = text_of body ''name'' in
       if name = [] then (s, Err 400 ''name_required'')
       else if assertWithinLimit (cx_envelope cx) maxConnectors (count_rows not_revoked (connectors s)) \<noteq> None
       then (s, Err 409 ''limit_reached'')
       else
         (let s1 = createPairing A (cx_fresh cx) code (cx_now cx) name None s;
              managerUrl = managerBaseUrl w (cx_env cx) (cx_headers cx);
              s2 = audit cx admin ''connector.create'' ''connector'' None
                     (''Created connector '' @ quoted name) JUndef s1
          in (s2, Ok 200 \<lparr>pr_code = code,
                          pr_command = buildInstallCommand code managerUrl (connectorTunnelUrl w (cx_env cx)),
                          pr_local = isLocalManagerUrl managerUrl\<rparr>))))"

definition list_connectors :: "ctx \<Rightarrow> db \<Rightarrow> db \<times> Connector list reply" where
  "list_connectors cx =
     with_capability cx Read_console (\<lambda>admin s. (s, Ok 200 (order_desc c_createdAt (connectors s))))"

definition revoke_row :: "ident \<Rightarrow> db \<Rightarrow> db" where
  "revoke_row i s =
     s\<lparr>connectors := update_many (\<lambda>c. c_id c = i) (\<lambda>c. c\<lparr>c_status := ConnectorStatus.REVOKED\<rparr>) (connectors s)\<rparr>"

definition revoke_connector :: "ctx \<Rightarrow> string option \<Rightarrow> db \<Rightarrow> db \<times> unit reply" where
  "revoke_connector cx idParam =
     with_capability cx Configure (\<lambda>admin s.
       case or_null idParam of
         None \<Rightarrow> (s, Err 400 ''id_required'')
       | Some i \<Rightarrow>
           (case connector_by_id s i of
              None \<Rightarrow> (s, Err 404 ''not_found'')
            | Some _ \<Rightarrow>
                (audit cx admin ''connector.revoke'' ''connector'' (Some i) (''Revoked connector '' @ i) JUndef
                   (revoke_row i s), Ok 200 ())))"

definition NAME_MAX :: nat where "NAME_MAX = 100"

definition rename_connector :: "ctx \<Rightarrow> ident \<Rightarrow> js \<Rightarrow> db \<Rightarrow> db \<times> unit reply" where
  "rename_connector cx i body =
     with_capability cx Configure (\<lambda>admin. with_body body (\<lambda>s.
       case body_field body ''name'' of
         JStr raw \<Rightarrow>
           (let name = trim raw; here = (\<lambda>c. c_id c = i) in
            if name = [] then (s, Err 400 ''invalid_name'')
            else if length name > NAME_MAX then (s, Err 400 ''name_too_long'')
            else if count_rows here (connectors s) = 0 then (s, Err 404 ''not_found'')
            else (s\<lparr>connectors := update_many here (\<lambda>c. c\<lparr>c_name := name\<rparr>) (connectors s)\<rparr>, Ok 200 ()))
       | _ \<Rightarrow> (s, Err 400 ''nothing_to_update'')))"

datatype ConnectorDeleteCheck = Deletable | Not_revoked | Has_sites

definition canDeleteConnector :: "ConnectorStatus \<Rightarrow> nat \<Rightarrow> ConnectorDeleteCheck" where
  "canDeleteConnector status siteCount =
     (if status \<noteq> ConnectorStatus.REVOKED then Not_revoked
      else if siteCount > 0 then Has_sites else Deletable)"

definition delete_connector_body :: "ctx \<Rightarrow> ident \<Rightarrow> User \<Rightarrow> db \<Rightarrow> db \<times> unit reply" where
  "delete_connector_body cx i admin s =
     (case connector_by_id s i of
        None \<Rightarrow> (s, Err 404 ''not_found'')
      | Some c \<Rightarrow>
          (case canDeleteConnector (c_status c) (count_rows (\<lambda>r. site_connectorId r = i) (sites s)) of
             Not_revoked \<Rightarrow> (s, Err 409 ''not_revoked'')
           | Has_sites \<Rightarrow> (s, Err 409 ''has_sites'')
           | Deletable \<Rightarrow>
               (audit cx admin ''connector.delete'' ''connector'' (Some i) (''Deleted connector '' @ i) JUndef
                  (delete_connector_row i s), Ok 200 ())))"

definition delete_connector :: "ctx \<Rightarrow> ident \<Rightarrow> db \<Rightarrow> db \<times> unit reply" where
  "delete_connector cx i = with_capability cx Configure (delete_connector_body cx i)"

definition canRepairConnector :: "ConnectorStatus \<Rightarrow> bool" where
  "canRepairConnector status \<longleftrightarrow> status \<noteq> ConnectorStatus.REVOKED"

text \<open>The check and the writes of a re-pair are separate statements; \<open>throwaway\<close> is the hash whose
  plaintext is discarded.\<close>

definition repair_check :: "ident \<Rightarrow> db \<Rightarrow> string + Connector" where
  "repair_check i s =
     (case connector_by_id s i of
        None \<Rightarrow> Inl ''not_found''
      | Some c \<Rightarrow> if canRepairConnector (c_status c) then Inr c else Inl ''not_repairable'')"

definition invalidate_row :: "ident \<Rightarrow> string \<Rightarrow> db \<Rightarrow> db" where
  "invalidate_row i throwaway s =
     s\<lparr>connectors := update_many (\<lambda>c. c_id c = i)
        (\<lambda>c. c\<lparr>c_tokenHash := throwaway, c_status := PENDING\<rparr>) (connectors s)\<rparr>"

definition repair_writes ::
  "argon \<Rightarrow> ctx \<Rightarrow> ident \<Rightarrow> string \<Rightarrow> string \<Rightarrow> bool \<Rightarrow> User \<Rightarrow> Connector \<Rightarrow> db \<Rightarrow> db" where
  "repair_writes A cx i code throwaway invalidateNow admin c s =
     (let s1 = createPairing A (cx_fresh cx) code (cx_now cx) (c_name c) (Some i) s;
          s2 = (if invalidateNow then invalidate_row i throwaway s1 else s1)
      in audit cx admin ''connector.repair'' ''connector'' (Some i) (''Repaired connector '' @ i) JUndef s2)"

definition repair_connector ::
  "argon \<Rightarrow> web \<Rightarrow> ctx \<Rightarrow> ident \<Rightarrow> string \<Rightarrow> string \<Rightarrow> js \<Rightarrow> db \<Rightarrow> db \<times> pair_reply reply" where
  "repair_connector A w cx i code throwaway body =
     with_capability cx Configure (\<lambda>admin s.
       case repair_check i s of
         Inl e \<Rightarrow> (s, Err (if e = ''not_found'' then 404 else 409) e)
       | Inr c \<Rightarrow>
           with_body body (\<lambda>s.
             let managerUrl = managerBaseUrl w (cx_env cx) (cx_headers cx) in
             (repair_writes A cx i code throwaway (body_field body ''invalidateNow'' = JBool True) admin c s,
              Ok 200 \<lparr>pr_code = code,
                      pr_command = buildReconfigureCommand code managerUrl (connectorTunnelUrl w (cx_env cx)),
                      pr_local = isLocalManagerUrl managerUrl\<rparr>)) s)"

definition delete_pairing :: "ctx \<Rightarrow> ident \<Rightarrow> db \<Rightarrow> db \<times> unit reply" where
  "delete_pairing cx i =
     with_capability cx Configure (\<lambda>admin s.
       case find_first (\<lambda>p. cp_id p = i) (connectorPairings s) of
         None \<Rightarrow> (s, Err 404 ''not_found'')
       | Some p \<Rightarrow>
           if cp_usedAt p \<noteq> None \<or> cp_connectorId p \<noteq> None then (s, Err 404 ''not_found'')
           else (audit cx admin ''connector.pairing_delete'' ''connector_pairing'' (Some i)
                   (''Deleted pending connector pairing '' @ quoted (cp_name p)) JUndef
                   (s\<lparr>connectorPairings := delete_many (\<lambda>p. cp_id p = i) (connectorPairings s)\<rparr>), Ok 200 ()))"

text \<open>One column of one connector changed by an administrator; \<open>live\<close> is the answer of the push.\<close>

definition set_connector_column ::
  "ctx \<Rightarrow> ident \<Rightarrow> js \<Rightarrow> (Connector \<Rightarrow> Connector) \<Rightarrow> string \<Rightarrow> string \<Rightarrow> bool \<Rightarrow> db \<Rightarrow> db \<times> bool reply" where
  "set_connector_column cx i body f action summary live =
     with_capability cx Configure (\<lambda>admin. with_body body (\<lambda>s.
       let here = (\<lambda>c. c_id c = i) in
       if count_rows here (connectors s) = 0 then (s, Err 404 ''not_found'')
       else (audit cx admin action ''connector'' (Some i) summary JUndef
               (s\<lparr>connectors := update_many here f (connectors s)\<rparr>), Ok 200 live)))"

definition set_egress_policy :: "ctx \<Rightarrow> ident \<Rightarrow> js \<Rightarrow> bool \<Rightarrow> db \<Rightarrow> db \<times> bool reply" where
  "set_egress_policy cx i body =
     set_connector_column cx i body
       (\<lambda>c. c\<lparr>c_egressPolicy := or_null (Some (text_of body ''egressAllowedTargets''))\<rparr>)
       ''connector.egress_update'' (''Updated egress policy for connector '' @ i)"

definition set_log_level :: "ctx \<Rightarrow> ident \<Rightarrow> js \<Rightarrow> bool \<Rightarrow> db \<Rightarrow> db \<times> bool reply" where
  "set_log_level cx i body =
     set_connector_column cx i body
       (\<lambda>c. c\<lparr>c_logLevel := (let raw = raw_text_of body ''logLevel'' in
                             if raw \<in> set LOG_LEVELS then Some raw else None)\<rparr>)
       ''connector.log_level'' (''Set log level for connector '' @ i)"

definition reset_log_levels :: "ctx \<Rightarrow> db \<Rightarrow> db \<times> nat reply" where
  "reset_log_levels cx =
     with_capability cx Configure (\<lambda>admin s.
       let explicit = (\<lambda>c. c_logLevel c \<noteq> None) in
       (recordAdminAction (cx_H cx) (cx_auditId cx) (cx_now cx)
          \<lparr>act_actorId = u_id admin, act_actorEmail = Some (u_email admin),
           act_action = ''config.log_level_reset'', act_targetType = None, act_targetId = None,
           act_summary = ''Reset all connector log levels'', act_metadata = JUndef,
           act_clientIp = clientIp (cx_headers cx)\<rparr>
          (s\<lparr>connectors := update_many explicit (\<lambda>c. c\<lparr>c_logLevel := None\<rparr>) (connectors s)\<rparr>),
        Ok 200 (count_rows explicit (connectors s))))"

section \<open>Routes of the connectors and the data plane\<close>

definition optional_text :: "js \<Rightarrow> string option" where
  "optional_text v = (case v of JStr t \<Rightarrow> Some t | _ \<Rightarrow> None)"

definition enroll_route ::
  "argon \<Rightarrow> env \<Rightarrow> fresh \<Rightarrow> instant \<Rightarrow> headers \<Rightarrow> js \<Rightarrow> limiter \<times> cloud \<Rightarrow>
   (limiter \<times> cloud) \<times> (ident \<times> string) reply" where
  "enroll_route A env f now h body st =
     (let ip = (case clientIp h of Some i \<Rightarrow> i | None \<Rightarrow> ''unknown'');
          (l, ok) = checkRateLimit (ip @ '':/api/connector/enroll'') 10 60000 now (fst st);
          c = snd st
      in if \<not> ok then ((l, c), Err 429 ''rate_limited'')
         else if body = JNull then ((l, c), Throw ''TypeError'')
         else if raw_text_of body ''pairCode'' = [] then ((l, c), Err 400 ''invalid_body'')
         else (case redeemPairing A env f now (raw_text_of body ''pairCode'')
                      \<lparr>meta_name = optional_text (body_field body ''name''),
                       meta_version = optional_text (body_field body ''version'')\<rparr> c of
                 (c', None) \<Rightarrow> ((l, c'), Err 401 ''invalid_pairing'')
               | (c', Some r) \<Rightarrow> ((l, c'), Ok 200 r)))"

definition connector_auth ::
  "argon \<Rightarrow> env \<Rightarrow> headers \<Rightarrow> js \<Rightarrow> cloud \<Rightarrow> (ident \<times> ident option) reply" where
  "connector_auth A env h body c =
     (if \<not> dataplaneAuthorized env h then Err 403 ''forbidden''
      else if body = JNull then Throw ''TypeError''
      else (case validateConnectorToken A env (raw_text_of body ''token'') c of
              None \<Rightarrow> Err 401 ''invalid_token''
            | Some r \<Rightarrow> Ok 200 r))"

definition reported_status :: "js \<Rightarrow> ConnectorStatus option" where
  "reported_status v =
     (if v = JStr ''ONLINE'' then Some ONLINE else if v = JStr ''OFFLINE'' then Some OFFLINE else None)"

definition status_row :: "instant \<Rightarrow> ConnectorStatus \<Rightarrow> js \<Rightarrow> Connector \<Rightarrow> Connector" where
  "status_row now st body c =
     c\<lparr>c_status := st, c_lastSeenAt := Some now,
       c_remoteAddr := nullish_or (optional_text (body_field body ''remoteAddr'')) (c_remoteAddr c),
       c_version := nullish_or (optional_text (body_field body ''version'')) (c_version c)\<rparr>"

definition connector_status :: "ctx \<Rightarrow> js \<Rightarrow> db \<Rightarrow> db \<times> ConnectorPolicy reply" where
  "connector_status cx body s =
     (if \<not> dataplaneAuthorized (cx_env cx) (cx_headers cx) then (s, Err 403 ''forbidden'')
      else
        with_body body (\<lambda>s.
          let cid = raw_text_of body ''connectorId'' in
          case reported_status (body_field body ''status'') of
            None \<Rightarrow> (s, Err 400 ''invalid_body'')
          | Some st \<Rightarrow>
              if cid = [] then (s, Err 400 ''invalid_body'')
              else
                (let s1 = s\<lparr>connectors := update_many (rotatable cid) (status_row (cx_now cx) st body)
                              (connectors s)\<rparr>
                 in (s1, Ok 200 (pushConnectorPolicy (cx_envelope cx) (cx_tenant cx) cid s1)))) s)"

section \<open>A pairing code is good for one connector\<close>

definition pairing_shape :: "ConnectorPairing \<Rightarrow> ident \<times> string" where
  "pairing_shape q = (cp_id q, cp_codeHash q)"

lemma consume_pairings:
  "map pairing_shape (connectorPairings (consume i now s)) = map pairing_shape (connectorPairings s)"
  "q \<in> set (connectorPairings (consume i now s)) \<Longrightarrow> cp_id q = i \<Longrightarrow> cp_usedAt q \<noteq> None"
proof -
  show "map pairing_shape (connectorPairings (consume i now s)) = map pairing_shape (connectorPairings s)"
    unfolding consume_def by (simp, rule map_update_many) (simp add: pairing_shape_def)
next
  assume q: "q \<in> set (connectorPairings (consume i now s))" and i: "cp_id q = i"
  from q have "q \<in> (\<lambda>q. if unused i q then q\<lparr>cp_usedAt := Some now\<rparr> else q) ` set (connectorPairings s)"
    by (simp add: consume_def update_many_def)
  then obtain q0 where "q = (if unused i q0 then q0\<lparr>cp_usedAt := Some now\<rparr> else q0)"
    by (rule imageE)
  with i show "cp_usedAt q \<noteq> None" by (cases "unused i q0") (auto simp: unused_def)
qed

lemma redeem_tx_done:
  assumes "redeem_tx A f now p m s = (s', Inr cid)"
  shows "connectorPairings s' = connectorPairings (consume (cp_id p) now s)"
  using assms by (simp add: redeem_tx_def rotate_def Let_def split: if_splits option.splits) auto

lemma finishRedeem_done:
  assumes "finishRedeem A f amb now p m s = (s', Some r)"
  shows "map pairing_shape (connectorPairings s') = map pairing_shape (connectorPairings s)"
    and "\<And>q. q \<in> set (connectorPairings s') \<Longrightarrow> cp_id q = cp_id p \<Longrightarrow> cp_usedAt q \<noteq> None"
proof -
  from assms obtain cid where "redeem_tx A f now p m s = (s', Inr cid)"
    by (auto simp: finishRedeem_def run_tx_def split: prod.splits sum.splits if_splits)
  from redeem_tx_done [OF this] show
    "map pairing_shape (connectorPairings s') = map pairing_shape (connectorPairings s)"
    "\<And>q. q \<in> set (connectorPairings s') \<Longrightarrow> cp_id q = cp_id p \<Longrightarrow> cp_usedAt q \<noteq> None"
    using consume_pairings by auto
qed

lemma redeem_refetched_done:
  assumes "redeem_refetched A f now i m s = (s', Ok n (Some r))"
  shows "map pairing_shape (connectorPairings s') = map pairing_shape (connectorPairings s)"
    and "\<And>q. q \<in> set (connectorPairings s') \<Longrightarrow> cp_id q = i \<Longrightarrow> cp_usedAt q \<noteq> None"
proof -
  from assms obtain full where full: "cp_id full = i" "finishRedeem A f True now full m s = (s', Some r)"
    by (auto simp: redeem_refetched_def dest: find_first_Some split: option.splits if_splits prod.splits)
  from finishRedeem_done [OF full(2)] full(1)
  show "map pairing_shape (connectorPairings s') = map pairing_shape (connectorPairings s)"
    "\<And>q. q \<in> set (connectorPairings s') \<Longrightarrow> cp_id q = i \<Longrightarrow> cp_usedAt q \<noteq> None"
    by auto
qed

text \<open>The pairings a redemption looks at.\<close>

definition pairing_rows :: "env \<Rightarrow> cloud \<Rightarrow> (ident \<times> ConnectorPairing) list" where
  "pairing_rows env c =
     (if multiTenantEnabled env then scanPairingCandidates c
      else map (Pair DEFAULT_TENANT) (connectorPairings (data c DEFAULT_TENANT)))"

lemma pairing_rows_iff:
  "(tid, q) \<in> set (pairing_rows env c) \<longleftrightarrow>
     q \<in> set (connectorPairings (data c tid)) \<and>
     (if multiTenantEnabled env then tid \<in> t_id ` set (tenants c) else tid = DEFAULT_TENANT)"
  by (auto simp: pairing_rows_def scanPairingCandidates_def)

text \<open>A redemption that succeeds spends one row and rewrites no other.\<close>

lemma redeemPairing_success:
  assumes "redeemPairing A env f now code m c = (c', Some r)"
  obtains tid p s' where
    "(tid, p) \<in> set (pairing_rows env c)" "verifyTokenHash A code (cp_codeHash p)"
    "c' = c\<lparr>data := (data c)(tid := s')\<rparr>"
    "map pairing_shape (connectorPairings s') = map pairing_shape (connectorPairings (data c tid))"
    "\<And>q. q \<in> set (connectorPairings s') \<Longrightarrow> cp_id q = cp_id p \<Longrightarrow> cp_usedAt q \<noteq> None"
proof (cases "multiTenantEnabled env")
  case True
  with assms obtain tid p where tp:
    "find_first (\<lambda>(tid, p). live_pairing now p \<and> verifyTokenHash A code (cp_codeHash p))
       (scanPairingCandidates c) = Some (tid, p)"
    "(let (c', r) = withTenant env tid (redeem_refetched A f now (cp_id p) m) c in (c', answered r)) =
       (c', Some r)"
    by (auto simp: redeemPairing_def split: option.splits)
  obtain s' a where b: "redeem_refetched A f now (cp_id p) m (data c tid) = (s', a)" by fastforce
  with tp(2) True have "\<exists>n. a = Ok n (Some r)" "c' = c\<lparr>data := (data c)(tid := s')\<rparr>"
    by (auto simp: withTenant_def answered_def Let_def split: reply.splits)
  with b redeem_refetched_done [of A f now "cp_id p" m "data c tid" s' _ r] find_first_Some [OF tp(1)] True
  show thesis by (intro that [of tid p s']) (auto simp: pairing_rows_def)
next
  case False
  let ?s = "data c DEFAULT_TENANT"
  from False assms obtain p s' where ps:
    "find_first (\<lambda>p. verifyTokenHash A code (cp_codeHash p))
       (find_many (live_pairing now) (connectorPairings ?s)) = Some p"
    "finishRedeem A f False now p m ?s = (s', Some r)" "c' = c\<lparr>data := (data c)(DEFAULT_TENANT := s')\<rparr>"
    by (auto simp: redeemPairing_def Let_def split: option.splits prod.splits)
  with finishRedeem_done [OF ps(2)] find_first_Some [OF ps(1)] False show thesis
    by (intro that [of DEFAULT_TENANT p s']) (auto simp: pairing_rows_def)
qed

lemma redeemPairing_none:
  assumes "\<And>tid q. (tid, q) \<in> set (pairing_rows env c) \<Longrightarrow> verifyTokenHash A code (cp_codeHash q) \<Longrightarrow>
    cp_usedAt q \<noteq> None"
  shows "redeemPairing A env f now code m c = (c, None)"
proof (cases "multiTenantEnabled env")
  case True
  with assms have "find_first (\<lambda>(tid, p). live_pairing now p \<and> verifyTokenHash A code (cp_codeHash p))
      (scanPairingCandidates c) = None"
    by (fastforce simp: find_first_None pairing_rows_def live_pairing_def)
  with True show ?thesis by (simp add: redeemPairing_def)
next
  case False
  with assms have "find_first (\<lambda>p. verifyTokenHash A code (cp_codeHash p))
      (find_many (live_pairing now) (connectorPairings (data c DEFAULT_TENANT))) = None"
    by (fastforce simp: find_first_None pairing_rows_def live_pairing_def)
  with False show ?thesis by (simp add: redeemPairing_def Let_def)
qed

text \<open>C17: a pairing code enrols one connector: once a redemption has succeeded, redeeming the same code
  again, at any time and with any details, is refused and changes nothing, in both deployments. The
  code is relied on to verify against one row only (codes are 32 random bytes).\<close>
theorem pairing_code_single_use:
  assumes one_row: "\<And>x y. x \<in> set (pairing_rows env c) \<Longrightarrow> y \<in> set (pairing_rows env c) \<Longrightarrow>
      verifyTokenHash A code (cp_codeHash (snd x)) \<Longrightarrow> verifyTokenHash A code (cp_codeHash (snd y)) \<Longrightarrow>
      fst x = fst y \<and> cp_id (snd x) = cp_id (snd y)"
    and redeemed: "redeemPairing A env f now code m c = (c1, Some r)"
  shows "redeemPairing A env f' now' code m' c1 = (c1, None)"
proof (rule redeemPairing_none)
  fix t q
  assume q: "(t, q) \<in> set (pairing_rows env c1)" "verifyTokenHash A code (cp_codeHash q)"
  from redeemPairing_success [OF redeemed] obtain tid p s' where p:
    "(tid, p) \<in> set (pairing_rows env c)" "verifyTokenHash A code (cp_codeHash p)"
    "c1 = c\<lparr>data := (data c)(tid := s')\<rparr>"
    "map pairing_shape (connectorPairings s') = map pairing_shape (connectorPairings (data c tid))"
    "\<And>q. q \<in> set (connectorPairings s') \<Longrightarrow> cp_id q = cp_id p \<Longrightarrow> cp_usedAt q \<noteq> None"
    by metis
  have "pairing_shape ` set (connectorPairings (data c1 t)) = pairing_shape ` set (connectorPairings (data c t))"
    using p(3) arg_cong [OF p(4), of set] by (cases "t = tid") simp_all
  moreover from q(1) have "q \<in> set (connectorPairings (data c1 t))" by (simp add: pairing_rows_iff)
  ultimately obtain q0 where q0: "q0 \<in> set (connectorPairings (data c t))" "pairing_shape q0 = pairing_shape q"
    by (metis (no_types, lifting) imageE imageI)
  with q(1) p(3) have "(t, q0) \<in> set (pairing_rows env c)" by (auto simp: pairing_rows_iff)
  with one_row [OF this p(1)] q(2) q0(2) p(2) have "t = tid" "cp_id q = cp_id p"
    by (auto simp: pairing_shape_def)
  with p(3,5) q(1) show "cp_usedAt q \<noteq> None" by (auto simp: pairing_rows_iff)
qed

definition ex_argon :: argon where
  "ex_argon = \<lparr>hashToken = (\<lambda>t. CHR ''#'' # t), verifyTokenHash = (\<lambda>t h. h = CHR ''#'' # t)\<rparr>"

definition ex_pair_cloud :: cloud where
  "ex_pair_cloud = \<lparr>tenants = [], data = (\<lambda>_. createPairing ex_argon ''p1'' ''code'' 0 ''Plant'' None empty_db)\<rparr>"

definition ex_pair_meta :: pair_meta where
  "ex_pair_meta = \<lparr>meta_name = None, meta_version = Some ''1.0.0''\<rparr>"

theorem pairing_code_single_use_witness:
  "\<exists>c1. redeemPairing ex_argon (\<lambda>_. None) \<lparr>new_id = ''c7'', new_token = ''t7''\<rparr> 5 ''code'' ex_pair_meta ex_pair_cloud
       = (c1, Some (''c7'', ''t7'')) \<and>
     redeemPairing ex_argon (\<lambda>_. None) \<lparr>new_id = ''c8'', new_token = ''t8''\<rparr> 6 ''code'' ex_pair_meta c1 = (c1, None)"
proof -
  let ?f = "\<lparr>new_id = ''c7'', new_token = ''t7''\<rparr>"
  have off: "\<not> multiTenantEnabled (\<lambda>_. None)" by (simp add: multiTenantEnabled_def flagOn_def)
  have "\<exists>c1. redeemPairing ex_argon (\<lambda>_. None) ?f 5 ''code'' ex_pair_meta ex_pair_cloud = (c1, Some (''c7'', ''t7''))"
    by (simp add: redeemPairing_def off ex_pair_cloud_def createPairing_def ex_argon_def empty_db_def
        insert_row_def find_many_def find_first_def live_pairing_def finishRedeem_def run_tx_def redeem_tx_def
        count_rows_def unused_def or_null_def Let_def)
  then obtain c1 where c1:
    "redeemPairing ex_argon (\<lambda>_. None) ?f 5 ''code'' ex_pair_meta ex_pair_cloud = (c1, Some (''c7'', ''t7''))"
    by blast
  have "set (pairing_rows (\<lambda>_. None) ex_pair_cloud) = {(DEFAULT_TENANT, q) |q. q \<in> set (connectorPairings
      (createPairing ex_argon ''p1'' ''code'' 0 ''Plant'' None empty_db))}"
    by (auto simp: pairing_rows_def off ex_pair_cloud_def)
  then have "redeemPairing ex_argon (\<lambda>_. None) \<lparr>new_id = ''c8'', new_token = ''t8''\<rparr> 6 ''code'' ex_pair_meta c1 = (c1, None)"
    by (intro pairing_code_single_use [OF _ c1]) (auto simp: createPairing_def empty_db_def insert_row_def)
  with c1 show ?thesis by blast
qed

section \<open>A revoked connector stays out\<close>

text \<open>Every operation on the connectors of a tenant, as the routes perform it.\<close>

inductive connector_step :: "ident \<Rightarrow> db \<Rightarrow> db \<Rightarrow> bool" for cid where
  pair: "create_connector A w cx code body s = (s', a) \<Longrightarrow> connector_step cid s s'"
| redeem: "new_id f \<noteq> cid \<Longrightarrow> finishRedeem A f amb now p m s = (s', r) \<Longrightarrow> connector_step cid s s'"
| status: "connector_status cx body s = (s', a') \<Longrightarrow> connector_step cid s s'"
| revoke: "revoke_connector cx i' s = (s', b) \<Longrightarrow> connector_step cid s s'"
| rename: "rename_connector cx i body s = (s', b) \<Longrightarrow> connector_step cid s s'"
| remove: "delete_connector cx i s = (s', b) \<Longrightarrow> connector_step cid s s'"
| repair: "repair_connector A w cx i code throwaway body s = (s', a) \<Longrightarrow> connector_step cid s s'"
| unpair: "delete_pairing cx i s = (s', b) \<Longrightarrow> connector_step cid s s'"
| egress: "set_egress_policy cx i body live s = (s', l) \<Longrightarrow> connector_step cid s s'"
| level: "set_log_level cx i body live s = (s', l) \<Longrightarrow> connector_step cid s s'"
| reset: "reset_log_levels cx s = (s', n) \<Longrightarrow> connector_step cid s s'"

inductive_cases connector_stepE: "connector_step cid s s'"

definition revoked_in :: "ident \<Rightarrow> db \<Rightarrow> bool" where
  "revoked_in cid s \<longleftrightarrow> (\<forall>c \<in> set (connectors s). c_id c = cid \<longrightarrow> c_status c = ConnectorStatus.REVOKED)"

text \<open>The guards read the row by its id, which is unique.\<close>

definition unique_connectors :: "db \<Rightarrow> bool" where
  "unique_connectors s \<longleftrightarrow> distinct (map c_id (connectors s))"

lemma revoked_in_frame: "connectors s' = connectors s \<Longrightarrow> revoked_in cid s' = revoked_in cid s"
  by (simp add: revoked_in_def)

lemma revoked_in_update:
  assumes "revoked_in cid s" and "connectors s' = update_many p f (connectors s)"
    and "\<And>c. c \<in> set (connectors s) \<Longrightarrow> p c \<Longrightarrow> c_id (f c) = c_id c"
    and "\<And>c. c \<in> set (connectors s) \<Longrightarrow> p c \<Longrightarrow> c_id c = cid \<Longrightarrow> c_status c = ConnectorStatus.REVOKED \<Longrightarrow>
      c_status (f c) = ConnectorStatus.REVOKED"
  shows "revoked_in cid s'"
  using assms by (auto simp: revoked_in_def set_update_many)

interpretation revoked: guarded_invariant "revoked_in cid" for cid
  by unfold_locales (simp_all add: revoked_in_def)

lemmas guarded_revoked = revoked.capability_keeps

lemma rotate_revoked: "revoked_in cid s \<Longrightarrow> revoked_in cid (rotate k h v s)"
  by (rule revoked_in_update [of _ s _ "rotatable k" "\<lambda>c. c\<lparr>c_tokenHash := h, c_status := PENDING,
      c_version := nullish_or v (c_version c)\<rparr>"]) (simp_all add: rotate_def rotatable_def)

lemma redeem_tx_revoked:
  assumes "new_id f \<noteq> cid" and "revoked_in cid s" and "redeem_tx A f now p m s = (s', r)"
  shows "revoked_in cid s'"
proof -
  have 1: "revoked_in cid (consume i now s)" for i
    using assms(2) by (simp add: revoked_in_def consume_def)
  have 2: "revoked_in cid (t\<lparr>connectors := insert_row (enrolled A f now p m) (connectors t)\<rparr>)"
    if "revoked_in cid t" for t
    using that assms(1) by (auto simp: revoked_in_def enrolled_def)
  show ?thesis
    using assms(2,3) 1 2 rotate_revoked
    by (auto simp: redeem_tx_def Let_def split: if_splits option.splits)
qed

lemma finishRedeem_revoked:
  assumes "new_id f \<noteq> cid" and "revoked_in cid s" and "finishRedeem A f amb now p m s = (s', r)"
  shows "revoked_in cid s'"
  using assms(2,3) redeem_tx_revoked [OF assms(1,2)]
  by (auto simp: finishRedeem_def run_tx_def split: prod.splits sum.splits if_splits)

lemma status_revoked:
  assumes "revoked_in cid s" and "connector_status cx body s = (s', a)"
  shows "revoked_in cid s'"
proof -
  have "revoked_in cid (s\<lparr>connectors := update_many (rotatable k) (status_row now st body) (connectors s)\<rparr>)"
    for k now st
    by (rule revoked_in_update [OF assms(1), of _ "rotatable k" "status_row now st body"])
       (simp_all add: rotatable_def status_row_def)
  with assms show ?thesis
    by (auto simp: connector_status_def with_body_def Let_def split: if_splits option.splits)
qed

lemma column_revoked:
  assumes "revoked_in cid s" and "\<And>c. c_id (f c) = c_id c" "\<And>c. c_status (f c) = c_status c"
    and "set_connector_column cx i body f act sm live s = (s', a)"
  shows "revoked_in cid s'"
  using assms(4,1) unfolding set_connector_column_def
proof (rule guarded_revoked)
  fix u s1 s2 b
  assume e: "revoked_in cid s1" and
    b: "with_body body (\<lambda>s. let here = \<lambda>c. c_id c = i in
          if count_rows here (connectors s) = 0 then (s, Err 404 ''not_found'')
          else (audit cx u act ''connector'' (Some i) sm JUndef
                  (s\<lparr>connectors := update_many here f (connectors s)\<rparr>), Ok 200 live)) s1 = (s2, b)"
  have "connectors s2 = connectors s1 \<or> connectors s2 = update_many (\<lambda>c. c_id c = i) f (connectors s1)"
    using b by (auto simp: with_body_def Let_def split: if_splits)
  then show "revoked_in cid s2"
    using revoked_in_frame [of s2 s1 cid] revoked_in_update [OF e, of s2 "\<lambda>c. c_id c = i" f] e assms(2,3)
    by auto
qed

lemma connector_step_revoked:
  assumes "connector_step cid s s'" and r: "revoked_in cid s"
  shows "revoked_in cid s'"
  using assms(1)
proof (rule connector_stepE)
  fix A w cx code body a
  assume "create_connector A w cx code body s = (s', a)"
  then show ?thesis using r unfolding create_connector_def
    by (rule guarded_revoked)
       (auto simp: with_body_def createPairing_def Let_def revoked_in_def split: if_splits)
next
  fix cx i' b
  assume "revoke_connector cx i' s = (s', b)"
  then show ?thesis using r unfolding revoke_connector_def
    by (rule guarded_revoked)
       (auto simp: revoke_row_def revoked_in_def set_update_many split: option.splits)
next
  fix cx i body b
  assume "rename_connector cx i body s = (s', b)"
  then show ?thesis using r unfolding rename_connector_def
    by (rule guarded_revoked)
       (auto simp: with_body_def revoked_in_def set_update_many Let_def split: js.splits if_splits)
next
  fix cx i b
  assume "delete_connector cx i s = (s', b)"
  then show ?thesis using r unfolding delete_connector_def
    by (rule guarded_revoked)
       (auto simp: delete_connector_body_def delete_connector_row_def delete_site_rows_def revoked_in_def Let_def
        split: option.splits ConnectorDeleteCheck.splits)
next
  fix A w cx i code throwaway body a
  assume "repair_connector A w cx i code throwaway body s = (s', a)"
  then show ?thesis using r unfolding repair_connector_def
  proof (rule guarded_revoked)
    fix u s1 s2 b
    assume e: "revoked_in cid s1" and
      b: "(case repair_check i s1 of
             Inl e \<Rightarrow> (s1, Err (if e = ''not_found'' then 404 else 409) e)
           | Inr c \<Rightarrow>
               with_body body (\<lambda>s.
                 let managerUrl = managerBaseUrl w (cx_env cx) (cx_headers cx) in
                 (repair_writes A cx i code throwaway (body_field body ''invalidateNow'' = JBool True) u c s,
                  Ok 200 \<lparr>pr_code = code,
                          pr_command = buildReconfigureCommand code managerUrl (connectorTunnelUrl w (cx_env cx)),
                          pr_local = isLocalManagerUrl managerUrl\<rparr>)) s1) = (s2, b)"
    have cs: "connectors s2 = connectors s1 \<or>
      (\<exists>c. repair_check i s1 = Inr c) \<and> connectors s2 = connectors (invalidate_row i throwaway s1)"
      using b by (auto simp: with_body_def repair_writes_def createPairing_def invalidate_row_def Let_def
          split: sum.splits if_splits)
    have "i \<noteq> cid" if "repair_check i s1 = Inr c" for c
    proof
      assume "i = cid"
      with that have "connector_by_id s1 cid = Some c" "c_status c \<noteq> ConnectorStatus.REVOKED"
        by (auto simp: repair_check_def canRepairConnector_def split: option.splits if_splits)
      with find_first_Some [of _ "connectors s1" c] e show False
        by (auto simp: connector_by_id_def revoked_in_def)
    qed
    with cs e show "revoked_in cid s2"
      by (auto simp: revoked_in_def invalidate_row_def set_update_many)
  qed
next
  fix cx i b
  assume "delete_pairing cx i s = (s', b)"
  then show ?thesis using r unfolding delete_pairing_def
    by (rule guarded_revoked) (auto simp: revoked_in_def split: option.splits if_splits)
next
  fix cx n
  assume "reset_log_levels cx s = (s', n)"
  then show ?thesis using r unfolding reset_log_levels_def
    by (rule guarded_revoked) (auto simp: recordAdminAction_def revoked_in_def set_update_many Let_def)
next
  fix f A amb now p m a
  assume "new_id f \<noteq> cid" "finishRedeem A f amb now p m s = (s', a)"
  then show ?thesis by (rule finishRedeem_revoked [OF _ r])
next
  fix cx body a
  assume "connector_status cx body s = (s', a)"
  then show ?thesis by (rule status_revoked [OF r])
next
  fix cx i body live l
  assume "set_egress_policy cx i body live s = (s', l)"
  then show ?thesis unfolding set_egress_policy_def by (rule column_revoked [OF r, rotated 2]) simp_all
next
  fix cx i body live l
  assume "set_log_level cx i body live s = (s', l)"
  then show ?thesis unfolding set_log_level_def by (rule column_revoked [OF r, rotated 2]) simp_all
qed

lemma connector_steps_revoked:
  "(connector_step cid)\<^sup>*\<^sup>* s s' \<Longrightarrow> revoked_in cid s \<Longrightarrow> revoked_in cid s'"
  by (induction rule: rtranclp_induct) (auto intro: connector_step_revoked)

lemma validate_revoked:
  assumes "revoked_in cid (data c (case t of None \<Rightarrow> DEFAULT_TENANT | Some tid \<Rightarrow> tid))"
  shows "validateConnectorToken A env token c \<noteq> Some (cid, t)"
proof (cases "multiTenantEnabled env")
  case True
  have "c_status k = ConnectorStatus.REVOKED" if "connector_by_id (data c tid) cid = Some k" "t = Some tid" for k tid
    using that assms find_first_Some [of _ "connectors (data c tid)" k]
    by (auto simp: revoked_in_def connector_by_id_def)
  with True show ?thesis
    by (auto simp: validateConnectorToken_def split: option.splits if_splits)
next
  case False
  with assms show ?thesis
    by (auto simp: validateConnectorToken_def revoked_in_def dest!: find_first_Some)
qed


definition ex_connector :: Connector where
  "ex_connector =
     \<lparr>c_id = ''c1'', c_name = ''Plant'', c_tokenHash = ''#t'', c_status = ConnectorStatus.REVOKED,
      c_lastSeenAt = None, c_version = None, c_remoteAddr = None, c_egressPolicy = None,
      c_logLevel = None, c_createdAt = 0\<rparr>"


text \<open>The re-pair route's own writes carry no such guard: with a revocation between its check and its
  writes, the connector is pending again.\<close>

lemma repair_race_undoes_revocation:
  assumes "connector_by_id s i = Some c" and "c_status c \<noteq> ConnectorStatus.REVOKED"
  shows "repair_check i s = Inr c \<and>
    (\<exists>k \<in> set (connectors (repair_writes A cx i code throwaway True u c (revoke_row i s))).
       c_id k = i \<and> c_status k = PENDING)"
proof -
  from assms(1) have c: "c \<in> set (connectors s)" "c_id c = i"
    using find_first_Some [of _ "connectors s" c] by (auto simp: connector_by_id_def)
  let ?k = "c\<lparr>c_status := ConnectorStatus.REVOKED\<rparr>\<lparr>c_tokenHash := throwaway, c_status := PENDING\<rparr>"
  have "?k \<in> set (connectors (invalidate_row i throwaway (revoke_row i s)))"
    using c by (force simp: invalidate_row_def revoke_row_def update_many_def)
  then have "?k \<in> set (connectors (repair_writes A cx i code throwaway True u c (revoke_row i s)))"
    by (simp add: repair_writes_def createPairing_def invalidate_row_def Let_def)
  with assms c show ?thesis
    by (intro conjI bexI [of _ ?k]) (simp_all add: repair_check_def canRepairConnector_def)
qed

section \<open>Deleting a connector never takes sites with it\<close>

lemma delete_many_none: "\<forall>r \<in> set t. \<not> p r \<Longrightarrow> delete_many p t = t"
  by (simp add: delete_many_def filter_id_conv)

lemma delete_connector_row_bare:
  assumes "count_rows (\<lambda>r. site_connectorId r = i) (sites s) = 0"
  shows "sites (delete_connector_row i s) = sites s" "accessGrants (delete_connector_row i s) = accessGrants s"
    "vaultCredentials (delete_connector_row i s) = vaultCredentials s"
    "groupMappings (delete_connector_row i s) = groupMappings s"
proof -
  from assms have "find_many (\<lambda>r. site_connectorId r = i) (sites s) = []"
    by (simp add: count_rows_def find_many_def)
  then show "sites (delete_connector_row i s) = sites s" "accessGrants (delete_connector_row i s) = accessGrants s"
    "vaultCredentials (delete_connector_row i s) = vaultCredentials s"
    "groupMappings (delete_connector_row i s) = groupMappings s"
    by (simp_all add: delete_connector_row_def delete_site_rows_def Let_def delete_many_none)
qed

lemma delete_connector_body_frame:
  "sites (fst (delete_connector_body cx i u s)) = sites s"
  "accessGrants (fst (delete_connector_body cx i u s)) = accessGrants s"
  "vaultCredentials (fst (delete_connector_body cx i u s)) = vaultCredentials s"
  "groupMappings (fst (delete_connector_body cx i u s)) = groupMappings s"
  by (simp_all add: delete_connector_body_def canDeleteConnector_def delete_connector_row_bare audit_def
      recordAdminAction_def Let_def split: option.splits)

text \<open>Deleting a connector, whatever the outcome, removes no site, no access grant, no stored
  credential and no group mapping, although the schema would cascade to all of them; and when it is
  accepted the connector is gone.\<close>
theorem delete_connector_cascades_nowhere:
  "sites (fst (delete_connector cx i s)) = sites s \<and>
   accessGrants (fst (delete_connector cx i s)) = accessGrants s \<and>
   vaultCredentials (fst (delete_connector cx i s)) = vaultCredentials s \<and>
   groupMappings (fst (delete_connector cx i s)) = groupMappings s \<and>
   connectors (fst (delete_connector cx i s)) =
     (if snd (delete_connector cx i s) = Ok 200 () then delete_many (\<lambda>c. c_id c = i) (connectors s)
      else connectors s)"
proof (rule with_capability_cases [of cx s Configure "delete_connector_body cx i"])
  fix s1 u
  assume c: "current_user cx s = (s1, Some u)"
    "with_capability cx Configure (delete_connector_body cx i) s = delete_connector_body cx i u s1"
  have "connectors (fst (delete_connector_body cx i u s1)) =
      (if snd (delete_connector_body cx i u s1) = Ok 200 () then delete_many (\<lambda>c. c_id c = i) (connectors s1)
       else connectors s1)"
    by (simp add: delete_connector_body_def delete_connector_row_def delete_site_rows_def Let_def
        split: option.splits ConnectorDeleteCheck.splits)
  moreover have "sites s1 = sites s" "accessGrants s1 = accessGrants s" "connectors s1 = connectors s"
    "vaultCredentials s1 = vaultCredentials s" "groupMappings s1 = groupMappings s"
    using current_user_frame [of cx s] by (simp_all add: c(1))
  ultimately show ?thesis
    unfolding delete_connector_def c(2) delete_connector_body_frame by simp
qed (use current_user_frame [of cx s] in \<open>simp_all add: delete_connector_def\<close>)

end
