(* ===== verification/Sites.thy ===== *)
theory Sites
  imports Connectors
begin

text \<open>
  \<^verbatim>\<open>lib/site/{validate,host-suffix,hostname,verify-domain,logo}.ts\<close>, \<^verbatim>\<open>lib/gateway/guac-params.ts\<close>,
  \<^verbatim>\<open>lib/vault/store.ts\<close> and the site routes of the console: what an administrator may configure as a
  site, the connection parameters that reach the remote-desktop gateway, and the stored credentials.

  The cipher of \<^verbatim>\<open>lib/crypto.ts\<close> over \<^verbatim>\<open>node:crypto\<close>, DNS lookups, base64 decoding and \<^verbatim>\<open>new URL\<close>
  are parameters.
\<close>

section \<open>Gateway parameters\<close>

datatype guac_flag =
    EnableWallpaper | EnableTheming | EnableFontSmoothing | EnableFullWindowDrag
  | EnableFileTransfer | BlockUpload | BlockDownload | DisableAudio | EnablePrinting

fun flag_name :: "guac_flag \<Rightarrow> string" where
  "flag_name EnableWallpaper = ''enableWallpaper''"
| "flag_name EnableTheming = ''enableTheming''"
| "flag_name EnableFontSmoothing = ''enableFontSmoothing''"
| "flag_name EnableFullWindowDrag = ''enableFullWindowDrag''"
| "flag_name EnableFileTransfer = ''enableFileTransfer''"
| "flag_name BlockUpload = ''blockUpload''"
| "flag_name BlockDownload = ''blockDownload''"
| "flag_name DisableAudio = ''disableAudio''"
| "flag_name EnablePrinting = ''enablePrinting''"

definition BOOL_KEYS :: "guac_flag list" where
  "BOOL_KEYS = [EnableWallpaper, EnableTheming, EnableFontSmoothing, EnableFullWindowDrag,
     EnableFileTransfer, BlockUpload, BlockDownload, DisableAudio, EnablePrinting]"

record GuacParams =
  gp_serverLayout :: "string option"
  gp_colorDepth :: "int option"
  gp_flags :: "guac_flag \<Rightarrow> bool option"
  gp_sftpRoot :: "string option"
  gp_rdpSecurity :: "string option"
  gp_terminalFontSize :: "int option"
  gp_terminalColorScheme :: "string option"
  gp_terminalScrollback :: "int option"

definition SCHEMES :: "string list" where
  "SCHEMES = [''gray-black'', ''black-white'', ''green-black'', ''white-black'']"

definition LAYOUTS :: "string list" where
  "LAYOUTS = [''en-us-qwerty'', ''en-gb-qwerty'', ''tr-tr-qwerty'', ''de-de-qwertz'', ''de-ch-qwertz'',
     ''fr-fr-azerty'', ''fr-be-azerty'', ''fr-ch-qwertz'', ''es-es-qwerty'', ''es-latam-qwerty'',
     ''it-it-qwerty'', ''ja-jp-qwerty'', ''pt-br-qwerty'', ''sv-se-qwerty'', ''no-no-qwerty'',
     ''hu-hu-qwertz'']"

definition DEPTHS :: "int list" where "DEPTHS = [8, 16, 24]"

definition RDP_SECURITY :: "string list" where
  "RDP_SECURITY = [''any'', ''nla'', ''tls'', ''rdp'']"

definition no_params :: GuacParams where
  "no_params = \<lparr>gp_serverLayout = None, gp_colorDepth = None, gp_flags = (\<lambda>_. None), gp_sftpRoot = None,
     gp_rdpSecurity = None, gp_terminalFontSize = None, gp_terminalColorScheme = None,
     gp_terminalScrollback = None\<rparr>"

definition listed_text :: "string list \<Rightarrow> js \<Rightarrow> string option" where
  "listed_text allowed v = (case v of JStr t \<Rightarrow> if t \<in> set allowed then Some t else None | _ \<Rightarrow> None)"

definition int_between :: "int \<Rightarrow> int \<Rightarrow> js \<Rightarrow> int option" where
  "int_between lo hi v =
     (case (case v of JStr t \<Rightarrow> if trim t \<noteq> [] then JNum (number_of_string t) else v | _ \<Rightarrow> v) of
        JNum (NInt n) \<Rightarrow> if lo \<le> n \<and> n \<le> hi then Some n else None
      | _ \<Rightarrow> None)"

definition control_char :: "char \<Rightarrow> bool" where
  "control_char c \<longleftrightarrow> (of_char c :: nat) < 32"

definition absolute_path :: "string \<Rightarrow> bool" where
  "absolute_path v \<longleftrightarrow> starts_with v ''/'' \<and> length v \<le> 1024 \<and> \<not> list_ex control_char v"

definition sftp_root :: "js \<Rightarrow> string option" where
  "sftp_root v =
     (case v of JStr t \<Rightarrow> (let r = trim t in if absolute_path r then Some r else None) | _ \<Rightarrow> None)"

definition parseGuacParams :: "js \<Rightarrow> GuacParams" where
  "parseGuacParams input =
     (case input of
        JObj ob \<Rightarrow>
          \<lparr>gp_serverLayout = listed_text LAYOUTS (field ob ''serverLayout''),
           gp_colorDepth =
             (case field ob ''colorDepth'' of
                JNum (NInt n) \<Rightarrow> if n \<in> set DEPTHS then Some n else None | _ \<Rightarrow> None),
           gp_flags = (\<lambda>k. case field ob (flag_name k) of JBool b \<Rightarrow> Some b | _ \<Rightarrow> None),
           gp_sftpRoot = sftp_root (field ob ''sftpRoot''),
           gp_rdpSecurity = listed_text RDP_SECURITY (field ob ''rdpSecurity''),
           gp_terminalFontSize = int_between 8 32 (field ob ''terminalFontSize''),
           gp_terminalColorScheme = listed_text SCHEMES (field ob ''terminalColorScheme''),
           gp_terminalScrollback = int_between 100 100000 (field ob ''terminalScrollback'')\<rparr>
      | _ \<Rightarrow> no_params)"

text \<open>The object as it is stored: the members that are set, in the order they were assigned.\<close>

definition stored_member :: "string \<Rightarrow> ('a \<Rightarrow> js) \<Rightarrow> 'a option \<Rightarrow> (string \<times> js) list" where
  "stored_member k f v = (case v of None \<Rightarrow> [] | Some x \<Rightarrow> [(k, f x)])"

definition guac_json :: "GuacParams \<Rightarrow> js" where
  "guac_json p =
     JObj (stored_member ''serverLayout'' JStr (gp_serverLayout p) @
           stored_member ''colorDepth'' (\<lambda>n. JNum (NInt n)) (gp_colorDepth p) @
           concat (map (\<lambda>k. stored_member (flag_name k) JBool (gp_flags p k)) BOOL_KEYS) @
           stored_member ''sftpRoot'' JStr (gp_sftpRoot p) @
           stored_member ''rdpSecurity'' JStr (gp_rdpSecurity p) @
           stored_member ''terminalFontSize'' (\<lambda>n. JNum (NInt n)) (gp_terminalFontSize p) @
           stored_member ''terminalColorScheme'' JStr (gp_terminalColorScheme p) @
           stored_member ''terminalScrollback'' (\<lambda>n. JNum (NInt n)) (gp_terminalScrollback p))"

definition or_else :: "'a option \<Rightarrow> 'a option \<Rightarrow> 'a option" where
  "or_else a b = (case a of Some _ \<Rightarrow> a | None \<Rightarrow> b)"

definition resolveGuacParams :: "GuacParams \<Rightarrow> GuacParams \<Rightarrow> GuacParams" where
  "resolveGuacParams resource policy =
     \<lparr>gp_serverLayout = or_else (gp_serverLayout resource) (gp_serverLayout policy),
      gp_colorDepth = or_else (gp_colorDepth resource) (gp_colorDepth policy),
      gp_flags = (\<lambda>k. or_else (gp_flags resource k) (gp_flags policy k)),
      gp_sftpRoot = or_else (gp_sftpRoot resource) (gp_sftpRoot policy),
      gp_rdpSecurity = or_else (gp_rdpSecurity resource) (gp_rdpSecurity policy),
      gp_terminalFontSize = or_else (gp_terminalFontSize resource) (gp_terminalFontSize policy),
      gp_terminalColorScheme = or_else (gp_terminalColorScheme resource) (gp_terminalColorScheme policy),
      gp_terminalScrollback = or_else (gp_terminalScrollback resource) (gp_terminalScrollback policy)\<rparr>"

definition resolvedGuacParamDefaults :: "db \<Rightarrow> GuacParams" where
  "resolvedGuacParamDefaults s =
     parseGuacParams (case platformSettings s of None \<Rightarrow> JUndef | Some p \<Rightarrow> ps_guacParamDefaults p)"

definition sshHome :: "string \<Rightarrow> string" where
  "sshHome username =
     (if username = ''root'' then ''/root''
      else if username \<noteq> [] then ''/home/'' @ username else ''/'')"

definition arg_text :: "string \<Rightarrow> string option \<Rightarrow> (string \<times> string) list" where
  "arg_text k v = (case or_null v of None \<Rightarrow> [] | Some t \<Rightarrow> [(k, t)])"

definition arg_int :: "string \<Rightarrow> int option \<Rightarrow> (string \<times> string) list" where
  "arg_int k v = (case v of None \<Rightarrow> [] | Some n \<Rightarrow> if n = 0 then [] else [(k, dec_int n)])"

definition arg_on :: "string \<Rightarrow> bool \<Rightarrow> (string \<times> string) list" where
  "arg_on k b = (if b then [(k, ''true'')] else [])"

definition flag_on :: "GuacParams \<Rightarrow> guac_flag \<Rightarrow> bool" where
  "flag_on p k \<longleftrightarrow> gp_flags p k = Some True"

definition transfer_args :: "GuacParams \<Rightarrow> VaultProtocol \<Rightarrow> string \<Rightarrow> (string \<times> string) list" where
  "transfer_args p protocol username =
     (if \<not> flag_on p EnableFileTransfer then []
      else
        (case protocol of
           RDP \<Rightarrow>
             [(''enable-drive'', ''true''), (''create-drive-path'', ''true''), (''drive-name'', ''Captivo'')] @
             arg_on ''disable-upload'' (flag_on p BlockUpload) @
             arg_on ''disable-download'' (flag_on p BlockDownload)
         | SSH \<Rightarrow>
             [(''enable-sftp'', ''true''),
              (''sftp-root-directory'',
               case or_null (map_option trim (gp_sftpRoot p)) of Some r \<Rightarrow> r | None \<Rightarrow> sshHome username)] @
             arg_on ''sftp-disable-upload'' (flag_on p BlockUpload) @
             arg_on ''sftp-disable-download'' (flag_on p BlockDownload)
         | VNC \<Rightarrow> []))"

definition toGuacArgs :: "GuacParams \<Rightarrow> string \<Rightarrow> VaultProtocol \<Rightarrow> string \<Rightarrow> (string \<times> string) list" where
  "toGuacArgs p clipboardMode protocol username =
     arg_text ''server-layout'' (gp_serverLayout p) @
     arg_int ''color-depth'' (gp_colorDepth p) @
     arg_on ''enable-wallpaper'' (flag_on p EnableWallpaper) @
     arg_on ''enable-theming'' (flag_on p EnableTheming) @
     arg_on ''enable-font-smoothing'' (flag_on p EnableFontSmoothing) @
     arg_on ''enable-full-window-drag'' (flag_on p EnableFullWindowDrag) @
     arg_on ''disable-copy'' (clipboardMode = ''no_copy'' \<or> clipboardMode = ''none'') @
     arg_on ''disable-paste'' (clipboardMode = ''no_paste'' \<or> clipboardMode = ''none'') @
     (if protocol = RDP then
        arg_text ''security'' (gp_rdpSecurity p) @
        arg_on ''disable-audio'' (flag_on p DisableAudio) @
        (if flag_on p EnablePrinting
         then [(''enable-printing'', ''true''), (''printer-name'', ''Captivo Printer'')] else [])
      else []) @
     (if protocol = SSH then
        arg_int ''font-size'' (gp_terminalFontSize p) @
        arg_text ''color-scheme'' (gp_terminalColorScheme p) @
        arg_int ''scrollback'' (gp_terminalScrollback p)
      else []) @
     transfer_args p protocol username"

section \<open>Validation of a site\<close>

record TransparentSite =
  tr_connectorId :: ident
  tr_name :: string
  tr_hostname :: string
  tr_customDomain :: bool
  tr_upstreamUrl :: string
  tr_description :: "string option"
  tr_insecureSkipVerify :: bool
  tr_clipboardMode :: "string option"
  tr_recordSessions :: bool

record GatewaySite =
  gw_connectorId :: ident
  gw_name :: string
  gw_description :: "string option"
  gw_protocol :: VaultProtocol
  gw_targetHost :: string
  gw_targetPort :: int
  gw_username :: string
  gw_secret :: "string option"
  gw_recordSessions :: bool
  gw_keystrokeLogging :: bool
  gw_guacParams :: GuacParams

record IsolatedSite =
  is_connectorId :: ident
  is_name :: string
  is_description :: "string option"
  is_upstreamUrl :: string
  is_insecureSkipVerify :: bool
  is_recordSessions :: bool
  is_clipboardMode :: "string option"
  is_watermark :: "bool option"
  is_fileTransferMode :: string

datatype SiteValidation =
    Transparent TransparentSite | Gateway_site GatewaySite | Isolated_site IsolatedSite | Invalid string

record site_opts =
  so_nativeGateway :: bool
  so_requireSecret :: bool
  so_recordingEnabled :: bool
  so_isolationEnabled :: bool
  so_hostSuffix :: "string option"

definition CLIP :: "string list" where "CLIP = [''allow'', ''no_copy'', ''no_paste'', ''none'']"

definition FT :: "string list" where "FT = [''allow'', ''no_upload'', ''no_download'', ''none'']"

definition protocol_of :: "string \<Rightarrow> VaultProtocol option" where
  "protocol_of t =
     (if t = ''RDP'' then Some RDP else if t = ''SSH'' then Some SSH else if t = ''VNC'' then Some VNC else None)"

definition listed :: "string list \<Rightarrow> string \<Rightarrow> string option" where
  "listed allowed t = (if t \<in> set allowed then Some t else None)"

definition http_url :: "web \<Rightarrow> string \<Rightarrow> bool" where
  "http_url w t =
     (case w_parse w t of
        None \<Rightarrow> False
      | Some u \<Rightarrow> url_protocol u = ''http:'' \<or> url_protocol u = ''https:'')"

text \<open>\<^verbatim>\<open>/^(?=.{1,253}$)([a-z0-9]([a-z0-9-]{0,61}[a-z0-9])?\.)+[a-z]{2,}$/\<close>; a label is \<open>SLUG_RE\<close>.\<close>

definition FQDN_RE :: "string \<Rightarrow> bool" where
  "FQDN_RE h \<longleftrightarrow>
     (let ls = split_on (CHR ''.'') h in
      length h \<le> 253 \<and> 2 \<le> length ls \<and> list_all SLUG_RE (butlast ls) \<and>
      2 \<le> length (last ls) \<and> list_all is_lower (last ls))"

definition site_hostname_of :: "js \<Rightarrow> string option \<Rightarrow> string option" where
  "site_hostname_of body hostSuffix =
     (let rawHost = trim (to_lower (text_of body ''hostname'')) in
      if rawHost = [] then None
      else if body_field body ''customDomain'' = JBool True then
        (if FQDN_RE rawHost then Some rawHost else None)
      else (case or_null hostSuffix of
              Some sfx \<Rightarrow> if SLUG_RE rawHost then Some (rawHost @ sfx) else None
            | None \<Rightarrow> Some rawHost))"

definition port_of :: "js \<Rightarrow> jnum" where
  "port_of v = (case v of JNum n \<Rightarrow> n | _ \<Rightarrow> number_of_string (trim (str_or_empty v)))"

definition valid_port :: "jnum \<Rightarrow> int option" where
  "valid_port n = (case n of NInt k \<Rightarrow> if 1 \<le> k \<and> k \<le> 65535 then Some k else None | _ \<Rightarrow> None)"

definition optional_bool :: "js \<Rightarrow> bool option" where
  "optional_bool v = (case v of JBool b \<Rightarrow> Some b | _ \<Rightarrow> None)"

definition validate_isolated :: "web \<Rightarrow> site_opts \<Rightarrow> js \<Rightarrow> SiteValidation" where
  "validate_isolated w opts body =
     (let url = text_of body ''upstreamUrl'' in
      if \<not> so_isolationEnabled opts then Invalid ''isolation_disabled''
      else if url = [] then Invalid ''isolated_url_required''
      else if \<not> http_url w url then Invalid ''invalid_upstream_url''
      else Isolated_site
        \<lparr>is_connectorId = text_of body ''connectorId'', is_name = text_of body ''name'',
         is_description = or_null (Some (text_of body ''description'')), is_upstreamUrl = url,
         is_insecureSkipVerify = (body_field body ''insecureSkipVerify'' = JBool True),
         is_recordSessions = (so_recordingEnabled opts \<and> body_field body ''recordSessions'' = JBool True),
         is_clipboardMode = listed CLIP (text_of body ''clipboardMode''),
         is_watermark = optional_bool (body_field body ''watermark''),
         is_fileTransferMode =
           (case listed FT (text_of body ''fileTransferMode'') of Some m \<Rightarrow> m | None \<Rightarrow> ''none'')\<rparr>)"

definition validate_gateway :: "site_opts \<Rightarrow> js \<Rightarrow> SiteValidation" where
  "validate_gateway opts body =
     (let host = text_of body ''targetHost''; user = text_of body ''username'';
          secret = raw_text_of body ''secret'';
          rec = (so_recordingEnabled opts \<and> body_field body ''recordSessions'' = JBool True)
      in if \<not> so_nativeGateway opts then Invalid ''native_gateway_disabled''
         else (case protocol_of (to_upper (text_of body ''protocol'')) of
                 None \<Rightarrow> Invalid ''invalid_protocol''
               | Some protocol \<Rightarrow>
                   if host = [] \<or> user = [] then Invalid ''remote_desktop_fields_required''
                   else (case valid_port (port_of (body_field body ''targetPort'')) of
                           None \<Rightarrow> Invalid ''invalid_port''
                         | Some port \<Rightarrow>
                             if so_requireSecret opts \<and> secret = []
                             then Invalid ''remote_desktop_fields_required''
                             else Gateway_site
                               \<lparr>gw_connectorId = text_of body ''connectorId'', gw_name = text_of body ''name'',
                                gw_description = or_null (Some (text_of body ''description'')),
                                gw_protocol = protocol, gw_targetHost = host, gw_targetPort = port,
                                gw_username = user, gw_secret = or_null (Some secret),
                                gw_recordSessions = rec,
                                gw_keystrokeLogging = (rec \<and> body_field body ''keystrokeLogging'' = JBool True),
                                gw_guacParams = parseGuacParams (body_field body ''guacParams'')\<rparr>)))"

definition validate_transparent :: "web \<Rightarrow> site_opts \<Rightarrow> js \<Rightarrow> SiteValidation" where
  "validate_transparent w opts body =
     (let url = text_of body ''upstreamUrl'' in
      case site_hostname_of body (so_hostSuffix opts) of
        None \<Rightarrow> Invalid ''invalid_hostname''
      | Some hostname \<Rightarrow>
          if url = [] then Invalid ''connector_name_upstream_required''
          else if \<not> http_url w url then Invalid ''invalid_upstream_url''
          else Transparent
            \<lparr>tr_connectorId = text_of body ''connectorId'', tr_name = text_of body ''name'',
             tr_hostname = hostname, tr_customDomain = (body_field body ''customDomain'' = JBool True),
             tr_upstreamUrl = url, tr_description = or_null (Some (text_of body ''description'')),
             tr_insecureSkipVerify = (body_field body ''insecureSkipVerify'' = JBool True),
             tr_clipboardMode = listed CLIP (text_of body ''clipboardMode''),
             tr_recordSessions = (so_recordingEnabled opts \<and> body_field body ''recordSessions'' = JBool True)\<rparr>)"

definition validateSiteInput :: "web \<Rightarrow> site_opts \<Rightarrow> js \<Rightarrow> SiteValidation" where
  "validateSiteInput w opts body =
     (if text_of body ''connectorId'' = [] \<or> text_of body ''name'' = [] then Invalid ''connector_name_required''
      else if body_field body ''accessMode'' = JStr ''ISOLATED'' then validate_isolated w opts body
      else if body_field body ''accessMode'' = JStr ''GATEWAY'' then validate_gateway opts body
      else validate_transparent w opts body)"

section \<open>Host names\<close>

definition siteHostSuffix :: "web \<Rightarrow> env \<Rightarrow> string option \<Rightarrow> string option" where
  "siteHostSuffix w env slug =
     (let own = (case or_null (accessDomain (url_hostname_of w) (env ''MANAGER_PUBLIC_URL'') (env ''ACCESS_DOMAIN'')) of
                   Some d \<Rightarrow> Some (CHR ''.'' # d) | None \<Rightarrow> None)
      in if multiTenantEnabled env then
           (case (or_null slug, or_null (consoleDomain (url_hostname_of w) env)) of
              (Some s, Some d) \<Rightarrow> Some (CHR ''.'' # s @ CHR ''.'' # d)
            | _ \<Rightarrow> own)
         else own)"

definition crossTenantHostnameTaken :: "env \<Rightarrow> ident option \<Rightarrow> cloud \<Rightarrow> string \<Rightarrow> bool" where
  "crossTenantHostnameTaken env acting c hostname =
     (if \<not> multiTenantEnabled env \<or> hostname = [] then False
      else (case or_null (resolveTenantByHostname hostname c) of
              None \<Rightarrow> False
            | Some owner \<Rightarrow> Some owner \<noteq> acting))"

text \<open>\<open>dns\<close> is \<^verbatim>\<open>resolve4\<close>: the addresses of a name, none when the lookup fails.\<close>

definition expectedServerIp :: "web \<Rightarrow> env \<Rightarrow> (string \<Rightarrow> string list) \<Rightarrow> string option" where
  "expectedServerIp w env dns =
     (case or_null (env ''MANAGER_PUBLIC_URL'') of
        None \<Rightarrow> None
      | Some raw \<Rightarrow>
          (case url_hostname_of w raw of
             None \<Rightarrow> None
           | Some host \<Rightarrow> (case dns host of [] \<Rightarrow> None | ip # _ \<Rightarrow> Some ip)))"

section \<open>Logos\<close>

datatype LogoUpdate = Keep_logo | Clear_logo | Set_logo string string | Bad_logo string

definition ALLOWED_LOGO_TYPES :: "string list" where
  "ALLOWED_LOGO_TYPES = [''image/png'', ''image/jpeg'', ''image/svg+xml'', ''image/webp'']"

definition MAX_LOGO_BYTES :: nat where "MAX_LOGO_BYTES = 200 * 1024"

definition after_comma :: "string \<Rightarrow> string option" where
  "after_comma t =
     (if CHR '','' \<in> set t then Some (tl (dropWhile (\<lambda>c. c \<noteq> CHR '','') t)) else None)"

definition parseLogoUpload :: "(string \<Rightarrow> string) \<Rightarrow> js \<Rightarrow> js \<Rightarrow> LogoUpdate" where
  "parseLogoUpload base64 logo logoType =
     (case logo of
        JUndef \<Rightarrow> Keep_logo
      | JNull \<Rightarrow> Clear_logo
      | JStr t \<Rightarrow>
          if t = [] then Clear_logo
          else (case listed_text ALLOWED_LOGO_TYPES logoType of
                  None \<Rightarrow> Bad_logo ''invalid_logo_type''
                | Some ty \<Rightarrow>
                    (let b64 = (if starts_with t ''data:''
                                then (case after_comma t of Some r \<Rightarrow> r | None \<Rightarrow> t) else t);
                         buf = base64 b64
                     in if buf = [] then Bad_logo ''invalid_logo''
                        else if length buf > MAX_LOGO_BYTES then Bad_logo ''logo_too_large''
                        else Set_logo buf ty))
      | _ \<Rightarrow> Bad_logo ''invalid_logo'')"

definition apply_logo :: "LogoUpdate \<Rightarrow> (string \<times> string) option \<Rightarrow> (string \<times> string) option" where
  "apply_logo u old =
     (case u of Set_logo d t \<Rightarrow> Some (d, t) | Clear_logo \<Rightarrow> None | _ \<Rightarrow> old)"

section \<open>Credentials\<close>

text \<open>\<^verbatim>\<open>lib/crypto.ts\<close> over an authenticated cipher: the key must be 64 hex digits, a payload that does not
  authenticate is an error (\<open>None\<close>).\<close>

record cipher =
  gcm_seal :: "string \<Rightarrow> string \<Rightarrow> string"
  gcm_open :: "string \<Rightarrow> string \<Rightarrow> string option"

definition is_hex :: "char \<Rightarrow> bool" where
  "is_hex c \<longleftrightarrow> is_digit c \<or> radix_digit c < 16"

definition encryption_key :: "env \<Rightarrow> string option" where
  "encryption_key env =
     (case env ''ENCRYPTION_KEY'' of
        None \<Rightarrow> None
      | Some hex \<Rightarrow> if length hex = 64 \<and> list_all is_hex hex then Some hex else None)"

definition encrypt :: "cipher \<Rightarrow> env \<Rightarrow> string \<Rightarrow> string option" where
  "encrypt C env plaintext = map_option (\<lambda>k. gcm_seal C k plaintext) (encryption_key env)"

definition decrypt :: "cipher \<Rightarrow> env \<Rightarrow> string \<Rightarrow> string option" where
  "decrypt C env payload = Option.bind (encryption_key env) (\<lambda>k. gcm_open C k payload)"

record VaultInput =
  vi_siteId :: ident
  vi_protocol :: VaultProtocol
  vi_targetHost :: string
  vi_targetPort :: int
  vi_username :: string
  vi_secret :: string
  vi_secretKind :: VaultSecretKind
  vi_guacParams :: GuacParams

definition has_vault :: "ident \<Rightarrow> db \<Rightarrow> bool" where
  "has_vault sid s \<longleftrightarrow> count_rows (\<lambda>v. v_siteId v = sid) (vaultCredentials s) > 0"

definition upsert_vault :: "VaultCredential \<Rightarrow> db \<Rightarrow> db \<times> (string + unit)" where
  "upsert_vault row s =
     (if has_vault (v_siteId row) s
      then (s\<lparr>vaultCredentials :=
               update_many (\<lambda>v. v_siteId v = v_siteId row) (\<lambda>_. row) (vaultCredentials s)\<rparr>, Inr ())
      else if site_by_id s (v_siteId row) = None then (s, Inl ''P2003'')
      else (s\<lparr>vaultCredentials := insert_row row (vaultCredentials s)\<rparr>, Inr ()))"

definition setVaultCredential :: "cipher \<Rightarrow> env \<Rightarrow> VaultInput \<Rightarrow> db \<Rightarrow> db \<times> (string + unit)" where
  "setVaultCredential C env i s =
     (case encrypt C env (vi_secret i) of
        None \<Rightarrow> (s, Inl ''ENCRYPTION_KEY'')
      | Some sec \<Rightarrow>
          upsert_vault
            \<lparr>v_siteId = vi_siteId i, v_protocol = vi_protocol i, v_targetHost = trim (vi_targetHost i),
             v_targetPort = vi_targetPort i, v_username = trim (vi_username i), v_secret = sec,
             v_secretKind = vi_secretKind i,
             v_guacParams = json_stored (guac_json (parseGuacParams (guac_json (vi_guacParams i))))\<rparr> s)"

definition vault_row :: "ident \<Rightarrow> db \<Rightarrow> VaultCredential option" where
  "vault_row sid s = find_first (\<lambda>v. v_siteId v = sid) (vaultCredentials s)"

text \<open>\<open>Inl\<close> is the error of a payload that does not decrypt; \<open>Inr None\<close> a site without credential.\<close>

definition getVaultCredential ::
  "cipher \<Rightarrow> env \<Rightarrow> ident \<Rightarrow> db \<Rightarrow> string + VaultCredential option" where
  "getVaultCredential C env sid s =
     (case vault_row sid s of
        None \<Rightarrow> Inr None
      | Some c \<Rightarrow>
          (case decrypt C env (v_secret c) of
             None \<Rightarrow> Inl ''decrypt''
           | Some t \<Rightarrow> Inr (Some (c\<lparr>v_secret := t\<rparr>))))"

definition hasVaultCredential :: "ident \<Rightarrow> db \<Rightarrow> bool" where
  "hasVaultCredential sid s = has_vault sid s"

text \<open>The form's view of a credential: everything but the secret.\<close>

record vault_meta =
  vm_protocol :: VaultProtocol
  vm_targetHost :: string
  vm_targetPort :: int
  vm_username :: string
  vm_guacParams :: js

definition getVaultCredentialMeta :: "ident \<Rightarrow> db \<Rightarrow> vault_meta option" where
  "getVaultCredentialMeta sid s =
     map_option (\<lambda>c. \<lparr>vm_protocol = v_protocol c, vm_targetHost = v_targetHost c,
       vm_targetPort = v_targetPort c, vm_username = v_username c, vm_guacParams = v_guacParams c\<rparr>)
       (vault_row sid s)"

definition clearVaultCredential :: "ident \<Rightarrow> db \<Rightarrow> db" where
  "clearVaultCredential sid s =
     s\<lparr>vaultCredentials := delete_many (\<lambda>v. v_siteId v = sid) (vaultCredentials s)\<rparr>"

section \<open>Site routes\<close>

record site_env =
  se_web :: web
  se_cipher :: cipher
  se_base64 :: "string \<Rightarrow> string"
  se_slug :: "string option"
  se_taken :: "string \<Rightarrow> bool"

definition site_options :: "site_env \<Rightarrow> ctx \<Rightarrow> bool \<Rightarrow> site_opts" where
  "site_options se cx requireSecret =
     (let env = cx_env cx; allowed = capabilityAllowed env (cx_envelope cx) in
      \<lparr>so_nativeGateway = (nativeGatewayEnabled env \<and> allowed Gateway), so_requireSecret = requireSecret,
       so_recordingEnabled = (recordingEnabled env \<and> allowed Recording),
       so_isolationEnabled = (isolationEnabled env \<and> allowed Isolated),
       so_hostSuffix = siteHostSuffix (se_web se) env (se_slug se)\<rparr>)"

definition invalid_status :: "string \<Rightarrow> nat" where
  "invalid_status e = (if e = ''native_gateway_disabled'' \<or> e = ''isolation_disabled'' then 403 else 400)"

definition new_site :: "ident \<Rightarrow> instant \<Rightarrow> LogoUpdate \<Rightarrow> ident \<Rightarrow> string \<Rightarrow> string option \<Rightarrow> Site" where
  "new_site nid now logo cid name description =
     \<lparr>site_id = nid, site_connectorId = cid, site_name = name, site_hostname = None,
      site_customDomain = False, site_domainVerifiedAt = None, site_upstreamUrl = None,
      site_insecureSkipVerify = False, site_description = description, site_probedAt = None,
      site_probeOk = None, site_probeDetail = None, site_probeLatencyMs = None,
      site_recordSessions = False, site_keystrokeLogging = False, site_clipboardMode = None,
      site_watermark = None, site_fileTransferMode = ''none'', site_accessMode = TRANSPARENT,
      site_logo = (case logo of Set_logo d t \<Rightarrow> Some (d, t) | _ \<Rightarrow> None), site_createdAt = now\<rparr>"

definition hostname_used :: "string \<Rightarrow> ident \<Rightarrow> db \<Rightarrow> bool" where
  "hostname_used h i s \<longleftrightarrow> list_ex (\<lambda>r. site_hostname r = Some h \<and> site_id r \<noteq> i) (sites s)"

definition set_transparent :: "TransparentSite \<Rightarrow> Site \<Rightarrow> Site" where
  "set_transparent v r =
     r\<lparr>site_connectorId := tr_connectorId v, site_name := tr_name v,
       site_hostname := Some (tr_hostname v), site_customDomain := tr_customDomain v,
       site_upstreamUrl := Some (tr_upstreamUrl v), site_description := tr_description v,
       site_insecureSkipVerify := tr_insecureSkipVerify v, site_recordSessions := tr_recordSessions v,
       site_clipboardMode := tr_clipboardMode v, site_accessMode := TRANSPARENT\<rparr>"

definition set_isolated :: "IsolatedSite \<Rightarrow> Site \<Rightarrow> Site" where
  "set_isolated v r =
     r\<lparr>site_connectorId := is_connectorId v, site_name := is_name v, site_hostname := None,
       site_upstreamUrl := Some (is_upstreamUrl v), site_description := is_description v,
       site_insecureSkipVerify := is_insecureSkipVerify v, site_recordSessions := is_recordSessions v,
       site_clipboardMode := is_clipboardMode v, site_watermark := is_watermark v,
       site_fileTransferMode := is_fileTransferMode v, site_accessMode := ISOLATED\<rparr>"

definition set_gateway :: "GatewaySite \<Rightarrow> Site \<Rightarrow> Site" where
  "set_gateway v r =
     r\<lparr>site_connectorId := gw_connectorId v, site_name := gw_name v, site_hostname := None,
       site_upstreamUrl := None, site_description := gw_description v,
       site_recordSessions := gw_recordSessions v, site_keystrokeLogging := gw_keystrokeLogging v,
       site_accessMode := GATEWAY\<rparr>"

definition gateway_vault :: "ident \<Rightarrow> GatewaySite \<Rightarrow> string \<Rightarrow> VaultCredential" where
  "gateway_vault sid v sec =
     \<lparr>v_siteId = sid, v_protocol = gw_protocol v, v_targetHost = gw_targetHost v,
      v_targetPort = gw_targetPort v, v_username = gw_username v, v_secret = sec,
      v_secretKind = PASSWORD, v_guacParams = json_stored (guac_json (gw_guacParams v))\<rparr>"

definition site_name_of :: "SiteValidation \<Rightarrow> string" where
  "site_name_of v =
     (case v of Transparent t \<Rightarrow> tr_name t | Gateway_site g \<Rightarrow> gw_name g | Isolated_site i \<Rightarrow> is_name i | Invalid _ \<Rightarrow> [])"

definition site_connector_of :: "SiteValidation \<Rightarrow> ident" where
  "site_connector_of v =
     (case v of Transparent t \<Rightarrow> tr_connectorId t | Gateway_site g \<Rightarrow> gw_connectorId g
      | Isolated_site i \<Rightarrow> is_connectorId i | Invalid _ \<Rightarrow> [])"

definition insert_site :: "Site \<Rightarrow> db \<Rightarrow> db" where
  "insert_site r s = s\<lparr>sites := insert_row r (sites s)\<rparr>"

definition store_new_site ::
  "site_env \<Rightarrow> ctx \<Rightarrow> LogoUpdate \<Rightarrow> SiteValidation \<Rightarrow> db \<Rightarrow> db \<times> (nat \<times> string + ident)" where
  "store_new_site se cx logo v s =
     (let nid = cx_fresh cx; blank = new_site nid (cx_now cx) logo in
      case v of
        Transparent t \<Rightarrow>
          if se_taken se (tr_hostname t) \<or> hostname_used (tr_hostname t) nid s
          then (s, Inl (409, ''hostname_taken''))
          else (insert_site (set_transparent t (blank (tr_connectorId t) (tr_name t) (tr_description t))) s, Inr nid)
      | Isolated_site i \<Rightarrow>
          (insert_site (set_isolated i (blank (is_connectorId i) (is_name i) (is_description i))) s, Inr nid)
      | Gateway_site g \<Rightarrow>
          (case encrypt (se_cipher se) (cx_env cx) (opt_text (gw_secret g)) of
             None \<Rightarrow> (s, Inl (500, ''ENCRYPTION_KEY''))
           | Some sec \<Rightarrow>
               (let s1 = insert_site (set_gateway g (blank (gw_connectorId g) (gw_name g) (gw_description g))) s in
                (s1\<lparr>vaultCredentials := insert_row (gateway_vault nid g sec) (vaultCredentials s1)\<rparr>, Inr nid)))
      | Invalid e \<Rightarrow> (s, Inl (400, e)))"

text \<open>Status 500 stands for an exception that leaves the handler.\<close>

definition error_reply :: "nat \<times> string \<Rightarrow> 'a reply" where
  "error_reply e = (if fst e = 500 then Throw (snd e) else Err (fst e) (snd e))"

definition create_site_body :: "site_env \<Rightarrow> ctx \<Rightarrow> js \<Rightarrow> User \<Rightarrow> db \<Rightarrow> db \<times> ident reply" where
  "create_site_body se cx body admin s =
     (let v = validateSiteInput (se_web se) (site_options se cx True) body;
          logo = parseLogoUpload (se_base64 se) (body_field body ''logo'') (body_field body ''logoType'')
      in case v of
           Invalid e \<Rightarrow> (s, Err (invalid_status e) e)
         | _ \<Rightarrow>
             if assertWithinLimit (cx_envelope cx) maxSites (length (sites s)) \<noteq> None
             then (s, Err 409 ''limit_reached'')
             else if connector_by_id s (site_connector_of v) = None then (s, Err 400 ''connector_not_found'')
             else (case logo of
                     Bad_logo e \<Rightarrow> (s, Err 400 e)
                   | _ \<Rightarrow>
                       (case store_new_site se cx logo v s of
                          (s', Inl e) \<Rightarrow> (s', error_reply e)
                        | (s', Inr i) \<Rightarrow>
                            (audit cx admin ''resource.create'' ''resource'' (Some i)
                               (''Created resource '' @ quoted (site_name_of v)) JUndef s', Ok 200 i))))"

definition create_site :: "site_env \<Rightarrow> ctx \<Rightarrow> js \<Rightarrow> db \<Rightarrow> db \<times> ident reply" where
  "create_site se cx body =
     with_capability cx Configure (\<lambda>admin. with_body body (create_site_body se cx body admin))"


definition list_sites :: "ctx \<Rightarrow> db \<Rightarrow> db \<times> (Site \<times> Connector option) list reply" where
  "list_sites cx =
     with_capability cx Read_console (\<lambda>admin s.
       (s, Ok 200 (map (\<lambda>r. (r, connector_by_id s (site_connectorId r))) (order_desc site_createdAt (sites s)))))"

definition update_site :: "ident \<Rightarrow> (Site \<Rightarrow> Site) \<Rightarrow> db \<Rightarrow> db" where
  "update_site i f s = s\<lparr>sites := update_many (\<lambda>r. site_id r = i) f (sites s)\<rparr>"

definition with_logo :: "LogoUpdate \<Rightarrow> (Site \<Rightarrow> Site) \<Rightarrow> Site \<Rightarrow> Site" where
  "with_logo logo f r = (f r)\<lparr>site_logo := apply_logo logo (site_logo r)\<rparr>"

definition patch_transparent ::
  "site_env \<Rightarrow> ident \<Rightarrow> Site \<Rightarrow> LogoUpdate \<Rightarrow> TransparentSite \<Rightarrow> db \<Rightarrow> db \<times> (nat \<times> string + unit)" where
  "patch_transparent se i existing logo t s =
     (if se_taken se (tr_hostname t) \<or> hostname_used (tr_hostname t) i s then (s, Inl (409, ''hostname_taken''))
      else (update_site i (with_logo logo (\<lambda>r. (set_transparent t r)
              \<lparr>site_domainVerifiedAt :=
                 (if tr_customDomain t \<and> Some (tr_hostname t) = site_hostname existing
                  then site_domainVerifiedAt r else None)\<rparr>)) s, Inr ()))"

definition patch_isolated :: "ident \<Rightarrow> LogoUpdate \<Rightarrow> IsolatedSite \<Rightarrow> db \<Rightarrow> db" where
  "patch_isolated i logo v s = clearVaultCredential i (update_site i (with_logo logo (set_isolated v)) s)"

definition set_vault :: "GatewaySite \<Rightarrow> string option \<Rightarrow> VaultCredential \<Rightarrow> VaultCredential" where
  "set_vault v sec c =
     c\<lparr>v_protocol := gw_protocol v, v_targetHost := gw_targetHost v, v_targetPort := gw_targetPort v,
       v_username := gw_username v,
       v_secret := (case sec of Some t \<Rightarrow> t | None \<Rightarrow> v_secret c),
       v_guacParams := json_stored (guac_json (gw_guacParams v))\<rparr>"

definition patch_gateway ::
  "site_env \<Rightarrow> ctx \<Rightarrow> ident \<Rightarrow> LogoUpdate \<Rightarrow> GatewaySite \<Rightarrow> db \<Rightarrow> db \<times> (nat \<times> string + unit)" where
  "patch_gateway se cx i logo v s =
     (if \<not> has_vault i s \<and> gw_secret v = None then (s, Inl (400, ''remote_desktop_fields_required''))
      else (case encrypt (se_cipher se) (cx_env cx) (opt_text (gw_secret v)) of
              None \<Rightarrow> (s, Inl (500, ''ENCRYPTION_KEY''))
            | Some sec \<Rightarrow>
                (let s1 = update_site i (with_logo logo (set_gateway v)) s in
                 (s1\<lparr>vaultCredentials :=
                       (if has_vault i s
                        then update_many (\<lambda>c. v_siteId c = i)
                               (set_vault v (map_option (\<lambda>_. sec) (gw_secret v))) (vaultCredentials s1)
                        else insert_row (gateway_vault i v sec) (vaultCredentials s1))\<rparr>, Inr ()))))"

definition patch_stored ::
  "site_env \<Rightarrow> ctx \<Rightarrow> ident \<Rightarrow> Site \<Rightarrow> LogoUpdate \<Rightarrow> SiteValidation \<Rightarrow> db \<Rightarrow> db \<times> (nat \<times> string + unit)" where
  "patch_stored se cx i existing logo v s =
     (case v of
        Transparent t \<Rightarrow> patch_transparent se i existing logo t s
      | Isolated_site x \<Rightarrow> (patch_isolated i logo x s, Inr ())
      | Gateway_site g \<Rightarrow> patch_gateway se cx i logo g s
      | Invalid e \<Rightarrow> (s, Inl (400, e)))"

definition patch_site_body :: "site_env \<Rightarrow> ctx \<Rightarrow> ident \<Rightarrow> js \<Rightarrow> User \<Rightarrow> db \<Rightarrow> db \<times> unit reply" where
  "patch_site_body se cx i body admin s =
     (let v = validateSiteInput (se_web se) (site_options se cx False) body;
          logo = parseLogoUpload (se_base64 se) (body_field body ''logo'') (body_field body ''logoType'')
      in case v of
           Invalid e \<Rightarrow> (s, Err (invalid_status e) e)
         | _ \<Rightarrow>
             if connector_by_id s (site_connector_of v) = None then (s, Err 400 ''connector_not_found'')
             else (case site_by_id s i of
                     None \<Rightarrow> (s, Err 404 ''not_found'')
                   | Some existing \<Rightarrow>
                       (case logo of
                          Bad_logo e \<Rightarrow> (s, Err 400 e)
                        | _ \<Rightarrow>
                            (case patch_stored se cx i existing logo v s of
                               (s', Inl e) \<Rightarrow> (s', error_reply e)
                             | (s', Inr _) \<Rightarrow>
                                 (audit cx admin ''resource.update'' ''resource'' (Some i)
                                    (''Updated resource '' @ quoted (site_name_of v)) JUndef s', Ok 200 ())))))"

definition patch_site :: "site_env \<Rightarrow> ctx \<Rightarrow> ident \<Rightarrow> js \<Rightarrow> db \<Rightarrow> db \<times> unit reply" where
  "patch_site se cx i body =
     with_capability cx Configure (\<lambda>admin. with_body body (patch_site_body se cx i body admin))"

definition delete_site :: "ctx \<Rightarrow> ident \<Rightarrow> db \<Rightarrow> db \<times> unit reply" where
  "delete_site cx i =
     with_capability cx Configure (\<lambda>admin s.
       if site_by_id s i = None then (s, Err 404 ''not_found'')
       else (audit cx admin ''resource.delete'' ''resource'' (Some i) (''Deleted resource '' @ i) JUndef
               (delete_site_rows [i] s), Ok 200 ()))"

text \<open>\<^verbatim>\<open>String(v)\<close> and \<^verbatim>\<open>Number(v)\<close> of a JSON value; a member named \<^verbatim>\<open>toString\<close> shadows the
  method and makes the conversion throw (\<open>None\<close>).\<close>

fun js_text :: "js \<Rightarrow> string option" where
  "js_text JUndef = Some ''undefined''"
| "js_text JNull = Some ''null''"
| "js_text (JBool b) = Some (if b then ''true'' else ''false'')"
| "js_text (JNum n) = Some (json_num n)"
| "js_text (JStr t) = Some t"
| "js_text (JArr vs) =
     map_option (join_with '','') (those (map (\<lambda>v. if v = JNull \<or> v = JUndef then Some [] else js_text v) vs))"
| "js_text (JObj ms) = (if has_key ms ''toString'' then None else Some ''[object Object]'')"

definition js_number :: "js \<Rightarrow> jnum option" where
  "js_number v =
     (case v of
        JUndef \<Rightarrow> Some NNaN
      | JNull \<Rightarrow> Some (NInt 0)
      | JBool b \<Rightarrow> Some (NInt (if b then 1 else 0))
      | JNum n \<Rightarrow> Some n
      | _ \<Rightarrow> map_option number_of_string (js_text v))"

definition secret_kind_of :: "string \<Rightarrow> VaultSecretKind option" where
  "secret_kind_of t = (if t = ''PASSWORD'' then Some PASSWORD else if t = ''KEY'' then Some KEY else None)"

definition vault_kind_text :: "js \<Rightarrow> string option" where
  "vault_kind_text v = (if v = JUndef \<or> v = JNull then Some ''PASSWORD'' else js_text v)"

definition vault_input :: "ident \<Rightarrow> js \<Rightarrow> string \<Rightarrow> string \<Rightarrow> jnum \<Rightarrow> string + VaultInput" where
  "vault_input i b protocol kind port =
     (let host = text_of b ''targetHost''; user = text_of b ''username''; secret = raw_text_of b ''secret'' in
      case (protocol_of protocol, secret_kind_of kind) of
        (Some p, Some k) \<Rightarrow>
          (case valid_port port of
             None \<Rightarrow> Inl ''invalid_fields''
           | Some n \<Rightarrow>
               if host = [] \<or> user = [] \<or> secret = [] then Inl ''invalid_fields''
               else Inr \<lparr>vi_siteId = i, vi_protocol = p, vi_targetHost = host, vi_targetPort = n,
                         vi_username = user, vi_secret = secret, vi_secretKind = k,
                         vi_guacParams = parseGuacParams (body_field b ''guacParams'')\<rparr>)
      | _ \<Rightarrow> Inl ''invalid_protocol'')"

definition put_vault_body :: "cipher \<Rightarrow> ctx \<Rightarrow> ident \<Rightarrow> js \<Rightarrow> User \<Rightarrow> db \<Rightarrow> db \<times> unit reply" where
  "put_vault_body C cx i b admin s =
     (case (js_text (body_field b ''protocol''), vault_kind_text (body_field b ''secretKind''),
            js_number (body_field b ''targetPort'')) of
        (Some protocol, Some kind, Some port) \<Rightarrow>
          (case vault_input i b protocol kind port of
             Inl e \<Rightarrow> (s, Err 400 e)
           | Inr input \<Rightarrow>
               (case setVaultCredential C (cx_env cx) input s of
                  (s', Inl e) \<Rightarrow> (s', Throw e)
                | (s', Inr _) \<Rightarrow>
                    (audit cx admin ''resource.vault_update'' ''resource'' (Some i)
                       (''Updated vault credential for resource '' @ i) JUndef s', Ok 200 ())))
      | _ \<Rightarrow> (s, Throw ''TypeError''))"

definition put_vault :: "cipher \<Rightarrow> ctx \<Rightarrow> ident \<Rightarrow> js \<Rightarrow> db \<Rightarrow> db \<times> unit reply" where
  "put_vault C cx i b =
     with_capability cx Configure (\<lambda>admin s.
       if \<not> vaultEnabled (cx_env cx) \<or> \<not> capabilityAllowed (cx_env cx) (cx_envelope cx) Vault
       then (s, Err 403 ''vault_disabled'')
       else with_body b (put_vault_body C cx i b admin) s)"

definition delete_vault :: "ctx \<Rightarrow> ident \<Rightarrow> db \<Rightarrow> db \<times> unit reply" where
  "delete_vault cx i =
     with_capability cx Configure (\<lambda>admin s.
       (audit cx admin ''resource.vault_update'' ''resource'' (Some i)
          (''Cleared vault credential for resource '' @ i) JUndef (clearVaultCredential i s), Ok 200 ()))"

datatype verify_reply = Undetermined | Verified VerifyStatus string "string option"

definition verify_domain ::
  "web \<Rightarrow> (string \<Rightarrow> string list) \<Rightarrow> ctx \<Rightarrow> ident \<Rightarrow> db \<Rightarrow> db \<times> verify_reply reply" where
  "verify_domain w dns cx i =
     with_capability cx Configure (\<lambda>admin s.
       case Option.bind (site_by_id s i) (\<lambda>r.
              if site_accessMode r = TRANSPARENT \<and> site_customDomain r then or_null (site_hostname r) else None) of
         None \<Rightarrow> (s, Err 400 ''not_custom_domain'')
       | Some hostname \<Rightarrow>
           (case or_null (expectedServerIp w (cx_env cx) dns) of
              None \<Rightarrow> (s, Ok 200 Undetermined)
            | Some expected \<Rightarrow>
                (let resolved = dns hostname; status = classifyVerify expected resolved in
                 (if status = V_ok
                  then update_site i (\<lambda>r. r\<lparr>site_domainVerifiedAt := Some (cx_now cx)\<rparr>) s else s,
                  Ok 200 (Verified status expected (case resolved of [] \<Rightarrow> None | ip # _ \<Rightarrow> Some ip))))))"


section \<open>Stored parameters\<close>

lemma map_of_stored_member [simp]:
  "map_of (stored_member k f v) j = (if j = k then map_option f v else None)"
  by (cases v) (simp_all add: stored_member_def)

definition guac_ok :: "GuacParams \<Rightarrow> bool" where
  "guac_ok p \<longleftrightarrow>
     (\<forall>t. gp_serverLayout p = Some t \<longrightarrow> t \<in> set LAYOUTS) \<and>
     (\<forall>n. gp_colorDepth p = Some n \<longrightarrow> n \<in> set DEPTHS) \<and>
     (\<forall>t. gp_sftpRoot p = Some t \<longrightarrow> absolute_path t \<and> trim t = t) \<and>
     (\<forall>t. gp_rdpSecurity p = Some t \<longrightarrow> t \<in> set RDP_SECURITY) \<and>
     (\<forall>n. gp_terminalFontSize p = Some n \<longrightarrow> 8 \<le> n \<and> n \<le> 32) \<and>
     (\<forall>t. gp_terminalColorScheme p = Some t \<longrightarrow> t \<in> set SCHEMES) \<and>
     (\<forall>n. gp_terminalScrollback p = Some n \<longrightarrow> 100 \<le> n \<and> n \<le> 100000)"

lemma int_between_bounds: "int_between lo hi v = Some n \<Longrightarrow> lo \<le> n \<and> n \<le> hi"
  by (auto simp: int_between_def split: js.splits jnum.splits if_splits)

lemma listed_text_in: "listed_text xs v = Some t \<Longrightarrow> t \<in> set xs"
  by (auto simp: listed_text_def split: js.splits if_splits)

lemma sftp_root_ok: "sftp_root v = Some t \<Longrightarrow> absolute_path t \<and> trim t = t"
  by (auto simp: sftp_root_def Let_def split: js.splits if_splits)

lemma parsed_guac_ok: "guac_ok (parseGuacParams v)"
  by (cases v)
     (auto simp: guac_ok_def parseGuacParams_def no_params_def
       dest: listed_text_in int_between_bounds sftp_root_ok split: js.splits jnum.splits if_splits)

lemma field_concat:
  "field (a @ b) k = (case map_of a k of None \<Rightarrow> field b k | Some v \<Rightarrow> v)"
  by (simp add: field_def map_of_append map_add_def split: option.splits)


lemma map_of_flags:
  "map_of (concat (map (\<lambda>k. stored_member (flag_name k) JBool (f k)) BOOL_KEYS)) (flag_name k) =
     map_option JBool (f k)"
  by (cases k) (simp_all add: BOOL_KEYS_def map_of_append map_add_def split: option.splits)

lemma map_of_not_flag:
  assumes "j \<notin> range flag_name"
  shows "map_of (concat (map (\<lambda>k. stored_member (flag_name k) JBool (f k)) ks)) j = None"
  using assms by (induction ks) (auto simp: map_of_append map_add_def)

lemma not_flag [simp]:
  "''serverLayout'' \<notin> range flag_name" "''colorDepth'' \<notin> range flag_name" "''sftpRoot'' \<notin> range flag_name"
  "''rdpSecurity'' \<notin> range flag_name" "''terminalFontSize'' \<notin> range flag_name"
  "''terminalColorScheme'' \<notin> range flag_name" "''terminalScrollback'' \<notin> range flag_name"
proof -
  have "x \<in> range flag_name \<Longrightarrow> x \<in> flag_name ` set BOOL_KEYS" for x
  proof (erule rangeE)
    fix k assume "x = flag_name k"
    then show "x \<in> flag_name ` set BOOL_KEYS" by (cases k) (simp_all add: BOOL_KEYS_def)
  qed
  then show "''serverLayout'' \<notin> range flag_name" "''colorDepth'' \<notin> range flag_name" "''sftpRoot'' \<notin> range flag_name"
    "''rdpSecurity'' \<notin> range flag_name" "''terminalFontSize'' \<notin> range flag_name"
    "''terminalColorScheme'' \<notin> range flag_name" "''terminalScrollback'' \<notin> range flag_name"
    by (fastforce simp: BOOL_KEYS_def)+
qed

lemma flag_name_neq [simp]:
  "flag_name k \<noteq> ''serverLayout''" "flag_name k \<noteq> ''colorDepth''" "flag_name k \<noteq> ''sftpRoot''"
  "flag_name k \<noteq> ''rdpSecurity''" "flag_name k \<noteq> ''terminalFontSize''"
  "flag_name k \<noteq> ''terminalColorScheme''" "flag_name k \<noteq> ''terminalScrollback''"
  by (cases k; simp)+

lemma stored_values:
  "(k, v) \<in> set (stored_member j f x) \<Longrightarrow> v \<in> f ` set_option x"
  by (cases x) (auto simp: stored_member_def)

lemma guac_json_stored: "json_stored (guac_json p) = guac_json p"
proof -
  have keep: "json_stored (JObj ms) = JObj ms" if "\<forall>(k, v) \<in> set ms. v \<noteq> JUndef \<and> json_stored v = v" for ms
    using that by (induction ms) auto
  show ?thesis
    unfolding guac_json_def
    by (rule keep) (auto dest!: stored_values)
qed

lemma guac_field:
  "guac_json p = JObj ob \<Longrightarrow> field ob ''serverLayout'' = (case gp_serverLayout p of None \<Rightarrow> JUndef | Some t \<Rightarrow> JStr t)"
  "guac_json p = JObj ob \<Longrightarrow> field ob ''colorDepth'' = (case gp_colorDepth p of None \<Rightarrow> JUndef | Some n \<Rightarrow> JNum (NInt n))"
  "guac_json p = JObj ob \<Longrightarrow> field ob (flag_name k) = (case gp_flags p k of None \<Rightarrow> JUndef | Some b \<Rightarrow> JBool b)"
  "guac_json p = JObj ob \<Longrightarrow> field ob ''sftpRoot'' = (case gp_sftpRoot p of None \<Rightarrow> JUndef | Some t \<Rightarrow> JStr t)"
  "guac_json p = JObj ob \<Longrightarrow> field ob ''rdpSecurity'' = (case gp_rdpSecurity p of None \<Rightarrow> JUndef | Some t \<Rightarrow> JStr t)"
  "guac_json p = JObj ob \<Longrightarrow> field ob ''terminalFontSize'' = (case gp_terminalFontSize p of None \<Rightarrow> JUndef | Some n \<Rightarrow> JNum (NInt n))"
  "guac_json p = JObj ob \<Longrightarrow> field ob ''terminalColorScheme'' = (case gp_terminalColorScheme p of None \<Rightarrow> JUndef | Some t \<Rightarrow> JStr t)"
  "guac_json p = JObj ob \<Longrightarrow> field ob ''terminalScrollback'' = (case gp_terminalScrollback p of None \<Rightarrow> JUndef | Some n \<Rightarrow> JNum (NInt n))"
  unfolding guac_json_def js.inject
  by (hypsubst, simp add: field_def map_of_append map_add_def map_of_not_flag map_of_flags split: option.split)+

lemma parse_guac_json:
  assumes ok: "guac_ok p"
  shows "parseGuacParams (guac_json p) = p"
proof -
  obtain ob where ob: "guac_json p = JObj ob" by (simp add: guac_json_def)
  have "gp_flags (parseGuacParams (guac_json p)) = gp_flags p"
    by (rule ext) (simp add: parseGuacParams_def ob guac_field [OF ob] split: option.split)
  moreover have "gp_serverLayout (parseGuacParams (guac_json p)) = gp_serverLayout p"
      "gp_rdpSecurity (parseGuacParams (guac_json p)) = gp_rdpSecurity p"
      "gp_terminalColorScheme (parseGuacParams (guac_json p)) = gp_terminalColorScheme p"
    using ok by (simp_all add: parseGuacParams_def ob guac_field [OF ob] listed_text_def guac_ok_def split: option.split)
  moreover have "gp_colorDepth (parseGuacParams (guac_json p)) = gp_colorDepth p"
      "gp_terminalFontSize (parseGuacParams (guac_json p)) = gp_terminalFontSize p"
      "gp_terminalScrollback (parseGuacParams (guac_json p)) = gp_terminalScrollback p"
    using ok by (simp_all add: parseGuacParams_def ob guac_field [OF ob] int_between_def guac_ok_def split: option.split)
  moreover have "gp_sftpRoot (parseGuacParams (guac_json p)) = gp_sftpRoot p"
    using ok by (simp add: parseGuacParams_def ob guac_field [OF ob] sftp_root_def guac_ok_def split: option.split)
  ultimately show ?thesis by simp
qed

text \<open>Connection parameters survive storage: whatever JSON value an administrator submits, parsing the
  parameters back from the column they were stored in gives exactly the parameters that were accepted, so the
  allow-list is a fixed point and no accepted setting is lost or reinterpreted.\<close>
theorem guac_params_round_trip:
  "parseGuacParams (json_stored (guac_json (parseGuacParams v))) = parseGuacParams v"
  by (simp add: guac_json_stored parse_guac_json parsed_guac_ok)


section \<open>Gateway arguments\<close>

definition GUAC_ARGS :: "string list" where
  "GUAC_ARGS = [''server-layout'', ''color-depth'', ''enable-wallpaper'', ''enable-theming'',
     ''enable-font-smoothing'', ''enable-full-window-drag'', ''disable-copy'', ''disable-paste'', ''security'',
     ''disable-audio'', ''enable-printing'', ''printer-name'', ''font-size'', ''color-scheme'', ''scrollback'',
     ''enable-drive'', ''create-drive-path'', ''drive-name'', ''disable-upload'', ''disable-download'',
     ''enable-sftp'', ''sftp-root-directory'', ''sftp-disable-upload'', ''sftp-disable-download'']"

lemma arg_keys:
  "fst ` set (arg_text k v) \<subseteq> {k}" "fst ` set (arg_int k n) \<subseteq> {k}" "fst ` set (arg_on k b) \<subseteq> {k}"
  by (auto simp: arg_text_def arg_int_def arg_on_def split: option.splits if_splits)

lemma guac_args_allowed: "fst ` set (toGuacArgs p clip protocol username) \<subseteq> set GUAC_ARGS"
  unfolding toGuacArgs_def transfer_args_def GUAC_ARGS_def
  by (cases protocol)
     (auto dest!: subsetD [OF arg_keys(1), OF imageI] subsetD [OF arg_keys(2), OF imageI]
        subsetD [OF arg_keys(3), OF imageI])

text \<open>The connection itself is never a site parameter: no argument names the target or its credential.\<close>

lemma guac_args_never_retarget:
  "(k, x) \<in> set (toGuacArgs p clip protocol username) \<Longrightarrow>
     k \<notin> {''hostname'', ''port'', ''username'', ''password'', ''private-key'', ''recording-path''}"
  using subsetD [OF guac_args_allowed imageI, of "(k, x)" p clip protocol username]
  by (auto simp: GUAC_ARGS_def)

section \<open>Managed host names\<close>

lemma SLUG_RE_no_dot: "SLUG_RE t \<Longrightarrow> CHR ''.'' \<notin> set t"
  by (auto simp: SLUG_RE_def is_lower_alnum_def is_lower_def is_digit_def list_all_iff)

lemma managed_hostname_cases:
  assumes "site_hostname_of body (Some (CHR ''.'' # rest)) = Some h"
    and "body_field body ''customDomain'' \<noteq> JBool True"
  obtains label where "SLUG_RE label" "h = label @ CHR ''.'' # rest"
  using assms by (auto simp: site_hostname_of_def or_null_def Let_def split: if_splits)

lemma append_cons_unique:
  "a @ c # x = b @ c # y \<Longrightarrow> c \<notin> set a \<Longrightarrow> c \<notin> set b \<Longrightarrow> a = b \<and> x = y"
  by (induction a arbitrary: b) (auto simp: Cons_eq_append_conv append_eq_Cons_conv)

text \<open>On the multi-tenant platform two tenants can never be given the same managed host name: a name built
  from a label submitted by one tenant and its own suffix differs from every name built for a tenant with another
  slug, whatever labels are chosen.\<close>
theorem managed_hostnames_disjoint:
  assumes "multiTenantEnabled env" and "consoleDomain (url_hostname_of w) env = Some d" and "d \<noteq> []"
    and "a \<noteq> b" and "a \<noteq> []" and "b \<noteq> []"
    and "body_field body ''customDomain'' \<noteq> JBool True" and "body_field body' ''customDomain'' \<noteq> JBool True"
    and "site_hostname_of body (siteHostSuffix w env (Some a)) = Some h"
    and "site_hostname_of body' (siteHostSuffix w env (Some b)) = Some h'"
  shows "h \<noteq> h'"
proof
  assume eq: "h = h'"
  have suffixes: "siteHostSuffix w env (Some x) = Some (CHR ''.'' # x @ CHR ''.'' # d)" if "x \<noteq> []" for x
    using assms(1,2,3) that by (simp add: siteHostSuffix_def or_null_def Let_def)
  obtain l where l: "SLUG_RE l" "h = l @ CHR ''.'' # a @ CHR ''.'' # d"
    using assms(5,7,9) by (auto simp: suffixes elim: managed_hostname_cases)
  obtain l' where l': "SLUG_RE l'" "h' = l' @ CHR ''.'' # b @ CHR ''.'' # d"
    using assms(6,8,10) by (auto simp: suffixes elim: managed_hostname_cases)
  have "l @ CHR ''.'' # (a @ CHR ''.'' # d) = l' @ CHR ''.'' # (b @ CHR ''.'' # d)"
    using eq l(2) l'(2) by simp
  then have "a @ CHR ''.'' # d = b @ CHR ''.'' # d"
    by (rule conjunct2 [OF append_cons_unique [OF _ SLUG_RE_no_dot [OF l(1)] SLUG_RE_no_dot [OF l'(1)]]])
  then show False using assms(4) by simp
qed


definition ex_cloud_env :: env where
  "ex_cloud_env = [''MULTI_TENANT'' \<mapsto> ''true'', ''CONSOLE_DOMAIN'' \<mapsto> ''c.io'']"

definition no_web :: web where
  "no_web = \<lparr>w_parse = (\<lambda>_. None), w_protocol = [], w_origin = []\<rparr>"

definition host_body :: "bool \<Rightarrow> string \<Rightarrow> js" where
  "host_body custom h = JObj [(''hostname'', JStr h), (''customDomain'', JBool custom)]"

lemma ex_suffix:
  "multiTenantEnabled ex_cloud_env" "consoleDomain (url_hostname_of no_web) ex_cloud_env = Some ''c.io''"
  "siteHostSuffix no_web ex_cloud_env (Some ''acme'') = Some ''.acme.c.io''"
  "siteHostSuffix no_web ex_cloud_env (Some ''evil'') = Some ''.evil.c.io''"
  "site_hostname_of (host_body False ''wiki'') (Some ''.acme.c.io'') = Some ''wiki.acme.c.io''"
  "site_hostname_of (host_body False ''wiki'') (Some ''.evil.c.io'') = Some ''wiki.evil.c.io''"
  "site_hostname_of (host_body True ''wiki.acme.c.io'') (Some ''.evil.c.io'') = Some ''wiki.acme.c.io''"
  "body_field (host_body False h) ''customDomain'' = JBool False"
  by code_simp+

theorem managed_hostnames_disjoint_witness:
  "multiTenantEnabled ex_cloud_env \<and>
   site_hostname_of (host_body False ''wiki'') (siteHostSuffix no_web ex_cloud_env (Some ''acme'')) = Some ''wiki.acme.c.io'' \<and>
   site_hostname_of (host_body False ''wiki'') (siteHostSuffix no_web ex_cloud_env (Some ''evil'')) = Some ''wiki.evil.c.io'' \<and>
   ''wiki.acme.c.io'' \<noteq> ''wiki.evil.c.io''"
  using managed_hostnames_disjoint [of ex_cloud_env no_web "''c.io''" "''acme''" "''evil''" "host_body False ''wiki''"
      "host_body False ''wiki''" "''wiki.acme.c.io''" "''wiki.evil.c.io''"]
  by (simp add: ex_suffix)

text \<open>The separation covers managed names only: a name submitted as a custom domain is taken verbatim, so one
  tenant can register a name inside the namespace of another before that tenant uses it.\<close>

lemma custom_domain_enters_foreign_namespace:
  "site_hostname_of (host_body True ''wiki.acme.c.io'') (siteHostSuffix no_web ex_cloud_env (Some ''evil'')) =
   site_hostname_of (host_body False ''wiki'') (siteHostSuffix no_web ex_cloud_env (Some ''acme''))"
  by (simp add: ex_suffix)

section \<open>Credentials at rest\<close>

lemma vault_row_insert:
  assumes "\<not> has_vault (v_siteId c) s"
  shows "vault_row (v_siteId c) (s\<lparr>vaultCredentials := insert_row c (vaultCredentials s)\<rparr>) = Some c"
proof -
  have "\<forall>v \<in> set t. v_siteId v \<noteq> i \<Longrightarrow> v_siteId c = i \<Longrightarrow>
      find_first (\<lambda>v. v_siteId v = i) (insert_row c t) = Some c" for t i
    by (induction t) (auto simp: find_first_def insert_row_def)
  then show ?thesis using assms by (simp add: vault_row_def has_vault_def count_rows_0)
qed

lemma vault_row_update:
  "has_vault i s \<Longrightarrow> v_siteId c = i \<Longrightarrow>
     vault_row i (s\<lparr>vaultCredentials := update_many (\<lambda>v. v_siteId v = i) (\<lambda>_. c) (vaultCredentials s)\<rparr>) = Some c"
proof -
  have "count_rows (\<lambda>v. v_siteId v = i) t > 0 \<Longrightarrow> v_siteId c = i \<Longrightarrow>
      find_first (\<lambda>v. v_siteId v = i) (update_many (\<lambda>v. v_siteId v = i) (\<lambda>_. c) t) = Some c" for t
    by (induction t) (auto simp: find_first_def update_many_def count_rows_def)
  then show "has_vault i s \<Longrightarrow> v_siteId c = i \<Longrightarrow> ?thesis" by (simp add: vault_row_def has_vault_def)
qed

lemma upsert_vault_stores:
  assumes "site_by_id s (v_siteId row) \<noteq> None"
  obtains s' where "upsert_vault row s = (s', Inr ())" "vault_row (v_siteId row) s' = Some row"
  using assms
  by (cases "has_vault (v_siteId row) s") (auto simp: upsert_vault_def vault_row_insert vault_row_update)


text \<open>Reconfiguring a remote desktop as an isolated browser drops its credential; reconfiguring it as a proxied
  web application leaves the credential row in place.\<close>

lemma isolated_switch_drops_credential: "\<not> has_vault i (patch_isolated i logo v s)"
  by (simp add: has_vault_def patch_isolated_def clearVaultCredential_def count_rows_0)

lemma transparent_switch_keeps_credential:
  "has_vault j (fst (patch_transparent se i existing logo t s)) = has_vault j s"
  by (simp add: patch_transparent_def has_vault_def update_site_def)


definition ex_cipher :: cipher where
  "ex_cipher = \<lparr>gcm_seal = (\<lambda>k t. rev t @ ''!''), gcm_open = (\<lambda>k p. Some (rev (butlast p)))\<rparr>"

definition ex_key_env :: env where
  "ex_key_env = [''ENCRYPTION_KEY'' \<mapsto> replicate 64 CHR ''a'']"

definition ex_vault_input :: VaultInput where
  "ex_vault_input = \<lparr>vi_siteId = ''w1'', vi_protocol = SSH, vi_targetHost = '' 10.0.0.5 '', vi_targetPort = 22,
     vi_username = ''root'', vi_secret = ''pw'', vi_secretKind = PASSWORD, vi_guacParams = no_params\<rparr>"

definition ex_site_db :: db where
  "ex_site_db = empty_db\<lparr>sites := [ex_site\<lparr>site_id := ''w1''\<rparr>]\<rparr>"


section \<open>Integrity of the site tables\<close>

definition one_hostname :: "Site list \<Rightarrow> bool" where
  "one_hostname rs \<longleftrightarrow>
     (\<forall>r \<in> set rs. \<forall>r' \<in> set rs. \<forall>h. site_hostname r = Some h \<longrightarrow> site_hostname r' = Some h \<longrightarrow> site_id r = site_id r')"

definition sites_wf :: "db \<Rightarrow> bool" where
  "sites_wf s \<longleftrightarrow>
     distinct (map site_id (sites s)) \<and> one_hostname (sites s) \<and>
     distinct (map v_siteId (vaultCredentials s)) \<and>
     v_siteId ` set (vaultCredentials s) \<subseteq> site_id ` set (sites s) \<and>
     site_connectorId ` set (sites s) \<subseteq> c_id ` set (connectors s)"

lemma sites_wf_frame:
  "sites s' = sites s \<Longrightarrow> vaultCredentials s' = vaultCredentials s \<Longrightarrow> connectors s' = connectors s \<Longrightarrow>
     sites_wf s' = sites_wf s"
  by (simp add: sites_wf_def)

interpretation site_tables: guarded_invariant sites_wf
  by unfold_locales (simp_all add: sites_wf_def)

lemma hostname_free:
  "\<not> hostname_used h i s \<longleftrightarrow> (\<forall>r \<in> set (sites s). site_hostname r = Some h \<longrightarrow> site_id r = i)"
  by (auto simp: hostname_used_def list_ex_iff)

lemma hostname_freeD:
  "\<not> hostname_used h i s \<Longrightarrow> r \<in> set (sites s) \<Longrightarrow> site_hostname r = Some h \<Longrightarrow> site_id r = i"
  by (simp add: hostname_free)

lemma one_hostnameD:
  "one_hostname rs \<Longrightarrow> r \<in> set rs \<Longrightarrow> r' \<in> set rs \<Longrightarrow> site_hostname r = Some h \<Longrightarrow> site_hostname r' = Some h \<Longrightarrow>
     site_id r = site_id r'"
  unfolding one_hostname_def by blast

lemma sites_wf_hostname: "sites_wf s \<Longrightarrow> one_hostname (sites s)"
  by (simp add: sites_wf_def)

lemma insert_site_wf:
  assumes "sites_wf s" and "site_id r \<notin> site_id ` set (sites s)"
    and "\<And>h. site_hostname r = Some h \<Longrightarrow> \<not> hostname_used h (site_id r) s"
    and "site_connectorId r \<in> c_id ` set (connectors s)"
  shows "sites_wf (insert_site r s)"
proof -
  have "one_hostname (sites s @ [r])"
    unfolding one_hostname_def
  proof (intro ballI allI impI)
    fix x y h
    assume x: "x \<in> set (sites s @ [r])" "site_hostname x = Some h"
      and y: "y \<in> set (sites s @ [r])" "site_hostname y = Some h"
    note old = one_hostnameD [OF sites_wf_hostname [OF assms(1)]]
    note new = hostname_freeD [OF assms(3)]
    consider "x = r" "y = r" | "x = r" "y \<in> set (sites s)" | "x \<in> set (sites s)" "y = r"
      | "x \<in> set (sites s)" "y \<in> set (sites s)"
      using x(1) y(1) by auto
    then show "site_id x = site_id y"
      by cases (use x(2) y(2) old [of x y h] new [of h x] new [of h y] in simp_all)
  qed
  then show ?thesis
    using assms(1,2,4) by (auto simp: sites_wf_def insert_site_def insert_row_def)
qed

lemma update_site_wf:
  assumes "sites_wf s" and "\<And>r. site_id (f r) = site_id r"
    and "\<And>r h. r \<in> set (sites s) \<Longrightarrow> site_id r = i \<Longrightarrow> site_hostname (f r) = Some h \<Longrightarrow> \<not> hostname_used h i s"
    and "\<And>r. r \<in> set (sites s) \<Longrightarrow> site_id r = i \<Longrightarrow> site_connectorId (f r) \<in> c_id ` set (connectors s)"
  shows "sites_wf (update_site i f s)"
proof -
  have ids: "map site_id (update_many (\<lambda>r. site_id r = i) f (sites s)) = map site_id (sites s)"
    by (rule map_update_many) (simp add: assms(2))
  then have idset: "site_id ` set (update_many (\<lambda>r. site_id r = i) f (sites s)) = site_id ` set (sites s)"
    by (metis set_map)
  have "one_hostname (update_many (\<lambda>r. site_id r = i) f (sites s))"
    unfolding one_hostname_def
  proof (intro ballI allI impI)
    fix x y h
    assume x: "x \<in> set (update_many (\<lambda>r. site_id r = i) f (sites s))" "site_hostname x = Some h"
      and y: "y \<in> set (update_many (\<lambda>r. site_id r = i) f (sites s))" "site_hostname y = Some h"
    obtain r where r: "r \<in> set (sites s)" "x = (if site_id r = i then f r else r)"
      using x(1) by (auto simp: update_many_def)
    obtain r' where r': "r' \<in> set (sites s)" "y = (if site_id r' = i then f r' else r')"
      using y(1) by (auto simp: update_many_def)
    note old = one_hostnameD [OF sites_wf_hostname [OF assms(1)], of r r' h]
    note new = hostname_freeD [OF assms(3) [OF r(1)], of h r'] hostname_freeD [OF assms(3) [OF r'(1)], of h r]
    consider "site_id r = i" "site_id r' = i" | "site_id r = i" "site_id r' \<noteq> i"
      | "site_id r \<noteq> i" "site_id r' = i" | "site_id r \<noteq> i" "site_id r' \<noteq> i"
      by blast
    then show "site_id x = site_id y"
      by cases (use r r' x(2) y(2) old new assms(2) in simp_all)
  qed
  moreover have "site_connectorId ` set (update_many (\<lambda>r. site_id r = i) f (sites s)) \<subseteq> c_id ` set (connectors s)"
    using assms(1,4) by (auto simp: sites_wf_def update_many_def)
  ultimately show ?thesis using assms(1) ids idset by (simp add: sites_wf_def update_site_def)
qed

lemma insert_vault_wf:
  assumes "sites_wf s" and "\<not> has_vault (v_siteId c) s" and "v_siteId c \<in> site_id ` set (sites s)"
  shows "sites_wf (s\<lparr>vaultCredentials := insert_row c (vaultCredentials s)\<rparr>)"
  using assms by (auto simp: sites_wf_def has_vault_def count_rows_0 insert_row_def)

lemma update_vault_wf:
  assumes "sites_wf s" and "\<And>c. v_siteId c = i \<Longrightarrow> v_siteId (f c) = i"
  shows "sites_wf (s\<lparr>vaultCredentials := update_many (\<lambda>c. v_siteId c = i) f (vaultCredentials s)\<rparr>)"
proof -
  have ids: "map v_siteId (update_many (\<lambda>c. v_siteId c = i) f (vaultCredentials s)) = map v_siteId (vaultCredentials s)"
    by (simp add: update_many_def assms(2))
  then have "v_siteId ` set (update_many (\<lambda>c. v_siteId c = i) f (vaultCredentials s)) = v_siteId ` set (vaultCredentials s)"
    by (metis set_map)
  with ids assms(1) show ?thesis by (simp add: sites_wf_def)
qed

lemma distinct_delete_many: "distinct (map f t) \<Longrightarrow> distinct (map f (delete_many p t))"
  by (simp add: delete_many_def distinct_map_filter)

lemma clear_vault_wf: "sites_wf s \<Longrightarrow> sites_wf (clearVaultCredential i s)"
  by (auto simp: sites_wf_def clearVaultCredential_def distinct_delete_many)

lemma delete_sites_wf: "sites_wf s \<Longrightarrow> sites_wf (delete_site_rows is s)"
  by (auto simp: sites_wf_def delete_site_rows_def distinct_delete_many one_hostname_def)


lemma connector_by_id_in: "connector_by_id s i \<noteq> None \<Longrightarrow> i \<in> c_id ` set (connectors s)"
  by (auto simp: connector_by_id_def find_first_None)

lemma site_by_id_in: "site_by_id s i \<noteq> None \<Longrightarrow> i \<in> site_id ` set (sites s)"
  by (auto simp: site_by_id_def find_first_None)

lemma vault_needs_site: "sites_wf s \<Longrightarrow> i \<notin> site_id ` set (sites s) \<Longrightarrow> \<not> has_vault i s"
  by (auto simp: sites_wf_def has_vault_def count_rows_0)

lemma update_site_ids:
  assumes "\<And>r. site_id (f r) = site_id r"
  shows "site_id ` set (sites (update_site i f s)) = site_id ` set (sites s)"
proof -
  have "map site_id (sites (update_site i f s)) = map site_id (sites s)"
    using map_update_many [of site_id f] assms by (simp add: update_site_def)
  then show ?thesis by (metis set_map)
qed

lemma store_new_site_wf:
  assumes wf: "sites_wf s" and fresh: "cx_fresh cx \<notin> site_id ` set (sites s)"
    and conn: "connector_by_id s (site_connector_of v) \<noteq> None"
    and run: "store_new_site se cx logo v s = (s', r)"
  shows "sites_wf s'"
proof (cases v)
  case (Transparent t)
  have "sites_wf (insert_site (set_transparent t (new_site (cx_fresh cx) (cx_now cx) logo (tr_connectorId t)
      (tr_name t) (tr_description t))) s)" if "\<not> hostname_used (tr_hostname t) (cx_fresh cx) s"
    by (rule insert_site_wf [OF wf])
       (use that fresh connector_by_id_in [OF conn] Transparent in
        \<open>simp_all add: set_transparent_def new_site_def site_connector_of_def\<close>)
  then show ?thesis using run wf Transparent by (auto simp: store_new_site_def Let_def split: if_splits)
next
  case (Isolated_site i)
  have "sites_wf (insert_site (set_isolated i (new_site (cx_fresh cx) (cx_now cx) logo (is_connectorId i)
      (is_name i) (is_description i))) s)"
    by (rule insert_site_wf [OF wf])
       (use fresh connector_by_id_in [OF conn] Isolated_site in
        \<open>simp_all add: set_isolated_def new_site_def site_connector_of_def\<close>)
  then show ?thesis using run Isolated_site by (auto simp: store_new_site_def Let_def)
next
  case (Gateway_site g)
  let ?r = "set_gateway g (new_site (cx_fresh cx) (cx_now cx) logo (gw_connectorId g) (gw_name g) (gw_description g))"
  have 1: "sites_wf (insert_site ?r s)"
    by (rule insert_site_wf [OF wf])
       (use fresh connector_by_id_in [OF conn] Gateway_site in
        \<open>simp_all add: set_gateway_def new_site_def site_connector_of_def\<close>)
  have 2: "\<not> has_vault (cx_fresh cx) (insert_site ?r s)"
    using vault_needs_site [OF wf fresh] by (simp add: has_vault_def insert_site_def)
  have "sites_wf ((insert_site ?r s)\<lparr>vaultCredentials :=
      insert_row (gateway_vault (cx_fresh cx) g sec) (vaultCredentials (insert_site ?r s))\<rparr>)" for sec
    by (rule insert_vault_wf [OF 1])
       (use 2 in \<open>simp_all add: gateway_vault_def insert_site_def set_gateway_def new_site_def\<close>)
  then show ?thesis using run wf Gateway_site by (auto simp: store_new_site_def Let_def split: option.splits)
next
  case (Invalid e)
  then show ?thesis using run wf by (simp add: store_new_site_def)
qed

lemma patch_stored_wf:
  assumes wf: "sites_wf s" and conn: "connector_by_id s (site_connector_of v) \<noteq> None"
    and site: "site_by_id s i \<noteq> None" and run: "patch_stored se cx i existing logo v s = (s', r)"
  shows "sites_wf s'"
proof (cases v)
  case (Transparent t)
  have "sites_wf (update_site i (with_logo logo (\<lambda>r. (set_transparent t r)\<lparr>site_domainVerifiedAt := d r\<rparr>)) s)"
    if "\<not> hostname_used (tr_hostname t) i s" for d
    by (rule update_site_wf [OF wf])
       (use that connector_by_id_in [OF conn] Transparent in
        \<open>simp_all add: set_transparent_def with_logo_def site_connector_of_def\<close>)
  then show ?thesis
    using run wf Transparent by (auto simp: patch_stored_def patch_transparent_def split: if_splits)
next
  case (Isolated_site x)
  have "sites_wf (update_site i (with_logo logo (set_isolated x)) s)"
    by (rule update_site_wf [OF wf])
       (use connector_by_id_in [OF conn] Isolated_site in
        \<open>simp_all add: set_isolated_def with_logo_def site_connector_of_def\<close>)
  then show ?thesis
    using run Isolated_site clear_vault_wf by (auto simp: patch_stored_def patch_isolated_def)
next
  case (Gateway_site g)
  let ?s = "update_site i (with_logo logo (set_gateway g)) s"
  have 1: "sites_wf ?s"
    by (rule update_site_wf [OF wf])
       (use connector_by_id_in [OF conn] Gateway_site in
        \<open>simp_all add: set_gateway_def with_logo_def site_connector_of_def\<close>)
  have same: "vaultCredentials ?s = vaultCredentials s" by (simp add: update_site_def)
  have ids: "site_id ` set (sites ?s) = site_id ` set (sites s)"
    by (rule update_site_ids) (simp add: with_logo_def set_gateway_def)
  have 2: "sites_wf (?s\<lparr>vaultCredentials := insert_row (gateway_vault i g sec) (vaultCredentials s)\<rparr>)"
    if "\<not> has_vault i s" for sec
    using insert_vault_wf [OF 1, of "gateway_vault i g sec"] that site_by_id_in [OF site] ids
    by (simp add: has_vault_def same gateway_vault_def)
  have 3: "sites_wf (?s\<lparr>vaultCredentials := update_many (\<lambda>c. v_siteId c = i) (set_vault g q) (vaultCredentials s)\<rparr>)"
    for q
    using update_vault_wf [OF 1, of i "set_vault g q"] by (simp add: same set_vault_def)
  show ?thesis
    using run wf Gateway_site 2 3
    by (auto simp: patch_stored_def patch_gateway_def same Let_def split: if_splits option.splits)
next
  case (Invalid e)
  then show ?thesis using run wf by (simp add: patch_stored_def)
qed


lemma upsert_vault_wf:
  assumes "sites_wf s" and "upsert_vault row s = (s', r)"
  shows "sites_wf s'"
proof -
  have "sites_wf (s\<lparr>vaultCredentials := insert_row row (vaultCredentials s)\<rparr>)"
    if "\<not> has_vault (v_siteId row) s" "site_by_id s (v_siteId row) \<noteq> None"
    using insert_vault_wf [OF assms(1) that(1) site_by_id_in [OF that(2)]] .
  with assms update_vault_wf [OF assms(1), of "v_siteId row" "\<lambda>_. row"] show ?thesis
    by (auto simp: upsert_vault_def split: if_splits)
qed

lemma delete_connector_wf:
  assumes "sites_wf s"
  shows "sites_wf (delete_connector_row i s)"
proof -
  let ?t = "delete_site_rows (map site_id (find_many (\<lambda>r. site_connectorId r = i) (sites s))) s"
  have wf: "sites_wf ?t" by (rule delete_sites_wf [OF assms])
  have "site_connectorId r \<in> c_id ` set (delete_many (\<lambda>c. c_id c = i) (connectors ?t))" if "r \<in> set (sites ?t)" for r
  proof -
    have "site_connectorId r \<noteq> i" using that by (auto simp: delete_site_rows_def)
    moreover have "site_connectorId r \<in> c_id ` set (connectors ?t)"
      using wf that unfolding sites_wf_def by blast
    ultimately show ?thesis by auto
  qed
  with wf show ?thesis by (simp add: delete_connector_row_def sites_wf_def Let_def image_subset_iff)
qed

text \<open>The console operations on sites and credentials, and the deletion of a connector with its cascade.\<close>

inductive site_step :: "db \<Rightarrow> db \<Rightarrow> bool" where
  created: "create_site se cx body s = (s', a) \<Longrightarrow> cx_fresh cx \<notin> site_id ` set (sites s) \<Longrightarrow> site_step s s'"
| patched: "patch_site se cx i body s = (s', b) \<Longrightarrow> site_step s s'"
| deleted: "delete_site cx i s = (s', b) \<Longrightarrow> site_step s s'"
| credential_set: "put_vault C cx i body s = (s', b) \<Longrightarrow> site_step s s'"
| credential_cleared: "delete_vault cx i s = (s', b) \<Longrightarrow> site_step s s'"
| domain_checked: "verify_domain w dns cx i s = (s', d) \<Longrightarrow> site_step s s'"
| connector_deleted: "delete_connector cx i s = (s', b) \<Longrightarrow> site_step s s'"

inductive_cases site_stepE: "site_step s s'"

lemma create_site_body_wf:
  assumes "sites_wf s" and "cx_fresh cx \<notin> site_id ` set (sites s)"
    and "create_site_body se cx body u s = (s', a)"
  shows "sites_wf s'"
proof -
  have "sites_wf t" if "store_new_site se cx logo v s = (t, r)" "connector_by_id s (site_connector_of v) \<noteq> None"
    for logo v t r
    using store_new_site_wf [OF assms(1,2) that(2,1)] .
  with assms(1,3) show ?thesis
    unfolding create_site_body_def Let_def
    by (auto split: SiteValidation.splits LogoUpdate.splits if_splits prod.splits sum.splits
        intro!: site_tables.logging)
qed

lemma patch_site_body_wf:
  assumes "sites_wf s" and "patch_site_body se cx i body u s = (s', a)"
  shows "sites_wf s'"
proof -
  have "sites_wf t" if "patch_stored se cx i existing logo v s = (t, r)"
    "connector_by_id s (site_connector_of v) \<noteq> None" "site_by_id s i = Some existing" for logo v t r existing
    using patch_stored_wf [OF assms(1) that(2) _ that(1)] that(3) by simp
  with assms show ?thesis
    unfolding patch_site_body_def Let_def
    by (auto split: SiteValidation.splits LogoUpdate.splits if_splits prod.splits sum.splits option.splits
        intro!: site_tables.logging)
qed

lemma verified_wf: "sites_wf s \<Longrightarrow> sites_wf (update_site i (\<lambda>r. r\<lparr>site_domainVerifiedAt := t\<rparr>) s)"
proof (rule update_site_wf)
  fix r h
  assume r: "sites_wf s" "r \<in> set (sites s)" "site_id r = i" "site_hostname (r\<lparr>site_domainVerifiedAt := t\<rparr>) = Some h"
  have "site_id r' = i" if "r' \<in> set (sites s)" "site_hostname r' = Some h" for r'
    using one_hostnameD [OF sites_wf_hostname [OF r(1)] that(1) r(2) that(2)] r(3,4) by simp
  then show "\<not> hostname_used h i s" by (simp add: hostname_free)
qed (auto simp: sites_wf_def)

lemma site_step_wf:
  assumes "site_step s s'" and wf: "sites_wf s"
  shows "sites_wf s'"
  using assms(1)
proof (rule site_stepE)
  fix se cx body a
  assume run: "create_site se cx body s = (s', a)" and fresh: "cx_fresh cx \<notin> site_id ` set (sites s)"
  have wf1: "sites_wf (fst (current_user cx s))" by (rule site_tables.signing_in [OF wf])
  have "cx_fresh cx \<notin> site_id ` set (sites (fst (current_user cx s)))" using fresh by simp
  note body = create_site_body_wf [OF wf1 this]
  show ?thesis
    by (rule with_capability_cases [of cx s Configure "\<lambda>admin. with_body body (create_site_body se cx body admin)"])
       (use run wf1 body in \<open>auto simp: create_site_def with_body_def split: if_splits\<close>)
next
  fix se cx i body b
  assume "patch_site se cx i body s = (s', b)"
  then show ?thesis using wf unfolding patch_site_def
    by (rule site_tables.capability_keeps) (auto simp: with_body_def split: if_splits intro: patch_site_body_wf)
next
  fix cx i b
  assume "delete_site cx i s = (s', b)"
  then show ?thesis using wf unfolding delete_site_def
    by (rule site_tables.capability_keeps)
       (auto split: if_splits intro!: site_tables.logging delete_sites_wf)
next
  fix C cx i body b
  assume "put_vault C cx i body s = (s', b)"
  then show ?thesis using wf unfolding put_vault_def
    by (rule site_tables.capability_keeps)
       (auto simp: with_body_def put_vault_body_def setVaultCredential_def
         split: if_splits option.splits sum.splits prod.splits intro!: site_tables.logging intro: upsert_vault_wf)
next
  fix cx i b
  assume "delete_vault cx i s = (s', b)"
  then show ?thesis using wf unfolding delete_vault_def
    by (rule site_tables.capability_keeps) (auto intro!: site_tables.logging clear_vault_wf)
next
  fix w dns cx i d
  assume "verify_domain w dns cx i s = (s', d)"
  then show ?thesis using wf unfolding verify_domain_def
    by (rule site_tables.capability_keeps) (auto simp: Let_def verified_wf split: option.splits if_splits)
next
  fix cx i b
  assume "delete_connector cx i s = (s', b)"
  then show ?thesis using wf unfolding delete_connector_def
    by (rule site_tables.capability_keeps)
       (auto simp: delete_connector_body_def split: option.splits ConnectorDeleteCheck.splits
         intro!: site_tables.logging delete_connector_wf)
qed

text \<open>C20: The site tables stay consistent under every console operation: from a consistent state, any
  sequence of site, credential and connector operations leaves site ids unique, every host name on at most one
  site, at most one credential per site, no credential without its site and no site without its connector.\<close>
theorem site_tables_consistent:
  assumes "site_step\<^sup>*\<^sup>* s s'" and "sites_wf s"
  shows "sites_wf s'"
  using assms by (induction rule: rtranclp_induct) (auto intro: site_step_wf)


definition ex_site_tables :: db where
  "ex_site_tables = ex_site_db\<lparr>connectors := [ex_connector\<lparr>c_id := site_connectorId ex_site\<rparr>]\<rparr>"

theorem site_tables_consistent_witness:
  "\<exists>s'. site_step\<^sup>*\<^sup>* (ex_signed_in ex_site_tables) s' \<and> sites_wf (ex_signed_in ex_site_tables) \<and> sites_wf s' \<and> sites s' = []"
proof -
  let ?s = "ex_signed_in ex_site_tables"
  have admin: "can ADMIN Configure" by code_simp
  obtain s' b where run: "delete_site ex_ctx ''w1'' ?s = (s', b)" by fastforce
  have rows: "sites ?s = [ex_site\<lparr>site_id := ''w1''\<rparr>]" "vaultCredentials ?s = []"
    "connectors ?s = [ex_connector\<lparr>c_id := site_connectorId ex_site\<rparr>]"
    by (simp_all add: ex_signed_in_def ex_site_tables_def ex_site_db_def empty_db_def)
  have "sites s' = []"
    using run rows
    by (auto simp: delete_site_def ex_with_capability [OF admin] site_by_id_def find_first_def touch_session_def delete_site_rows_def
        delete_many_def)
  moreover have "site_step ?s s'" using run by (rule site_step.deleted)
  moreover have "sites_wf ?s" by (simp add: sites_wf_def one_hostname_def rows)
  ultimately show ?thesis using site_tables_consistent [of ?s s'] by blast
qed

end
