(* ===== verification/Access_Routes.thy ===== *)
theory Access_Routes
  imports Sites
begin

text \<open>
  The routes through which access is asked for, given, used and logged:
  \<^verbatim>\<open>app/api/access/*\<close> (a vendor's requests), \<^verbatim>\<open>app/api/admin/grants/*\<close> with \<^verbatim>\<open>lib/access/decision.ts\<close>
  (an administrator's decisions), and the data plane's \<^verbatim>\<open>app/api/internal/{access,session,site,gateway,
  tls-check,audit}\<close>, with the mail and push notifications they send.

  A message handed to \<^verbatim>\<open>sendMail\<close> is a row of \<open>outbox\<close>; whether the SMTP server takes it changes nothing
  else. The answers of Expo's push relay are a parameter.
\<close>

section \<open>Notifications of people\<close>

definition getAdminEmails :: "db \<Rightarrow> string list" where
  "getAdminEmails s =
     map u_email (find_many (\<lambda>u. u_role u = ADMIN \<and> u_status u = UserStatus.ACTIVE) (users s))"

definition sendMail :: "string list \<Rightarrow> string \<Rightarrow> string \<Rightarrow> db \<Rightarrow> db" where
  "sendMail to template subject s =
     s\<lparr>outbox := outbox s @ [\<lparr>m_to = to, m_template = template, m_subject = subject\<rparr>]\<rparr>"

text \<open>\<^verbatim>\<open>/^Expo(nent)?PushToken\[[^\]\s]+\]$/\<close>, with the bytes \<^verbatim>\<open>\s\<close> matches below 256.\<close>

definition push_space :: "char \<Rightarrow> bool" where
  "push_space c \<longleftrightarrow> (of_char c :: nat) \<in> {9, 10, 11, 12, 13, 32, 160}"

definition push_bracket :: "string \<Rightarrow> bool" where
  "push_bracket t \<longleftrightarrow>
     3 \<le> length t \<and> hd t = CHR ''['' \<and> last t = CHR '']'' \<and>
     list_all (\<lambda>c. c \<noteq> CHR '']'' \<and> \<not> push_space c) (butlast (tl t))"

definition isExpoToken :: "string \<Rightarrow> bool" where
  "isExpoToken t \<longleftrightarrow>
     length t \<le> 200 \<and>
     (starts_with t ''ExpoPushToken'' \<and> push_bracket (drop 13 t) \<or>
      starts_with t ''ExponentPushToken'' \<and> push_bracket (drop 17 t))"

text \<open>The relay answers one batch with the error of each token, or the call fails (\<open>None\<close>).\<close>

type_synonym relay = "string list \<Rightarrow> string option list option"

definition EXPO_CHUNK :: nat where "EXPO_CHUNK = 100"

definition dead_tokens :: "string list \<Rightarrow> string option list \<Rightarrow> string list" where
  "dead_tokens batch answer =
     map fst (filter (\<lambda>(t, e). e = Some ''DeviceNotRegistered'') (zip batch answer))"

function send_batches :: "relay \<Rightarrow> string list \<Rightarrow> string list option" where
  "send_batches relay valid =
     (if valid = [] then Some []
      else (case relay (take EXPO_CHUNK valid) of
              None \<Rightarrow> None
            | Some answer \<Rightarrow>
                map_option (\<lambda>rest. dead_tokens (take EXPO_CHUNK valid) answer @ rest)
                  (send_batches relay (drop EXPO_CHUNK valid))))"
  by pat_completeness auto
termination
  by (relation "measure (\<lambda>(relay, valid). length valid)") (auto simp: EXPO_CHUNK_def)

declare send_batches.simps [simp del]

definition push_tokens :: "Capability \<Rightarrow> instant \<Rightarrow> db \<Rightarrow> string list" where
  "push_tokens cap now s =
     map md_expoPushToken
       (filter (\<lambda>d. case (user_by_id s (md_userId d), find_first (\<lambda>x. s_id x = md_sessionId d) (sessions s)) of
                      (Some u, Some x) \<Rightarrow>
                        u_status u = UserStatus.ACTIVE \<and> s_expiresAt x > now \<and> can (u_role u) cap
                    | _ \<Rightarrow> False) (mobileDevices s))"

text \<open>\<^verbatim>\<open>[...new Set(xs)]\<close>: the first occurrence of each element.\<close>

definition sendExpo :: "relay \<Rightarrow> string list \<Rightarrow> db \<Rightarrow> db" where
  "sendExpo relay tokens s =
     (case send_batches relay (rev (remdups (rev (filter isExpoToken tokens)))) of
        None \<Rightarrow> s
      | Some dead \<Rightarrow>
          if dead = [] then s
          else s\<lparr>mobileDevices := delete_many (\<lambda>d. md_expoPushToken d \<in> set dead) (mobileDevices s)\<rparr>)"

definition pushToCapability :: "relay \<Rightarrow> Capability \<Rightarrow> instant \<Rightarrow> db \<Rightarrow> db" where
  "pushToCapability relay cap now s = sendExpo relay (push_tokens cap now s) s"

section \<open>A vendor's requests\<close>

definition body_schedule :: "ctx \<Rightarrow> js \<Rightarrow> string + Schedule option" where
  "body_schedule cx body =
     (let v = body_field body ''schedule'' in
      if v = JUndef \<or> v = JNull then Inr None
      else (case validateSchedule (cx_intl cx) v of
              Inl _ \<Rightarrow> Inl ''invalid_schedule''
            | Inr sch \<Rightarrow> Inr (Some sch)))"

definition held :: "ctx \<Rightarrow> ident \<Rightarrow> ident \<Rightarrow> db \<Rightarrow> bool" where
  "held cx uid sid s \<longleftrightarrow>
     list_ex (\<lambda>g. g_siteId g = sid \<and> classifyGrant (cx_intl cx) g (cx_now cx) \<notin> {Revoked, Denied, Expired})
       (listUserGrants uid s)"

definition notify_request :: "relay \<Rightarrow> ctx \<Rightarrow> Site \<Rightarrow> db \<Rightarrow> db" where
  "notify_request relay cx site s =
     (let admins = getAdminEmails s;
          s1 = (if notifyEmailEnabled (settings_in s) Access_requests \<and> admins \<noteq> []
                then sendMail admins ''approvalRequestEmail'' (''Access request: '' @ site_name site) s else s)
      in pushToCapability relay Approve_grants (cx_now cx) s1)"

definition store_request ::
  "relay \<Rightarrow> ctx \<Rightarrow> User \<Rightarrow> grant_input \<Rightarrow> Site \<Rightarrow> db \<Rightarrow> db \<times> ident reply" where
  "store_request relay cx user i site s =
     (if held cx (u_id user) (site_id site) s then (s, Err 409 ''already_have_access'')
      else (case createAccessRequest (cx_fresh cx) (cx_now cx) i s of
              (s1, Inl e) \<Rightarrow> (s1, if e = ''request_pending'' then Err 409 e else Throw e)
            | (s1, Inr gid) \<Rightarrow> (notify_request relay cx site s1, Ok 201 gid)))"

definition window_error :: "ctx \<Rightarrow> instant option \<Rightarrow> instant option \<Rightarrow> db \<Rightarrow> string option" where
  "window_error cx st en s =
     (case (st, en) of
        (Some a, Some b) \<Rightarrow>
          if a > b then Some ''invalid_date''
          else grantCapError st en (cx_now cx) (resolvedMaxGrantDays (settings_in s))
      | _ \<Rightarrow> grantCapError st en (cx_now cx) (resolvedMaxGrantDays (settings_in s)))"

definition request_body :: "relay \<Rightarrow> ctx \<Rightarrow> js \<Rightarrow> User \<Rightarrow> db \<Rightarrow> db \<times> ident reply" where
  "request_body relay cx body user s =
     (let sid = text_of body ''siteId''; note = text_of body ''note'' in
      if sid = [] then (s, Err 400 ''site_required'')
      else if note = [] \<and> resolvedRequireRequestJustification (settings_in s) then (s, Err 400 ''note_required'')
      else (case (parseDate cx (body_field body ''startsAt''), parseDate cx (body_field body ''endsAt'')) of
              (Some st, Some en) \<Rightarrow>
                (case window_error cx st en s of
                   Some e \<Rightarrow> (s, Err 400 e)
                 | None \<Rightarrow>
                     (case body_schedule cx body of
                        Inl e \<Rightarrow> (s, Err 400 e)
                      | Inr sch \<Rightarrow>
                          (case site_by_id s sid of
                             None \<Rightarrow> (s, Err 400 ''invalid_site'')
                           | Some site \<Rightarrow>
                               store_request relay cx user
                                 \<lparr>gi_userId = u_id user, gi_siteId = sid, gi_startsAt = st, gi_endsAt = en,
                                  gi_note = Some note, gi_schedule = sch\<rparr> site s)))
            | _ \<Rightarrow> (s, Err 400 ''invalid_date'')))"

definition request_access :: "relay \<Rightarrow> ctx \<Rightarrow> js \<Rightarrow> db \<Rightarrow> db \<times> ident reply" where
  "request_access relay cx body = with_user cx (\<lambda>u. with_body body (request_body relay cx body u))"

definition withdraw_body :: "ident \<Rightarrow> User \<Rightarrow> db \<Rightarrow> db \<times> unit reply" where
  "withdraw_body i user s =
     (case grant_by_id s i of
        None \<Rightarrow> (s, Err 404 ''not_found'')
      | Some g \<Rightarrow>
          if g_userId g \<noteq> u_id user then (s, Err 404 ''not_found'')
          else if \<not> PENDING_WHERE g then (s, Err 409 ''not_pending'')
          else
            (let p = (\<lambda>h. g_id h = i \<and> g_userId h = u_id user \<and> PENDING_WHERE h) in
             if count_rows p (accessGrants s) = 0 then (s, Err 409 ''not_pending'')
             else (s\<lparr>accessGrants := delete_many p (accessGrants s)\<rparr>, Ok 200 ())))"

definition withdraw_request :: "ctx \<Rightarrow> ident \<Rightarrow> db \<Rightarrow> db \<times> unit reply" where
  "withdraw_request cx i = with_user cx (withdraw_body i)"

definition sites_for_request :: "ctx \<Rightarrow> db \<Rightarrow> db \<times> Site list reply" where
  "sites_for_request cx =
     with_user cx (\<lambda>u s. (s, Ok 200 (listSitesForRequest (cx_intl cx) (u_id u) (cx_now cx) s)))"

definition my_grants :: "ctx \<Rightarrow> db \<Rightarrow> db \<times> (AccessGrant \<times> Site option) list reply" where
  "my_grants cx =
     with_user cx (\<lambda>u s. (s, Ok 200
       (map (\<lambda>g. (g, site_by_id s (g_siteId g)))
         (filter (\<lambda>g. classifyGrant (cx_intl cx) g (cx_now cx) = Allow) (listUserGrants (u_id u) s)))))"


section \<open>An administrator's grants\<close>

definition create_grant_body :: "ctx \<Rightarrow> js \<Rightarrow> User \<Rightarrow> db \<Rightarrow> db \<times> ident reply" where
  "create_grant_body cx body admin s =
     (let uid = text_of body ''userId''; sid = text_of body ''siteId'' in
      if uid = [] \<or> sid = [] then (s, Err 400 ''user_site_required'')
      else (case (parseDate cx (body_field body ''startsAt''), parseDate cx (body_field body ''endsAt'')) of
              (Some st, Some en) \<Rightarrow>
                (case grantCapError st en (cx_now cx) (resolvedMaxGrantDays (settings_in s)) of
                   Some e \<Rightarrow> (s, Err 400 e)
                 | None \<Rightarrow>
                     (case body_schedule cx body of
                        Inl e \<Rightarrow> (s, Err 400 e)
                      | Inr sch \<Rightarrow>
                          if user_by_id s uid = None then (s, Err 400 ''invalid_user'')
                          else if site_by_id s sid = None then (s, Err 400 ''invalid_site'')
                          else
                            (case createGrant (cx_fresh cx) (cx_now cx)
                                    \<lparr>gi_userId = uid, gi_siteId = sid, gi_startsAt = st, gi_endsAt = en,
                                     gi_note = or_null (Some (text_of body ''note'')), gi_schedule = sch\<rparr>
                                    (u_id admin) s of
                               (s1, Inl e) \<Rightarrow> (s1, Throw e)
                             | (s1, Inr gid) \<Rightarrow>
                                 (audit cx admin ''grant.create'' ''grant'' (Some gid)
                                    (''Created access grant '' @ gid)
                                    (JObj [(''userId'', JStr uid), (''siteId'', JStr sid)]) s1, Ok 201 gid))))
            | _ \<Rightarrow> (s, Err 400 ''invalid_date'')))"

definition create_grant :: "ctx \<Rightarrow> js \<Rightarrow> db \<Rightarrow> db \<times> ident reply" where
  "create_grant cx body =
     with_capability cx Approve_grants (\<lambda>admin. with_body body (create_grant_body cx body admin))"

definition list_grants :: "ctx \<Rightarrow> db \<Rightarrow> db \<times> (AccessGrant \<times> User option \<times> Site option) list reply" where
  "list_grants cx = with_capability cx Read_console (\<lambda>admin s. (s, Ok 200 (listGrants s)))"

definition revoke_grant :: "ctx \<Rightarrow> string option \<Rightarrow> db \<Rightarrow> db \<times> unit reply" where
  "revoke_grant cx idParam =
     with_capability cx Approve_grants (\<lambda>admin s.
       case or_null idParam of
         None \<Rightarrow> (s, Err 400 ''id_required'')
       | Some i \<Rightarrow>
           (audit cx admin ''grant.revoke'' ''grant'' (Some i) (''Revoked access grant '' @ i) JUndef
              (revokeGrant i s), Ok 200 ()))"

text \<open>\<^verbatim>\<open>"note" in body\<close> throws when the body is neither an object nor an array.\<close>

definition in_operand :: "js \<Rightarrow> bool" where
  "in_operand body = (case body of JObj _ \<Rightarrow> True | JArr _ \<Rightarrow> True | _ \<Rightarrow> False)"

definition NOTE_MAX :: nat where "NOTE_MAX = 500"

definition edit_end :: "ctx \<Rightarrow> js \<Rightarrow> AccessGrant \<Rightarrow> db \<Rightarrow> string + instant option" where
  "edit_end cx body g s =
     (if text_of body ''endsAt'' = [] then Inr None
      else
        (let endsAt = cx_parse_date cx (text_of body ''endsAt'') in
         case grantEndsAtError endsAt (g_startsAt g) (cx_now cx) of
           Some e \<Rightarrow> Inl e
         | None \<Rightarrow>
             (case grantCapError (g_startsAt g) endsAt (cx_now cx) (resolvedMaxGrantDays (settings_in s)) of
                Some e \<Rightarrow> Inl e
              | None \<Rightarrow> Inr endsAt)))"

definition edit_note :: "js \<Rightarrow> string + string option option" where
  "edit_note body =
     (if \<not> body_has body ''note'' then Inr None
      else (case body_field body ''note'' of
              JStr t \<Rightarrow>
                if length (trim t) > NOTE_MAX then Inl ''note_too_long'' else Inr (Some (or_null (Some (trim t))))
            | _ \<Rightarrow> Inl ''invalid_note''))"

definition edit_row :: "instant option \<Rightarrow> string option option \<Rightarrow> AccessGrant \<Rightarrow> AccessGrant" where
  "edit_row en note g =
     g\<lparr>g_endsAt := (case en of Some e \<Rightarrow> Some e | None \<Rightarrow> g_endsAt g),
       g_note := (case note of Some n \<Rightarrow> n | None \<Rightarrow> g_note g)\<rparr>"

definition edit_grant_body :: "ctx \<Rightarrow> ident \<Rightarrow> js \<Rightarrow> User \<Rightarrow> db \<Rightarrow> db \<times> unit reply" where
  "edit_grant_body cx i body admin s =
     (if \<not> in_operand body then (s, Throw ''TypeError'')
      else if text_of body ''endsAt'' = [] \<and> \<not> body_has body ''note'' then (s, Err 400 ''nothing_to_update'')
      else (case grant_by_id s i of
              None \<Rightarrow> (s, Err 404 ''not_found'')
            | Some g \<Rightarrow>
                if g_status g \<noteq> GrantStatus.ACTIVE then (s, Err 409 ''not_active'')
                else (case edit_end cx body g s of
                        Inl e \<Rightarrow> (s, Err 400 e)
                      | Inr en \<Rightarrow>
                          (case edit_note body of
                             Inl e \<Rightarrow> (s, Err 400 e)
                           | Inr note \<Rightarrow>
                               (let p = (\<lambda>h. g_id h = i \<and> g_status h = GrantStatus.ACTIVE) in
                                if count_rows p (accessGrants s) = 0 then (s, Err 409 ''not_active'')
                                else
                                  (audit cx admin ''grant.update'' ''grant'' (Some i) (''Updated access grant '' @ i)
                                     (JObj [(''endsAt'', case en of Some e \<Rightarrow> JStr (toISOString e) | None \<Rightarrow> JUndef)])
                                     (s\<lparr>accessGrants := update_many p (edit_row en note) (accessGrants s)\<rparr>),
                                   Ok 200 ()))))))"

definition edit_grant :: "ctx \<Rightarrow> ident \<Rightarrow> js \<Rightarrow> db \<Rightarrow> db \<times> unit reply" where
  "edit_grant cx i body =
     with_capability cx Configure (\<lambda>admin. with_body body (edit_grant_body cx i body admin))"

definition notify_decision :: "grant_decision \<Rightarrow> ident \<Rightarrow> db \<Rightarrow> db" where
  "notify_decision d i s =
     (if \<not> notifyEmailEnabled (settings_in s) Access_decisions then s
      else (case grant_by_id s i of
              None \<Rightarrow> s
            | Some g \<Rightarrow>
                (case (user_by_id s (g_userId g), site_by_id s (g_siteId g)) of
                   (Some u, Some site) \<Rightarrow>
                     if u_email u = [] then s
                     else sendMail [u_email u] ''accessDecisionEmail''
                       ((case d of Approve \<Rightarrow> ''Access approved: '' | Deny \<Rightarrow> ''Access request declined: '') @
                        site_name site) s
                 | _ \<Rightarrow> s)))"

definition decision_verb :: "grant_decision \<Rightarrow> string" where
  "decision_verb d = (case d of Approve \<Rightarrow> ''Approved'' | Deny \<Rightarrow> ''Denied'')"

text \<open>\<open>viaApp\<close> marks a decision made in the app; the result tells whether the request was still pending.\<close>

definition applyGrantDecision ::
  "ctx \<Rightarrow> User \<Rightarrow> ident \<Rightarrow> grant_decision \<Rightarrow> js \<Rightarrow> bool \<Rightarrow> db \<Rightarrow> db \<times> bool" where
  "applyGrantDecision cx actor i d reason viaApp s =
     (case decideGrant i d (u_id actor) (normalizeDenyReason reason) (cx_now cx) s of
        (s1, n) \<Rightarrow>
          if n = 0 then (s1, False)
          else
            (notify_decision d i
               (audit cx actor (case d of Approve \<Rightarrow> ''grant.approve'' | Deny \<Rightarrow> ''grant.deny'') ''grant'' (Some i)
                  (decision_verb d @ '' access request '' @ i @ (if viaApp then '' (Captivo Admin app)'' else []))
                  JUndef s1), True))"

definition decision_of :: "js \<Rightarrow> grant_decision option" where
  "decision_of v =
     (if v = JStr ''approve'' then Some Approve else if v = JStr ''deny'' then Some Deny else None)"

definition decide_body :: "ctx \<Rightarrow> ident \<Rightarrow> js \<Rightarrow> User \<Rightarrow> db \<Rightarrow> db \<times> unit reply" where
  "decide_body cx i body admin s =
     (case decision_of (body_field body ''decision'') of
        None \<Rightarrow> (s, Err 400 ''invalid_decision'')
      | Some d \<Rightarrow>
          (case applyGrantDecision cx admin i d (body_field body ''reason'') False s of
             (s1, ok) \<Rightarrow> (s1, if ok then Ok 200 () else Err 409 ''not_pending'')))"

definition decide_grant :: "ctx \<Rightarrow> ident \<Rightarrow> js \<Rightarrow> db \<Rightarrow> db \<times> unit reply" where
  "decide_grant cx i body =
     with_capability cx Approve_grants (\<lambda>admin. with_body body (decide_body cx i body admin))"

definition check_grant :: "ctx \<Rightarrow> js \<Rightarrow> db \<Rightarrow> db \<times> Decision reply" where
  "check_grant cx body =
     with_capability cx Read_console (\<lambda>admin. with_body body (\<lambda>s.
       let uid = text_of body ''userId''; sid = text_of body ''siteId'' in
       if uid = [] \<or> sid = [] then (s, Err 400 ''invalid_body'')
       else (s, Ok 200 (evaluateAccess (cx_intl cx) s uid sid (cx_now cx)))))"


section \<open>The data plane's questions\<close>

datatype check_answer = Ip_not_allowed | Decided Decision

text \<open>\<open>cached\<close> is the compiled allowlist that \<^verbatim>\<open>lib/net/cidr.ts\<close> keeps between calls.\<close>

definition access_check :: "allowlist_cache \<Rightarrow> ctx \<Rightarrow> js \<Rightarrow> db \<Rightarrow> db \<times> check_answer reply" where
  "access_check cached cx body s =
     (if \<not> dataplaneAuthorized (cx_env cx) (cx_headers cx) then (s, Err 403 ''forbidden'')
      else with_body body (\<lambda>s.
        let uid = raw_text_of body ''userId''; sid = raw_text_of body ''siteId'';
            ip = raw_text_of body ''clientIp''; allowlist = resolvedVendorIpAllowlist (settings_in s) in
        if uid = [] \<or> sid = [] then (s, Err 400 ''invalid_body'')
        else if allowlist \<noteq> [] \<and> \<not> snd (ipAllowed allowlist ip cached) then (s, Ok 200 Ip_not_allowed)
        else (s, Ok 200 (Decided (evaluateAccess (cx_intl cx) s uid sid (cx_now cx))))) s)"

definition session_resolve :: "ctx \<Rightarrow> js \<Rightarrow> db \<Rightarrow> db \<times> (ident \<times> string) reply" where
  "session_resolve cx body s =
     (if \<not> dataplaneAuthorized (cx_env cx) (cx_headers cx) then (s, Err 403 ''forbidden'')
      else with_body body (\<lambda>s.
        case getSessionUser (cx_H cx) (cx_policy cx) (cx_now cx) (raw_text_of body ''token'') s of
          (s1, None) \<Rightarrow> (s1, Err 401 ''no_session'')
        | (s1, Some u) \<Rightarrow> (s1, Ok 200 (u_id u, u_email u))) s)"

definition site_by_hostname :: "string \<Rightarrow> db \<Rightarrow> Site option" where
  "site_by_hostname h s = find_first (\<lambda>r. site_hostname r = Some h) (sites s)"

record host_answer =
  ha_siteId :: ident
  ha_connectorId :: ident
  ha_tenantId :: ident
  ha_upstreamUrl :: "string option"
  ha_insecureSkipVerify :: bool
  ha_recordSessions :: bool
  ha_clipboardMode :: string
  ha_accessMode :: SiteAccessMode
  ha_watermark :: bool
  ha_recordingConsentRequired :: bool

definition clipboard_of :: "Site \<Rightarrow> db \<Rightarrow> string" where
  "clipboard_of r s =
     (case site_clipboardMode r of Some m \<Rightarrow> m | None \<Rightarrow> resolvedClipboardDefault (settings_in s))"

definition watermark_of :: "ctx \<Rightarrow> Site \<Rightarrow> db \<Rightarrow> bool" where
  "watermark_of cx r s =
     (case site_watermark r of Some b \<Rightarrow> b | None \<Rightarrow> resolvedWatermarkDefault (cx_env cx) (settings_in s))"

definition describe_host :: "ctx \<Rightarrow> Site \<Rightarrow> db \<Rightarrow> host_answer" where
  "describe_host cx r s =
     (let recording = effectiveSiteRecording (cx_env cx) (cx_envelope cx) (settings_in s) (site_recordSessions r) in
      \<lparr>ha_siteId = site_id r, ha_connectorId = site_connectorId r, ha_tenantId = cx_tenant cx,
       ha_upstreamUrl = site_upstreamUrl r, ha_insecureSkipVerify = site_insecureSkipVerify r,
       ha_recordSessions = recording,
       ha_clipboardMode = (if site_accessMode r = GATEWAY then ''allow'' else clipboard_of r s),
       ha_accessMode = site_accessMode r,
       ha_watermark = (site_accessMode r = TRANSPARENT \<and> watermark_of cx r s),
       ha_recordingConsentRequired =
         (recording \<and> resolvedRecordingConsentRequired (cx_env cx) (settings_in s))\<rparr>)"

definition site_by_host :: "ctx \<Rightarrow> js \<Rightarrow> db \<Rightarrow> db \<times> host_answer reply" where
  "site_by_host cx body s =
     (if \<not> dataplaneAuthorized (cx_env cx) (cx_headers cx) then (s, Err 403 ''forbidden'')
      else with_body body (\<lambda>s.
        let hostname = trim (to_lower (raw_text_of body ''host'')) in
        if hostname = [] then (s, Err 404 ''no_site'')
        else (case site_by_hostname hostname s of
                None \<Rightarrow> (s, Err 404 ''no_site'')
              | Some r \<Rightarrow> (s, Ok 200 (describe_host cx r s)))) s)"

definition tls_check :: "string option \<Rightarrow> db \<Rightarrow> db \<times> unit reply" where
  "tls_check domain s =
     (case or_null (map_option (\<lambda>d. trim (to_lower d)) domain) of
        None \<Rightarrow> (s, Err 403 [])
      | Some d \<Rightarrow> (s, if site_by_hostname d s = None then Err 403 [] else Ok 200 ()))"

definition view_authz :: "ctx \<Rightarrow> js \<Rightarrow> db \<Rightarrow> db \<times> bool reply" where
  "view_authz cx body s =
     (if \<not> dataplaneAuthorized (cx_env cx) (cx_headers cx) then (s, Err 403 ''forbidden'')
      else with_body body (\<lambda>s.
        let uid = raw_text_of body ''userId''; sid = raw_text_of body ''siteId'' in
        if uid = [] \<or> sid = [] then (s, Ok 200 False)
        else (s, Ok 200 (case (user_by_id s uid, site_by_id s sid) of
                           (Some u, Some _) \<Rightarrow> can (u_role u) Read_console | _ \<Rightarrow> False))) s)"

record kasm_descriptor =
  kd_navigateUrl :: string
  kd_tenantId :: ident
  kd_kasmAddr :: string
  kd_kasmControlAddr :: string
  kd_connectorId :: ident
  kd_clipboardMode :: string
  kd_record :: bool
  kd_watermarkText :: string
  kd_fileTransferMode :: string
  kd_insecureSkipVerify :: bool

record guac_descriptor =
  gd_tenantId :: ident
  gd_protocol :: VaultProtocol
  gd_params :: "(string \<times> string) list"
  gd_targetHost :: string
  gd_targetPort :: int
  gd_username :: string
  gd_secret :: string
  gd_secretKind :: VaultSecretKind
  gd_guacdAddress :: string
  gd_connectorId :: ident
  gd_record :: bool
  gd_keystrokeLogging :: bool

datatype descriptor = Kasm kasm_descriptor | Guac guac_descriptor

definition env_or :: "env \<Rightarrow> string \<Rightarrow> string \<Rightarrow> string" where
  "env_or env k d = trim (case env k of Some v \<Rightarrow> v | None \<Rightarrow> d)"

definition watermark_text :: "ctx \<Rightarrow> Site \<Rightarrow> ident \<Rightarrow> db \<Rightarrow> string" where
  "watermark_text cx r uid s =
     (if \<not> watermark_of cx r s then []
      else (case or_null (map_option u_email (user_by_id s uid)) of
              None \<Rightarrow> [] | Some who \<Rightarrow> who @ ''  %Y-%m-%d %H:%M UTC''))"

definition kasm_of :: "ctx \<Rightarrow> Site \<Rightarrow> ident \<Rightarrow> db \<Rightarrow> kasm_descriptor" where
  "kasm_of cx r uid s =
     \<lparr>kd_navigateUrl = opt_text (site_upstreamUrl r), kd_tenantId = cx_tenant cx,
      kd_kasmAddr = env_or (cx_env cx) ''ISOLATED_KASM_ADDR'' ''captivo-kasm:6901'',
      kd_kasmControlAddr = env_or (cx_env cx) ''ISOLATED_KASM_CONTROL_ADDR'' ''captivo-kasm:7900'',
      kd_connectorId = site_connectorId r, kd_clipboardMode = clipboard_of r s,
      kd_record = effectiveSiteRecording (cx_env cx) (cx_envelope cx) (settings_in s) (site_recordSessions r),
      kd_watermarkText = watermark_text cx r uid s, kd_fileTransferMode = site_fileTransferMode r,
      kd_insecureSkipVerify = site_insecureSkipVerify r\<rparr>"

definition guac_of :: "ctx \<Rightarrow> Site \<Rightarrow> VaultCredential \<Rightarrow> db \<Rightarrow> guac_descriptor" where
  "guac_of cx r cred s =
     \<lparr>gd_tenantId = cx_tenant cx, gd_protocol = v_protocol cred,
      gd_params =
        toGuacArgs (resolveGuacParams (parseGuacParams (v_guacParams cred)) (resolvedGuacParamDefaults s))
          (clipboard_of r s) (v_protocol cred) (v_username cred),
      gd_targetHost = v_targetHost cred, gd_targetPort = v_targetPort cred, gd_username = v_username cred,
      gd_secret = v_secret cred, gd_secretKind = v_secretKind cred,
      gd_guacdAddress = env_or (cx_env cx) ''GUACD_ADDR'' ''captivo-guacd:4822'',
      gd_connectorId = site_connectorId r,
      gd_record = effectiveSiteRecording (cx_env cx) (cx_envelope cx) (settings_in s) (site_recordSessions r),
      gd_keystrokeLogging =
        effectiveKeystrokeLogging (resolvedKeystrokeLoggingMode (settings_in s)) (recordingEnabled (cx_env cx))
          (site_recordSessions r) (site_keystrokeLogging r)\<rparr>"

definition describe_session :: "cipher \<Rightarrow> ctx \<Rightarrow> Site \<Rightarrow> ident \<Rightarrow> db \<Rightarrow> descriptor reply" where
  "describe_session C cx r uid s =
     (if site_accessMode r = ISOLATED then
        (if isolationEnabled (cx_env cx) then Ok 200 (Kasm (kasm_of cx r uid s))
         else Err 404 ''isolation_disabled'')
      else (case getVaultCredential C (cx_env cx) (site_id r) s of
              Inl e \<Rightarrow> Throw e
            | Inr None \<Rightarrow> Err 404 ''no_credential''
            | Inr (Some cred) \<Rightarrow> Ok 200 (Guac (guac_of cx r cred s))))"

definition gateway_descriptor :: "cipher \<Rightarrow> ctx \<Rightarrow> js \<Rightarrow> db \<Rightarrow> db \<times> descriptor reply" where
  "gateway_descriptor C cx body s =
     (if \<not> dataplaneAuthorized (cx_env cx) (cx_headers cx) then (s, Err 403 ''forbidden'')
      else with_body body (\<lambda>s.
        let uid = raw_text_of body ''userId''; sid = raw_text_of body ''siteId'' in
        if uid = [] \<or> sid = [] then (s, Err 400 ''bad_request'')
        else (case site_by_id s sid of
                None \<Rightarrow> (s, Err 404 ''not_gateway'')
              | Some r \<Rightarrow>
                  if site_accessMode r = TRANSPARENT then (s, Err 404 ''not_gateway'')
                  else if \<not> d_allow (evaluateAccess (cx_intl cx) s uid sid (cx_now cx))
                  then (s, Err 403 ''forbidden'')
                  else (s, describe_session C cx r uid s))) s)"


section \<open>The audit log of a shared data plane\<close>

definition resolveEventTenant :: "cloud \<Rightarrow> AuditInput \<Rightarrow> ident option" where
  "resolveEventTenant c e =
     (let bySite = (case or_null (ai_siteId e) of
                      None \<Rightarrow> None | Some i \<Rightarrow> or_null (resolveTenantBySite i c))
      in case bySite of
           Some t \<Rightarrow> Some t
         | None \<Rightarrow>
             (case or_null (ai_host e) of
                None \<Rightarrow> None | Some h \<Rightarrow> or_null (resolveTenantByHostname h c)))"

definition append_scoped :: "ctx \<Rightarrow> AuditInput list \<Rightarrow> db \<Rightarrow> db \<times> nat reply" where
  "append_scoped cx events s =
     (case appendAuditEvents (cx_H cx) (cx_parse_date cx) (cx_now cx) events s of
        (s1, None) \<Rightarrow> (s1, Throw ''RangeError'')
      | (s1, Some n) \<Rightarrow> (s1, Ok 200 n))"

fun append_groups ::
  "ctx \<Rightarrow> (ident \<times> AuditInput list) list \<Rightarrow> nat \<Rightarrow> cloud \<Rightarrow> cloud \<times> (string + nat)" where
  "append_groups cx [] inserted c = (c, Inr inserted)"
| "append_groups cx ((tid, evs) # gs) inserted c =
     (case withTenant (cx_env cx) tid (append_scoped cx evs) c of
        (c1, Ok _ n) \<Rightarrow> append_groups cx gs (inserted + n) c1
      | (c1, Throw e) \<Rightarrow> (c1, Inl e)
      | (c1, Err _ e) \<Rightarrow> (c1, Inl e))"

text \<open>The answer holds the number of inserted and, on the platform, of dropped events.\<close>

definition audit_log :: "ctx \<Rightarrow> AuditInput list \<Rightarrow> cloud \<Rightarrow> cloud \<times> (nat \<times> nat) reply" where
  "audit_log cx events c =
     (if \<not> multiTenantEnabled (cx_env cx) then
        (case withTenant (cx_env cx) DEFAULT_TENANT (append_scoped cx events) c of
           (c1, Ok _ n) \<Rightarrow> (c1, Ok 200 (n, 0))
         | (c1, Err k e) \<Rightarrow> (c1, Err k e)
         | (c1, Throw e) \<Rightarrow> (c1, Throw e))
      else
        (let groups = group_by_connector (resolveEventTenant c) (\<lambda>e. e) [] events;
             dropped = length (filter (\<lambda>e. resolveEventTenant c e = None) events)
         in case append_groups cx groups 0 c of
              (c1, Inl e) \<Rightarrow> (c1, Throw e)
            | (c1, Inr n) \<Rightarrow> (c1, Ok 200 (n, dropped))))"

definition audit_log_route :: "ctx \<Rightarrow> AuditInput list \<Rightarrow> cloud \<Rightarrow> cloud \<times> (nat \<times> nat) reply" where
  "audit_log_route cx events =
     requireDataplaneSecret (cx_env cx) (\<lambda>_. audit_log cx events) \<lparr>req_header = cx_headers cx, req_body = JUndef\<rparr>"


section \<open>Frames\<close>

lemma sendMail_frame [simp]:
  "accessGrants (sendMail to t sub s) = accessGrants s" "users (sendMail to t sub s) = users s"
  "sites (sendMail to t sub s) = sites s" "mobileDevices (sendMail to t sub s) = mobileDevices s"
  "sessions (sendMail to t sub s) = sessions s"
  by (simp_all add: sendMail_def)

lemma pushToCapability_frame [simp]:
  "accessGrants (pushToCapability r cap now s) = accessGrants s" "users (pushToCapability r cap now s) = users s"
  "sites (pushToCapability r cap now s) = sites s" "sessions (pushToCapability r cap now s) = sessions s"
  by (simp_all add: pushToCapability_def sendExpo_def split: option.splits)

lemma notify_frame [simp]:
  "accessGrants (notify_request r cx site s) = accessGrants s" "users (notify_request r cx site s) = users s"
  "sites (notify_request r cx site s) = sites s"
  "accessGrants (notify_decision d i s) = accessGrants s" "users (notify_decision d i s) = users s"
  "sites (notify_decision d i s) = sites s"
  by (simp_all add: notify_request_def notify_decision_def Let_def split: option.splits)

lemma createAccessRequest_users [simp]:
  "users (fst (createAccessRequest n t i s)) = users s" "sites (fst (createAccessRequest n t i s)) = sites s"
  by (simp_all add: createAccessRequest_def insert_grant_def split: option.splits)

section \<open>What the request routes do to the grants\<close>

definition requested :: "ctx \<Rightarrow> ident \<Rightarrow> db \<Rightarrow> db \<Rightarrow> bool" where
  "requested cx uid s s' \<longleftrightarrow>
     (\<exists>g. accessGrants s' = insert_row g (accessGrants s) \<and> g_id g = cx_fresh cx \<and> g_userId g = uid \<and>
        PENDING_WHERE g \<and>
        (\<forall>h \<in> set (accessGrants s). \<not> (g_userId h = g_userId g \<and> g_siteId h = g_siteId g \<and> PENDING_WHERE h)))"

lemma createAccessRequest_user:
  assumes "createAccessRequest nid now i s = (s', r)"
  shows "accessGrants s' = accessGrants s \<or>
    (\<exists>g. accessGrants s' = insert_row g (accessGrants s) \<and> g_id g = nid \<and> g_userId g = gi_userId i \<and> PENDING_WHERE g \<and>
      (\<forall>h \<in> set (accessGrants s). \<not> (g_userId h = g_userId g \<and> g_siteId h = g_siteId g \<and> PENDING_WHERE h)))"
  using assms
  by (auto simp: createAccessRequest_def insert_grant_def PENDING_WHERE_def find_first_None
      split: if_splits option.splits)

lemma request_body_grants:
  assumes "request_body relay cx body u s = (s', r)"
  shows "users s' = users s" and "accessGrants s' = accessGrants s \<or> requested cx (u_id u) s s'"
proof -
  have *: "users t = users s \<and> (accessGrants t = accessGrants s \<or> requested cx (u_id u) s t)"
    if "store_request relay cx u i site s = (t, q)" "gi_userId i = u_id u" for i site t q
  proof -
    obtain s1 x where c: "createAccessRequest (cx_fresh cx) (cx_now cx) i s = (s1, x)" by fastforce
    have "users s1 = users s" using createAccessRequest_users(1) [of "cx_fresh cx" "cx_now cx" i s] c by simp
    with that c createAccessRequest_user [OF c] show ?thesis
      by (auto simp: store_request_def requested_def split: if_splits sum.splits)
  qed
  have "users s' = users s \<and> (accessGrants s' = accessGrants s \<or> requested cx (u_id u) s s')"
    using assms unfolding request_body_def Let_def
    by (auto split: if_splits option.splits prod.splits sum.splits dest: *)
  then show "users s' = users s" "accessGrants s' = accessGrants s \<or> requested cx (u_id u) s s'" by auto
qed


lemma pending_never_allows: "PENDING_WHERE g \<Longrightarrow> classifyGrant \<I> g t \<noteq> Allow"
  by (simp add: classifyGrant_allow_iff PENDING_WHERE_def)

definition same_effect :: "db \<Rightarrow> db \<Rightarrow> bool" where
  "same_effect s s' \<longleftrightarrow>
     users s' = users s \<and>
     {g \<in> set (accessGrants s'). \<not> PENDING_WHERE g} = {g \<in> set (accessGrants s). \<not> PENDING_WHERE g}"

lemma same_effect_decides:
  assumes "same_effect s s'"
  shows "d_allow (evaluateAccess \<I> s' uid sid t) = d_allow (evaluateAccess \<I> s uid sid t)"
proof -
  have "(\<exists>g \<in> set (accessGrants x). g_userId g = uid \<and> g_siteId g = sid \<and> classifyGrant \<I> g t = Allow) \<longleftrightarrow>
      (\<exists>g \<in> {g \<in> set (accessGrants x). \<not> PENDING_WHERE g}. g_userId g = uid \<and> g_siteId g = sid \<and> classifyGrant \<I> g t = Allow)"
    for x :: db using pending_never_allows by blast
  moreover have "users s' = users s"
      "{g \<in> set (accessGrants s'). \<not> PENDING_WHERE g} = {g \<in> set (accessGrants s). \<not> PENDING_WHERE g}"
    using assms by (auto simp: same_effect_def)
  ultimately show ?thesis by (simp only: evaluateAccess_allow_iff user_by_id_def)
qed

lemma request_body_effect: "request_body relay cx body u s = (s', r) \<Longrightarrow> same_effect s s'"
  using request_body_grants [of relay cx body u s s' r] by (auto simp: same_effect_def requested_def)

lemma withdraw_body_effect: "withdraw_body i u s = (s', r) \<Longrightarrow> same_effect s s'"
  by (auto simp: withdraw_body_def same_effect_def Let_def split: option.splits if_splits)

lemma request_access_effect:
  assumes "request_access relay cx body s = (s', r)"
  shows "same_effect s s'"
proof (rule with_user_cases [of cx s "\<lambda>u. with_body body (request_body relay cx body u)"])
  fix s1
  assume "current_user cx s = (s1, None)" "with_user cx (\<lambda>u. with_body body (request_body relay cx body u)) s = (s1, Err 401 ''unauthorized'')"
  with assms current_user_frame(1,2) [of cx s] show ?thesis by (simp add: request_access_def same_effect_def)
next
  fix s1 u
  assume c: "current_user cx s = (s1, Some u)"
    "with_user cx (\<lambda>u. with_body body (request_body relay cx body u)) s = with_body body (request_body relay cx body u) s1"
  have "same_effect s1 s'"
    using assms c(2) request_body_effect [of relay cx body u s1 s' r]
    by (auto simp: request_access_def with_body_def same_effect_def split: if_splits)
  then show ?thesis using c(1) current_user_frame(1,2) [of cx s] by (simp add: same_effect_def)
qed

lemma withdraw_request_effect:
  assumes "withdraw_request cx i s = (s', r)"
  shows "same_effect s s'"
proof (rule with_user_cases [of cx s "withdraw_body i"])
  fix s1
  assume "current_user cx s = (s1, None)" "with_user cx (withdraw_body i) s = (s1, Err 401 ''unauthorized'')"
  with assms current_user_frame(1,2) [of cx s] show ?thesis by (simp add: withdraw_request_def same_effect_def)
next
  fix s1 u
  assume c: "current_user cx s = (s1, Some u)" "with_user cx (withdraw_body i) s = withdraw_body i u s1"
  have "same_effect s1 s'"
    using assms c(2) withdraw_body_effect [of i u s1 s' r] by (simp add: withdraw_request_def)
  then show ?thesis using c(1) current_user_frame(1,2) [of cx s] by (simp add: same_effect_def)
qed

text \<open>Asking for access opens nothing: whatever a signed-in user submits to the request route, and
  whatever request they withdraw, the access decision of every user for every site at every time is the
  one it was before.\<close>
theorem requests_open_nothing:
  "d_allow (evaluateAccess \<I> (fst (request_access relay cx body s)) uid sid t) =
     d_allow (evaluateAccess \<I> s uid sid t) \<and>
   d_allow (evaluateAccess \<I> (fst (withdraw_request cx i s)) uid sid t) =
     d_allow (evaluateAccess \<I> s uid sid t)"
  using same_effect_decides [OF request_access_effect [OF surjective_pairing]]
    same_effect_decides [OF withdraw_request_effect [OF surjective_pairing]]
  by blast


section \<open>The life of a grant\<close>

text \<open>The operations of the console and of the vendors; new ids differ from \<open>i\<close> and from those in use.\<close>

inductive grant_step :: "ident \<Rightarrow> db \<Rightarrow> db \<Rightarrow> bool" for i where
  requested: "request_access relay cx body s = (s', r) \<Longrightarrow> cx_fresh cx \<noteq> i \<Longrightarrow>
    cx_fresh cx \<notin> g_id ` set (accessGrants s) \<Longrightarrow> grant_step i s s'"
| withdrawn: "withdraw_request cx j s = (s', b) \<Longrightarrow> grant_step i s s'"
| given: "create_grant cx body s = (s', r) \<Longrightarrow> cx_fresh cx \<noteq> i \<Longrightarrow>
    cx_fresh cx \<notin> g_id ` set (accessGrants s) \<Longrightarrow> grant_step i s s'"
| revoked: "revoke_grant cx j s = (s', b) \<Longrightarrow> grant_step i s s'"
| edited: "edit_grant cx j body s = (s', b) \<Longrightarrow> grant_step i s s'"
| decided: "decide_grant cx j body s = (s', b) \<Longrightarrow> grant_step i s s'"
| site_deleted: "delete_site cx j s = (s', b) \<Longrightarrow> grant_step i s s'"

inductive_cases grant_stepE: "grant_step i s s'"

text \<open>What one operation can do to the table of grants.\<close>

inductive table_step :: "ident \<Rightarrow> AccessGrant list \<Rightarrow> AccessGrant list \<Rightarrow> bool" for i where
  same: "table_step i t t"
| added: "g_id g \<noteq> i \<Longrightarrow> g_id g \<notin> g_id ` set t \<Longrightarrow>
    (PENDING_WHERE g \<Longrightarrow> \<forall>h \<in> set t. \<not> (g_userId h = g_userId g \<and> g_siteId h = g_siteId g \<and> PENDING_WHERE h)) \<Longrightarrow>
    table_step i t (insert_row g t)"
| removed: "table_step i t (delete_many q t)"
| changed: "(\<And>g. g_id (f g) = g_id g \<and> g_userId (f g) = g_userId g \<and> g_siteId (f g) = g_siteId g) \<Longrightarrow>
    (\<And>g. q g \<Longrightarrow> g_status (f g) = GrantStatus.ACTIVE \<Longrightarrow> g_status g = GrantStatus.ACTIVE) \<Longrightarrow>
    (\<And>g. q g \<Longrightarrow> PENDING_WHERE (f g) \<Longrightarrow> PENDING_WHERE g) \<Longrightarrow>
    table_step i t (update_many q f t)"

definition grants_wf :: "db \<Rightarrow> bool" where
  "grants_wf s \<longleftrightarrow> distinct (map g_id (accessGrants s)) \<and> one_pending (accessGrants s)"

definition closed_in :: "ident \<Rightarrow> AccessGrant list \<Rightarrow> bool" where
  "closed_in i t \<longleftrightarrow> (\<forall>g \<in> set t. g_id g = i \<longrightarrow> g_status g \<noteq> GrantStatus.ACTIVE)"

lemma table_step_closed:
  assumes "table_step i t t'" and "closed_in i t"
  shows "closed_in i t'"
  using assms
proof cases
  case (changed f q)
  show ?thesis
    unfolding closed_in_def changed(1)
  proof (intro ballI impI)
    fix x
    assume "x \<in> set (update_many q f t)" "g_id x = i"
    then obtain g where g: "g \<in> set t" "x = (if q g then f g else g)" by (auto simp: update_many_def)
    with \<open>g_id x = i\<close> changed(2) have "g_id g = i" by (auto split: if_splits)
    with assms(2) g(1) have "g_status g \<noteq> GrantStatus.ACTIVE" by (simp add: closed_in_def)
    with g(2) changed(3) show "g_status x \<noteq> GrantStatus.ACTIVE" by (auto split: if_splits)
  qed
qed (auto simp: closed_in_def)

lemma table_step_wf:
  assumes "table_step i t t'" and "distinct (map g_id t)" and "one_pending t"
  shows "distinct (map g_id t') \<and> one_pending t'"
  using assms
proof cases
  case (added g)
  then show ?thesis
    using assms(2) one_pending_insert [OF assms(3), of g] by (auto simp: insert_row_def)
next
  case (removed q)
  then show ?thesis using distinct_delete_many [OF assms(2)] one_pending_delete [OF assms(3)] by simp
next
  case (changed f q)
  have "map g_id t' = map g_id t" unfolding changed(1) by (rule map_update_many) (simp add: changed(2))
  moreover have "one_pending t'"
    unfolding changed(1) by (rule one_pending_update [OF assms(3)]) (use changed(2,4) in blast)
  ultimately show ?thesis using assms(2) by simp
qed (use assms in auto)


lemma request_body_table:
  assumes "request_body relay cx body u s = (s', r)" and "cx_fresh cx \<noteq> i"
    and "cx_fresh cx \<notin> g_id ` set (accessGrants s)"
  shows "table_step i (accessGrants s) (accessGrants s')"
proof -
  consider "accessGrants s' = accessGrants s" | "requested cx (u_id u) s s'"
    using request_body_grants(2) [OF assms(1)] by blast
  then show ?thesis
  proof cases
    case 2
    then obtain g where g: "accessGrants s' = insert_row g (accessGrants s)" "g_id g = cx_fresh cx"
      "\<forall>h \<in> set (accessGrants s). \<not> (g_userId h = g_userId g \<and> g_siteId h = g_siteId g \<and> PENDING_WHERE h)"
      by (auto simp: requested_def)
    show ?thesis unfolding g(1) by (rule table_step.added) (use g assms(2,3) in auto)
  qed (simp add: table_step.same)
qed

lemma withdraw_body_table: "withdraw_body j u s = (s', r) \<Longrightarrow> table_step i (accessGrants s) (accessGrants s')"
  by (auto simp: withdraw_body_def Let_def split: option.splits if_splits intro: table_step.same table_step.removed)

lemma createGrant_table:
  assumes "createGrant (cx_fresh cx) t inp a s = (s', r)" and "cx_fresh cx \<noteq> i"
    and "cx_fresh cx \<notin> g_id ` set (accessGrants s)"
  shows "table_step i (accessGrants s) (accessGrants s')"
proof -
  consider "accessGrants s' = accessGrants s"
    | g where "accessGrants s' = insert_row g (accessGrants s)" "g_id g = cx_fresh cx" "\<not> PENDING_WHERE g"
    using createGrant_grants [OF assms(1)] by blast
  then show ?thesis
  proof cases
    case (2 g)
    show ?thesis unfolding 2(1) by (rule table_step.added) (use 2 assms(2,3) in auto)
  qed (simp add: table_step.same)
qed

lemma create_grant_body_table:
  assumes "create_grant_body cx body u s = (s', r)" and "cx_fresh cx \<noteq> i"
    and "cx_fresh cx \<notin> g_id ` set (accessGrants s)"
  shows "table_step i (accessGrants s) (accessGrants s')"
  using assms(1) createGrant_table [OF _ assms(2,3)] unfolding create_grant_body_def Let_def
  by (auto split: if_splits option.splits prod.splits sum.splits intro: table_step.same)

lemma revokeGrant_table: "table_step i (accessGrants s) (accessGrants (revokeGrant j s))"
  unfolding revokeGrant_def
  by (simp, rule table_step.changed) (auto simp: PENDING_WHERE_def)

lemma decideGrant_table:
  "table_step i (accessGrants s) (accessGrants (fst (decideGrant j d a reason t s)))"
  unfolding decideGrant_def Let_def
  by (simp, rule table_step.changed) (auto simp: PENDING_WHERE_def decision_data_def split: grant_decision.splits)

lemma edit_table:
  "table_step i (accessGrants s) (update_many (\<lambda>h. g_id h = j \<and> g_status h = GrantStatus.ACTIVE) (edit_row en note) (accessGrants s))"
  by (rule table_step.changed) (auto simp: PENDING_WHERE_def edit_row_def)

lemma edit_grant_body_table:
  "edit_grant_body cx j body u s = (s', r) \<Longrightarrow> table_step i (accessGrants s) (accessGrants s')"
  unfolding edit_grant_body_def Let_def
  by (auto split: if_splits option.splits sum.splits intro: table_step.same edit_table)

lemma decide_body_table:
  assumes "decide_body cx j body u s = (s', r)"
  shows "table_step i (accessGrants s) (accessGrants s')"
proof -
  have "table_step i (accessGrants s) (accessGrants t)" if "applyGrantDecision cx u j d rs v s = (t, ok)" for d rs v t ok
    using that decideGrant_table [of i s j d "u_id u" "normalizeDenyReason rs" "cx_now cx"]
    by (auto simp: applyGrantDecision_def split: prod.splits if_splits)
  with assms show ?thesis
    by (auto simp: decide_body_def split: option.splits prod.splits intro: table_step.same)
qed

text \<open>A guarded handler does to the grants what its body does: signing in leaves them alone.\<close>

lemma guarded_table:
  assumes "with_capability cx cap body s = (s', a)"
    and "\<And>u s1 b. accessGrants s1 = accessGrants s \<Longrightarrow> body u s1 = (s', b) \<Longrightarrow> table_step i (accessGrants s) (accessGrants s')"
  shows "table_step i (accessGrants s) (accessGrants s')"
proof -
  have same: "accessGrants (fst (current_user cx s)) = accessGrants s" by simp
  show ?thesis
    by (rule with_capability_cases [of cx s cap body]) (use assms same in \<open>simp_all add: table_step.same, metis?\<close>)
qed

lemma guarded_user_table:
  assumes "with_user cx body s = (s', a)"
    and "\<And>u s1 b. accessGrants s1 = accessGrants s \<Longrightarrow> body u s1 = (s', b) \<Longrightarrow> table_step i (accessGrants s) (accessGrants s')"
  shows "table_step i (accessGrants s) (accessGrants s')"
proof -
  have same: "accessGrants (fst (current_user cx s)) = accessGrants s" by simp
  show ?thesis
    by (rule with_user_cases [of cx s body]) (use assms same in \<open>simp_all add: table_step.same, metis?\<close>)
qed


lemma grant_step_table:
  assumes "grant_step i s s'"
  shows "table_step i (accessGrants s) (accessGrants s')"
  using assms
proof (rule grant_stepE)
  fix relay cx body r
  assume "request_access relay cx body s = (s', r)" and f: "cx_fresh cx \<noteq> i" "cx_fresh cx \<notin> g_id ` set (accessGrants s)"
  then show ?thesis unfolding request_access_def
    by (elim guarded_user_table)
       (auto simp: with_body_def split: if_splits intro: table_step.same dest: request_body_table)
next
  fix cx j b
  assume "withdraw_request cx j s = (s', b)"
  then show ?thesis unfolding withdraw_request_def
    by (elim guarded_user_table) (metis withdraw_body_table)
next
  fix cx body r
  assume "create_grant cx body s = (s', r)" and f: "cx_fresh cx \<noteq> i" "cx_fresh cx \<notin> g_id ` set (accessGrants s)"
  then show ?thesis unfolding create_grant_def
    by (elim guarded_table) (auto simp: with_body_def split: if_splits intro: table_step.same dest: create_grant_body_table)
next
  fix cx j b
  assume "revoke_grant cx j s = (s', b)"
  then show ?thesis unfolding revoke_grant_def
    by (elim guarded_table) (auto split: option.splits intro: table_step.same dest: sym simp: revokeGrant_table)
next
  fix cx j body b
  assume "edit_grant cx j body s = (s', b)"
  then show ?thesis unfolding edit_grant_def
    by (elim guarded_table) (auto simp: with_body_def split: if_splits intro: table_step.same dest: edit_grant_body_table [where i = i])
next
  fix cx j body b
  assume "decide_grant cx j body s = (s', b)"
  then show ?thesis unfolding decide_grant_def
    by (elim guarded_table) (auto simp: with_body_def split: if_splits intro: table_step.same dest: decide_body_table [where i = i])
next
  fix cx j b
  assume "delete_site cx j s = (s', b)"
  then show ?thesis unfolding delete_site_def
    by (elim guarded_table) (auto simp: delete_site_rows_def split: if_splits intro: table_step.same table_step.removed)
qed


text \<open>C21: A closed grant stays closed: once a grant is denied or revoked, no sequence of requests, withdrawals,
  new grants, revocations, edits, decisions and site deletions makes a grant with its id let anyone through, at
  any time.\<close>
theorem closed_grant_stays_closed:
  assumes "(grant_step i)\<^sup>*\<^sup>* s s'" and "closed_in i (accessGrants s)"
  shows "\<forall>g \<in> set (accessGrants s'). g_id g = i \<longrightarrow> classifyGrant \<I> g t \<noteq> Allow"
proof -
  have "closed_in i (accessGrants s')"
    using assms by (induction rule: rtranclp_induct) (auto intro: table_step_closed [OF grant_step_table])
  then show ?thesis by (auto simp: closed_in_def classifyGrant_allow_iff)
qed

text \<open>The grant table keeps its shape: under every sequence of those operations grant ids stay unique and
  no user ever has two undecided requests for the same site.\<close>
theorem one_pending_request_invariant:
  assumes "(grant_step i)\<^sup>*\<^sup>* s s'" and "grants_wf s"
  shows "grants_wf s'"
  using assms
proof (induction rule: rtranclp_induct)
  case (step y z)
  then show ?case using table_step_wf [OF grant_step_table [OF step(2)]] by (auto simp: grants_wf_def)
qed

definition ex_denied_db :: db where
  "ex_denied_db = ex_signed_in (ex_db\<lparr>accessGrants := [ex_grant\<lparr>g_status := GrantStatus.DENIED\<rparr>]\<rparr>)"

lemma ex_signed_in_grants: "accessGrants (ex_signed_in s) = accessGrants s"
  by (simp add: ex_signed_in_def)

lemma ex_revoke_run:
  obtains s' b where "revoke_grant ex_ctx (Some ''g1'') ex_denied_db = (s', b)"
    "accessGrants s' = [ex_grant\<lparr>g_status := GrantStatus.REVOKED\<rparr>]"
proof -
  have ap: "can ADMIN Approve_grants" by code_simp
  obtain s' b where run: "revoke_grant ex_ctx (Some ''g1'') ex_denied_db = (s', b)" by fastforce
  have "accessGrants s' = [ex_grant\<lparr>g_status := GrantStatus.REVOKED\<rparr>]"
    using run
    by (auto simp: revoke_grant_def ex_denied_db_def ex_with_capability [OF ap] or_null_def revokeGrant_def
        touch_session_def ex_signed_in_grants update_many_def ex_grant_def)
  with run show thesis by (rule that)
qed

theorem closed_grant_stays_closed_witness:
  "\<exists>s'. (grant_step ''g1'')\<^sup>*\<^sup>* ex_denied_db s' \<and> accessGrants s' = [ex_grant\<lparr>g_status := GrantStatus.REVOKED\<rparr>] \<and>
     classifyGrant ex_intl (ex_grant\<lparr>g_status := GrantStatus.REVOKED\<rparr>) 500 \<noteq> Allow"
proof (rule ex_revoke_run)
  fix s' b
  assume run: "revoke_grant ex_ctx (Some ''g1'') ex_denied_db = (s', b)"
    "accessGrants s' = [ex_grant\<lparr>g_status := GrantStatus.REVOKED\<rparr>]"
  have step: "(grant_step ''g1'')\<^sup>*\<^sup>* ex_denied_db s'" using grant_step.revoked [OF run(1)] by blast
  have "closed_in ''g1'' (accessGrants ex_denied_db)"
    by (simp add: closed_in_def ex_denied_db_def ex_signed_in_def)
  from closed_grant_stays_closed [OF step this, of ex_intl 500] run(2) step show ?thesis
    by (auto simp: ex_grant_def)
qed

theorem one_pending_request_invariant_witness:
  "\<exists>s'. (grant_step ''g1'')\<^sup>*\<^sup>* ex_denied_db s' \<and> grants_wf ex_denied_db \<and> grants_wf s' \<and> accessGrants s' \<noteq> []"
proof (rule ex_revoke_run)
  fix s' b
  assume run: "revoke_grant ex_ctx (Some ''g1'') ex_denied_db = (s', b)"
    "accessGrants s' = [ex_grant\<lparr>g_status := GrantStatus.REVOKED\<rparr>]"
  have step: "(grant_step ''g1'')\<^sup>*\<^sup>* ex_denied_db s'" using grant_step.revoked [OF run(1)] by blast
  have "grants_wf ex_denied_db"
    by (simp add: grants_wf_def one_pending_def ex_denied_db_def ex_signed_in_def count_rows_def PENDING_WHERE_def)
  with one_pending_request_invariant [OF step this] step run(2) show ?thesis by auto
qed


section \<open>From a request to an open door\<close>

lemma request_body_stores:
  assumes "request_body relay cx body u s = (s', Ok k gid)"
  obtains g st en sch where "g \<in> set (accessGrants s')" "g_id g = gid" "PENDING_WHERE g" "g_userId g = u_id u"
    "g_siteId g = text_of body ''siteId''" "g_startsAt g = st" "g_endsAt g = en" "g_schedule g = schedule_column sch"
    "parseDate cx (body_field body ''startsAt'') = Some st" "parseDate cx (body_field body ''endsAt'') = Some en"
    "body_schedule cx body = Inr sch"
proof -
  have *: "\<exists>g \<in> set (accessGrants t). g_id g = gid \<and> PENDING_WHERE g \<and> g_userId g = gi_userId i \<and>
      g_siteId g = gi_siteId i \<and> g_startsAt g = gi_startsAt i \<and> g_endsAt g = gi_endsAt i \<and>
      g_schedule g = schedule_column (gi_schedule i)"
    if "store_request relay cx u i site s = (t, Ok k gid)" for i site t
    using that
    by (auto simp: store_request_def createAccessRequest_def insert_grant_def PENDING_WHERE_def
        split: if_splits option.splits)
  show thesis
    using assms unfolding request_body_def Let_def
    by (auto split: if_splits option.splits prod.splits sum.splits dest!: * intro: that)
qed

lemma decide_approves:
  assumes "decide_body cx gid body u s = (s', Ok k ())" and "body_field body ''decision'' = JStr ''approve''"
    and "g \<in> set (accessGrants s)" "g_id g = gid" "PENDING_WHERE g"
  shows "g\<lparr>g_approvedAt := Some (cx_now cx), g_approvedById := Some (u_id u)\<rparr> \<in> set (accessGrants s') \<and> users s' = users s"
proof -
  let ?p = "\<lambda>h. g_id h = gid \<and> PENDING_WHERE h"
  obtain n where "decideGrant gid Approve (u_id u) (normalizeDenyReason (body_field body ''reason'')) (cx_now cx) s =
      (s\<lparr>accessGrants := update_many ?p (decision_data Approve (u_id u) (normalizeDenyReason (body_field body ''reason'')) (cx_now cx)) (accessGrants s)\<rparr>, n)"
    by (simp add: decideGrant_def Let_def)
  then have "accessGrants s' = update_many ?p (decision_data Approve (u_id u) (normalizeDenyReason (body_field body ''reason'')) (cx_now cx)) (accessGrants s)"
    "users s' = users s"
    using assms(1,2) by (auto simp: decide_body_def decision_of_def applyGrantDecision_def split: if_splits)
  moreover have "decision_data Approve (u_id u) (normalizeDenyReason (body_field body ''reason'')) (cx_now cx) g \<in>
      set (update_many ?p (decision_data Approve (u_id u) (normalizeDenyReason (body_field body ''reason'')) (cx_now cx)) (accessGrants s))"
    using assms(3,4,5) by (auto simp: update_many_def)
  ultimately show ?thesis by (simp add: decision_data_def)
qed

lemma with_user_Ok:
  assumes "with_user cx body s = (s', Ok k v)"
  obtains u s1 where "current_user cx s = (s1, Some u)" "body u s1 = (s', Ok k v)"
  by (rule with_user_cases [of cx s body]) (use assms that in auto)

lemma with_capability_Ok:
  assumes "with_capability cx cap body s = (s', Ok k v)"
  obtains u s1 where "current_user cx s = (s1, Some u)" "can (u_role u) cap" "body u s1 = (s', Ok k v)"
  by (rule with_capability_cases [of cx s cap body]) (use assms that in auto)


text \<open>C22: A request that is approved opens the door: when the request route accepted a request of an active
  user and an administrator's approval of it succeeded, the data plane is told to let that user through to that
  site at every moment inside the requested window and schedule.\<close>
theorem approved_request_opens_access:
  assumes "request_access relay cx body s = (s1, Ok k gid)"
    and "decide_grant cx' gid decision s1 = (s2, Ok k' ())"
    and "body_field decision ''decision'' = JStr ''approve''"
    and "snd (current_user cx s) = Some u" and "user_by_id s (u_id u) = Some u'" and "u_status u' = UserStatus.ACTIVE"
    and "parseDate cx (body_field body ''startsAt'') = Some st" and "\<not> is_before t st"
    and "parseDate cx (body_field body ''endsAt'') = Some en" and "\<not> is_after t en"
    and "body_schedule cx body = Inr sch" and "\<not> off_schedule \<I> (schedule_column sch) t"
  shows "d_allow (evaluateAccess \<I> s2 (u_id u) (text_of body ''siteId'') t)"
proof -
  have "with_user cx (\<lambda>u. with_body body (request_body relay cx body u)) s = (s1, Ok k gid)"
    using assms(1) by (simp add: request_access_def)
  then obtain v r1 where v: "current_user cx s = (r1, Some v)" "with_body body (request_body relay cx body v) r1 = (s1, Ok k gid)"
    by (rule with_user_Ok)
  have "v = u" using v(1) assms(4) by simp
  then have "request_body relay cx body u r1 = (s1, Ok k gid)"
    using v(2) by (simp add: with_body_def split: if_splits)
  then obtain g where g: "g \<in> set (accessGrants s1)" "g_id g = gid" "PENDING_WHERE g" "g_userId g = u_id u"
    "g_siteId g = text_of body ''siteId''" "g_startsAt g = st" "g_endsAt g = en" "g_schedule g = schedule_column sch"
    using assms(7,9,11) by (auto elim: request_body_stores)
  have "with_capability cx' Approve_grants (\<lambda>admin. with_body decision (decide_body cx' gid decision admin)) s1 = (s2, Ok k' ())"
    using assms(2) by (simp add: decide_grant_def)
  then obtain a r2 where a: "current_user cx' s1 = (r2, Some a)"
    "with_body decision (decide_body cx' gid decision a) r2 = (s2, Ok k' ())" by (rule with_capability_Ok)
  have r2: "accessGrants r2 = accessGrants s1" "users r2 = users s1"
    using a(1) current_user_frame(1,2) [of cx' s1] by auto
  have d: "decide_body cx' gid decision a r2 = (s2, Ok k' ())"
    using a(2) by (simp add: with_body_def split: if_splits)
  let ?g = "g\<lparr>g_approvedAt := Some (cx_now cx'), g_approvedById := Some (u_id a)\<rparr>"
  have fin: "?g \<in> set (accessGrants s2)" "users s2 = users r2"
    using decide_approves [OF d assms(3) _ g(2,3)] g(1) r2(1) by auto
  have "classifyGrant \<I> ?g t = Allow"
    using g(3,6,7,8) assms(8,10,12) by (simp add: classifyGrant_allow_iff PENDING_WHERE_def)
  moreover have "users s2 = users s"
    using fin(2) r2(2) request_access_effect [OF assms(1)] by (simp add: same_effect_def)
  moreover have "g_userId ?g = u_id u" "g_siteId ?g = text_of body ''siteId''" using g(4,5) by simp_all
  ultimately have "\<exists>h \<in> set (accessGrants s2). g_userId h = u_id u \<and> g_siteId h = text_of body ''siteId'' \<and>
      classifyGrant \<I> h t = Allow" "user_by_id s2 (u_id u) = Some u'"
    using fin(1) assms(5) by (blast, simp add: user_by_id_def)
  then show ?thesis using assms(6) by (auto simp: evaluateAccess_allow_iff)
qed


definition ex_request_db :: db where
  "ex_request_db = ex_signed_in (empty_db\<lparr>sites := [ex_site]\<rparr>)"

definition ex_request :: js where
  "ex_request = JObj [(''siteId'', JStr ''s1''), (''note'', JStr ''maintenance'')]"

definition ex_approve :: js where
  "ex_approve = JObj [(''decision'', JStr ''approve'')]"

definition no_relay :: relay where
  "no_relay = (\<lambda>_. None)"

lemma ex_request_run:
  obtains s1 g where "request_access no_relay ex_ctx ex_request ex_request_db = (s1, Ok 201 ''n1'')"
    "accessGrants s1 = [g]" "g_id g = ''n1''" "PENDING_WHERE g" "users s1 = [ex_admin]"
    "sessions s1 = [ex_session\<lparr>s_id := ''x2'', s_userId := ''a1'', s_tokenHash := ''h2'', s_lastSeenAt := 500\<rparr>]"
proof -
  let ?s = "touch_session ''x2'' 500 ex_request_db"
  have rows: "accessGrants ?s = []" "sites ?s = [ex_site]" "users ?s = [ex_admin]" "platformSettings ?s = None"
    "sessions ?s = [ex_session\<lparr>s_id := ''x2'', s_userId := ''a1'', s_tokenHash := ''h2'', s_lastSeenAt := 500\<rparr>]"
    by (simp_all add: ex_request_db_def ex_signed_in_def empty_db_def touch_session_def update_many_def)
  have body: "text_of ex_request ''siteId'' = ''s1''" "text_of ex_request ''note'' = ''maintenance''"
    "body_field ex_request ''startsAt'' = JUndef" "body_field ex_request ''endsAt'' = JUndef"
    "body_field ex_request ''schedule'' = JUndef" "ex_request \<noteq> JNull"
    by code_simp+
  have settings: "resolvedMaxGrantDays (settings_in ?s) = 0" "site_by_id ?s ''s1'' = Some ex_site"
    "user_by_id ?s ''a1'' = Some ex_admin" "u_id ex_admin = ''a1''"
    by (simp_all add: settings_in_def rows settings_of_row_def EMPTY_SETTINGS_def resolvedMaxGrantDays_def
        positive_or_zero_def site_by_id_def user_by_id_def find_first_def ex_site_def ex_admin_def)
  obtain s1 r where run: "request_body no_relay ex_ctx ex_request ex_admin ?s = (s1, r)" by fastforce
  have all: "request_access no_relay ex_ctx ex_request ex_request_db = (s1, r)"
    using run body(6) by (simp add: request_access_def ex_request_db_def ex_with_user with_body_def)
  have "r = Ok 201 ''n1'' \<and> (\<exists>g. accessGrants s1 = [g] \<and> g_id g = ''n1'' \<and> PENDING_WHERE g) \<and> users s1 = users ?s \<and>
      sessions s1 = sessions ?s"
    using run
    by (auto simp: request_body_def body settings parseDate_def window_error_def grantCapError_def
        body_schedule_def store_request_def held_def listUserGrants_def rows order_desc_def find_many_def
        createAccessRequest_def find_first_def insert_grant_def grant_keys_ok_def PENDING_WHERE_def insert_row_def
        notify_request_def ex_ctx_def Let_def)
  with all rows(3,5) show thesis by (auto intro: that)
qed


lemma ex_again_signed_in:
  assumes "users s = [ex_admin]"
    and "sessions s = [ex_session\<lparr>s_id := ''x2'', s_userId := ''a1'', s_tokenHash := ''h2'', s_lastSeenAt := 500\<rparr>]"
  shows "snd (current_user ex_ctx s) = Some ex_admin"
  using assms
  by (simp add: current_user_def getCurrentUser_def ex_ctx_def truthy_def getSessionUser_def session_by_token_def
      find_first_def ex_session_def user_by_id_def ex_admin_def ex_member_def idleExpired_def EMPTY_POLICY_def)

lemma ex_approve_run:
  assumes "accessGrants s1 = [g]" "g_id g = ''n1''" "PENDING_WHERE g" "users s1 = [ex_admin]"
    "sessions s1 = [ex_session\<lparr>s_id := ''x2'', s_userId := ''a1'', s_tokenHash := ''h2'', s_lastSeenAt := 500\<rparr>]"
  obtains s2 where "decide_grant ex_ctx ''n1'' ex_approve s1 = (s2, Ok 200 ())"
proof -
  have ap: "can (u_role ex_admin) Approve_grants" by code_simp
  obtain r where r: "current_user ex_ctx s1 = (r, Some ex_admin)"
    using ex_again_signed_in [OF assms(4,5)] by (cases "current_user ex_ctx s1") auto
  have "accessGrants r = [g]" using r current_user_frame(1) [of ex_ctx s1] assms(1) by simp
  then have "snd (decide_body ex_ctx ''n1'' ex_approve ex_admin r) = Ok 200 ()"
    using assms(2,3)
    by (auto simp: decide_body_def decision_of_def ex_approve_def body_field_def field_def applyGrantDecision_def
        decideGrant_def count_rows_def Let_def)
  then show thesis
    using r ap that
    by (cases "decide_body ex_ctx ''n1'' ex_approve ex_admin r")
       (auto simp: decide_grant_def with_capability_def with_user_def with_body_def ex_approve_def)
qed

theorem approved_request_opens_access_witness:
  "\<exists>s1 s2. request_access no_relay ex_ctx ex_request ex_request_db = (s1, Ok 201 ''n1'') \<and>
     decide_grant ex_ctx ''n1'' ex_approve s1 = (s2, Ok 200 ()) \<and>
     d_allow (evaluateAccess ex_intl s2 ''a1'' ''s1'' 700)"
proof (rule ex_request_run)
  fix s1 g
  assume req: "request_access no_relay ex_ctx ex_request ex_request_db = (s1, Ok 201 ''n1'')"
    and rows: "accessGrants s1 = [g]" "g_id g = ''n1''" "PENDING_WHERE g" "users s1 = [ex_admin]"
      "sessions s1 = [ex_session\<lparr>s_id := ''x2'', s_userId := ''a1'', s_tokenHash := ''h2'', s_lastSeenAt := 500\<rparr>]"
  from rows obtain s2 where dec: "decide_grant ex_ctx ''n1'' ex_approve s1 = (s2, Ok 200 ())" by (rule ex_approve_run)
  have b: "body_field ex_approve ''decision'' = JStr ''approve''"
    "parseDate ex_ctx (body_field ex_request ''startsAt'') = Some None"
    "parseDate ex_ctx (body_field ex_request ''endsAt'') = Some None"
    "body_schedule ex_ctx ex_request = Inr None" "text_of ex_request ''siteId'' = ''s1''"
    by (code_simp, code_simp, code_simp, code_simp, code_simp)
  have u: "snd (current_user ex_ctx ex_request_db) = Some ex_admin"
    by (simp add: ex_request_db_def ex_current_user)
  have v: "user_by_id ex_request_db (u_id ex_admin) = Some ex_admin" "u_status ex_admin = UserStatus.ACTIVE" "u_id ex_admin = ''a1''"
    by (simp_all add: ex_request_db_def ex_signed_in_def user_by_id_def find_first_def ex_admin_def ex_member_def)
  from approved_request_opens_access [OF req dec b(1) u v(1,2) b(2) _ b(3) _ b(4), of 700 ex_intl]
  have "d_allow (evaluateAccess ex_intl s2 ''a1'' ''s1'' 700)"
    by (simp add: is_before_def is_after_def schedule_column_def off_schedule_def v(3) b(5))
  with req dec show ?thesis by blast
qed

section \<open>What the data plane is told\<close>


text \<open>C24: A stored secret leaves the manager only for a connection the grants allow: if the gateway descriptor
  is answered with a decrypted credential, the caller held the data-plane secret, the site is a gateway site, the
  credential is the one stored for that very site, and the named user is allowed on it at that moment.\<close>
theorem secret_needs_grant:
  assumes "gateway_descriptor C cx body s = (s', Ok k (Guac g))"
  shows "dataplaneAuthorized (cx_env cx) (cx_headers cx) \<and> s' = s \<and>
    d_allow (evaluateAccess (cx_intl cx) s (raw_text_of body ''userId'') (raw_text_of body ''siteId'') (cx_now cx)) \<and>
    (\<exists>r c. site_by_id s (raw_text_of body ''siteId'') = Some r \<and> site_accessMode r = GATEWAY \<and>
       vault_row (site_id r) s = Some c \<and> decrypt C (cx_env cx) (v_secret c) = Some (gd_secret g))"
  using assms
  by (auto simp: gateway_descriptor_def with_body_def describe_session_def getVaultCredential_def guac_of_def Let_def
      split: if_splits option.splits SiteAccessMode.splits)
     (metis SiteAccessMode.exhaust)+


definition ex_dp_ctx :: ctx where
  "ex_dp_ctx = ex_ctx\<lparr>cx_env := [''DATAPLANE_SECRET'' \<mapsto> ''k'', ''ENCRYPTION_KEY'' \<mapsto> replicate 64 CHR ''a''],
     cx_headers := [''x-dataplane-secret'' \<mapsto> ''k'']\<rparr>"

definition ex_dp_body :: js where
  "ex_dp_body = JObj [(''userId'', JStr ''u1''), (''siteId'', JStr ''s1''), (''clientIp'', JStr ''1.2.3.4'')]"

definition ex_vault :: VaultCredential where
  "ex_vault = \<lparr>v_siteId = ''s1'', v_protocol = RDP, v_targetHost = ''10.0.0.9'', v_targetPort = 3389,
     v_username = ''svc'', v_secret = ''wp!'', v_secretKind = PASSWORD, v_guacParams = JNull\<rparr>"

definition ex_gateway_db :: "PlatformSettings option \<Rightarrow> bool \<Rightarrow> db" where
  "ex_gateway_db p recs = ex_db\<lparr>platformSettings := p, vaultCredentials := [ex_vault],
     sites := [ex_site\<lparr>site_recordSessions := recs\<rparr>],
     accessGrants := [ex_grant\<lparr>g_approvedAt := Some 10\<rparr>]\<rparr>"

lemma ex_gateway_allowed: "d_allow (evaluateAccess ex_intl (ex_gateway_db p recs) ''u1'' ''s1'' 500)"
  by (auto simp: evaluateAccess_allow_iff classifyGrant_allow_iff ex_gateway_db_def ex_defs user_by_id_def find_first_def
      is_before_def is_after_def off_schedule_def)

lemma ex_gateway_descriptor:
  obtains g where "gateway_descriptor ex_cipher ex_dp_ctx ex_dp_body (ex_gateway_db p recs) =
      (ex_gateway_db p recs, Ok 200 (Guac g))"
    "gd_secret g = ''pw''"
    "gd_record g = effectiveSiteRecording (cx_env ex_dp_ctx) EMPTY_ENVELOPE (settings_of_row p) recs"
    "gd_keystrokeLogging g = effectiveKeystrokeLogging (resolvedKeystrokeLoggingMode (settings_of_row p)) True recs False"
proof -
  have body: "raw_text_of ex_dp_body ''userId'' = ''u1''" "raw_text_of ex_dp_body ''siteId'' = ''s1''" "ex_dp_body \<noteq> JNull"
    and auth: "dataplaneAuthorized (cx_env ex_dp_ctx) (cx_headers ex_dp_ctx)"
    and recs: "recordingEnabled (cx_env ex_dp_ctx)"
    by code_simp+
  have key: "encryption_key (cx_env ex_dp_ctx) = Some (replicate 64 CHR ''a'')"
    by (simp add: encryption_key_def ex_dp_ctx_def is_hex_def radix_digit_def is_digit_def is_lower_def list_all_iff)
  have ctx: "cx_intl ex_dp_ctx = ex_intl" "cx_now ex_dp_ctx = 500" "cx_envelope ex_dp_ctx = EMPTY_ENVELOPE"
    by (simp_all add: ex_dp_ctx_def ex_ctx_def)
  have rows: "site_by_id (ex_gateway_db p recs) ''s1'' = Some (ex_site\<lparr>site_recordSessions := recs\<rparr>)"
    "vault_row ''s1'' (ex_gateway_db p recs) = Some ex_vault" "settings_in (ex_gateway_db p recs) = settings_of_row p"
    by (simp_all add: ex_gateway_db_def site_by_id_def vault_row_def find_first_def ex_site_def ex_vault_def settings_in_def)
  have "gateway_descriptor ex_cipher ex_dp_ctx ex_dp_body (ex_gateway_db p recs) =
      (ex_gateway_db p recs, Ok 200 (Guac (guac_of ex_dp_ctx (ex_site\<lparr>site_recordSessions := recs\<rparr>)
         (ex_vault\<lparr>v_secret := ''pw''\<rparr>) (ex_gateway_db p recs))))"
    using auth body rows ex_gateway_allowed [of p recs]
    by (simp add: gateway_descriptor_def with_body_def ctx describe_session_def getVaultCredential_def decrypt_def key
        ex_site_def ex_cipher_def ex_vault_def Let_def)
  then show thesis
    by (rule that) (simp_all add: guac_of_def ctx rows recs ex_site_def)
qed

theorem secret_needs_grant_witness:
  "\<exists>g. gateway_descriptor ex_cipher ex_dp_ctx ex_dp_body (ex_gateway_db None False) =
      (ex_gateway_db None False, Ok 200 (Guac g)) \<and> gd_secret g = ''pw'' \<and>
    d_allow (evaluateAccess (cx_intl ex_dp_ctx) (ex_gateway_db None False) (raw_text_of ex_dp_body ''userId'')
      (raw_text_of ex_dp_body ''siteId'') (cx_now ex_dp_ctx))"
proof (rule ex_gateway_descriptor [of None False])
  fix g
  assume "gateway_descriptor ex_cipher ex_dp_ctx ex_dp_body (ex_gateway_db None False) =
      (ex_gateway_db None False, Ok 200 (Guac g))" "gd_secret g = ''pw''"
  with secret_needs_grant [OF this(1)] show ?thesis by blast
qed

lemma ex_sock:
  "sock_of ''10.0.0.1'' = Some (V4 (word_of_nat 167772161))" "sock_of ''1.2.3.4'' = Some (V4 (word_of_nat 16909060))"
proof -
  have "collect v4_octet (split_on CHR ''.'' ''10.0.0.1'') = Some [10, 0, 0, 1]"
    "collect v4_octet (split_on CHR ''.'' ''1.2.3.4'') = Some [1, 2, 3, 4]" by code_simp+
  then show "sock_of ''10.0.0.1'' = Some (V4 (word_of_nat 167772161))" "sock_of ''1.2.3.4'' = Some (V4 (word_of_nat 16909060))"
    by (simp_all add: sock_of_def parse_v4_def)
qed

lemma ex_address_refused: "\<not> snd (ipAllowed ''10.0.0.1'' ''1.2.3.4'' None)"
proof -
  have "entriesOf ''10.0.0.1'' = [''10.0.0.1'']" "normalizeIp ''1.2.3.4'' = ''1.2.3.4''" by code_simp+
  then show ?thesis
    by (simp add: ipAllowed_def cached_list_def build_def build_loop_def addEntry_def ex_sock bl_check_def)
qed
text \<open>The address allowlist is a condition of \<^verbatim>\<open>internal/access/check\<close> only: a remote-desktop session, which the
  data plane opens with the descriptor alone, is authorised from an address that the check refuses.\<close>

lemma descriptor_ignores_allowlist:
  "let s = ex_gateway_db (Some (EMPTY_SETTINGS\<lparr>ps_vendorIpAllowlist := Some ''10.0.0.1''\<rparr>)) False in
     snd (access_check None ex_dp_ctx ex_dp_body s) = Ok 200 Ip_not_allowed \<and>
     (\<exists>g. snd (gateway_descriptor ex_cipher ex_dp_ctx ex_dp_body s) = Ok 200 (Guac g) \<and> gd_secret g = ''pw'')"
proof -
  let ?p = "EMPTY_SETTINGS\<lparr>ps_vendorIpAllowlist := Some ''10.0.0.1''\<rparr>"
  note ex_address_refused
  moreover have "dataplaneAuthorized (cx_env ex_dp_ctx) (cx_headers ex_dp_ctx)"
    "raw_text_of ex_dp_body ''userId'' = ''u1''" "raw_text_of ex_dp_body ''siteId'' = ''s1''"
    "raw_text_of ex_dp_body ''clientIp'' = ''1.2.3.4''" "ex_dp_body \<noteq> JNull"
    "resolvedVendorIpAllowlist (settings_in (ex_gateway_db (Some ?p) False)) = ''10.0.0.1''"
    by code_simp+
  ultimately have "snd (access_check None ex_dp_ctx ex_dp_body (ex_gateway_db (Some ?p) False)) = Ok 200 Ip_not_allowed"
    by (simp add: access_check_def with_body_def Let_def)
  moreover obtain g where "gateway_descriptor ex_cipher ex_dp_ctx ex_dp_body (ex_gateway_db (Some ?p) False) =
      (ex_gateway_db (Some ?p) False, Ok 200 (Guac g))" "gd_secret g = ''pw''"
    by (rule ex_gateway_descriptor [of "Some ?p" False])
  ultimately show ?thesis by simp
qed

text \<open>The keystroke decision looks at the site's own recording toggle, not at whether the session is recorded: a
  tenant that switched recording off still has keystrokes captured on a site whose toggle is on, and one that requires
  both gets recording without keystrokes on a site whose toggle is off.\<close>

lemma keystrokes_without_recording:
  "\<exists>g. snd (gateway_descriptor ex_cipher ex_dp_ctx ex_dp_body (ex_gateway_db
       (Some (EMPTY_SETTINGS\<lparr>ps_recordingMode := Some ''off'', ps_keystrokeLoggingMode := Some ''required''\<rparr>)) True)) =
       Ok 200 (Guac g) \<and> \<not> gd_record g \<and> gd_keystrokeLogging g"
proof -
  let ?p = "EMPTY_SETTINGS\<lparr>ps_recordingMode := Some ''off'', ps_keystrokeLoggingMode := Some ''required''\<rparr>"
  have "\<not> effectiveSiteRecording (cx_env ex_dp_ctx) EMPTY_ENVELOPE (settings_of_row (Some ?p)) True"
    "effectiveKeystrokeLogging (resolvedKeystrokeLoggingMode (settings_of_row (Some ?p))) True True False"
    by code_simp+
  then show ?thesis by (metis ex_gateway_descriptor [of "Some ?p" True] snd_conv)
qed


text \<open>A request that nobody decided before its end blocks the vendor: the picker offers the site again and the
  guard of the request route lets the vendor pass, but the request itself is refused as pending, at every later
  time.\<close>

lemma expired_request_blocks:
  assumes "accessGrants s = [g]" and "PENDING_WHERE g" and "g_endsAt g = Some e" and "e < t"
    and "g_startsAt g = None \<or> (\<exists>b \<le> e. g_startsAt g = Some b)" and "site_by_id s (g_siteId g) = Some r"
    and "gi_userId i = g_userId g" and "gi_siteId i = g_siteId g"
  shows "r \<in> set (listSitesForRequest \<I> (g_userId g) t s)"
    and "createAccessRequest nid t i s = (s, Inl ''request_pending'')"
proof -
  have c: "classifyGrant \<I> g t = Expired"
    using assms(2-5) by (auto simp: classifyGrant_def PENDING_WHERE_def is_before_def is_after_def)
  have "r \<in> set (sites s)" using assms(6) find_first_Some [of _ "sites s" r] by (simp add: site_by_id_def)
  then show "r \<in> set (listSitesForRequest \<I> (g_userId g) t s)"
    using assms(1) c by (simp add: listSitesForRequest_def listUserGrants_def find_many_def order_desc_def)
  show "createAccessRequest nid t i s = (s, Inl ''request_pending'')"
    using assms(1,2,7,8) by (simp add: createAccessRequest_def find_first_def)
qed

section \<open>Push notifications\<close>

text \<open>The batches handed to the relay when every call succeeds.\<close>

function batches :: "string list \<Rightarrow> string list list" where
  "batches valid = (if valid = [] then [] else take EXPO_CHUNK valid # batches (drop EXPO_CHUNK valid))"
  by pat_completeness auto
termination
  by (relation "measure length") (auto simp: EXPO_CHUNK_def)

declare batches.simps [simp del]

lemma concat_batches: "concat (batches valid) = valid"
  by (induction valid rule: batches.induct) (subst batches.simps, auto)

lemma length_batches: "length (batches valid) = (length valid + 99) div 100"
proof (induction valid rule: batches.induct)
  case (1 valid)
  show ?case
  proof (cases "valid = []")
    case False
    then have "length (batches valid) = Suc ((length valid - 100 + 99) div 100)"
      using 1 by (subst batches.simps) (simp add: EXPO_CHUNK_def)
    also have "\<dots> = (length valid + 99) div 100"
    proof (cases "length valid \<le> 100")
      case True
      have "1 \<le> length valid" using False by (cases valid) auto
      with True have "(length valid + 99) div 100 = 1" by simp
      with True show ?thesis by simp
    next
      case False
      then obtain k where "length valid = k + 100" by (metis add.commute le_add_diff_inverse nat_le_linear)
      then show ?thesis by simp
    qed
    finally show ?thesis .
  qed (simp add: batches.simps)
qed

lemma batches_small: "b \<in> set (batches valid) \<Longrightarrow> b \<noteq> [] \<and> length b \<le> 100"
  by (induction valid rule: batches.induct) (subst (asm) batches.simps, auto simp: EXPO_CHUNK_def split: if_splits)

lemma send_batches_eq:
  "send_batches relay valid =
     (if \<exists>b \<in> set (batches valid). relay b = None then None
      else Some (concat (map (\<lambda>b. dead_tokens b (the (relay b))) (batches valid))))"
proof (induction relay valid rule: send_batches.induct)
  case (1 relay valid)
  show ?case
  proof (cases "valid = []")
    case False
    then have b: "batches valid = take EXPO_CHUNK valid # batches (drop EXPO_CHUNK valid)"
      by (subst batches.simps) simp
    show ?thesis
      using 1 False by (subst send_batches.simps) (auto simp: b split: option.splits)
  qed (simp add: send_batches.simps batches.simps)
qed

lemma dead_tokens_sub: "set (dead_tokens b a) \<subseteq> set b"
  by (auto simp: dead_tokens_def dest: set_zip_leftD)




section \<open>The shared audit log\<close>

definition tenant_append :: "ctx \<Rightarrow> AuditInput list \<Rightarrow> db \<Rightarrow> db" where
  "tenant_append cx events s = fst (appendAuditEvents (cx_H cx) (cx_parse_date cx) (cx_now cx) events s)"

lemma all_some_length: "all_some xs = Some ys \<Longrightarrow> length ys = length xs"
  by (induction xs arbitrary: ys rule: all_some.induct) auto

lemma append_count:
  assumes "appendAuditEvents H pd now evs s = (s', Some j)"
  shows "j = length evs"
proof (cases "evs = []")
  case False
  then obtain ns where ns: "all_some (map (normalizeAuditInput pd now s) evs) = Some ns"
    using assms by (auto simp: appendAuditEvents_def split: option.splits)
  obtain rows h where r: "chain_rows H (upsert_head (accessChain s)) ns = (rows, h)" by fastforce
  have "j = length rows" using assms False ns r by (simp add: appendAuditEvents_def)
  then show ?thesis using chain_rows_ok [OF r] all_some_length [OF ns] by simp
qed (use assms in \<open>simp add: appendAuditEvents_def\<close>)

lemma append_groups_ok:
  assumes "multiTenantEnabled (cx_env cx)"
  shows "distinct (map fst gs) \<Longrightarrow> append_groups cx gs k c = (c', Inr n) \<Longrightarrow>
    (\<forall>t. data c' t = (case map_of gs t of None \<Rightarrow> data c t | Some evs \<Rightarrow> tenant_append cx evs (data c t))) \<and>
    n = k + sum_list (map (length \<circ> snd) gs)"
proof (induction gs arbitrary: k c)
  case (Cons x gs)
  obtain tid evs where x: "x = (tid, evs)" by fastforce
  obtain s1 m where a: "appendAuditEvents (cx_H cx) (cx_parse_date cx) (cx_now cx) evs (data c tid) = (s1, m)" by fastforce
  obtain j where j: "m = Some j"
    using Cons.prems(2) a x assms by (cases m) (auto simp: withTenant_def append_scoped_def)
  have run: "append_groups cx gs (k + j) (c\<lparr>data := (data c)(tid := s1)\<rparr>) = (c', Inr n)"
    using Cons.prems(2) a x j assms by (simp add: withTenant_def append_scoped_def)
  have d: "distinct (map fst gs)" "map_of gs tid = None"
    using Cons.prems(1) x by (auto simp: map_of_eq_None_iff)
  have "s1 = tenant_append cx evs (data c tid)" using a by (simp add: tenant_append_def)
  moreover note Cons.IH [OF d(1) run]
  moreover have "j = length evs" using append_count a j by blast
  ultimately show ?case using d(2) x by (auto split: option.splits)
qed simp

lemma push_under_total:
  "sum_list (map (length \<circ> snd) (push_under k v m)) = Suc (sum_list (map (length \<circ> snd) m))"
  by (induction k v m rule: push_under.induct) auto

lemma grouped_total:
  "sum_list (map (length \<circ> snd) (group_by_connector f key out xs)) =
     sum_list (map (length \<circ> snd) out) + length (filter (\<lambda>x. f x \<noteq> None) xs)"
  by (induction f key out xs rule: group_by_connector.induct) (auto simp: push_under_total [unfolded comp_def] split: option.splits)

definition events_of :: "cloud \<Rightarrow> ident \<Rightarrow> AuditInput list \<Rightarrow> AuditInput list" where
  "events_of c t events = filter (\<lambda>e. resolveEventTenant c e = Some t) events"

text \<open>A batch of the shared data plane is split by owner: when the log route answers, every tenant's log
  has grown by exactly the events that belong to that tenant, in the order of the batch and sealed into that
  tenant's own chain; nothing else of any tenant changed, and the inserted and the dropped events add up to the
  batch.\<close>
theorem audit_batch_split_by_tenant:
  assumes "multiTenantEnabled (cx_env cx)" and "audit_log_route cx events c = (c', Ok k (n, d))"
  shows "(\<forall>t. data c' t = tenant_append cx (events_of c t events) (data c t)) \<and> n + d = length events"
proof -
  let ?g = "group_by_connector (resolveEventTenant c) (\<lambda>e. e) [] events"
  have log: "audit_log cx events c = (c', Ok k (n, d))"
    using assms(2) by (auto simp: audit_log_route_def requireDataplaneSecret_def split: option.splits if_splits)
  then have run: "append_groups cx ?g 0 c = (c', Inr n)" and d: "d = length (filter (\<lambda>e. resolveEventTenant c e = None) events)"
    using assms(1) by (auto simp: audit_log_def Let_def split: prod.splits sum.splits)
  note ok = append_groups_ok [OF assms(1) distinct_group_by_connector run, simplified]
  have "map_of ?g t = (if events_of c t events = [] then None else Some (events_of c t events))" for t
    by (simp add: map_of_group_by_connector events_of_def Let_def)
  moreover have "tenant_append cx [] s = s" for s by (simp add: tenant_append_def appendAuditEvents_def)
  moreover have "length (filter (\<lambda>e. resolveEventTenant c e \<noteq> None) events) + d = length events"
    unfolding d using sum_length_filter_compl [of "\<lambda>e. resolveEventTenant c e \<noteq> None" events] by simp
  ultimately show ?thesis using ok grouped_total [of "resolveEventTenant c" "\<lambda>e. e" "[]" events] by simp
qed


definition ex_log_ctx :: ctx where
  "ex_log_ctx = ex_ctx\<lparr>cx_env := [''MULTI_TENANT'' \<mapsto> ''true'', ''DATAPLANE_SECRET'' \<mapsto> ''k''],
     cx_headers := [''x-dataplane-secret'' \<mapsto> ''k'']\<rparr>"

definition ex_owned :: AuditInput where
  "ex_owned = ex_input\<lparr>ai_siteId := Some ''s1'', ai_host := None\<rparr>"

definition ex_orphan :: AuditInput where
  "ex_orphan = ex_input\<lparr>ai_siteId := None, ai_host := None\<rparr>"

definition ex_tenant :: TenantRow where
  "ex_tenant = \<lparr>t_id = ''t1'', t_slug = ''acme'', t_name = ''Acme'', t_status = ''ACTIVE'', t_plan = ''pro'',
     t_trialEndsAt = None, t_deletedAt = None, t_limits = JNull, t_capabilities = JNull, t_captivoOrgId = None,
     t_notes = None, t_createdAt = 0\<rparr>"

definition ex_log_cloud :: cloud where
  "ex_log_cloud = \<lparr>tenants = [ex_tenant], data = (\<lambda>t. if t = ''t1'' then empty_db\<lparr>sites := [ex_site]\<rparr> else empty_db)\<rparr>"

lemma ex_log_run:
  obtains c' where "audit_log_route ex_log_ctx [ex_owned, ex_orphan] ex_log_cloud = (c', Ok 200 (1, 1))"
proof -
  have multi: "multiTenantEnabled (cx_env ex_log_ctx)" by code_simp
  have owner: "resolveEventTenant ex_log_cloud ex_owned = Some ''t1''" "resolveEventTenant ex_log_cloud ex_orphan = None"
    by code_simp+
  have auth: "timingSafeEqualStr (cx_headers ex_log_ctx ''x-dataplane-secret'') (Some ''k'')"
    "or_null (cx_env ex_log_ctx ''DATAPLANE_SECRET'') = Some ''k''" by code_simp+
  obtain n where "normalizeAuditInput (cx_parse_date ex_log_ctx) (cx_now ex_log_ctx) (data ex_log_cloud ''t1'') ex_owned = Some n"
    by (simp add: normalizeAuditInput_def ex_owned_def ex_input_def truthy_def bytes_of_def Let_def)
  then obtain s1 j where app: "appendAuditEvents (cx_H ex_log_ctx) (cx_parse_date ex_log_ctx) (cx_now ex_log_ctx) [ex_owned]
      (data ex_log_cloud ''t1'') = (s1, Some j)"
    by (auto simp: appendAuditEvents_def Let_def split: prod.splits)
  have "j = 1" using append_count [OF app] by simp
  with app multi owner show thesis
    by (intro that) (simp add: audit_log_route_def requireDataplaneSecret_def auth audit_log_def withTenant_def append_scoped_def Let_def)
qed

theorem audit_batch_split_by_tenant_witness:
  "\<exists>c'. audit_log_route ex_log_ctx [ex_owned, ex_orphan] ex_log_cloud = (c', Ok 200 (1, 1)) \<and>
     data c' ''nobody'' = empty_db \<and>
     data c' ''t1'' = tenant_append ex_log_ctx [ex_owned] (empty_db\<lparr>sites := [ex_site]\<rparr>)"
proof (rule ex_log_run)
  fix c'
  assume run: "audit_log_route ex_log_ctx [ex_owned, ex_orphan] ex_log_cloud = (c', Ok 200 (1, 1))"
  have multi: "multiTenantEnabled (cx_env ex_log_ctx)" by code_simp
  have owner: "resolveEventTenant ex_log_cloud ex_owned = Some ''t1''" "resolveEventTenant ex_log_cloud ex_orphan = None"
    by code_simp+
  have "events_of ex_log_cloud ''nobody'' [ex_owned, ex_orphan] = []"
    "events_of ex_log_cloud ''t1'' [ex_owned, ex_orphan] = [ex_owned]"
    by (simp_all add: events_of_def owner)
  moreover have "data ex_log_cloud ''nobody'' = empty_db" "data ex_log_cloud ''t1'' = empty_db\<lparr>sites := [ex_site]\<rparr>"
    by (simp_all add: ex_log_cloud_def)
  moreover have "tenant_append ex_log_ctx [] empty_db = empty_db" by (simp add: tenant_append_def appendAuditEvents_def)
  ultimately show ?thesis
    using run audit_batch_split_by_tenant [OF multi run] by metis
qed

end
