(* ===== verification/Identity.thy ===== *)
theory Identity
  imports Access_Routes
begin

text \<open>
  Who may sign in: the signed cookies of a ceremony (\<^verbatim>\<open>lib/auth/challenge.ts\<close>, \<^verbatim>\<open>recover-token.ts\<close>), invites
  (\<^verbatim>\<open>invite.ts\<close>), passkey registration and authentication (\<^verbatim>\<open>app/api/auth/registration\<close>, \<^verbatim>\<open>authentication\<close>),
  recovery by one-time code, a user's passkeys, and what an administrator does to users, invites and
  sessions (\<^verbatim>\<open>app/api/admin/{users,invites,sessions}\<close>).

  Parameters: \<open>jwt\<close> (jose's \<^verbatim>\<open>SignJWT\<close> and \<^verbatim>\<open>jwtVerify\<close>), \<open>webauthn\<close> (\<^verbatim>\<open>@simplewebauthn/server\<close>), one-time codes
  (\<^verbatim>\<open>otplib\<close>), argon2, the cipher and \<^verbatim>\<open>new URL\<close>. A handler acts on the rate limiter, the caller's cookies
  and the tenant's tables (\<open>auth\<close>).
\<close>

section \<open>Names, addresses and origins\<close>

definition normalizeEmail :: "string \<Rightarrow> string" where
  "normalizeEmail email = to_lower (trim email)"

definition DISPLAY_NAME_MAX :: nat where "DISPLAY_NAME_MAX = 100"

text \<open>\<^verbatim>\<open>value.replace(/\s+/g, " ")\<close>\<close>

fun collapse_ws :: "string \<Rightarrow> string" where
  "collapse_ws [] = []"
| "collapse_ws [c] = (if is_ws c then '' '' else [c])"
| "collapse_ws (c # d # t) =
     (if is_ws c then (if is_ws d then collapse_ws (d # t) else CHR '' '' # collapse_ws (d # t))
      else c # collapse_ws (d # t))"

definition normalizeDisplayName :: "js \<Rightarrow> string option" where
  "normalizeDisplayName value =
     (case value of
        JStr t \<Rightarrow>
          (let v = trim (collapse_ws t) in
           if v = [] \<or> length v > DISPLAY_NAME_MAX then None else Some v)
      | _ \<Rightarrow> None)"

definition isPlaceholderName :: "string \<Rightarrow> string \<Rightarrow> bool" where
  "isPlaceholderName name email \<longleftrightarrow> to_lower (trim name) = to_lower (trim email)"

definition cookieSecure :: "headers \<Rightarrow> bool" where
  "cookieSecure h =
     (case or_null (h ''x-forwarded-proto'') of
        Some proto \<Rightarrow> trim (hd (split_on (CHR '','') proto)) = ''https''
      | None \<Rightarrow>
          (let host = to_lower (opt_text (h ''host'')) in
           \<not> (starts_with host ''localhost'' \<or> starts_with host ''127.0.0.1'' \<or> starts_with host ''[::1]'')))"

definition cookieDomain :: "env \<Rightarrow> string option" where
  "cookieDomain env = or_null (map_option trim (env ''COOKIE_DOMAIN''))"

text \<open>\<open>href\<close> is the serialisation of the parsed address. \<^verbatim>\<open>u.host\<close> is the host name with its port.\<close>

definition url_host_port :: "url_parts \<Rightarrow> string" where
  "url_host_port u = (if url_port u = [] then url_host u else url_host u @ CHR '':'' # url_port u)"

definition safeReturnTo :: "web \<Rightarrow> (string \<Rightarrow> string) \<Rightarrow> env \<Rightarrow> string option \<Rightarrow> string" where
  "safeReturnTo w href env raw0 =
     (case or_null raw0 of
        None \<Rightarrow> ''/''
      | Some raw \<Rightarrow>
          if starts_with raw ''/'' \<and> \<not> starts_with raw ''//'' then raw
          else (case cookieDomain env of
                  None \<Rightarrow> ''/''
                | Some domain \<Rightarrow>
                    (case w_parse w raw of
                       None \<Rightarrow> ''/''
                     | Some u \<Rightarrow>
                         (let sfx = (if starts_with domain ''.'' then domain else CHR ''.'' # domain);
                              bare = (if starts_with domain ''.'' then tl domain else domain)
                          in if url_protocol u = ''https:'' \<and>
                                (url_host_port u = bare \<or> ends_with (url_host_port u) sfx)
                             then href raw else ''/''))))"

definition getRpId :: "env \<Rightarrow> string" where
  "getRpId env =
     (case or_null (map_option trim (env ''WEBAUTHN_RP_ID'')) of Some r \<Rightarrow> r | None \<Rightarrow> ''localhost'')"

definition requestOrigin :: "web \<Rightarrow> headers \<Rightarrow> string" where
  "requestOrigin w h =
     (case or_null (h ''origin'') of
        Some o1 \<Rightarrow> o1
      | None \<Rightarrow>
          (let host = nullish_or (h ''x-forwarded-host'') (h ''host'');
               proto = (case or_null (map_option (\<lambda>p. trim (hd (split_on (CHR '','') p))) (h ''x-forwarded-proto'')) of
                          Some p \<Rightarrow> p | None \<Rightarrow> remove1 (CHR '':'') (w_protocol w))
           in (case or_null host of Some v \<Rightarrow> proto @ ''://'' @ v | None \<Rightarrow> w_origin w)))"

definition originMatchesRp :: "web \<Rightarrow> string \<Rightarrow> string \<Rightarrow> bool" where
  "originMatchesRp w origin rpId =
     (case url_hostname_of w origin of
        None \<Rightarrow> False
      | Some host \<Rightarrow> host = rpId \<or> ends_with host (CHR ''.'' # rpId))"

section \<open>The caller's cookies\<close>

record cookie =
  ck_value :: string
  ck_maxAge :: int
  ck_secure :: bool
  ck_domain :: "string option"

record auth =
  au_limiter :: limiter
  au_jar :: "string \<Rightarrow> cookie option"
  au_db :: db

definition cookie_value :: "string \<Rightarrow> auth \<Rightarrow> string option" where
  "cookie_value name a = or_null (map_option ck_value (au_jar a name))"

definition drop_cookie :: "string \<Rightarrow> auth \<Rightarrow> auth" where
  "drop_cookie name a = a\<lparr>au_jar := (au_jar a)(name := None)\<rparr>"

text \<open>\<open>jwt_sign key payload expires\<close> and \<open>jwt_verify key token now\<close>, in seconds; a token that does not verify gives \<open>None\<close>.\<close>

record jwt =
  jwt_sign :: "string \<Rightarrow> js \<Rightarrow> int \<Rightarrow> string"
  jwt_verify :: "string \<Rightarrow> string \<Rightarrow> int \<Rightarrow> js option"

definition session_secret :: "env \<Rightarrow> string option" where
  "session_secret env = or_null (env ''SESSION_SECRET'')"

text \<open>Signing without the secret throws (\<open>None\<close>); reading without it gives nothing.\<close>

definition set_signed :: "jwt \<Rightarrow> ctx \<Rightarrow> string \<Rightarrow> js \<Rightarrow> int \<Rightarrow> auth \<Rightarrow> auth option" where
  "set_signed J cx name payload ttl a =
     map_option (\<lambda>key.
         a\<lparr>au_jar := (au_jar a)(name \<mapsto>
            \<lparr>ck_value = jwt_sign J key payload (cx_now cx div 1000 + ttl), ck_maxAge = ttl,
             ck_secure = cookieSecure (cx_headers cx), ck_domain = None\<rparr>)\<rparr>)
       (session_secret (cx_env cx))"

definition read_signed :: "jwt \<Rightarrow> ctx \<Rightarrow> string \<Rightarrow> auth \<Rightarrow> js option" where
  "read_signed J cx name a =
     (case (cookie_value name a, session_secret (cx_env cx)) of
        (Some token, Some key) \<Rightarrow> jwt_verify J key token (cx_now cx div 1000)
      | _ \<Rightarrow> None)"

fun js_String :: "js \<Rightarrow> string" where
  "js_String (JStr t) = t"
| "js_String JUndef = ''undefined''"
| "js_String JNull = ''null''"
| "js_String (JBool b) = (if b then ''true'' else ''false'')"
| "js_String (JNum n) = json_num n"
| "js_String (JArr vs) =
     join_with '','' (map (\<lambda>v. if v = JUndef \<or> v = JNull then [] else js_String v) vs)"
| "js_String (JObj _) = ''[object Object]''"

section \<open>Challenges and recovery tokens\<close>

definition challenge_payload :: "string \<Rightarrow> string \<Rightarrow> ident option \<Rightarrow> js" where
  "challenge_payload challenge purpose uid =
     JObj ([(''challenge'', JStr challenge), (''purpose'', JStr purpose)] @
           (case uid of Some i \<Rightarrow> [(''uid'', JStr i)] | None \<Rightarrow> []))"

definition setChallenge :: "jwt \<Rightarrow> ctx \<Rightarrow> string \<Rightarrow> string \<Rightarrow> ident option \<Rightarrow> auth \<Rightarrow> auth option" where
  "setChallenge J cx challenge purpose uid a =
     set_signed J cx ''ca_challenge'' (challenge_payload challenge purpose uid) 300 a"

definition readChallenge :: "jwt \<Rightarrow> ctx \<Rightarrow> string \<Rightarrow> auth \<Rightarrow> string option" where
  "readChallenge J cx purpose a =
     (case read_signed J cx ''ca_challenge'' a of
        None \<Rightarrow> None
      | Some payload \<Rightarrow>
          if body_field payload ''purpose'' \<noteq> JStr purpose then None
          else Some (js_String (body_field payload ''challenge'')))"

definition readChallengeUid :: "jwt \<Rightarrow> ctx \<Rightarrow> string \<Rightarrow> auth \<Rightarrow> ident option" where
  "readChallengeUid J cx purpose a =
     (case read_signed J cx ''ca_challenge'' a of
        None \<Rightarrow> None
      | Some payload \<Rightarrow>
          if body_field payload ''purpose'' \<noteq> JStr purpose then None
          else (case body_field payload ''uid'' of JStr i \<Rightarrow> Some i | _ \<Rightarrow> None))"

definition clearChallenge :: "auth \<Rightarrow> auth" where
  "clearChallenge a = drop_cookie ''ca_challenge'' a"

definition recover_payload :: "ident \<Rightarrow> js" where
  "recover_payload uid = JObj [(''userId'', JStr uid), (''purpose'', JStr ''recover'')]"

definition setRecoverToken :: "jwt \<Rightarrow> ctx \<Rightarrow> ident \<Rightarrow> auth \<Rightarrow> auth option" where
  "setRecoverToken J cx uid a = set_signed J cx ''ca_recover'' (recover_payload uid) 600 a"

definition readRecoverToken :: "jwt \<Rightarrow> ctx \<Rightarrow> auth \<Rightarrow> ident option" where
  "readRecoverToken J cx a =
     (case read_signed J cx ''ca_recover'' a of
        None \<Rightarrow> None
      | Some payload \<Rightarrow>
          if body_field payload ''purpose'' \<noteq> JStr ''recover'' then None
          else (case body_field payload ''userId'' of JStr i \<Rightarrow> Some i | _ \<Rightarrow> None))"

definition clearRecoverToken :: "auth \<Rightarrow> auth" where
  "clearRecoverToken a = drop_cookie ''ca_recover'' a"

section \<open>Invites\<close>

record invite_input =
  ii_email :: string
  ii_name :: string
  ii_role :: Role
  ii_createdById :: "ident option"
  ii_phone :: "string option"
  ii_company :: "string option"

text \<open>\<open>fresh\<close> carries the id of the row and the token of the link.\<close>

definition createInvite :: "argon \<Rightarrow> env \<Rightarrow> fresh \<Rightarrow> instant \<Rightarrow> invite_input \<Rightarrow> db \<Rightarrow> db" where
  "createInvite A env f now i s =
     s\<lparr>invites := insert_row
        \<lparr>inv_id = new_id f, inv_email = normalizeEmail (ii_email i), inv_name = ii_name i,
         inv_phone = ii_phone i, inv_company = ii_company i, inv_role = ii_role i,
         inv_tokenHash = hashToken A (new_token f),
         inv_expiresAt = now + jnum_scale (resolvedInviteTtlHours env (settings_in s)) 3600000,
         inv_usedAt = None, inv_createdById = ii_createdById i, inv_createdAt = now\<rparr> (invites s)\<rparr>"

definition live_invite :: "instant \<Rightarrow> Invite \<Rightarrow> bool" where
  "live_invite now v \<longleftrightarrow> inv_usedAt v = None \<and> inv_expiresAt v > now"

definition verifyInvite :: "argon \<Rightarrow> instant \<Rightarrow> string \<Rightarrow> db \<Rightarrow> Invite option" where
  "verifyInvite A now token s =
     find_first (\<lambda>v. verifyTokenHash A token (inv_tokenHash v)) (find_many (live_invite now) (invites s))"

definition consume_invite :: "ident \<Rightarrow> instant \<Rightarrow> db \<Rightarrow> db \<times> nat" where
  "consume_invite i now s =
     (let p = (\<lambda>v. inv_id v = i \<and> inv_usedAt v = None) in
      (s\<lparr>invites := update_many p (\<lambda>v. v\<lparr>inv_usedAt := Some now\<rparr>) (invites s)\<rparr>, count_rows p (invites s)))"

section \<open>Registering a passkey\<close>

record credential =
  cr_id :: string
  cr_publicKey :: string
  cr_counter :: nat
  cr_transports :: "string list"
  cr_userVerified :: bool

text \<open>
  \<open>wa_register response challenge origin rpId\<close> and \<open>wa_authenticate response challenge origin rpId passkey\<close>: \<open>Inl\<close> is
  an exception, \<open>Inr None\<close> a response that does not verify. Generating options yields a challenge.
\<close>

record webauthn =
  wa_register :: "js \<Rightarrow> string \<Rightarrow> string \<Rightarrow> string \<Rightarrow> string + credential option"
  wa_authenticate :: "js \<Rightarrow> string \<Rightarrow> string \<Rightarrow> string \<Rightarrow> Passkey \<Rightarrow> string + (nat \<times> bool) option"

text \<open>The values a ceremony draws at random.\<close>

record drawn =
  dr_user :: ident
  dr_passkey :: ident
  dr_session :: ident
  dr_token :: string
  dr_challenge :: string

text \<open>\<^verbatim>\<open>prisma.user.create\<close> and \<^verbatim>\<open>prisma.passkey.create\<close>: \<open>None\<close> when a unique column would repeat.\<close>

definition insert_user :: "User \<Rightarrow> db \<Rightarrow> db option" where
  "insert_user u s =
     (if list_ex (\<lambda>v. u_id v = u_id u \<or> u_email v = u_email u) (users s) then None
      else Some (s\<lparr>users := insert_row u (users s)\<rparr>))"

definition insert_passkey :: "drawn \<Rightarrow> instant \<Rightarrow> ident \<Rightarrow> credential \<Rightarrow> string \<Rightarrow> db \<Rightarrow> db option" where
  "insert_passkey d now uid cr label s =
     (if list_ex (\<lambda>p. pk_credentialId p = cr_id cr) (passkeys s) then None
      else Some (s\<lparr>passkeys := insert_row
             \<lparr>pk_id = dr_passkey d, pk_userId = uid, pk_credentialId = cr_id cr, pk_publicKey = cr_publicKey cr,
              pk_counter = cr_counter cr, pk_transports = cr_transports cr, pk_label = label,
              pk_createdAt = now, pk_lastUsedAt = None\<rparr> (passkeys s)\<rparr>))"

definition limited :: "ctx \<Rightarrow> string \<Rightarrow> (auth \<Rightarrow> auth \<times> 'a reply) \<Rightarrow> auth \<Rightarrow> auth \<times> 'a reply" where
  "limited cx path body a =
     (let ip = (case clientIp (cx_headers cx) of Some i \<Rightarrow> i | None \<Rightarrow> ''unknown'');
          (l, ok) = checkRateLimit (ip @ CHR '':'' # path) 10 60000 (cx_now cx) (au_limiter a);
          a1 = a\<lparr>au_limiter := l\<rparr>
      in if ok then body a1 else (a1, Err 429 ''rate_limited''))"

definition on_db :: "(db \<Rightarrow> db \<times> 'a) \<Rightarrow> auth \<Rightarrow> auth \<times> 'a" where
  "on_db f a = (case f (au_db a) of (s, r) \<Rightarrow> (a\<lparr>au_db := s\<rparr>, r))"

definition offer :: "jwt \<Rightarrow> ctx \<Rightarrow> drawn \<Rightarrow> string \<Rightarrow> ident option \<Rightarrow> auth \<Rightarrow> auth \<times> string reply" where
  "offer J cx d purpose uid a =
     (case setChallenge J cx (dr_challenge d) purpose uid a of
        None \<Rightarrow> (a, Throw ''SESSION_SECRET is required'')
      | Some a1 \<Rightarrow> (a1, Ok 200 (dr_challenge d)))"

definition registration_options ::
  "jwt \<Rightarrow> argon \<Rightarrow> ctx \<Rightarrow> drawn \<Rightarrow> js \<Rightarrow> auth \<Rightarrow> auth \<times> string reply" where
  "registration_options J A cx d body =
     limited cx ''/api/auth/registration/options'' (\<lambda>a.
       if body = JNull then (a, Throw ''TypeError'')
       else (let mode = body_field body ''mode'' in
         if mode = JStr ''add'' then
           (case on_db (current_user cx) a of
              (a1, None) \<Rightarrow> (a1, Err 401 ''unauthorized'')
            | (a1, Some _) \<Rightarrow> offer J cx d ''reg'' None a1)
         else if mode = JStr ''recover'' then
           (case Option.bind (or_null (readRecoverToken J cx a)) (user_by_id (au_db a)) of
              None \<Rightarrow> (a, Err 401 ''recover_invalid'')
            | Some u \<Rightarrow> if u_status u \<noteq> UserStatus.ACTIVE then (a, Err 401 ''recover_invalid'')
                        else offer J cx d ''reg'' None a)
         else if mode = JStr ''invite'' then
           (let token = raw_text_of body ''inviteToken'' in
            if token = [] \<or> verifyInvite A (cx_now cx) token (au_db a) = None then (a, Err 410 ''invite_invalid'')
            else offer J cx d ''reg'' (Some (dr_user d)) a)
         else if mode \<noteq> JStr ''setup'' then (a, Err 400 ''invalid_mode'')
         else if resolveSetupRole (cx_env cx) (cx_tenant cx) = None then (a, Err 404 ''setup_disabled'')
         else if hasAnyUser (au_db a) then (a, Err 409 ''already_setup'')
         else if text_of body ''email'' = [] \<or> text_of body ''name'' = [] then (a, Err 400 ''email_and_name_required'')
         else offer J cx d ''reg'' (Some (dr_user d)) a))"

text \<open>The part every mode of \<^verbatim>\<open>registration/verify\<close> shares: a live challenge, the right origin, a response that verifies.\<close>

definition ceremony :: "webauthn \<Rightarrow> jwt \<Rightarrow> web \<Rightarrow> ctx \<Rightarrow> js \<Rightarrow> auth \<Rightarrow> credential reply" where
  "ceremony W J w cx body a =
     (case or_null (readChallenge J cx ''reg'' a) of
        None \<Rightarrow> Err 401 ''challenge_expired''
      | Some challenge \<Rightarrow>
          (let origin = requestOrigin w (cx_headers cx) in
           if \<not> originMatchesRp w origin (getRpId (cx_env cx)) then Err 400 ''origin_mismatch''
           else (case wa_register W (body_field body ''response'') challenge origin (getRpId (cx_env cx)) of
                   Inl e \<Rightarrow> Throw e
                 | Inr None \<Rightarrow> Err 401 ''verification_failed''
                 | Inr (Some cr) \<Rightarrow> Ok 200 cr)))"

definition open_session :: "ctx \<Rightarrow> drawn \<Rightarrow> ident \<Rightarrow> string list \<Rightarrow> auth \<Rightarrow> auth" where
  "open_session cx d uid amr a =
     (case createSession (cx_H cx) (cx_env cx) (cx_policy cx) (dr_session d) (dr_token d) (cx_now cx) uid
             \<lparr>meta_userAgent = cx_headers cx ''user-agent'', meta_ip = clientIp (cx_headers cx), meta_amr = amr\<rparr>
             (au_db a) of
        (s, token) \<Rightarrow>
          a\<lparr>au_db := s,
            au_jar := (au_jar a)(''ca_session'' \<mapsto>
              \<lparr>ck_value = token, ck_maxAge = sessionCookieMaxAgeSeconds (cx_env cx) (cx_policy cx),
               ck_secure = cookieSecure (cx_headers cx), ck_domain = cookieDomain (cx_env cx)\<rparr>)\<rparr>)"

definition new_account :: "ident \<Rightarrow> string \<Rightarrow> string \<Rightarrow> Role \<Rightarrow> instant \<Rightarrow> User" where
  "new_account i email name role now =
     \<lparr>u_id = i, u_email = email, u_name = name, u_phone = None, u_company = None, u_timezone = None,
      u_role = role, u_status = UserStatus.ACTIVE, u_createdAt = now, u_directoryManaged = False,
      u_directoryLastVerifiedAt = None, u_centerRole = None\<rparr>"

definition passkey_label :: "js \<Rightarrow> string" where
  "passkey_label body = (case text_of body ''label'' of [] \<Rightarrow> ''Primary passkey'' | l \<Rightarrow> l)"

definition register_add ::
  "webauthn \<Rightarrow> jwt \<Rightarrow> web \<Rightarrow> ctx \<Rightarrow> drawn \<Rightarrow> js \<Rightarrow> auth \<Rightarrow> auth \<times> unit reply" where
  "register_add W J w cx d body a0 =
     (case on_db (current_user cx) a0 of
        (a, None) \<Rightarrow> (a, Err 401 ''unauthorized'')
      | (a, Some u) \<Rightarrow>
          if falsy (body_field body ''response'') \<or> text_of body ''label'' = [] then (a, Err 400 ''invalid_body'')
          else (case ceremony W J w cx body a of
                  Err c e \<Rightarrow> (a, Err c e)
                | Throw e \<Rightarrow> (a, Throw e)
                | Ok _ cr \<Rightarrow>
                    (case insert_passkey d (cx_now cx) (u_id u) cr (text_of body ''label'') (au_db a) of
                       None \<Rightarrow> (a, Throw ''P2002'')
                     | Some s \<Rightarrow> (clearChallenge (a\<lparr>au_db := s\<rparr>), Ok 200 ()))))"

definition register_recover ::
  "webauthn \<Rightarrow> jwt \<Rightarrow> web \<Rightarrow> ctx \<Rightarrow> drawn \<Rightarrow> js \<Rightarrow> auth \<Rightarrow> auth \<times> unit reply" where
  "register_recover W J w cx d body a =
     (if or_null (readRecoverToken J cx a) = None \<or> falsy (body_field body ''response'')
      then (a, Err 401 ''recover_invalid'')
      else (case Option.bind (readRecoverToken J cx a) (user_by_id (au_db a)) of
              None \<Rightarrow> (a, Err 401 ''recover_invalid'')
            | Some u \<Rightarrow>
                if u_status u \<noteq> UserStatus.ACTIVE then (a, Err 401 ''recover_invalid'')
                else (case ceremony W J w cx body a of
                        Err c e \<Rightarrow> (a, Err c e)
                      | Throw e \<Rightarrow> (a, Throw e)
                      | Ok _ cr \<Rightarrow>
                          (case insert_passkey d (cx_now cx) (u_id u) cr ''Recovery passkey'' (au_db a) of
                             None \<Rightarrow> (a, Throw ''P2002'')
                           | Some s \<Rightarrow>
                               (clearRecoverToken (clearChallenge
                                  (open_session cx d (u_id u) (passkeyAmr (cr_userVerified cr)) (a\<lparr>au_db := s\<rparr>))),
                                Ok 200 ())))))"

text \<open>
  The transaction of an enrolment. A statement the database refuses aborts the request's transaction, so
  nothing of the request survives it; the error the code throws itself is not one of those.
\<close>

definition enrol_tx ::
  "drawn \<Rightarrow> instant \<Rightarrow> ident \<Rightarrow> User \<Rightarrow> credential \<Rightarrow> string \<Rightarrow> db \<Rightarrow> db \<times> (string + ident)" where
  "enrol_tx d now invite u cr label s =
     (case insert_user u s of
        None \<Rightarrow> (s, Inl ''P2002'')
      | Some s1 \<Rightarrow>
          (case insert_passkey d now (u_id u) cr label s1 of
             None \<Rightarrow> (s, Inl ''P2002'')
           | Some s2 \<Rightarrow>
               (case consume_invite invite now s2 of
                  (s3, n) \<Rightarrow> if n = 0 then (s3, Inl ''INVITE_ALREADY_USED'') else (s3, Inr (u_id u)))))"

definition account_id :: "jwt \<Rightarrow> ctx \<Rightarrow> drawn \<Rightarrow> auth \<Rightarrow> ident" where
  "account_id J cx d a = (case or_null (readChallengeUid J cx ''reg'' a) of Some i \<Rightarrow> i | None \<Rightarrow> dr_user d)"

definition invited_account :: "ident \<Rightarrow> string \<Rightarrow> instant \<Rightarrow> Invite \<Rightarrow> User" where
  "invited_account i name now v =
     (new_account i (inv_email v) name (inv_role v) now)\<lparr>u_phone := inv_phone v, u_company := inv_company v\<rparr>"

text \<open>The two halves of the \<^verbatim>\<open>invite\<close> mode: what is read first, and the writes, which other requests may precede.\<close>

definition register_invited ::
  "ctx \<Rightarrow> drawn \<Rightarrow> Invite \<Rightarrow> User \<Rightarrow> credential \<Rightarrow> string \<Rightarrow> auth \<Rightarrow> auth \<times> unit reply" where
  "register_invited cx d v u cr label a =
     (case run_tx (multiTenantEnabled (cx_env cx)) (enrol_tx d (cx_now cx) (inv_id v) u cr label) (au_db a) of
        (s, Inl e) \<Rightarrow>
          (a\<lparr>au_db := s\<rparr>, if e = ''INVITE_ALREADY_USED'' then Err 410 ''invite_invalid'' else Err 409 ''email_taken'')
      | (s, Inr uid) \<Rightarrow>
          (clearChallenge (open_session cx d uid (passkeyAmr (cr_userVerified cr)) (a\<lparr>au_db := s\<rparr>)), Ok 200 ()))"

definition register_invite ::
  "webauthn \<Rightarrow> jwt \<Rightarrow> argon \<Rightarrow> web \<Rightarrow> ctx \<Rightarrow> drawn \<Rightarrow> js \<Rightarrow> auth \<Rightarrow> auth \<times> unit reply" where
  "register_invite W J A w cx d body a =
     (let token = raw_text_of body ''inviteToken''; nm = body_field body ''name'' in
      if token = [] \<or> falsy (body_field body ''response'') then (a, Err 400 ''invalid_body'')
      else (case verifyInvite A (cx_now cx) token (au_db a) of
              None \<Rightarrow> (a, Err 410 ''invite_invalid'')
            | Some v \<Rightarrow>
                if nm \<noteq> JUndef \<and> normalizeDisplayName nm = None then (a, Err 400 ''invalid_name'')
                else (case ceremony W J w cx body a of
                        Err c e \<Rightarrow> (a, Err c e)
                      | Throw e \<Rightarrow> (a, Throw e)
                      | Ok _ cr \<Rightarrow>
                          register_invited cx d v
                            (invited_account (account_id J cx d a)
                               (case normalizeDisplayName nm of Some n \<Rightarrow> n | None \<Rightarrow> inv_name v) (cx_now cx) v)
                            cr (passkey_label body) a)))"

definition register_setup ::
  "webauthn \<Rightarrow> jwt \<Rightarrow> web \<Rightarrow> ctx \<Rightarrow> drawn \<Rightarrow> js \<Rightarrow> auth \<Rightarrow> auth \<times> unit reply" where
  "register_setup W J w cx d body a =
     (let email = normalizeEmail (raw_text_of body ''email''); name = text_of body ''name'' in
      if email = [] \<or> name = [] \<or> falsy (body_field body ''response'') then (a, Err 400 ''invalid_body'')
      else (case ceremony W J w cx body a of
              Err c e \<Rightarrow> (a, Err c e)
            | Throw e \<Rightarrow> (a, Throw e)
            | Ok _ cr \<Rightarrow>
                (case resolveSetupRole (cx_env cx) (cx_tenant cx) of
                   None \<Rightarrow> (a, Err 404 ''setup_disabled'')
                 | Some role \<Rightarrow>
                     if hasAnyUser (au_db a) then (a, Err 409 ''already_setup'')
                     else
                       (let u = new_account (account_id J cx d a) email name role (cx_now cx) in
                        case Option.bind (insert_user u (au_db a))
                               (insert_passkey d (cx_now cx) (u_id u) cr (passkey_label body)) of
                          None \<Rightarrow> (a, Err 409 ''email_taken'')
                        | Some s \<Rightarrow>
                            (clearChallenge (open_session cx d (u_id u) (passkeyAmr (cr_userVerified cr))
                               (a\<lparr>au_db := s\<rparr>)), Ok 200 ())))))"

definition registration_verify ::
  "webauthn \<Rightarrow> jwt \<Rightarrow> argon \<Rightarrow> web \<Rightarrow> ctx \<Rightarrow> drawn \<Rightarrow> js \<Rightarrow> auth \<Rightarrow> auth \<times> unit reply" where
  "registration_verify W J A w cx d body =
     limited cx ''/api/auth/registration/verify'' (\<lambda>a.
       if body = JNull then (a, Throw ''TypeError'')
       else (let mode = body_field body ''mode'' in
         if mode = JStr ''add'' then register_add W J w cx d body a
         else if mode = JStr ''recover'' then register_recover W J w cx d body a
         else if mode = JStr ''invite'' then register_invite W J A w cx d body a
         else if mode = JStr ''setup'' then register_setup W J w cx d body a
         else (a, Err 400 ''invalid_mode'')))"

section \<open>Signing in with a passkey\<close>

definition authentication_options :: "jwt \<Rightarrow> ctx \<Rightarrow> drawn \<Rightarrow> auth \<Rightarrow> auth \<times> string reply" where
  "authentication_options J cx d = limited cx ''/api/auth/authentication/options'' (offer J cx d ''auth'' None)"

text \<open>The directory lookup of a sign-in (\<^verbatim>\<open>syncUserAtLogin\<close>) with its configuration and answer.\<close>

record directory_env =
  de_config :: "DirectoryConfig option"
  de_answer :: lookup
  de_grantId :: "ident \<Rightarrow> ident"

definition sync_at_login :: "ctx \<Rightarrow> directory_env \<Rightarrow> User \<Rightarrow> db \<Rightarrow> db \<times> (string + bool)" where
  "sync_at_login cx D u s =
     syncUserAtLogin (cx_H cx) (cx_parse_date cx) (cx_env cx) (de_config D) (de_answer D) (de_grantId D)
       (cx_now cx) u s"

definition use_passkey :: "ident \<Rightarrow> nat \<Rightarrow> instant \<Rightarrow> db \<Rightarrow> db" where
  "use_passkey i counter now s =
     s\<lparr>passkeys := update_many (\<lambda>p. pk_id p = i) (\<lambda>p. p\<lparr>pk_counter := counter, pk_lastUsedAt := Some now\<rparr>) (passkeys s)\<rparr>"

definition finish_sign_in ::
  "ctx \<Rightarrow> drawn \<Rightarrow> directory_env \<Rightarrow> User \<Rightarrow> string list \<Rightarrow> auth \<Rightarrow> auth \<times> unit reply" where
  "finish_sign_in cx d D u amr a =
     (case on_db (sync_at_login cx D u) a of
        (a1, Inl e) \<Rightarrow> (a1, Throw e)
      | (a1, Inr True) \<Rightarrow> (a1, Err 403 ''revoked'')
      | (a1, Inr False) \<Rightarrow> (open_session cx d (u_id u) amr a1, Ok 200 ()))"

definition sign_in_with_passkey ::
  "webauthn \<Rightarrow> jwt \<Rightarrow> web \<Rightarrow> ctx \<Rightarrow> drawn \<Rightarrow> directory_env \<Rightarrow> js \<Rightarrow> auth \<Rightarrow> auth \<times> unit reply" where
  "sign_in_with_passkey W J w cx d D body a =
      (let response = body_field body ''response''; origin = requestOrigin w (cx_headers cx) in
       if body = JNull then (a, Throw ''TypeError'')
       else if falsy (body_field response ''id'') then (a, Err 401 ''invalid_body'')
       else (case or_null (readChallenge J cx ''auth'' a) of
               None \<Rightarrow> (a, Err 401 ''challenge_expired'')
             | Some challenge \<Rightarrow>
                 (case (case body_field response ''id'' of
                          JStr i \<Rightarrow> Some (find_first (\<lambda>p. pk_credentialId p = i) (passkeys (au_db a)))
                        | _ \<Rightarrow> None) of
                    None \<Rightarrow> (a, Throw ''PrismaClientValidationError'')
                  | Some None \<Rightarrow> (a, Err 401 ''verification_failed'')
                  | Some (Some p) \<Rightarrow>
                      (case user_by_id (au_db a) (pk_userId p) of
                         None \<Rightarrow> (a, Err 401 ''verification_failed'')
                       | Some u \<Rightarrow>
                           if u_status u \<noteq> UserStatus.ACTIVE then (a, Err 401 ''verification_failed'')
                           else if \<not> originMatchesRp w origin (getRpId (cx_env cx)) then (a, Err 400 ''origin_mismatch'')
                           else (case wa_authenticate W response challenge origin (getRpId (cx_env cx)) p of
                                   Inl _ \<Rightarrow> (a, Err 401 ''verification_failed'')
                                 | Inr None \<Rightarrow> (a, Err 401 ''verification_failed'')
                                 | Inr (Some (counter, uv)) \<Rightarrow>
                                     (let a1 = a\<lparr>au_db := use_passkey (pk_id p) counter (cx_now cx) (au_db a)\<rparr>;
                                          amr = passkeyAmr uv
                                      in if secondFactorGate (sp_requireSecondFactor (cx_policy cx)) amr True \<noteq> Gate_allow
                                         then (a1, Err 403 ''mfa_required'')
                                         else (case finish_sign_in cx d D u amr a1 of
                                                 (a2, Ok c v) \<Rightarrow> (clearChallenge a2, Ok c v)
                                               | r \<Rightarrow> r)))))))"

definition authentication_verify ::
  "webauthn \<Rightarrow> jwt \<Rightarrow> web \<Rightarrow> ctx \<Rightarrow> drawn \<Rightarrow> directory_env \<Rightarrow> js \<Rightarrow> auth \<Rightarrow> auth \<times> unit reply" where
  "authentication_verify W J w cx d D body =
     limited cx ''/api/auth/authentication/verify'' (sign_in_with_passkey W J w cx d D body)"

section \<open>Recovery by one-time code\<close>

text \<open>\<open>otp code secret\<close> is \<^verbatim>\<open>verifyTotp\<close>. Every refusal gives the same answer.\<close>

definition recover_secret :: "cipher \<Rightarrow> env \<Rightarrow> string \<Rightarrow> db \<Rightarrow> (User \<times> string) option" where
  "recover_secret C env email s =
     (case user_by_email s email of
        None \<Rightarrow> None
      | Some u \<Rightarrow>
          if u_status u \<noteq> UserStatus.ACTIVE then None
          else (case find_first (\<lambda>t. totp_userId t = u_id u) (totpSecrets s) of
                  None \<Rightarrow> None
                | Some t \<Rightarrow>
                    if totp_confirmedAt t = None then None
                    else map_option (\<lambda>k. (u, k)) (decrypt C env (totp_secret t))))"

definition recover ::
  "jwt \<Rightarrow> cipher \<Rightarrow> (string \<Rightarrow> string \<Rightarrow> bool) \<Rightarrow> ctx \<Rightarrow> js \<Rightarrow> auth \<Rightarrow> auth \<times> unit reply" where
  "recover J C otp cx body =
     limited cx ''/api/auth/recover'' (\<lambda>a.
       if body = JNull then (a, Throw ''TypeError'')
       else (let email = text_of body ''email''; totp = text_of body ''totp'' in
         if email = [] \<or> totp = [] then (a, Err 401 ''recover_failed'')
         else (case recover_secret C (cx_env cx) email (au_db a) of
                 None \<Rightarrow> (a, Err 401 ''recover_failed'')
               | Some (u, k) \<Rightarrow>
                   if \<not> otp totp k then (a, Err 401 ''recover_failed'')
                   else (case setRecoverToken J cx (u_id u) a of
                           None \<Rightarrow> (a, Throw ''SESSION_SECRET is required'')
                         | Some a1 \<Rightarrow> (a1, Ok 200 ())))))"

definition save_recovery ::
  "cipher \<Rightarrow> (string \<Rightarrow> string \<Rightarrow> bool) \<Rightarrow> ctx \<Rightarrow> js \<Rightarrow> db \<Rightarrow> db \<times> unit reply" where
  "save_recovery C otp cx body =
     with_user cx (\<lambda>u. with_body body (\<lambda>s.
       let code = text_of body ''code''; k = raw_text_of body ''secret'' in
       if code = [] \<or> k = [] then (s, Err 400 ''invalid_body'')
       else if \<not> otp code k then (s, Err 400 ''invalid_code'')
       else (case encrypt C (cx_env cx) k of
               None \<Rightarrow> (s, Throw ''ENCRYPTION_KEY must be a 64-character hex string'')
             | Some sealed \<Rightarrow>
                 (let row = \<lparr>totp_userId = u_id u, totp_secret = sealed, totp_confirmedAt = Some (cx_now cx)\<rparr>;
                      mine = (\<lambda>t. totp_userId t = u_id u)
                  in (s\<lparr>totpSecrets := (if list_ex mine (totpSecrets s)
                        then update_many mine (\<lambda>_. row) (totpSecrets s) else insert_row row (totpSecrets s))\<rparr>,
                      Ok 200 ())))))"

definition drop_recovery :: "ctx \<Rightarrow> db \<Rightarrow> db \<times> unit reply" where
  "drop_recovery cx =
     with_user cx (\<lambda>u s. (s\<lparr>totpSecrets := delete_many (\<lambda>t. totp_userId t = u_id u) (totpSecrets s)\<rparr>, Ok 200 ()))"

definition delete_passkey :: "ctx \<Rightarrow> ident \<Rightarrow> db \<Rightarrow> db \<times> unit reply" where
  "delete_passkey cx i =
     with_user cx (\<lambda>u s.
       case find_first (\<lambda>p. pk_id p = i) (passkeys s) of
         None \<Rightarrow> (s, Err 404 ''not_found'')
       | Some p \<Rightarrow>
           if pk_userId p \<noteq> u_id u then (s, Err 404 ''not_found'')
           else if count_rows (\<lambda>q. pk_userId q = u_id u) (passkeys s) \<le> 1 then (s, Err 400 ''last_passkey'')
           else (s\<lparr>passkeys := delete_many (\<lambda>q. pk_id q = i) (passkeys s)\<rparr>, Ok 200 ()))"

text \<open>\<^verbatim>\<open>requireUser\<close> sends a caller who is signed out to the login page by throwing.\<close>

definition requireUser :: "ctx \<Rightarrow> (User \<Rightarrow> db \<Rightarrow> db \<times> 'a reply) \<Rightarrow> db \<Rightarrow> db \<times> 'a reply" where
  "requireUser cx body s =
     (case current_user cx s of
        (s1, None) \<Rightarrow> (s1, Throw ''NEXT_REDIRECT /login'')
      | (s1, Some u) \<Rightarrow> body u s1)"

definition save_profile :: "ctx \<Rightarrow> js \<Rightarrow> db \<Rightarrow> db \<times> string reply" where
  "save_profile cx body =
     requireUser cx (\<lambda>u. with_body body (\<lambda>s.
       case normalizeDisplayName (body_field body ''name'') of
         None \<Rightarrow> (s, Err 400 ''invalid_name'')
       | Some name \<Rightarrow>
           if (case user_by_id s (u_id u) of Some v \<Rightarrow> u_directoryManaged v | None \<Rightarrow> False)
           then (s, Err 409 ''directory_managed'')
           else (update_user (u_id u) (\<lambda>v. v\<lparr>u_name := name\<rparr>) s, Ok 200 name)))"

definition save_timezone :: "ctx \<Rightarrow> js \<Rightarrow> db \<Rightarrow> db \<times> unit reply" where
  "save_timezone cx body =
     requireUser cx (\<lambda>u. with_body body (\<lambda>s.
       let tz = or_null (optional_text (body_field body ''timezone'')) in
       if (case tz of Some z \<Rightarrow> \<not> intl_zone (cx_intl cx) z | None \<Rightarrow> False) then (s, Err 400 ''invalid_timezone'')
       else (update_user (u_id u) (\<lambda>v. v\<lparr>u_timezone := tz\<rparr>) s, Ok 200 ())))"

section \<open>An administrator's users\<close>

definition status_of_text :: "string \<Rightarrow> UserStatus option" where
  "status_of_text t =
     (if t = ''ACTIVE'' then Some UserStatus.ACTIVE
      else if t = ''DISABLED'' then Some UserStatus.DISABLED else None)"

definition assignable_of_text :: "string \<Rightarrow> Role option" where
  "assignable_of_text t = find_first (\<lambda>r. role_name r = t) ASSIGNABLE_ROLES"

definition patch_user_row :: "UserStatus option \<Rightarrow> Role option \<Rightarrow> User \<Rightarrow> User" where
  "patch_user_row st role u =
     u\<lparr>u_status := (case st of Some v \<Rightarrow> v | None \<Rightarrow> u_status u),
       u_role := (case role of Some v \<Rightarrow> v | None \<Rightarrow> u_role u)\<rparr>"

definition patch_user_checked ::
  "ctx \<Rightarrow> ident \<Rightarrow> User \<Rightarrow> UserStatus option \<Rightarrow> Role option \<Rightarrow> db \<Rightarrow> db \<times> unit reply" where
  "patch_user_checked cx i admin st role s =
     (case user_by_id s i of
        None \<Rightarrow> (s, Err 404 ''not_found'')
      | Some target \<Rightarrow>
          if truthy (u_centerRole target) \<and> st \<noteq> None then (s, Err 403 ''managed_by_center'')
          else if truthy (u_centerRole target) \<and>
                  (case role of Some r \<Rightarrow> \<not> consoleRoleAllowed (centerRoleOf (JStr (the (u_centerRole target)))) r
                   | None \<Rightarrow> False)
          then (s, Err 403 ''center_role_ceiling'')
          else (audit cx admin ''user.update'' ''user'' (Some i) (''Updated user '' @ i) JUndef
                  (update_user i (patch_user_row st role) s), Ok 200 ()))"

definition patch_user :: "ctx \<Rightarrow> ident \<Rightarrow> js \<Rightarrow> db \<Rightarrow> db \<times> unit reply" where
  "patch_user cx i body =
     with_capability cx Configure (\<lambda>admin. with_body body (\<lambda>s.
       let status = optional_text (body_field body ''status''); role = optional_text (body_field body ''role'');
           st = Option.bind status status_of_text; r = Option.bind role assignable_of_text in
       if \<not> truthy status \<and> \<not> truthy role then (s, Err 400 ''nothing_to_update'')
       else if status \<noteq> None \<and> st = None then (s, Err 400 ''invalid_status'')
       else if i = u_id admin \<and> st = Some UserStatus.DISABLED then (s, Err 403 ''cannot_disable_self'')
       else if role \<noteq> None \<and> r = None then (s, Err 400 ''invalid_role'')
       else if role \<noteq> None \<and> i = u_id admin then (s, Err 403 ''cannot_change_own_role'')
       else patch_user_checked cx i admin st r s))"

definition delete_user :: "ctx \<Rightarrow> ident \<Rightarrow> db \<Rightarrow> db \<times> unit reply" where
  "delete_user cx i =
     with_capability cx Configure (\<lambda>admin s.
       if i = u_id admin then (s, Err 403 ''cannot_delete_self'')
       else (case user_by_id s i of
               None \<Rightarrow> (s, Err 404 ''not_found'')
             | Some target \<Rightarrow>
                 if u_role target = ADMIN then (s, Err 403 ''cannot_delete_admin'')
                 else if truthy (u_centerRole target) then (s, Err 403 ''managed_by_center'')
                 else (audit cx admin ''user.delete'' ''user'' (Some i) (''Deleted user '' @ i) JUndef
                         (delete_user_row i s), Ok 200 ())))"

section \<open>An administrator's invites and sessions\<close>

definition email_taken :: "string \<Rightarrow> db \<Rightarrow> bool" where
  "email_taken email s \<longleftrightarrow> list_ex (\<lambda>u. to_lower (u_email u) = to_lower email) (users s)"

text \<open>Mail goes out only when the tenant's own SMTP row is enabled.\<close>

definition mail_invite :: "string \<Rightarrow> string \<Rightarrow> db \<Rightarrow> db" where
  "mail_invite email name s =
     (case smtpConfig s of
        None \<Rightarrow> s
      | Some c \<Rightarrow> if smtp_enabled c then sendMail [email] ''inviteEmail'' name s else s)"

text \<open>\<open>org\<close> is the organisation of the workspace (\<^verbatim>\<open>Tenant.captivoOrgId\<close>).\<close>

definition create_invite_body ::
  "argon \<Rightarrow> web \<Rightarrow> ctx \<Rightarrow> fresh \<Rightarrow> string option \<Rightarrow> js \<Rightarrow> User \<Rightarrow> db \<Rightarrow> db \<times> string reply" where
  "create_invite_body A w cx f org body admin s =
     (let name = text_of body ''name''; email = normalizeEmail (raw_text_of body ''email'');
          phone = text_of body ''phone''; company = text_of body ''company'' in
      case Option.bind (optional_text (body_field body ''role'')) assignable_of_text of
        None \<Rightarrow> (s, Err 400 ''name_email_role_required'')
      | Some role \<Rightarrow>
          if name = [] \<or> email = [] then (s, Err 400 ''name_email_role_required'')
          else if role \<noteq> VENDOR \<and> truthy org then (s, Err 409 ''members_come_from_center'')
          else if email_taken email s then (s, Err 409 ''email_registered'')
          else if assertWithinLimit (cx_envelope cx) maxUsers (length (users s)) \<noteq> None
          then (s, Err 409 ''limit_reached'')
          else
            (let s1 = createInvite A (cx_env cx) f (cx_now cx)
                   \<lparr>ii_email = email, ii_name = name, ii_role = role, ii_createdById = Some (u_id admin),
                    ii_phone = or_null (Some phone), ii_company = or_null (Some company)\<rparr> s;
                 s2 = (if body_field body ''sendEmail'' = JBool True then mail_invite email name s1 else s1)
             in (audit cx admin ''invite.create'' ''invite'' None (''Created invite for '' @ email)
                   (JObj [(''email'', JStr email), (''role'', JStr (role_name role))]) s2,
                 Ok 200 (managerBaseUrl w (cx_env cx) (cx_headers cx) @ ''/invite/'' @ new_token f))))"

definition create_invite ::
  "argon \<Rightarrow> web \<Rightarrow> ctx \<Rightarrow> fresh \<Rightarrow> string option \<Rightarrow> js \<Rightarrow> db \<Rightarrow> db \<times> string reply" where
  "create_invite A w cx f org body =
     with_capability cx Configure (\<lambda>admin. with_body body (create_invite_body A w cx f org body admin))"

definition invite_by_id :: "db \<Rightarrow> ident \<Rightarrow> Invite option" where
  "invite_by_id s i = find_first (\<lambda>v. inv_id v = i) (invites s)"

definition drop_unused_invite :: "ident \<Rightarrow> db \<Rightarrow> db" where
  "drop_unused_invite i s =
     s\<lparr>invites := delete_many (\<lambda>v. inv_id v = i \<and> inv_usedAt v = None) (invites s)\<rparr>"

definition revoke_invite :: "ctx \<Rightarrow> ident \<Rightarrow> db \<Rightarrow> db \<times> unit reply" where
  "revoke_invite cx i =
     with_capability cx Configure (\<lambda>admin s.
       case invite_by_id s i of
         None \<Rightarrow> (s, Err 404 ''not_found'')
       | Some v \<Rightarrow>
           if inv_usedAt v \<noteq> None \<or> count_rows (\<lambda>v. inv_id v = i \<and> inv_usedAt v = None) (invites s) = 0
           then (s, Err 409 ''already_used'')
           else (audit cx admin ''invite.revoke'' ''invite'' (Some i) (''Revoked invite '' @ i) JUndef
                   (drop_unused_invite i s), Ok 200 ()))"

definition resend_invite :: "argon \<Rightarrow> web \<Rightarrow> ctx \<Rightarrow> fresh \<Rightarrow> ident \<Rightarrow> db \<Rightarrow> db \<times> string reply" where
  "resend_invite A w cx f i =
     with_capability cx Configure (\<lambda>admin s.
       case invite_by_id s i of
         None \<Rightarrow> (s, Err 404 ''not_found'')
       | Some v \<Rightarrow>
           if inv_usedAt v \<noteq> None \<or> count_rows (\<lambda>v. inv_id v = i \<and> inv_usedAt v = None) (invites s) = 0
           then (s, Err 409 ''already_used'')
           else
             (mail_invite (inv_email v) (inv_name v)
                (createInvite A (cx_env cx) f (cx_now cx)
                   \<lparr>ii_email = inv_email v, ii_name = inv_name v, ii_role = inv_role v,
                    ii_createdById = Some (u_id admin), ii_phone = inv_phone v, ii_company = inv_company v\<rparr>
                   (drop_unused_invite i s)),
              Ok 200 (managerBaseUrl w (cx_env cx) (cx_headers cx) @ ''/invite/'' @ new_token f)))"

definition currentSessionId :: "ctx \<Rightarrow> db \<Rightarrow> ident option" where
  "currentSessionId cx s =
     (case or_null (cx_token cx) of
        None \<Rightarrow> None
      | Some token \<Rightarrow> map_option s_id (session_by_token (cx_H cx) token s))"

definition revoke_session_route :: "ctx \<Rightarrow> ident \<Rightarrow> db \<Rightarrow> db \<times> unit reply" where
  "revoke_session_route cx i =
     with_capability cx Configure (\<lambda>admin s.
       if currentSessionId cx s = Some i then (s, Err 409 ''cannot_revoke_own_session'')
       else (audit cx admin ''authsession.revoke'' ''session'' (Some i) (''Revoked auth session '' @ i) JUndef
               (revokeSession i s), Ok 200 ()))"

definition revoke_sessions :: "ctx \<Rightarrow> js \<Rightarrow> db \<Rightarrow> db \<times> nat reply" where
  "revoke_sessions cx body =
     with_capability cx Configure (\<lambda>admin. with_body body (\<lambda>s.
       let ids = string_elements (body_field body ''ids'');
           toRevoke = sessionIdsToRevoke ids (currentSessionId cx s);
           p = (\<lambda>x. s_id x \<in> set toRevoke);
           n = count_rows p (sessions s) in
       if toRevoke = [] then (s, Ok 200 0)
       else (audit cx admin ''authsession.revoke'' ''session'' None
               (''Revoked '' @ dec n @ '' auth session'' @ (if n = 1 then [] else ''s''))
               (JObj [(''revoked'', JNum (NInt (int n)))]) (delete_session_rows p s), Ok 200 n)))"

section \<open>What the centre pushes\<close>

text \<open>\<^verbatim>\<open>/^[^\s@]+@[^\s@]+\.[^\s@]+$/\<close>\<close>

definition email_shaped :: "string \<Rightarrow> bool" where
  "email_shaped e \<longleftrightarrow>
     (case split_on (CHR ''@'') e of
        [l, dm] \<Rightarrow>
          l \<noteq> [] \<and> \<not> list_ex is_ws e \<and>
          list_ex (\<lambda>i. dm ! i = CHR ''.'' \<and> i + 1 < length dm) [1..<length dm]
      | _ \<Rightarrow> False)"

definition tenantSlugByOrg :: "TenantRow list \<Rightarrow> string \<Rightarrow> string option" where
  "tenantSlugByOrg ts org = map_option t_slug (find_first (\<lambda>t. t_captivoOrgId t = Some org) ts)"

definition tenantSlugAndName :: "TenantRow list \<Rightarrow> ident \<Rightarrow> (string \<times> string) option" where
  "tenantSlugAndName ts i = map_option (\<lambda>t. (t_slug t, t_name t))
     (find_first (\<lambda>t. t_id t = i \<and> t_id t \<notin> {PLATFORM_TENANT_ID, DEFAULT_TENANT}) ts)"

definition user_by_email_ci :: "db \<Rightarrow> string \<Rightarrow> User option" where
  "user_by_email_ci s e = find_first (\<lambda>u. to_lower (u_email u) = to_lower e) (users s)"

definition end_sessions_of :: "ident \<Rightarrow> db \<Rightarrow> db" where
  "end_sessions_of uid s = delete_session_rows (\<lambda>x. s_userId x = uid) s"

text \<open>What a push does to the user it names; the answer is \<^verbatim>\<open>outcome\<close>, empty where nothing was applied.\<close>

definition push_membership :: "string \<Rightarrow> bool \<Rightarrow> js \<Rightarrow> User \<Rightarrow> db \<Rightarrow> db \<times> string reply" where
  "push_membership newEmail signOut role user s =
     (if newEmail \<noteq> [] then
        (if \<not> email_shaped newEmail then (s, Err 400 ''bad_request'')
         else if (case user_by_email_ci s newEmail of Some t \<Rightarrow> u_id t \<noteq> u_id user | None \<Rightarrow> False)
         then (s, Err 409 ''email_taken'')
         else if list_ex (\<lambda>u. u_email u = newEmail \<and> u_id u \<noteq> u_id user) (users s) then (s, Throw ''P2002'')
         else (end_sessions_of (u_id user) (update_user (u_id user) (\<lambda>u. u\<lparr>u_email := newEmail\<rparr>) s),
               Ok 200 ''renamed''))
      else if signOut then (end_sessions_of (u_id user) s, Ok 200 ''signed_out'')
      else
        (let verdict = reconcileCenterRole user role;
             s1 = end_sessions_of (u_id user) (update_user (u_id user) (apply_center verdict) s) in
         case verdict of
           Unchanged \<Rightarrow> (s, Ok 200 [])
         | RevokedByCenter \<Rightarrow> (s1, Ok 200 ''revoked'')
         | UpdateTo _ _ \<Rightarrow> (s1, Ok 200 ''update'')))"

definition center_membership :: "TenantRow list \<Rightarrow> ctx \<Rightarrow> js \<Rightarrow> db \<Rightarrow> db \<times> string reply" where
  "center_membership ts cx body s =
     (let expected = trim (opt_text (cx_env cx ''CAPTIVO_ID_SERVICE_SECRET''));
          given = opt_text (cx_headers cx ''x-captivo-service'');
          org = text_of body ''org''; email = to_lower (text_of body ''email'');
          newEmail = to_lower (text_of body ''newEmail'');
          signOut = (body_field body ''signOut'' = JBool True);
          role = (case body_field body ''role'' of JNull \<Rightarrow> JNull | JStr r \<Rightarrow> JStr r | _ \<Rightarrow> JUndef) in
      if expected = [] \<or> given \<noteq> expected then (s, Err 401 ''unauthorized'')
      else if cx_tenant cx = PLATFORM_TENANT_ID then (s, Err 404 ''not_found'')
      else if org = [] \<or> email = [] \<or> role = JUndef \<and> \<not> signOut \<and> newEmail = [] then (s, Err 400 ''bad_request'')
      else (case tenantSlugAndName ts (cx_tenant cx) of
              None \<Rightarrow> (s, Err 404 ''not_found'')
            | Some (slug, _) \<Rightarrow>
                if tenantSlugByOrg ts org \<noteq> Some slug then (s, Err 404 ''not_found'')
                else (case user_by_email_ci s email of
                        None \<Rightarrow> (s, Ok 200 [])
                      | Some user \<Rightarrow>
                          if u_centerRole user = None then (s, Ok 200 [])
                          else push_membership newEmail signOut role user s)))"

end
