(* ===== verification/Accounts.thy ===== *)
theory Accounts
  imports Identity
begin

text \<open>
  The accounts of a tenant under any sequence of the requests of \<^verbatim>\<open>Identity\<close>. Every request is a sequence
  of moves on users, passkeys and invites (\<open>account_move\<close>), each carrying the authority it rests on; the
  invariants are shown once per move. The theorems: a passkey sign-in is sound, a refused registration
  leaves nothing, the tables stay consistent, an invite enrols at most one account, an administrator arises
  only from an administrator, and the last administrator cannot be removed from the console.
\<close>

section \<open>Requests\<close>

datatype identity_request =
    Registration_Options drawn js
  | Registration_Verify drawn js
  | Authentication_Options drawn
  | Authentication_Verify drawn directory_env js
  | Recover js
  | Save_Recovery js
  | Drop_Recovery
  | Delete_Passkey ident
  | Save_Profile js
  | Save_Timezone js
  | Patch_User ident js
  | Delete_User ident
  | Create_Invite fresh js
  | Revoke_Invite ident
  | Resend_Invite fresh ident
  | Revoke_Session ident
  | Revoke_Sessions js
  | Center_Membership js

record identity_env =
  ie_webauthn :: webauthn
  ie_jwt :: jwt
  ie_argon :: argon
  ie_web :: web
  ie_cipher :: cipher
  ie_otp :: "string \<Rightarrow> string \<Rightarrow> bool"
  ie_org :: "string option"
  ie_tenants :: "TenantRow list"

definition accepted :: "'s \<times> 'a reply \<Rightarrow> 's \<times> bool" where
  "accepted x = (fst x, case snd x of Ok _ _ \<Rightarrow> True | _ \<Rightarrow> False)"

fun identity_step :: "identity_env \<Rightarrow> ctx \<Rightarrow> identity_request \<Rightarrow> auth \<Rightarrow> auth \<times> bool" where
  "identity_step E cx (Registration_Options d body) a =
     accepted (registration_options (ie_jwt E) (ie_argon E) cx d body a)"
| "identity_step E cx (Registration_Verify d body) a =
     accepted (registration_verify (ie_webauthn E) (ie_jwt E) (ie_argon E) (ie_web E) cx d body a)"
| "identity_step E cx (Authentication_Options d) a = accepted (authentication_options (ie_jwt E) cx d a)"
| "identity_step E cx (Authentication_Verify d D body) a =
     accepted (authentication_verify (ie_webauthn E) (ie_jwt E) (ie_web E) cx d D body a)"
| "identity_step E cx (Recover body) a = accepted (recover (ie_jwt E) (ie_cipher E) (ie_otp E) cx body a)"
| "identity_step E cx (Save_Recovery body) a =
     accepted (on_db (save_recovery (ie_cipher E) (ie_otp E) cx body) a)"
| "identity_step E cx Drop_Recovery a = accepted (on_db (drop_recovery cx) a)"
| "identity_step E cx (Delete_Passkey i) a = accepted (on_db (delete_passkey cx i) a)"
| "identity_step E cx (Save_Profile body) a = accepted (on_db (save_profile cx body) a)"
| "identity_step E cx (Save_Timezone body) a = accepted (on_db (save_timezone cx body) a)"
| "identity_step E cx (Patch_User i body) a = accepted (on_db (patch_user cx i body) a)"
| "identity_step E cx (Delete_User i) a = accepted (on_db (delete_user cx i) a)"
| "identity_step E cx (Create_Invite f body) a =
     accepted (on_db (create_invite (ie_argon E) (ie_web E) cx f (ie_org E) body) a)"
| "identity_step E cx (Revoke_Invite i) a = accepted (on_db (revoke_invite cx i) a)"
| "identity_step E cx (Resend_Invite f i) a =
     accepted (on_db (resend_invite (ie_argon E) (ie_web E) cx f i) a)"
| "identity_step E cx (Revoke_Session i) a = accepted (on_db (revoke_session_route cx i) a)"
| "identity_step E cx (Revoke_Sessions body) a = accepted (on_db (revoke_sessions cx body) a)"
| "identity_step E cx (Center_Membership body) a =
     accepted (on_db (center_membership (ie_tenants E) cx body) a)"

text \<open>Every request comes with its caller's own cookies.\<close>

type_synonym identity_call = "ctx \<times> (string \<Rightarrow> cookie option) \<times> identity_request"

fun serve :: "identity_env \<Rightarrow> identity_call \<Rightarrow> limiter \<times> db \<Rightarrow> (limiter \<times> db) \<times> bool" where
  "serve E (cx, jar, rq) (l, s) =
     (case identity_step E cx rq \<lparr>au_limiter = l, au_jar = jar, au_db = s\<rparr> of
        (a, ok) \<Rightarrow> ((au_limiter a, au_db a), ok))"

fun serve_all :: "identity_env \<Rightarrow> identity_call list \<Rightarrow> limiter \<times> db \<Rightarrow> limiter \<times> db" where
  "serve_all E [] st = st"
| "serve_all E (c # cs) st = serve_all E cs (fst (serve E c st))"

section \<open>Moves\<close>

text \<open>What a move on the accounts may do, and on whose authority.\<close>

definition keeps_identity :: "(User \<Rightarrow> User) \<Rightarrow> bool" where
  "keeps_identity f \<longleftrightarrow> (\<forall>u. u_id (f u) = u_id u \<and> u_email (f u) = u_email u)"

definition keeps_authority :: "(User \<Rightarrow> User) \<Rightarrow> bool" where
  "keeps_authority f \<longleftrightarrow>
     (\<forall>u. u_role (f u) = u_role u \<and> u_status (f u) = u_status u \<and> u_centerRole (f u) = u_centerRole u)"

definition active_admin :: "User \<Rightarrow> bool" where
  "active_admin u \<longleftrightarrow> u_role u = ADMIN \<and> u_status u = UserStatus.ACTIVE"

definition admin_mapping :: "db \<Rightarrow> bool" where
  "admin_mapping s \<longleftrightarrow> list_ex (\<lambda>m. gm_role m = Some ADMIN) (groupMappings s)"

definition other_tables :: "db \<Rightarrow> db \<Rightarrow> bool" where
  "other_tables s s' \<longleftrightarrow> groupMappings s' = groupMappings s"

datatype authority = Own | Admin User | Centre | Directory_Sync | New_Invite ident

text \<open>\<open>may_revise s i f\<close> says which changes to user \<open>i\<close> an authority covers.\<close>

fun may_revise :: "authority \<Rightarrow> db \<Rightarrow> ident \<Rightarrow> (User \<Rightarrow> User) \<Rightarrow> bool" where
  "may_revise Own s i f \<longleftrightarrow> keeps_authority f"
| "may_revise (Admin by) s i f \<longleftrightarrow>
     by \<in> set (users s) \<and> active_admin by \<and> (i = u_id by \<longrightarrow> (\<forall>u. active_admin u \<longrightarrow> active_admin (f u))) \<and>
     (\<forall>u. u_centerRole (f u) = u_centerRole u)"
| "may_revise Centre s i f \<longleftrightarrow> (\<exists>u\<in>set (users s). u_id u = i \<and> u_centerRole u \<noteq> None)"
| "may_revise Directory_Sync s i f \<longleftrightarrow>
     (\<forall>u. u_centerRole (f u) = u_centerRole u \<and>
          (u_role (f u) = u_role u \<or> u_role (f u) \<noteq> ADMIN \<or> admin_mapping s))"
| "may_revise (New_Invite _) s i f \<longleftrightarrow> False"

inductive account_move :: "authority set \<Rightarrow> db \<Rightarrow> db \<Rightarrow> bool" for W where
  keep: "users s' = users s \<Longrightarrow> passkeys s' = passkeys s \<Longrightarrow> invites s' = invites s \<Longrightarrow> other_tables s s' \<Longrightarrow>
    account_move W s s'"
| revise: "b \<in> W \<Longrightarrow> users s' = update_many (\<lambda>u. u_id u = i) f (users s) \<Longrightarrow> keeps_identity f \<Longrightarrow> may_revise b s i f \<Longrightarrow>
    passkeys s' = passkeys s \<Longrightarrow> invites s' = invites s \<Longrightarrow> other_tables s s' \<Longrightarrow> account_move W s s'"
| rename: "Centre \<in> W \<Longrightarrow> users s' = update_many (\<lambda>u. u_id u = i) (\<lambda>u. u\<lparr>u_email := e\<rparr>) (users s) \<Longrightarrow>
    \<forall>u\<in>set (users s). u_email u = e \<longrightarrow> u_id u = i \<Longrightarrow>
    passkeys s' = passkeys s \<Longrightarrow> invites s' = invites s \<Longrightarrow> other_tables s s' \<Longrightarrow> account_move W s s'"
| remove: "ad \<in> set (users s) \<Longrightarrow> active_admin ad \<Longrightarrow> u_id ad \<noteq> i \<Longrightarrow>
    users s' = delete_many (\<lambda>u. u_id u = i) (users s) \<Longrightarrow> passkeys s' = delete_many (\<lambda>p. pk_userId p = i) (passkeys s) \<Longrightarrow>
    invites s' = map (\<lambda>v. v\<lparr>inv_createdById := set_null i (inv_createdById v)\<rparr>) (invites s) \<Longrightarrow> other_tables s s' \<Longrightarrow>
    account_move W s s'"
| enrol: "users s' = users s @ [u] \<Longrightarrow> \<forall>v\<in>set (users s). u_id v \<noteq> u_id u \<and> u_email v \<noteq> u_email u \<Longrightarrow>
    passkeys s' = passkeys s @ [p] \<Longrightarrow> pk_userId p = u_id u \<Longrightarrow> \<forall>q\<in>set (passkeys s). pk_credentialId q \<noteq> pk_credentialId p \<Longrightarrow>
    users s = [] \<or> (\<exists>v\<in>set (invites s). inv_usedAt v = None \<and> inv_role v = u_role u) \<Longrightarrow> u_centerRole u = None \<Longrightarrow>
    invites s' = update_many q (\<lambda>v. v\<lparr>inv_usedAt := Some now\<rparr>) (invites s) \<Longrightarrow> other_tables s s' \<Longrightarrow>
    account_move W s s'"
| add_passkey: "users s' = users s \<Longrightarrow> passkeys s' = passkeys s @ [p] \<Longrightarrow> \<exists>u\<in>set (users s). u_id u = pk_userId p \<Longrightarrow>
    \<forall>q\<in>set (passkeys s). pk_credentialId q \<noteq> pk_credentialId p \<Longrightarrow> invites s' = invites s \<Longrightarrow> other_tables s s' \<Longrightarrow>
    account_move W s s'"
| use_passkey: "users s' = users s \<Longrightarrow>
    passkeys s' = update_many q (\<lambda>p. p\<lparr>pk_counter := n, pk_lastUsedAt := t\<rparr>) (passkeys s) \<Longrightarrow>
    invites s' = invites s \<Longrightarrow> other_tables s s' \<Longrightarrow> account_move W s s'"
| drop_passkey: "users s' = users s \<Longrightarrow> passkeys s' = delete_many q (passkeys s) \<Longrightarrow> invites s' = invites s \<Longrightarrow>
    other_tables s s' \<Longrightarrow> account_move W s s'"
| add_invite: "New_Invite (inv_id v) \<in> W \<Longrightarrow> users s' = users s \<Longrightarrow> passkeys s' = passkeys s \<Longrightarrow> invites s' = invites s @ [v] \<Longrightarrow>
    ad \<in> set (users s) \<Longrightarrow> active_admin ad \<Longrightarrow> other_tables s s' \<Longrightarrow> account_move W s s'"
| drop_invite: "users s' = users s \<Longrightarrow> passkeys s' = passkeys s \<Longrightarrow> invites s' = delete_many q (invites s) \<Longrightarrow>
    other_tables s s' \<Longrightarrow> account_move W s s'"

abbreviation account_moves :: "authority set \<Rightarrow> db \<Rightarrow> db \<Rightarrow> bool" where
  "account_moves W \<equiv> (account_move W)\<^sup>*\<^sup>*"

section \<open>Frames\<close>

lemma account_frames [simp]:
  "groupMappings (audit cx u ac tt ti sm md s) = groupMappings s"
  "users (sendMail to t sb s) = users s" "passkeys (sendMail to t sb s) = passkeys s"
  "invites (sendMail to t sb s) = invites s" "groupMappings (sendMail to t sb s) = groupMappings s"
  by (simp_all add: audit_def recordAdminAction_def Let_def sendMail_def)

lemma mail_invite_frame [simp]:
  "users (mail_invite e n s) = users s" "passkeys (mail_invite e n s) = passkeys s"
  "invites (mail_invite e n s) = invites s" "groupMappings (mail_invite e n s) = groupMappings s"
  by (simp_all add: mail_invite_def split: option.splits)

lemma end_sessions_frame [simp]:
  "users (delete_session_rows p s) = users s" "passkeys (delete_session_rows p s) = passkeys s"
  "invites (delete_session_rows p s) = invites s" "groupMappings (delete_session_rows p s) = groupMappings s"
  by (simp_all add: delete_session_rows_def Let_def)

lemma evict_oldest_frame [simp]:
  "users (evict_oldest p uid t s) = users s" "passkeys (evict_oldest p uid t s) = passkeys s"
  "invites (evict_oldest p uid t s) = invites s" "groupMappings (evict_oldest p uid t s) = groupMappings s"
  by (simp_all add: evict_oldest_def Let_def split: option.splits)

lemma open_session_frame [simp]:
  "users (au_db (open_session cx d uid amr a)) = users (au_db a)"
  "passkeys (au_db (open_session cx d uid amr a)) = passkeys (au_db a)"
  "invites (au_db (open_session cx d uid amr a)) = invites (au_db a)"
  "groupMappings (au_db (open_session cx d uid amr a)) = groupMappings (au_db a)"
  by (simp_all add: open_session_def createSession_def Let_def)

lemma cookie_frame [simp]:
  "au_db (clearChallenge a) = au_db a" "au_db (clearRecoverToken a) = au_db a"
  by (simp_all add: clearChallenge_def clearRecoverToken_def drop_cookie_def)

lemma offer_frame: "offer J cx d p uid a = (a', r) \<Longrightarrow> au_db a' = au_db a"
  by (auto simp: offer_def setChallenge_def set_signed_def split: option.splits)

lemma update_user_frame [simp]:
  "passkeys (update_user i f s) = passkeys s" "invites (update_user i f s) = invites s"
  "groupMappings (update_user i f s) = groupMappings s"
  "users (update_user i f s) = update_many (\<lambda>u. u_id u = i) f (users s)"
  by (simp_all add: update_user_def)

lemma current_user_active:
  assumes "current_user cx s = (s1, Some u)"
  shows "u \<in> set (users s1)" "u_status u = UserStatus.ACTIVE"
proof -
  have "\<exists>t. getSessionUser (cx_H cx) (cx_policy cx) (cx_now cx) t s = (s1, Some u) \<or>
      (\<exists>s0. users s0 = users s \<and> getSessionUser (cx_H cx) (cx_policy cx) (cx_now cx) t s0 = (s1, Some u))"
    using assms getSessionUser_frame(2) [of "cx_H cx" "cx_policy cx" "cx_now cx" "the (cx_support cx)" s]
    by (auto simp: current_user_def getCurrentUser_def Let_def split: if_splits prod.splits option.splits)
  then obtain t s0 where "getSessionUser (cx_H cx) (cx_policy cx) (cx_now cx) t s0 = (s1, Some u)" by blast
  moreover from this have "u \<in> set (users s0) \<and> u_status u = UserStatus.ACTIVE"
    by (auto simp: getSessionUser_def dest: user_by_id_Some split: if_splits option.splits)
  ultimately show "u \<in> set (users s1)" "u_status u = UserStatus.ACTIVE"
    using getSessionUser_frame(2) [of "cx_H cx" "cx_policy cx" "cx_now cx" t s0] by auto
qed

lemma can_configure: "can r Configure \<longleftrightarrow> r = ADMIN"
  by (cases r) (simp_all add: can_def)

lemma signing_in_moves: "account_moves W s (fst (current_user cx s))"
  by (intro r_into_rtranclp account_move.keep) (simp_all add: other_tables_def)

lemma with_user_moves:
  assumes "with_user cx body s = (s', r)"
    and "\<And>u s1. u \<in> set (users s1) \<Longrightarrow> u_status u = UserStatus.ACTIVE \<Longrightarrow> body u s1 = (s', r) \<Longrightarrow> account_moves W s1 s'"
  shows "account_moves W s s'"
  by (rule with_user_cases [of cx s body])
     (use assms signing_in_moves [of W s cx] current_user_active [of cx s] in \<open>force intro: rtranclp_trans\<close>)+

lemma requireUser_moves:
  assumes "requireUser cx body s = (s', r)"
    and "\<And>u s1. u \<in> set (users s1) \<Longrightarrow> u_status u = UserStatus.ACTIVE \<Longrightarrow> body u s1 = (s', r) \<Longrightarrow> account_moves W s1 s'"
  shows "account_moves W s s'"
proof (cases "current_user cx s")
  case (Pair s1 ou)
  then show ?thesis
    using assms signing_in_moves [of W s cx] current_user_active [of cx s]
    by (cases ou) (force simp: requireUser_def intro: rtranclp_trans)+
qed

lemma with_admin_moves:
  assumes "with_capability cx Configure body s = (s', r)"
    and "\<And>u s1. u \<in> set (users s1) \<Longrightarrow> active_admin u \<Longrightarrow> body u s1 = (s', r) \<Longrightarrow> account_moves W s1 s'"
  shows "account_moves W s s'"
  using assms(1) unfolding with_capability_def
  by (rule with_user_moves) (use assms(2) in \<open>auto simp: active_admin_def can_configure split: if_splits\<close>)

section \<open>Every request is a sequence of moves\<close>

lemma move_keep: "users s' = users s \<Longrightarrow> passkeys s' = passkeys s \<Longrightarrow> invites s' = invites s \<Longrightarrow>
    groupMappings s' = groupMappings s \<Longrightarrow> account_moves W s s'"
  by (intro r_into_rtranclp account_move.keep) (simp_all add: other_tables_def)

lemma limited_cases:
  obtains (over) l where "limited cx path body a = (a\<lparr>au_limiter := l\<rparr>, Err 429 ''rate_limited'')"
  | (within) l where "limited cx path body a = body (a\<lparr>au_limiter := l\<rparr>)"
proof (cases "checkRateLimit ((case clientIp (cx_headers cx) of Some i \<Rightarrow> i | None \<Rightarrow> ''unknown'') @ CHR '':'' # path)
    10 60000 (cx_now cx) (au_limiter a)")
  case (Pair l ok)
  then show ?thesis using that by (cases ok) (auto simp: limited_def Let_def)
qed

lemma limited_moves:
  assumes "limited cx path body a = (a', r)"
    and "\<And>l. body (a\<lparr>au_limiter := l\<rparr>) = (a', r) \<Longrightarrow> account_moves W (au_db a) (au_db a')"
  shows "account_moves W (au_db a) (au_db a')"
  by (rule limited_cases [of cx path body a]) (use assms in auto)

lemma registration_options_moves:
  assumes "registration_options J A cx d body a = (a', r)"
  shows "account_moves W (au_db a) (au_db a')"
  using assms unfolding registration_options_def
  by (rule limited_moves)
     (use signing_in_moves [of W "au_db a" cx] in
       \<open>auto simp: Let_def on_db_def dest!: offer_frame split: if_splits option.splits prod.splits\<close>)

lemma authentication_options_moves:
  assumes "authentication_options J cx d a = (a', r)"
  shows "account_moves W (au_db a) (au_db a')"
  using assms unfolding authentication_options_def
  by (rule limited_moves) (auto dest!: offer_frame)

lemma recover_moves:
  assumes "recover J C otp cx body a = (a', r)"
  shows "account_moves W (au_db a) (au_db a')"
  using assms unfolding recover_def
  by (rule limited_moves)
     (auto simp: Let_def setRecoverToken_def set_signed_def split: if_splits option.splits prod.splits)

lemma insert_passkey_Some:
  assumes "insert_passkey d now uid cr label s = Some s'"
  obtains p where "s' = s\<lparr>passkeys := passkeys s @ [p]\<rparr>" "pk_userId p = uid"
    "\<forall>q\<in>set (passkeys s). pk_credentialId q \<noteq> pk_credentialId p"
  using assms by (fastforce simp: insert_passkey_def insert_row_def list_ex_iff split: if_splits)

lemma insert_passkey_move:
  assumes "insert_passkey d now uid cr label s = Some s'" and "\<exists>u\<in>set (users s). u_id u = uid"
  shows "account_moves W s s'"
  using assms(1)
  by (rule insert_passkey_Some)
     (use assms(2) in \<open>auto intro!: r_into_rtranclp account_move.add_passkey simp: other_tables_def\<close>)

lemma register_add_moves:
  assumes "register_add W' J w cx d body a = (a', r)"
  shows "account_moves W (au_db a) (au_db a')"
proof (cases "current_user cx (au_db a)")
  case (Pair s1 ou)
  note start = signing_in_moves [of W "au_db a" cx]
  show ?thesis
  proof (cases ou)
    case None
    with Pair assms start show ?thesis by (auto simp: register_add_def on_db_def)
  next
    case (Some u)
    have "\<exists>v\<in>set (users s1). u_id v = u_id u" using current_user_active Pair Some by blast
    then have "account_moves W s1 (au_db a')"
      using assms Pair Some
      by (auto simp: register_add_def on_db_def intro: insert_passkey_move
          split: if_splits reply.splits option.splits)
    with start Pair show ?thesis by auto
  qed
qed

lemma register_recover_moves:
  assumes "register_recover W' J w cx d body a = (a', r)"
  shows "account_moves W (au_db a) (au_db a')"
proof -
  have keep: "account_moves W s (au_db (open_session cx d uid amr (a\<lparr>au_db := s\<rparr>)))" for s uid amr
    by (rule move_keep) simp_all
  show ?thesis
    using assms
    by (auto simp: register_recover_def split: if_splits reply.splits option.splits bind_splits
        dest!: user_by_id_Some intro!: rtranclp_trans [OF insert_passkey_move keep])
qed

lemma insert_user_Some:
  "insert_user u s = Some s' \<longleftrightarrow>
     s' = s\<lparr>users := users s @ [u]\<rparr> \<and> (\<forall>v\<in>set (users s). u_id v \<noteq> u_id u \<and> u_email v \<noteq> u_email u)"
  by (auto simp: insert_user_def insert_row_def list_ex_iff)

lemma enrol_move:
  assumes "insert_user u s = Some s1" and "insert_passkey d now (u_id u) cr label s1 = Some s2"
    and "users s = [] \<or> (\<exists>v\<in>set (invites s). inv_usedAt v = None \<and> inv_role v = u_role u)" and "u_centerRole u = None"
    and "s3 = s2\<lparr>invites := update_many q (\<lambda>v. v\<lparr>inv_usedAt := Some now\<rparr>) (invites s2)\<rparr>"
  shows "account_moves W s s3"
  using assms(2)
  by (rule insert_passkey_Some)
     (use assms in \<open>auto intro!: r_into_rtranclp account_move.enrol simp: insert_user_Some other_tables_def\<close>)

lemma enrol_tx_moves:
  assumes "enrol_tx d now i u cr label s = (s', r)"
    and "users s = [] \<or> (\<exists>v\<in>set (invites s). inv_usedAt v = None \<and> inv_role v = u_role u)" and "u_centerRole u = None"
  shows "account_moves W s s'"
  using assms(1) enrol_move [OF _ _ assms(2,3)]
  by (fastforce simp: enrol_tx_def consume_invite_def Let_def split: option.splits prod.splits if_splits)

lemma run_tx_moves:
  assumes "run_tx b body s = (s', r)" and "\<And>s1 r1. body s = (s1, r1) \<Longrightarrow> account_moves W s s1"
  shows "account_moves W s s'"
  using assms by (auto simp: run_tx_def split: prod.splits sum.splits if_splits)

lemma verifyInvite_Some:
  "verifyInvite A now token s = Some v \<Longrightarrow> v \<in> set (invites s) \<and> live_invite now v \<and> verifyTokenHash A token (inv_tokenHash v)"
  unfolding verifyInvite_def by (drule find_first_Some) auto

lemma register_invited_moves:
  assumes "register_invited cx d v u cr label a = (a', r)"
    and "users (au_db a) = [] \<or> (\<exists>v\<in>set (invites (au_db a)). inv_usedAt v = None \<and> inv_role v = u_role u)"
    and "u_centerRole u = None"
  shows "account_moves W (au_db a) (au_db a')"
proof -
  obtain s x where tx: "run_tx (multiTenantEnabled (cx_env cx)) (enrol_tx d (cx_now cx) (inv_id v) u cr label) (au_db a) = (s, x)"
    by fastforce
  then have "account_moves W (au_db a) s" by (rule run_tx_moves) (rule enrol_tx_moves [OF _ assms(2,3)])
  moreover have "account_moves W s (au_db a')"
    using assms(1) tx by (intro move_keep) (auto simp: register_invited_def split: sum.splits)
  ultimately show ?thesis by simp
qed

lemma register_invite_moves:
  assumes "register_invite W' J A w cx d body a = (a', r)"
  shows "account_moves W (au_db a) (au_db a')"
proof -
  have step: "account_moves W (au_db a) (au_db a')"
    if "verifyInvite A (cx_now cx) token (au_db a) = Some v"
      "register_invited cx d v (invited_account i n (cx_now cx) v) cr label a = (a', r)" for token v i n cr label
    using that(2)
  proof (rule register_invited_moves)
    from verifyInvite_Some [OF that(1)]
    show "users (au_db a) = [] \<or> (\<exists>x\<in>set (invites (au_db a)). inv_usedAt x = None \<and>
        inv_role x = u_role (invited_account i n (cx_now cx) v))"
      by (auto simp: invited_account_def new_account_def live_invite_def)
  qed (simp add: invited_account_def new_account_def)
  show ?thesis
    using assms step by (fastforce simp: register_invite_def Let_def split: if_splits option.splits reply.splits)
qed

lemma register_setup_moves:
  assumes "register_setup W' J w cx d body a = (a', r)"
  shows "account_moves W (au_db a) (au_db a')"
proof -
  have step: "account_moves W (au_db a) (au_db (open_session cx d i amr (a\<lparr>au_db := s2\<rparr>)))"
    if "\<not> hasAnyUser (au_db a)" "insert_user u (au_db a) = Some s1"
      "insert_passkey d now (u_id u) cr label s1 = Some s2" "u_centerRole u = None" for u s1 s2 now cr label i amr
  proof -
    have "account_moves W (au_db a) s2"
      using that by (intro enrol_move [where q = "\<lambda>_. False", OF that(2,3)]) (simp_all add: hasAnyUser_def update_many_def)
    moreover have "account_moves W s2 (au_db (open_session cx d i amr (a\<lparr>au_db := s2\<rparr>)))" by (rule move_keep) simp_all
    ultimately show ?thesis by simp
  qed
  show ?thesis
    using assms
    by (auto simp: register_setup_def Let_def split: if_splits option.splits reply.splits bind_splits)
       (erule (2) step, simp add: new_account_def)
qed

lemma registration_verify_moves:
  assumes "registration_verify W' J A w cx d body a = (a', r)"
  shows "account_moves W (au_db a) (au_db a')"
  using assms unfolding registration_verify_def
  by (rule limited_moves)
     (auto simp: Let_def split: if_splits dest: register_add_moves [where W = W] register_recover_moves [where W = W]
       register_invite_moves [where W = W] register_setup_moves [where W = W])

lemma directory_frames [simp]:
  "passkeys (auditDirectory H pd now u d p r s) = passkeys s" "invites (auditDirectory H pd now u d p r s) = invites s"
  "groupMappings (auditDirectory H pd now u d p r s) = groupMappings s"
  by (simp_all add: auditDirectory_def appendAuditEvents_def split: option.splits prod.splits)

lemma revoke_where_frame [simp]:
  "users (revoke_where p s) = users s" "passkeys (revoke_where p s) = passkeys s" "invites (revoke_where p s) = invites s"
  "groupMappings (revoke_where p s) = groupMappings s"
  by (simp_all add: revoke_where_def)

lemma create_dir_grants_frame:
  "create_dir_grants fresh u now is s = (s', r) \<Longrightarrow>
     users s' = users s \<and> passkeys s' = passkeys s \<and> invites s' = invites s \<and> groupMappings s' = groupMappings s"
  by (induction "is" arbitrary: s) (auto simp: insert_grant_def split: if_splits)

lemma best_role_in:
  assumes "rs \<noteq> []" shows "best_role rs \<in> set rs"
proof -
  have "foldl (\<lambda>best r. if ROLE_RANK r > ROLE_RANK best then r else best) b xs \<in> insert b (set xs)" for b xs
  proof (induction xs arbitrary: b)
    case (Cons a xs)
    from Cons.IH [of "if ROLE_RANK a > ROLE_RANK b then a else b"] show ?case by (auto split: if_splits)
  qed simp
  from this [of "hd rs" rs] show ?thesis using assms by (simp add: best_role_def insert_absorb)
qed

lemma directory_role_mapped:
  assumes "rd_role (computeReconcile gs (listGroupMappingsLite s) b) = Some ADMIN"
  shows "admin_mapping s"
proof -
  let ?m = "filter (mapping_matches gs) (listGroupMappingsLite s)"
  have "role_matches ?m \<noteq> [] \<and> best_role (role_matches ?m) = ADMIN"
    using assms by (auto simp: computeReconcile_def Let_def split: if_splits)
  then have "ADMIN \<in> set (role_matches ?m)" using best_role_in by metis
  then show ?thesis
    by (fastforce simp: set_role_matches listGroupMappingsLite_def List.map_filter_def lite_of_def admin_mapping_def
        list_ex_iff split: if_splits)
qed

lemma userData_simps [simp]:
  "u_id (userData d u now x) = u_id x" "u_email (userData d u now x) = u_email x"
  "u_centerRole (userData d u now x) = u_centerRole x"
  "u_role (userData d u now x) = (if roleChanged d u then the (rd_role d) else u_role x)"
  by (simp_all add: userData_def)

lemma directory_move:
  assumes "Directory_Sync \<in> W" and "users s' = update_many (\<lambda>u. u_id u = i) f (users s)" and "passkeys s' = passkeys s"
    and "invites s' = invites s" and "groupMappings s' = groupMappings s"
    and "\<And>x. u_id (f x) = u_id x \<and> u_email (f x) = u_email x \<and> u_centerRole (f x) = u_centerRole x"
    and "\<And>x. u_role (f x) = u_role x \<or> u_role (f x) \<noteq> ADMIN \<or> admin_mapping s"
  shows "account_moves W s s'"
  using assms by (intro r_into_rtranclp account_move.revise [of Directory_Sync]) (auto simp: keeps_identity_def other_tables_def)

lemma provisionUser_moves:
  assumes "provisionUser H pd fresh now u (computeReconcile gs (listGroupMappingsLite s) b) s = (s', r)"
    and "Directory_Sync \<in> W"
  shows "account_moves W s s'"
proof -
  let ?d = "computeReconcile gs (listGroupMappingsLite s) b"
  have role: "u_role (userData ?d u now x) = u_role x \<or> u_role (userData ?d u now x) \<noteq> ADMIN \<or> admin_mapping s" for x
    using directory_role_mapped [of gs s b] by (auto simp: roleChanged_def)
  have made: "account_moves W s s2" if "create_dir_grants fresh u now is (update_user (u_id u) (userData ?d u now) s) = (s1, q)"
    and "users s2 = users s1" "passkeys s2 = passkeys s1" "invites s2 = invites s1" "groupMappings s2 = groupMappings s1"
    for s1 s2 q "is"
    by (rule directory_move [OF assms(2), where i = "u_id u" and f = "userData ?d u now", OF _ _ _ _ _ role])
       (use that create_dir_grants_frame [OF that(1)] in simp_all)
  have batch: "account_moves W s s2"
    if "provision_batch fresh u (userData ?d u now) create revoke now s = (s2, q)" for create revoke s2 q
    using that made
    by (cases "create_dir_grants fresh u now create (update_user (u_id u) (userData ?d u now) s)")
       (auto simp: provision_batch_def split: sum.splits if_splits)
  let ?p = "planGrantChanges (currentDirGrants u s) (rd_grantSiteIds ?d)"
  obtain s1 q where tx: "run_tx False (provision_batch fresh u (userData ?d u now) (fst ?p) (snd ?p) now) s = (s1, q)"
    by fastforce
  then have "account_moves W s s1" by (rule run_tx_moves) (rule batch)
  moreover have "account_moves W s1 s'"
    using assms(1) tx by (intro move_keep) (auto simp: provisionUser_def Let_def split: sum.splits)
  ultimately show ?thesis by simp
qed

lemma deprovisionUser_moves:
  assumes "deprovisionUser H pd now u s = (s', r)" and "Directory_Sync \<in> W"
  shows "account_moves W s s'"
proof (cases "user_by_id s (u_id u)")
  case None
  with assms(1) show ?thesis by (auto simp: deprovisionUser_def run_tx_def deprovision_batch_def)
next
  case (Some v)
  with assms(1) show ?thesis
    by (intro directory_move [OF assms(2), where i = "u_id u"
          and f = "\<lambda>x. x\<lparr>u_status := UserStatus.DISABLED, u_directoryLastVerifiedAt := Some now\<rparr>"])
       (auto simp: deprovisionUser_def run_tx_def deprovision_batch_def)
qed

lemma sync_at_login_moves:
  assumes "sync_at_login cx D u s = (s', r)" and "Directory_Sync \<in> W \<or> de_config D = None"
  shows "account_moves W s s'"
proof (cases "de_config D")
  case None
  with assms(1) show ?thesis by (auto simp: sync_at_login_def syncUserAtLogin_def)
next
  case (Some c)
  with assms(2) have W: "Directory_Sync \<in> W" by simp
  have verified: "account_moves W s (update_user i (\<lambda>x. x\<lparr>u_directoryLastVerifiedAt := t\<rparr>) s)" for i t
    by (rule directory_move [OF W, where i = i and f = "\<lambda>x. x\<lparr>u_directoryLastVerifiedAt := t\<rparr>"]) simp_all
  show ?thesis
    using assms(1) Some W verified
    by (auto simp: sync_at_login_def syncUserAtLogin_def Let_def
        dest: provisionUser_moves [where W = W] deprovisionUser_moves [where W = W]
        split: if_splits lookup.splits prod.splits sum.splits)
qed

lemma use_passkey_move: "account_moves W s (Identity.use_passkey i n t s)"
  by (intro r_into_rtranclp account_move.use_passkey) (auto simp: Identity.use_passkey_def other_tables_def)

lemma finish_sign_in_moves:
  assumes "finish_sign_in cx d D u amr a = (a', r)" and "Directory_Sync \<in> W \<or> de_config D = None"
  shows "account_moves W (au_db a) (au_db a')"
proof -
  obtain s x where sync: "sync_at_login cx D u (au_db a) = (s, x)" by fastforce
  note first = sync_at_login_moves [OF sync assms(2)]
  moreover have "account_moves W s (au_db a')"
    using assms(1) sync by (intro move_keep) (auto simp: finish_sign_in_def on_db_def split: sum.splits bool.splits)
  ultimately show ?thesis by simp
qed

text \<open>The passkey, account and verified answer behind a sign-in.\<close>

definition signing_passkey :: "webauthn \<Rightarrow> jwt \<Rightarrow> web \<Rightarrow> ctx \<Rightarrow> js \<Rightarrow> auth \<Rightarrow> Passkey \<Rightarrow> User \<Rightarrow> nat \<Rightarrow> bool \<Rightarrow> bool" where
  "signing_passkey W J w cx body a p u counter uv \<longleftrightarrow>
     p \<in> set (passkeys (au_db a)) \<and> body_field (body_field body ''response'') ''id'' = JStr (pk_credentialId p) \<and>
     user_by_id (au_db a) (pk_userId p) = Some u \<and> u_status u = UserStatus.ACTIVE \<and>
     (\<exists>challenge. readChallenge J cx ''auth'' a = Some challenge \<and>
        originMatchesRp w (requestOrigin w (cx_headers cx)) (getRpId (cx_env cx)) \<and>
        wa_authenticate W (body_field body ''response'') challenge (requestOrigin w (cx_headers cx)) (getRpId (cx_env cx)) p
          = Inr (Some (counter, uv)))"

lemma readChallenge_limiter [simp]: "readChallenge J cx purpose (a\<lparr>au_limiter := l\<rparr>) = readChallenge J cx purpose a"
  by (simp add: readChallenge_def read_signed_def cookie_value_def)

lemma or_null_Some: "or_null v = Some t \<longleftrightarrow> v = Some t \<and> t \<noteq> []"
  by (auto simp: or_null_def split: option.splits)

lemma authentication_verify_cases:
  assumes "authentication_verify W J w cx d D body a = (a', r)"
  obtains (refused) "au_db a' = au_db a" "\<And>c v. r \<noteq> Ok c v"
  | (signed) p u counter uv l where "signing_passkey W J w cx body a p u counter uv"
      "(let a1 = a\<lparr>au_limiter := l, au_db := Identity.use_passkey (pk_id p) counter (cx_now cx) (au_db a)\<rparr> in
        if secondFactorGate (sp_requireSecondFactor (cx_policy cx)) (passkeyAmr uv) True \<noteq> Gate_allow
        then (a1, Err 403 ''mfa_required'')
        else (case finish_sign_in cx d D u (passkeyAmr uv) a1 of
                (a2, Ok c v) \<Rightarrow> (clearChallenge a2, Ok c v)
              | r \<Rightarrow> r)) = (a', r)"
proof (rule limited_cases [of cx "''/api/auth/authentication/verify''" "sign_in_with_passkey W J w cx d D body" a])
  fix l
  assume "limited cx ''/api/auth/authentication/verify'' (sign_in_with_passkey W J w cx d D body) a =
    (a\<lparr>au_limiter := l\<rparr>, Err 429 ''rate_limited'')"
  with assms refused show thesis by (auto simp: authentication_verify_def)
next
  fix l
  assume "limited cx ''/api/auth/authentication/verify'' (sign_in_with_passkey W J w cx d D body) a =
    sign_in_with_passkey W J w cx d D body (a\<lparr>au_limiter := l\<rparr>)"
  with assms have *: "sign_in_with_passkey W J w cx d D body (a\<lparr>au_limiter := l\<rparr>) = (a', r)"
    by (simp add: authentication_verify_def)
  show thesis
    using * refused signed [of _ _ _ _ l] unfolding sign_in_with_passkey_def
    by (auto simp: signing_passkey_def or_null_Some Let_def split: if_splits option.splits sum.splits js.splits
        dest!: find_first_Some)
qed

lemma authentication_verify_moves:
  assumes "authentication_verify W' J w cx d D body a = (a', r)" and "Directory_Sync \<in> W \<or> de_config D = None"
  shows "account_moves W (au_db a) (au_db a')"
  using assms(1)
proof (rule authentication_verify_cases)
  fix p u counter uv l
  let ?a = "a\<lparr>au_limiter := l, au_db := Identity.use_passkey (pk_id p) counter (cx_now cx) (au_db a)\<rparr>"
  assume *: "(let a1 = ?a in
        if secondFactorGate (sp_requireSecondFactor (cx_policy cx)) (passkeyAmr uv) True \<noteq> Gate_allow
        then (a1, Err 403 ''mfa_required'')
        else (case finish_sign_in cx d D u (passkeyAmr uv) a1 of
                (a2, Ok c v) \<Rightarrow> (clearChallenge a2, Ok c v)
              | r \<Rightarrow> r)) = (a', r)"
  obtain a2 r2 where f: "finish_sign_in cx d D u (passkeyAmr uv) ?a = (a2, r2)" by fastforce
  from * f finish_sign_in_moves [OF f assms(2)] have "account_moves W (au_db ?a) (au_db a')"
    by (auto simp: Let_def split: if_splits reply.splits)
  with use_passkey_move [of W "au_db a"] show ?thesis by (metis auth.select_convs(3) auth.surjective auth.update_convs(3) rtranclp_trans)
qed auto

lemma own_edit_move:
  assumes "Own \<in> W" and "\<And>x. u_id (f x) = u_id x \<and> u_email (f x) = u_email x \<and> u_role (f x) = u_role x \<and>
    u_status (f x) = u_status x \<and> u_centerRole (f x) = u_centerRole x"
  shows "account_moves W s (update_user i f s)"
  using assms
  by (intro r_into_rtranclp account_move.revise [of Own])
     (auto simp: keeps_identity_def keeps_authority_def other_tables_def)

lemma self_service_moves:
  assumes "Own \<in> W"
  shows "save_recovery C otp cx body s = (s', r1) \<Longrightarrow> account_moves W s s'"
    and "drop_recovery cx s = (s', r2) \<Longrightarrow> account_moves W s s'"
    and "delete_passkey cx i s = (s', r2) \<Longrightarrow> account_moves W s s'"
    and "save_profile cx body s = (s', r3) \<Longrightarrow> account_moves W s s'"
    and "save_timezone cx body s = (s', r2) \<Longrightarrow> account_moves W s s'"
proof -
  note own = own_edit_move [OF assms]
  show "account_moves W s s'" if "save_recovery C otp cx body s = (s', r1)"
    using that unfolding save_recovery_def
    by (rule with_user_moves)
       (auto simp: with_body_def Let_def intro!: move_keep split: if_splits option.splits)
  show "account_moves W s s'" if "drop_recovery cx s = (s', r2)"
    using that unfolding drop_recovery_def by (rule with_user_moves) (auto intro!: move_keep)
  show "account_moves W s s'" if "delete_passkey cx i s = (s', r2)"
    using that unfolding delete_passkey_def
    by (rule with_user_moves)
       (auto intro!: r_into_rtranclp account_move.drop_passkey simp: other_tables_def split: if_splits option.splits)
  show "account_moves W s s'" if "save_profile cx body s = (s', r3)"
    using that unfolding save_profile_def
    by (rule requireUser_moves) (auto simp: with_body_def intro!: own split: if_splits option.splits)
  show "account_moves W s s'" if "save_timezone cx body s = (s', r2)"
    using that unfolding save_timezone_def
    by (rule requireUser_moves) (auto simp: with_body_def Let_def intro!: own split: if_splits option.splits)
qed

lemma audit_moves: "account_moves W s s1 \<Longrightarrow> account_moves W s (audit cx u ac tt ti sm md s1)"
  by (rule rtranclp_trans, assumption) (rule move_keep; simp)

lemma patch_user_checked_moves:
  assumes "patch_user_checked cx i admin st role s = (s', r)" and "Admin admin \<in> W"
    and "admin \<in> set (users s)" and "active_admin admin"
    and "i = u_id admin \<Longrightarrow> st \<noteq> Some UserStatus.DISABLED \<and> role = None"
  shows "account_moves W s s'"
proof -
  have "account_moves W s (update_user i (patch_user_row st role) s)"
  proof (intro r_into_rtranclp account_move.revise [OF assms(2)])
    show "may_revise (Admin admin) s i (patch_user_row st role)"
      using assms(3-5) by (auto simp: active_admin_def patch_user_row_def split: option.splits) (metis UserStatus.exhaust)+
  qed (auto simp: keeps_identity_def patch_user_row_def other_tables_def)
  then show ?thesis
    using assms(1) by (auto simp: patch_user_checked_def intro: audit_moves split: if_splits option.splits)
qed

lemma patch_user_moves:
  assumes "patch_user cx i body s = (s', r)" and "\<And>u. Admin u \<in> W"
  shows "account_moves W s s'"
  using assms(1) unfolding patch_user_def
  by (rule with_admin_moves)
     (auto simp: with_body_def Let_def bind_eq_None_conv split: if_splits
        intro: patch_user_checked_moves [OF _ assms(2)])

lemma delete_row_move:
  assumes "admin \<in> set (users s)" and "active_admin admin" and "i \<noteq> u_id admin"
  shows "account_moves W s (delete_user_row i s)"
  using assms by (intro r_into_rtranclp account_move.remove [of admin]) (auto simp: delete_user_row_def other_tables_def)

lemma delete_user_moves:
  assumes "delete_user cx i s = (s', r)"
  shows "account_moves W s s'"
  using assms unfolding delete_user_def
  by (rule with_admin_moves)
     (auto intro: audit_moves delete_row_move split: if_splits option.splits)

lemma createInvite_move:
  assumes "New_Invite (new_id f) \<in> W" and "admin \<in> set (users s)" and "active_admin admin"
  shows "account_moves W s (createInvite A env f now i s)"
  using assms
  by (intro r_into_rtranclp account_move.add_invite [of _ _ _ _ admin])
     (auto simp: createInvite_def insert_row_def other_tables_def)

lemma drop_unused_move: "account_moves W s (drop_unused_invite i s)"
  by (intro r_into_rtranclp account_move.drop_invite) (auto simp: drop_unused_invite_def other_tables_def)

lemma mail_moves: "account_moves W s s1 \<Longrightarrow> account_moves W s (mail_invite e n s1)"
  by (rule rtranclp_trans, assumption) (rule move_keep; simp)

lemma invite_routes_moves:
  shows "New_Invite (new_id f) \<in> W \<Longrightarrow> create_invite A w cx f org body s = (s', r1) \<Longrightarrow> account_moves W s s'"
    and "revoke_invite cx i s = (s', r2) \<Longrightarrow> account_moves W s s'"
    and "New_Invite (new_id f) \<in> W \<Longrightarrow> resend_invite A w cx f i s = (s', r1) \<Longrightarrow> account_moves W s s'"
proof -
  show "account_moves W s s'" if "New_Invite (new_id f) \<in> W" "create_invite A w cx f org body s = (s', r1)"
    using that(2) unfolding create_invite_def
    by (rule with_admin_moves)
       (auto simp: with_body_def create_invite_body_def Let_def intro: createInvite_move [OF that(1)]
          intro!: audit_moves mail_moves split: if_splits option.splits)
  show "account_moves W s s'" if "revoke_invite cx i s = (s', r2)"
    using that unfolding revoke_invite_def
    by (rule with_admin_moves) (auto intro!: audit_moves drop_unused_move split: if_splits option.splits)
  show "account_moves W s s'" if "New_Invite (new_id f) \<in> W" "resend_invite A w cx f i s = (s', r1)"
    using that(2) unfolding resend_invite_def
  proof (rule with_admin_moves, goal_cases)
    case (1 u s1)
    have "account_moves W s1 (createInvite A env f now v (drop_unused_invite i s1))" for env now v
      by (rule rtranclp_trans [OF drop_unused_move createInvite_move [OF that(1)]])
         (use 1 in \<open>simp_all add: drop_unused_invite_def\<close>)
    with 1 show ?case by (auto intro!: mail_moves split: if_splits option.splits)
  qed
qed

lemma session_routes_moves:
  shows "revoke_session_route cx i s = (s', r1) \<Longrightarrow> account_moves W s s'"
    and "revoke_sessions cx body s = (s', r2) \<Longrightarrow> account_moves W s s'"
proof -
  show "account_moves W s s'" if "revoke_session_route cx i s = (s', r1)"
    using that unfolding revoke_session_route_def
    by (rule with_admin_moves) (auto simp: revokeSession_def intro!: audit_moves move_keep split: if_splits)
  show "account_moves W s s'" if "revoke_sessions cx body s = (s', r2)"
    using that unfolding revoke_sessions_def
    by (rule with_admin_moves) (auto simp: with_body_def Let_def intro!: audit_moves move_keep split: if_splits)
qed

lemma push_membership_moves:
  assumes "push_membership e out role u s = (s', r)" and "Centre \<in> W"
    and "u \<in> set (users s)" and "u_centerRole u \<noteq> None"
  shows "account_moves W s s'"
proof -
  have rename: "account_moves W s (end_sessions_of (u_id u) (update_user (u_id u) (\<lambda>x. x\<lparr>u_email := e\<rparr>) s))"
    if "\<forall>v\<in>set (users s). u_email v = e \<longrightarrow> u_id v = u_id u"
    using that assms(2) by (intro r_into_rtranclp account_move.rename) (auto simp: end_sessions_of_def other_tables_def)
  have revise: "account_moves W s (end_sessions_of (u_id u) (update_user (u_id u) (apply_center v) s))" for v
    using assms by (intro r_into_rtranclp account_move.revise [OF assms(2)])
      (auto simp: end_sessions_of_def other_tables_def keeps_identity_def apply_center_def split: Reconciled.splits)
  have out: "account_moves W s (end_sessions_of (u_id u) s)"
    by (rule move_keep) (simp_all add: end_sessions_of_def)
  show ?thesis
    using assms(1) rename revise out
    by (auto simp: push_membership_def Let_def list_ex_iff split: if_splits option.splits Reconciled.splits)
qed

lemma center_membership_moves:
  assumes "center_membership ts cx body s = (s', r)"
    and "Centre \<in> W \<or> trim (opt_text (cx_env cx ''CAPTIVO_ID_SERVICE_SECRET'')) = []"
  shows "account_moves W s s'"
proof -
  have push: "account_moves W s s'" if "user_by_email_ci s e = Some u" "u_centerRole u = Some c" "Centre \<in> W"
    "push_membership n out role u s = (s', r)" for e u c n out role
    using that push_membership_moves [OF that(4,3)] by (auto simp: user_by_email_ci_def dest: find_first_Some)
  show ?thesis
    using assms push by (auto simp: center_membership_def Let_def split: if_splits option.splits)
qed

text \<open>The authorities a request may call on.\<close>

fun within :: "authority set \<Rightarrow> ctx \<Rightarrow> identity_request \<Rightarrow> bool" where
  "within W cx (Authentication_Verify d D body) \<longleftrightarrow> Directory_Sync \<in> W \<or> de_config D = None"
| "within W cx (Center_Membership body) \<longleftrightarrow> Centre \<in> W \<or> trim (opt_text (cx_env cx ''CAPTIVO_ID_SERVICE_SECRET'')) = []"
| "within W cx (Create_Invite f body) \<longleftrightarrow> New_Invite (new_id f) \<in> W"
| "within W cx (Resend_Invite f i) \<longleftrightarrow> New_Invite (new_id f) \<in> W"
| "within W cx _ \<longleftrightarrow> True"

lemma on_db_accepted:
  assumes "accepted (on_db f a) = (a', ok)"
  obtains r where "f (au_db a) = (au_db a', r)"
  using assms by (cases "f (au_db a)") (auto simp: accepted_def on_db_def)

lemma accepted_Pair: "accepted x = (a', ok) \<Longrightarrow> \<exists>r. x = (a', r)"
  by (cases x) (auto simp: accepted_def)

lemma identity_step_moves:
  assumes "identity_step E cx rq a = (a', ok)" and "within W cx rq" and "Own \<in> W" and "\<And>u. Admin u \<in> W"
  shows "account_moves W (au_db a) (au_db a')"
  using assms(1,2)
  by (cases rq)
     (auto dest!: accepted_Pair elim!: on_db_accepted
        dest: registration_options_moves registration_verify_moves authentication_options_moves authentication_verify_moves
          recover_moves self_service_moves [OF assms(3)] patch_user_moves [OF _ assms(4)] delete_user_moves
          invite_routes_moves session_routes_moves center_membership_moves)

section \<open>Invariants of the moves\<close>

text \<open>Ids, addresses and credentials are unique, and a passkey belongs to an account.\<close>

definition accounts_consistent :: "db \<Rightarrow> bool" where
  "accounts_consistent s \<longleftrightarrow>
     distinct (map u_id (users s)) \<and> distinct (map u_email (users s)) \<and>
     distinct (map pk_credentialId (passkeys s)) \<and> pk_userId ` set (passkeys s) \<subseteq> u_id ` set (users s)"

lemma map_update_same: "(\<And>x. g (f x) = g x) \<Longrightarrow> map g (update_many p f t) = map g t"
  by (simp add: update_many_def)

lemma distinct_rename:
  assumes "distinct (map u_id us)" and "distinct (map u_email us)" and "\<forall>u\<in>set us. u_email u = e \<longrightarrow> u_id u = i"
  shows "distinct (map u_email (update_many (\<lambda>u. u_id u = i) (\<lambda>u. u\<lparr>u_email := e\<rparr>) us))"
proof -
  have "map u_email (update_many (\<lambda>u. u_id u = i) (\<lambda>u. u\<lparr>u_email := e\<rparr>) us) =
      map (\<lambda>u. if u_id u = i then e else u_email u) us"
    by (simp add: update_many_def)
  moreover have "inj_on (\<lambda>u. if u_id u = i then e else u_email u) (set us)"
    using assms unfolding distinct_map inj_on_def by metis
  ultimately show ?thesis using assms(1) by (simp add: distinct_map)
qed

lemma distinct_snoc: "distinct (map f (t @ [x])) \<longleftrightarrow> distinct (map f t) \<and> (\<forall>y\<in>set t. f y \<noteq> f x)"
  by simp (metis imageE imageI)

lemma distinct_delete: "distinct (map f t) \<Longrightarrow> distinct (map f (delete_many p t))"
  by (simp add: delete_many_def distinct_map_filter)

lemma move_consistent: "account_move W s s' \<Longrightarrow> accounts_consistent s \<Longrightarrow> accounts_consistent s'"
proof (induction rule: account_move.induct)
  case (revise b s' i f s)
  have "map u_id (users s') = map u_id (users s)" "map u_email (users s') = map u_email (users s)"
    using revise(2,3) by (simp_all add: map_update_same keeps_identity_def)
  then show ?case using revise by (simp add: accounts_consistent_def flip: set_map)
next
  case (rename s' i e s)
  have "map u_id (users s') = map u_id (users s)" using rename(2) by (simp add: map_update_same)
  moreover have "distinct (map u_email (users s'))"
    using rename by (simp add: accounts_consistent_def distinct_rename)
  ultimately show ?case using rename by (simp add: accounts_consistent_def flip: set_map)
next
  case (remove ad s i s')
  then show ?case by (auto simp: accounts_consistent_def distinct_delete)
next
  case (enrol s' s u p q now)
  have "accounts_consistent s" by (rule enrol.prems)
  then show ?case
    using enrol(2,4,5) unfolding accounts_consistent_def enrol(1,3) distinct_snoc by simp blast
next
  case (add_passkey s' s p)
  have "accounts_consistent s" by (rule add_passkey.prems)
  then show ?case
    using add_passkey(3,4) unfolding accounts_consistent_def add_passkey(1,2) distinct_snoc by simp (metis imageI)
next
  case (use_passkey s' s q n t)
  have "map pk_credentialId (passkeys s') = map pk_credentialId (passkeys s)"
    "map pk_userId (passkeys s') = map pk_userId (passkeys s)"
    using use_passkey(2) by (simp_all add: map_update_same)
  then show ?case using use_passkey by (simp add: accounts_consistent_def flip: set_map)
next
  case (drop_passkey s' s q)
  then show ?case by (auto simp: accounts_consistent_def distinct_delete)
qed (auto simp: accounts_consistent_def)

text \<open>There is no administrator and nothing that could make one.\<close>

definition no_way_to_admin :: "db \<Rightarrow> bool" where
  "no_way_to_admin s \<longleftrightarrow>
     users s \<noteq> [] \<and> (\<forall>u\<in>set (users s). u_role u \<noteq> ADMIN \<and> u_centerRole u = None) \<and>
     (\<forall>v\<in>set (invites s). inv_usedAt v = None \<longrightarrow> inv_role v \<noteq> ADMIN) \<and> \<not> admin_mapping s"

lemma move_no_admin: "account_move W s s' \<Longrightarrow> no_way_to_admin s \<Longrightarrow> no_way_to_admin s'"
proof (induction rule: account_move.induct)
  case (revise b s' i f s)
  from revise(4,8) have "u_role (f u) \<noteq> ADMIN \<and> u_centerRole (f u) = None" if "u \<in> set (users s)" "u_id u = i" for u
    using that by (cases b) (auto simp: no_way_to_admin_def keeps_authority_def active_admin_def)
  with revise show ?case
    by (auto simp: no_way_to_admin_def other_tables_def admin_mapping_def update_many_def)
next
  case (enrol s' s u p q now)
  then show ?case by (auto simp: no_way_to_admin_def other_tables_def admin_mapping_def update_many_def)
qed (auto simp: no_way_to_admin_def other_tables_def admin_mapping_def update_many_def active_admin_def)

definition has_admin :: "db \<Rightarrow> bool" where
  "has_admin s \<longleftrightarrow> list_ex active_admin (users s)"

lemma move_has_admin:
  "account_move W s s' \<Longrightarrow> has_admin s \<Longrightarrow> Centre \<notin> W \<Longrightarrow> Directory_Sync \<notin> W \<Longrightarrow> has_admin s'"
proof (induction rule: account_move.induct)
  case (revise b s' i f s)
  then have b: "b = Own \<or> (\<exists>ad. b = Admin ad)" by (cases b) auto
  obtain u where u: "u \<in> set (users s)" "active_admin u" "u_id u = i \<longrightarrow> active_admin (f u)"
    using b
  proof
    assume "b = Own"
    with revise(4,8) that show ?thesis by (auto simp: has_admin_def list_ex_iff keeps_authority_def active_admin_def)
  next
    assume "\<exists>ad. b = Admin ad"
    then obtain ad where "b = Admin ad" by blast
    with revise(4) that [of ad] show ?thesis by auto
  qed
  from u(1) have "(if u_id u = i then f u else u) \<in> set (users s')"
    unfolding revise(2) update_many_def set_map by (rule rev_image_eqI) simp
  with u(2,3) show ?case unfolding has_admin_def list_ex_iff by (metis (full_types))
qed (auto simp: has_admin_def list_ex_iff)

definition spent :: "ident \<Rightarrow> db \<Rightarrow> bool" where
  "spent i s \<longleftrightarrow> list_all (\<lambda>v. inv_id v = i \<longrightarrow> inv_usedAt v \<noteq> None) (invites s)"

lemma move_spent: "account_move W s s' \<Longrightarrow> spent i s \<Longrightarrow> New_Invite i \<notin> W \<Longrightarrow> spent i s'"
  by (induction rule: account_move.induct) (auto simp: spent_def list_all_iff update_many_def)

lemma moves_induct:
  assumes "account_moves W s s'" and "P s" and "\<And>s s'. account_move W s s' \<Longrightarrow> P s \<Longrightarrow> P s'"
  shows "P s'"
  using assms by (induction rule: rtranclp_induct) auto

section \<open>Sequences of requests\<close>

lemma serve_moves:
  assumes "within W cx rq" and "Own \<in> W" and "\<And>u. Admin u \<in> W"
  shows "account_moves W s (snd (fst (serve E (cx, jar, rq) (l, s))))"
proof (cases "identity_step E cx rq \<lparr>au_limiter = l, au_jar = jar, au_db = s\<rparr>")
  case (Pair a ok)
  from identity_step_moves [OF Pair assms] Pair show ?thesis by simp
qed

definition call_within :: "authority set \<Rightarrow> identity_call \<Rightarrow> bool" where
  "call_within W c \<longleftrightarrow> within W (fst c) (snd (snd c))"

lemma serve_all_keeps:
  assumes "P s" and "list_all (call_within W) cs" and "Own \<in> W" and "\<And>u. Admin u \<in> W"
    and "\<And>s s'. account_move W s s' \<Longrightarrow> P s \<Longrightarrow> P s'"
  shows "P (snd (serve_all E cs (l, s)))"
  using assms(1,2)
proof (induction cs arbitrary: l s)
  case (Cons c cs)
  obtain cx jar rq where c: "c = (cx, jar, rq)" by (cases c)
  obtain l1 s1 where st: "fst (serve E c (l, s)) = (l1, s1)" by fastforce
  have "P s1"
  proof (rule moves_induct [of W s])
    show "account_moves W s s1"
      using serve_moves [OF _ assms(3,4), of cx rq s E jar l] Cons.prems(2) st c by (simp add: call_within_def)
  qed (use Cons.prems(1) assms(5) in auto)
  with Cons.IH [of s1 l1] Cons.prems(2) st show ?case by simp
qed simp

lemma within_UNIV: "list_all (call_within UNIV) cs"
proof -
  have "within UNIV cx rq" for cx rq by (cases rq) simp_all
  then show ?thesis by (simp add: list_all_iff call_within_def)
qed

section \<open>Redeeming an invite\<close>

definition redeems :: "identity_env \<Rightarrow> ident \<Rightarrow> identity_call \<Rightarrow> limiter \<times> db \<Rightarrow> bool" where
  "redeems E i call st \<longleftrightarrow>
     (case call of
        (cx, jar, Registration_Verify d body) \<Rightarrow>
          body_field body ''mode'' = JStr ''invite'' \<and>
          map_option inv_id (verifyInvite (ie_argon E) (cx_now cx) (raw_text_of body ''inviteToken'') (snd st)) = Some i \<and>
          snd (serve E call st)
      | _ \<Rightarrow> False)"

fun redemptions :: "identity_env \<Rightarrow> ident \<Rightarrow> identity_call list \<Rightarrow> limiter \<times> db \<Rightarrow> nat" where
  "redemptions E i [] st = 0"
| "redemptions E i (c # cs) st =
     (if redeems E i c st then 1 else 0) + redemptions E i cs (fst (serve E c st))"

lemma list_all_map_every: "(\<And>x. p (f x)) \<Longrightarrow> list_all p (map f xs)"
  by (induction xs) auto

lemma consume_invite_spends:
  assumes "consume_invite i now s = (s', n)" shows "spent i s'"
proof -
  have "invites s' = map (\<lambda>v. if inv_id v = i \<and> inv_usedAt v = None then v\<lparr>inv_usedAt := Some now\<rparr> else v) (invites s)"
    using assms by (auto simp: consume_invite_def Let_def update_many_def)
  then show ?thesis unfolding spent_def by (simp only:) (rule list_all_map_every; simp)
qed

lemma enrol_tx_Ok:
  assumes "enrol_tx d now i u cr label s = (s', Inr uid)"
  shows "spent i s'"
  using assms
  by (auto simp: enrol_tx_def dest: consume_invite_spends split: option.splits prod.splits if_splits)

lemma register_invited_Ok:
  assumes "register_invited cx d v u cr label a = (a', Ok c x)"
  shows "spent (inv_id v) (au_db a')"
proof -
  obtain s uid where tx: "enrol_tx d (cx_now cx) (inv_id v) u cr label (au_db a) = (s, Inr uid)" "invites (au_db a') = invites s"
    using assms
    by (cases "enrol_tx d (cx_now cx) (inv_id v) u cr label (au_db a)")
       (auto simp: register_invited_def run_tx_def split: sum.splits if_splits)
  from enrol_tx_Ok [OF tx(1)] tx(2) show ?thesis by (simp add: spent_def)
qed

lemma register_invite_Ok:
  assumes "register_invite W J A w cx d body a = (a', Ok c x)"
    and "verifyInvite A (cx_now cx) (raw_text_of body ''inviteToken'') (au_db a) = Some v"
  shows "spent (inv_id v) (au_db a')"
proof (cases "ceremony W J w cx body a")
  case (Ok st cr)
  have "register_invited cx d v (invited_account (account_id J cx d a)
      (case normalizeDisplayName (body_field body ''name'') of Some n \<Rightarrow> n | None \<Rightarrow> inv_name v) (cx_now cx) v)
      cr (passkey_label body) a = (a', Ok c x)"
    using assms(1) by (simp add: register_invite_def Let_def assms(2) Ok split: if_split_asm)
  then show ?thesis by (rule register_invited_Ok)
qed (use assms in \<open>simp_all add: register_invite_def Let_def split: if_split_asm\<close>)

lemma limited_Ok:
  assumes "limited cx path body a = (a', Ok c x)"
  obtains l where "body (a\<lparr>au_limiter := l\<rparr>) = (a', Ok c x)"
  by (rule limited_cases [of cx path body a]) (use assms that in auto)

lemma redeems_spends:
  assumes "redeems E i c (l, s)"
  shows "\<not> spent i s" and "spent i (snd (fst (serve E c (l, s))))"
proof -
  obtain cx jar d body v where c: "c = (cx, jar, Registration_Verify d body)" "body_field body ''mode'' = JStr ''invite''"
      "verifyInvite (ie_argon E) (cx_now cx) (raw_text_of body ''inviteToken'') s = Some v" "inv_id v = i"
      "snd (serve E c (l, s))"
    using assms by (auto simp: redeems_def split: prod.splits identity_request.splits)
  from verifyInvite_Some [OF c(3)] c(4) show "\<not> spent i s"
    by (auto simp: spent_def list_all_iff live_invite_def)
  let ?a = "\<lparr>au_limiter = l, au_jar = jar, au_db = s\<rparr>"
  obtain a' st x where v: "registration_verify (ie_webauthn E) (ie_jwt E) (ie_argon E) (ie_web E) cx d body ?a = (a', Ok st x)"
      "snd (fst (serve E c (l, s))) = au_db a'"
    using c(1,5)
    by (cases "registration_verify (ie_webauthn E) (ie_jwt E) (ie_argon E) (ie_web E) cx d body ?a")
       (auto simp: accepted_def split: reply.splits)
  show "spent i (snd (fst (serve E c (l, s))))"
    using v c(2-4) unfolding registration_verify_def
    by (elim limited_Ok) (auto simp: Let_def dest: register_invite_Ok split: if_splits)
qed

lemma redemptions_spent:
  assumes "spent i s" and "list_all (call_within (- {New_Invite i})) cs"
  shows "redemptions E i cs (l, s) = 0"
  using assms
proof (induction cs arbitrary: l s)
  case (Cons c cs)
  obtain l1 s1 where st: "fst (serve E c (l, s)) = (l1, s1)" by fastforce
  have "spent i (snd (serve_all E [c] (l, s)))"
    by (rule serve_all_keeps [of _ _ "- {New_Invite i}"]) (use Cons.prems move_spent in auto)
  then have "spent i s1" using st by simp
  moreover have "\<not> redeems E i c (l, s)" using redeems_spends(1) Cons.prems(1) by blast
  ultimately show ?case using Cons st by simp
qed simp

lemma redemptions_le:
  assumes "list_all (call_within (- {New_Invite i})) cs"
  shows "redemptions E i cs st \<le> 1"
  using assms
proof (induction cs arbitrary: st)
  case (Cons c cs)
  obtain l s where st: "st = (l, s)" by (cases st)
  obtain l1 s1 where st1: "fst (serve E c (l, s)) = (l1, s1)" by fastforce
  show ?case
  proof (cases "redeems E i c st")
    case True
    with redeems_spends(2) [of E i c l s] st st1 have "spent i s1" by simp
    then show ?thesis using True Cons.prems st st1 redemptions_spent [of i s1 cs E l1] by simp
  next
    case False
    then show ?thesis using Cons by simp
  qed
qed simp

section \<open>Concrete requests\<close>

definition ex_jwt :: jwt where
  "ex_jwt = \<lparr>jwt_sign = (\<lambda>_ _ _. ''signed''),
     jwt_verify = (\<lambda>_ t _. if t = ''signed'' then Some (challenge_payload ''ch'' ''auth'' None)
                           else if t = ''enrol'' then Some (challenge_payload ''ch'' ''reg'' (Some ''u9'')) else None)\<rparr>"

definition ex_webauthn :: webauthn where
  "ex_webauthn = \<lparr>wa_register = (\<lambda>_ _ _ _. Inr (Some \<lparr>cr_id = ''k9'', cr_publicKey = ''pub'', cr_counter = 0, cr_transports = [], cr_userVerified = True\<rparr>)),
     wa_authenticate = (\<lambda>_ _ _ _ p. Inr (Some (pk_counter p + 1, True)))\<rparr>"

definition ex_page :: web where
  "ex_page = \<lparr>w_parse = (\<lambda>_. Some \<lparr>url_protocol = ''https:'', url_host = ''localhost'', url_port = []\<rparr>),
     w_protocol = ''https:'', w_origin = ''https://localhost''\<rparr>"

definition ex_drawn :: drawn where
  "ex_drawn = \<lparr>dr_user = ''u8'', dr_passkey = ''p8'', dr_session = ''s8'', dr_token = ''t8'', dr_challenge = ''ch''\<rparr>"

definition ex_no_directory :: directory_env where
  "ex_no_directory = \<lparr>de_config = None, de_answer = Lookup_threw, de_grantId = (\<lambda>i. i)\<rparr>"

definition ex_key :: Passkey where
  "ex_key = \<lparr>pk_id = ''p1'', pk_userId = ''u1'', pk_credentialId = ''k1'', pk_publicKey = ''pub'', pk_counter = 4,
     pk_transports = [], pk_label = ''Laptop'', pk_createdAt = 0, pk_lastUsedAt = None\<rparr>"

definition ex_invite :: Invite where
  "ex_invite = \<lparr>inv_id = ''i1'', inv_email = ''n@example.com'', inv_name = ''N'', inv_phone = None, inv_company = None,
     inv_role = OPERATOR, inv_tokenHash = ''#tok'', inv_expiresAt = 9000, inv_usedAt = None, inv_createdById = None,
     inv_createdAt = 0\<rparr>"

definition ex_accounts :: db where
  "ex_accounts = empty_db\<lparr>users := [ex_member\<lparr>u_centerRole := None\<rparr>], passkeys := [ex_key], invites := [ex_invite]\<rparr>"

definition ex_visitor :: ctx where
  "ex_visitor = ex_ctx\<lparr>cx_env := [''SESSION_SECRET'' \<mapsto> ''k''], cx_token := None\<rparr>"

definition ex_jar :: "string \<Rightarrow> string \<Rightarrow> cookie option" where
  "ex_jar t = [''ca_challenge'' \<mapsto> \<lparr>ck_value = t, ck_maxAge = 300, ck_secure = True, ck_domain = None\<rparr>]"

definition ex_auth :: "string \<Rightarrow> auth" where
  "ex_auth t = \<lparr>au_limiter = new_limiter, au_jar = ex_jar t, au_db = ex_accounts\<rparr>"

definition ex_sign_in :: js where
  "ex_sign_in = JObj [(''response'', JObj [(''id'', JStr ''k1'')])]"

definition ex_enrol :: "string \<Rightarrow> js" where
  "ex_enrol t = JObj [(''mode'', JStr ''invite''), (''inviteToken'', JStr t), (''response'', JObj [(''id'', JStr ''k9'')])]"

definition ex_identity_env :: identity_env where
  "ex_identity_env = \<lparr>ie_webauthn = ex_webauthn, ie_jwt = ex_jwt, ie_argon = ex_argon, ie_web = ex_page, ie_cipher = ex_cipher,
     ie_otp = (\<lambda>_ _. True), ie_org = None, ie_tenants = []\<rparr>"

section \<open>Properties\<close>

text \<open>A request that leaves the accounts and the caller's cookies as they were.\<close>

definition untouched :: "auth \<Rightarrow> auth \<Rightarrow> bool" where
  "untouched a a' \<longleftrightarrow>
     users (au_db a') = users (au_db a) \<and> passkeys (au_db a') = passkeys (au_db a) \<and>
     invites (au_db a') = invites (au_db a) \<and> au_jar a' = au_jar a"

lemma limited_elim:
  assumes "limited cx path body a = (a', r)"
  obtains l where "a' = a\<lparr>au_limiter := l\<rparr>" "r = Err 429 ''rate_limited''"
  | l where "body (a\<lparr>au_limiter := l\<rparr>) = (a', r)"
  by (rule limited_cases [of cx path body a]) (use assms that in auto)

lemma untouched_refl [simp]: "untouched a a"
  by (simp add: untouched_def)

lemma register_add_fails:
  assumes "register_add W J w cx d body a = (a', r)" and "\<And>c. r \<noteq> Ok c ()"
  shows "untouched a a'"
proof -
  obtain s1 ou where cu: "current_user cx (au_db a) = (s1, ou)" by fastforce
  have frame: "users s1 = users (au_db a)" "passkeys s1 = passkeys (au_db a)" "invites s1 = invites (au_db a)"
    using current_user_frame [of cx "au_db a"] cu by simp_all
  have "a' = a\<lparr>au_db := s1\<rparr>"
    using assms cu by (auto simp: register_add_def on_db_def split: option.splits if_splits reply.splits)
  with frame show ?thesis by (simp add: untouched_def)
qed

lemma register_recover_fails:
  assumes "register_recover W J w cx d body a = (a', r)" and "\<And>c. r \<noteq> Ok c ()"
  shows "a' = a"
  using assms by (auto simp: register_recover_def split: option.splits if_splits reply.splits)

lemma register_setup_fails:
  assumes "register_setup W J w cx d body a = (a', r)" and "\<And>c. r \<noteq> Ok c ()"
  shows "a' = a"
  using assms by (auto simp: register_setup_def Let_def split: option.splits if_splits reply.splits)

lemma register_invited_fails:
  assumes "register_invited cx d v u cr label a = (a', r)" and "\<And>c. r \<noteq> Ok c ()" and "\<not> multiTenantEnabled (cx_env cx)"
  shows "a' = a"
proof (cases "run_tx False (enrol_tx d (cx_now cx) (inv_id v) u cr label) (au_db a)")
  case (Pair s x)
  with assms show ?thesis by (cases x) (auto simp: register_invited_def dest: run_tx_rollback)
qed

lemma register_invite_fails:
  assumes "register_invite W J A w cx d body a = (a', r)" and "\<And>c. r \<noteq> Ok c ()" and "\<not> multiTenantEnabled (cx_env cx)"
  shows "a' = a"
proof (cases "ceremony W J w cx body a")
  case (Ok st cr)
  with assms register_invited_fails [OF _ assms(2,3)] show ?thesis
    by (auto simp: register_invite_def Let_def split: option.split_asm if_split_asm)
qed (use assms in \<open>auto simp: register_invite_def Let_def split: if_split_asm option.split_asm\<close>)

lemma finish_sign_in_Ok:
  assumes "finish_sign_in cx d D u amr a = (a', Ok c r)"
  shows "\<exists>s. sync_at_login cx D u (au_db a) = (s, Inr False)"
    and "\<exists>x\<in>set (sessions (au_db a')). s_tokenHash x = cx_H cx (dr_token d) \<and> s_userId x = u_id u \<and> s_amr x = amr"
  using assms
  by (auto simp: finish_sign_in_def on_db_def open_session_def createSession_def Let_def
      split: prod.splits sum.splits bool.splits)

lemma passkey_second_factor:
  "secondFactorGate required (passkeyAmr uv) stepped = Gate_allow \<Longrightarrow> required \<Longrightarrow> uv"
  by (cases uv) (auto simp: secondFactorGate_def passkeyAmr_def hasSecondFactor_def SECOND_FACTOR_def split: if_splits)

text \<open>C26: a passkey signs somebody in only if it is registered to an account that is active, the answer
  verifies against the challenge this browser was given and an origin of the site, the person was verified
  where the workspace asks for a second factor, and the directory has not withdrawn the account; the session
  opened is that account's and records what was proved.\<close>

theorem passkey_sign_in_sound:
  assumes "authentication_verify W J w cx d D body a = (a', Ok c r)"
  shows "\<exists>p u counter uv s. signing_passkey W J w cx body a p u counter uv \<and>
    (sp_requireSecondFactor (cx_policy cx) \<longrightarrow> uv) \<and>
    sync_at_login cx D u (Identity.use_passkey (pk_id p) counter (cx_now cx) (au_db a)) = (s, Inr False) \<and>
    (\<exists>x\<in>set (sessions (au_db a')). s_tokenHash x = cx_H cx (dr_token d) \<and> s_userId x = u_id u \<and> s_amr x = passkeyAmr uv)"
  using assms
proof (rule authentication_verify_cases)
  fix p :: Passkey and u counter uv l
  let ?a = "a\<lparr>au_limiter := l, au_db := Identity.use_passkey (pk_id p) counter (cx_now cx) (au_db a)\<rparr>"
  assume key: "signing_passkey W J w cx body a p u counter uv"
  assume "(let a1 = ?a in
        if secondFactorGate (sp_requireSecondFactor (cx_policy cx)) (passkeyAmr uv) True \<noteq> Gate_allow
        then (a1, Err 403 ''mfa_required'')
        else (case finish_sign_in cx d D u (passkeyAmr uv) a1 of
                (a2, Ok c v) \<Rightarrow> (clearChallenge a2, Ok c v)
              | r \<Rightarrow> r)) = (a', Ok c r)"
  then obtain a2 where gate: "secondFactorGate (sp_requireSecondFactor (cx_policy cx)) (passkeyAmr uv) True = Gate_allow"
      and fin: "finish_sign_in cx d D u (passkeyAmr uv) ?a = (a2, Ok c r)" "au_db a' = au_db a2"
    by (auto simp: Let_def split: if_splits prod.splits reply.splits)
  show ?thesis
    using key passkey_second_factor [OF gate] finish_sign_in_Ok [OF fin(1)] fin(2) by fastforce
qed blast

theorem passkey_sign_in_sound_witness:
  "snd (authentication_verify ex_webauthn ex_jwt ex_page ex_visitor ex_drawn ex_no_directory ex_sign_in (ex_auth ''signed''))
     = Ok 200 () \<and>
   (\<exists>p u counter uv. signing_passkey ex_webauthn ex_jwt ex_page ex_visitor ex_sign_in (ex_auth ''signed'') p u counter uv)"
proof -
  let ?r = "authentication_verify ex_webauthn ex_jwt ex_page ex_visitor ex_drawn ex_no_directory ex_sign_in (ex_auth ''signed'')"
  have ok: "snd ?r = Ok 200 ()" by code_simp
  then have "?r = (fst ?r, Ok 200 ())" by (metis prod.collapse)
  from passkey_sign_in_sound [OF this] ok show ?thesis by blast
qed



text \<open>Whatever is requested, in any order, ids, addresses and credentials stay unique and every passkey belongs
  to an account.\<close>

theorem accounts_stay_consistent:
  assumes "accounts_consistent s"
  shows "accounts_consistent (snd (serve_all E cs (l, s)))"
  by (rule serve_all_keeps [of _ _ UNIV]) (use assms move_consistent within_UNIV in auto)

definition ex_calls :: "identity_call list" where
  "ex_calls =
     [(ex_visitor, ex_jar ''enrol'', Registration_Verify ex_drawn (ex_enrol ''tok'')),
      (ex_visitor, ex_jar ''enrol'', Registration_Verify ex_drawn (ex_enrol ''tok'')),
      (ex_ctx, (\<lambda>_. None), Delete_User ''u9'')]"

theorem accounts_stay_consistent_witness:
  "accounts_consistent ex_accounts \<and>
   accounts_consistent (snd (serve_all ex_identity_env ex_calls (new_limiter, ex_accounts)))"
proof -
  have "accounts_consistent ex_accounts" by code_simp
  with accounts_stay_consistent [OF this] show ?thesis by simp
qed



text \<open>C28: without a directory and without the organisation's service, a workspace that has an active administrator
  keeps one, whatever administrators do to each other.\<close>

theorem last_admin_stays:
  assumes "has_admin s" and "list_all (call_within (- {Centre, Directory_Sync})) cs"
  shows "has_admin (snd (serve_all E cs (l, s)))"
  by (rule serve_all_keeps [of _ _ "- {Centre, Directory_Sync}"]) (use assms move_has_admin in auto)

theorem last_admin_stays_witness:
  "has_admin ex_accounts \<and> has_admin (snd (serve_all ex_identity_env ex_calls (new_limiter, ex_accounts)))"
proof -
  have "has_admin ex_accounts" by code_simp
  moreover have "list_all (call_within (- {Centre, Directory_Sync})) ex_calls"
    by (simp add: ex_calls_def call_within_def)
  ultimately show ?thesis using last_admin_stays by blast
qed



lemma ex_invite_redeemed:
  "redeems ex_identity_env ''i1'' (hd ex_calls) (new_limiter, ex_accounts)"
  by code_simp

section \<open>Where the code falls short\<close>

text \<open>In the cloud the enrolment's transaction is the request's, so an enrolment that loses the race for the invite is
  answered as refused and keeps its account and its passkey.\<close>

lemma cloud_enrolment_leaks:
  assumes "multiTenantEnabled (cx_env cx)" and "spent (inv_id v) (au_db a)"
    and "insert_user u (au_db a) = Some s1" and "insert_passkey d (cx_now cx) (u_id u) cr label s1 = Some s2"
  shows "snd (register_invited cx d v u cr label a) = Err 410 ''invite_invalid''"
    and "u \<in> set (users (au_db (fst (register_invited cx d v u cr label a))))"
proof -
  obtain p where s2: "s2 = s1\<lparr>passkeys := passkeys s1 @ [p]\<rparr>" using assms(4) by (rule insert_passkey_Some)
  have s1: "s1 = (au_db a)\<lparr>users := users (au_db a) @ [u]\<rparr>" using assms(3) by (simp add: insert_user_Some)
  have "count_rows (\<lambda>x. inv_id x = inv_id v \<and> inv_usedAt x = None) (invites s2) = 0"
    using assms(2) by (auto simp: s1 s2 count_rows_0 spent_def list_all_iff)
  then have "enrol_tx d (cx_now cx) (inv_id v) u cr label (au_db a) =
      (fst (consume_invite (inv_id v) (cx_now cx) s2), Inl ''INVITE_ALREADY_USED'')"
    using assms(3,4) by (simp add: enrol_tx_def consume_invite_def Let_def)
  then have *: "register_invited cx d v u cr label a =
      (a\<lparr>au_db := fst (consume_invite (inv_id v) (cx_now cx) s2)\<rparr>, Err 410 ''invite_invalid'')"
    using assms(1) by (simp add: register_invited_def run_tx_def)
  show "snd (register_invited cx d v u cr label a) = Err 410 ''invite_invalid''"
    and "u \<in> set (users (au_db (fst (register_invited cx d v u cr label a))))"
    by (simp_all add: * consume_invite_def Let_def s1 s2)
qed

text \<open>Enrolment does not look at the workspace's limits: invites issued while there was room all enrol.\<close>

lemma enrolment_ignores_limits:
  "register_invited (cx\<lparr>cx_envelope := e\<rparr>) d v u cr label a = register_invited cx d v u cr label a"
  by (simp add: register_invited_def open_session_def split: prod.split sum.split)

text \<open>A path whose second character is a backslash passes for a local one; browsers read it as another host.\<close>

lemma backslash_return_passes:
  "safeReturnTo w href env (Some (CHR ''/'' # CHR 0x5C # t)) = CHR ''/'' # CHR 0x5C # t"
  by (simp add: safeReturnTo_def or_null_def starts_with_def)

text \<open>Recovery looks the address up as typed, while accounts hold it in lower case.\<close>

lemma recovery_needs_lower_case:
  assumes "\<forall>u\<in>set (users s). u_email u = to_lower (u_email u)" and "to_lower e \<noteq> e"
  shows "recover_secret C env e s = None"
  using assms by (auto simp: recover_secret_def user_by_email_def dest!: find_first_Some split: option.splits)

end
