(* ===== verification/Oidc.thy ===== *)
theory Oidc
  imports Accounts
begin

text \<open>
  Sign-in through an identity provider: which provider applies (\<^verbatim>\<open>lib/auth/oidc-source.ts\<close>, \<^verbatim>\<open>oidc-config.ts\<close>),
  discovery and claim checks (\<^verbatim>\<open>oidc.ts\<close>), the state cookie (\<^verbatim>\<open>oidc-state.ts\<close>), the two routes
  \<^verbatim>\<open>app/api/auth/oidc/{start,callback}\<close>, the workspace claim (\<^verbatim>\<open>lib/signup/workspace-claim.ts\<close>), the
  organisation's time zone (\<^verbatim>\<open>lib/tenant/center-time-zone.ts\<close>, \<^verbatim>\<open>app/api/center/settings\<close>) and the SSO settings.

  Parameters: the provider (\<open>idp\<close>: its discovery document, token endpoint and \<^verbatim>\<open>jwtVerify\<close> against its keys), jose's
  cookies (\<open>jwt\<close>), the cipher, and the encoding and MAC of the workspace claim (\<open>claim_codec\<close>).
\<close>

section \<open>Which provider\<close>

definition isSelfHosted :: "env \<Rightarrow> bool" where
  "isSelfHosted env \<longleftrightarrow> env ''CAPTIVO_DEPLOYMENT'' \<noteq> Some ''saas''"

record PlatformOidc =
  po_issuer :: string
  po_clientId :: string
  po_clientSecret :: string

definition readPlatformOidc :: "env \<Rightarrow> PlatformOidc option" where
  "readPlatformOidc env =
     (if isSelfHosted env then None
      else (case (or_null (map_option trim (env ''CAPTIVO_ID_ISSUER'')),
                  or_null (map_option trim (env ''CAPTIVO_ID_CLIENT_ID'')),
                  or_null (map_option trim (env ''CAPTIVO_ID_CLIENT_SECRET''))) of
              (Some i, Some c, Some k) \<Rightarrow> Some \<lparr>po_issuer = i, po_clientId = c, po_clientSecret = k\<rparr>
            | _ \<Rightarrow> None))"

datatype OidcSource = Source_tenant | Source_platform PlatformOidc | Source_none

definition pickOidcSource :: "OidcConfigRow option \<Rightarrow> PlatformOidc option \<Rightarrow> OidcSource" where
  "pickOidcSource tenant platform =
     (case tenant of
        Some t \<Rightarrow> if oc_enabled t then Source_tenant else Source_none
      | None \<Rightarrow> (case platform of Some p \<Rightarrow> Source_platform p | None \<Rightarrow> Source_none))"

record OidcConfigView =
  ov_isPlatform :: bool
  ov_enabled :: bool
  ov_issuer :: string
  ov_clientId :: string
  ov_buttonLabel :: "string option"
  ov_hasSecret :: bool

definition getOidcConfig :: "env \<Rightarrow> db \<Rightarrow> OidcConfigView option" where
  "getOidcConfig env s =
     (case pickOidcSource (oidcConfig s) (readPlatformOidc env) of
        Source_none \<Rightarrow> None
      | Source_platform p \<Rightarrow>
          Some \<lparr>ov_isPlatform = True, ov_enabled = True, ov_issuer = po_issuer p, ov_clientId = po_clientId p,
                ov_buttonLabel = Some ''Sign in with Captivo'', ov_hasSecret = True\<rparr>
      | Source_tenant \<Rightarrow>
          map_option (\<lambda>c. \<lparr>ov_isPlatform = False, ov_enabled = oc_enabled c, ov_issuer = oc_issuer c, ov_clientId = oc_clientId c,
                          ov_buttonLabel = oc_buttonLabel c, ov_hasSecret = oc_clientSecret c \<noteq> []\<rparr>) (oidcConfig s))"

text \<open>\<open>Inl\<close> is the exception of a secret that does not decrypt.\<close>

definition getOidcSecret :: "cipher \<Rightarrow> env \<Rightarrow> db \<Rightarrow> string + string option" where
  "getOidcSecret C env s =
     (case pickOidcSource (oidcConfig s) (readPlatformOidc env) of
        Source_platform p \<Rightarrow> Inr (Some (po_clientSecret p))
      | Source_none \<Rightarrow> Inr None
      | Source_tenant \<Rightarrow>
          (case oidcConfig s of
             None \<Rightarrow> Inr None
           | Some c \<Rightarrow>
               if oc_clientSecret c = [] then Inr None
               else (case decrypt C env (oc_clientSecret c) of
                       None \<Rightarrow> Inl ''decrypt failed''
                     | Some k \<Rightarrow> Inr (Some k))))"

record oidc_input =
  oi_enabled :: bool
  oi_issuer :: string
  oi_clientId :: string
  oi_clientSecret :: "string option"
  oi_buttonLabel :: "string option"

definition saveOidcConfig :: "cipher \<Rightarrow> env \<Rightarrow> oidc_input \<Rightarrow> db \<Rightarrow> db option" where
  "saveOidcConfig C env i s =
     (let label = or_null (map_option trim (oi_buttonLabel i));
          put = (\<lambda>sealed. s\<lparr>oidcConfig := Some
             \<lparr>oc_enabled = oi_enabled i, oc_issuer = trim (oi_issuer i), oc_clientId = trim (oi_clientId i),
              oc_clientSecret = (case sealed of Some k \<Rightarrow> k
                                 | None \<Rightarrow> (case oidcConfig s of Some c \<Rightarrow> oc_clientSecret c | None \<Rightarrow> [])),
              oc_buttonLabel = label\<rparr>\<rparr>)
      in (case or_null (oi_clientSecret i) of
            None \<Rightarrow> Some (put None)
          | Some k \<Rightarrow> map_option (\<lambda>sealed. put (Some sealed)) (encrypt C env (trim k))))"

definition save_sso :: "cipher \<Rightarrow> ctx \<Rightarrow> js \<Rightarrow> db \<Rightarrow> db \<times> unit reply" where
  "save_sso C cx body =
     with_capability cx Configure (\<lambda>u. with_body body (\<lambda>s.
       let issuer = text_of body ''issuer''; clientId = text_of body ''clientId'';
           enabled = (body_field body ''enabled'' = JBool True);
           secret = optional_text (body_field body ''clientSecret'') in
       if issuer = [] \<or> clientId = [] then (s, Err 400 ''issuer_client_required'')
       else if enabled \<and> \<not> truthy secret \<and>
               (case getOidcConfig (cx_env cx) s of None \<Rightarrow> True | Some c \<Rightarrow> \<not> ov_hasSecret c)
       then (s, Err 400 ''secret_required'')
       else (case saveOidcConfig C (cx_env cx)
                    \<lparr>oi_enabled = enabled, oi_issuer = issuer, oi_clientId = clientId, oi_clientSecret = secret,
                     oi_buttonLabel = optional_text (body_field body ''buttonLabel'')\<rparr> s of
               None \<Rightarrow> (s, Throw ''ENCRYPTION_KEY must be a 64-character hex string'')
             | Some s1 \<Rightarrow>
                 (recordAdminAction (cx_H cx) (cx_auditId cx) (cx_now cx)
                    \<lparr>act_actorId = u_id u, act_actorEmail = Some (u_email u), act_action = ''config.sso_update'',
                     act_targetType = None, act_targetId = None, act_summary = ''Updated SSO settings'',
                     act_metadata = JUndef, act_clientIp = clientIp (cx_headers cx)\<rparr> s1, Ok 200 ()))))"

section \<open>Discovery and claims\<close>

definition strip_slashes :: "string \<Rightarrow> string" where
  "strip_slashes t = rev (dropWhile (\<lambda>c. c = CHR ''/'') (rev t))"

definition normalizeIssuer :: "string \<Rightarrow> string" where
  "normalizeIssuer issuer = strip_slashes (trim issuer)"

record token_request =
  tr_code :: string
  tr_redirect :: string
  tr_clientId :: string
  tr_secret :: string
  tr_verifier :: string

text \<open>
  A call to the provider throws (\<open>Inl\<close>) or answers with a status and a body, \<open>None\<close> when the body is no JSON.
  \<open>idp_verify jwks issuer audience token now\<close> is \<^verbatim>\<open>jwtVerify\<close> with the provider's keys.
\<close>

record idp =
  idp_wellknown :: "string \<Rightarrow> string + nat \<times> js option"
  idp_token :: "string \<Rightarrow> token_request \<Rightarrow> string + nat \<times> js option"
  idp_verify :: "string \<Rightarrow> js \<Rightarrow> string \<Rightarrow> js \<Rightarrow> instant \<Rightarrow> string + js"

type_synonym discovery_cache = "string \<Rightarrow> (instant \<times> js) option"

definition DISCOVERY_TTL_MS :: int where "DISCOVERY_TTL_MS = 5 * 60 * 1000"

definition http_ok :: "nat \<Rightarrow> bool" where "http_ok status \<longleftrightarrow> 200 \<le> status \<and> status \<le> 299"

definition discover :: "idp \<Rightarrow> instant \<Rightarrow> string \<Rightarrow> discovery_cache \<Rightarrow> discovery_cache \<times> (string + js)" where
  "discover I now issuer cache =
     (let norm = normalizeIssuer issuer in
      case (case cache norm of Some (at, doc) \<Rightarrow> if now - at < DISCOVERY_TTL_MS then Some doc else None | None \<Rightarrow> None) of
        Some doc \<Rightarrow> (cache, Inr doc)
      | None \<Rightarrow>
          (case idp_wellknown I (norm @ ''/.well-known/openid-configuration'') of
             Inl e \<Rightarrow> (cache, Inl e)
           | Inr (status, answer) \<Rightarrow>
               if \<not> http_ok status then (cache, Inl (''discovery_failed_'' @ dec status))
               else (case answer of
                       None \<Rightarrow> (cache, Inl ''SyntaxError'')
                     | Some doc \<Rightarrow>
                         if doc = JNull then (cache, Inl ''TypeError'')
                         else if list_ex (\<lambda>k. falsy (body_field doc k))
                                [''issuer'', ''authorization_endpoint'', ''token_endpoint'', ''jwks_uri'']
                         then (cache, Inl ''discovery_incomplete'')
                         else (cache(norm \<mapsto> (now, doc)), Inr doc))))"

definition CAPTIVO_SCOPE :: string where "CAPTIVO_SCOPE = ''captivo''"

definition BASE_SCOPES :: "string list" where "BASE_SCOPES = [''openid'', ''email'', ''profile'']"

definition authorizationScope :: "js \<Rightarrow> string" where
  "authorizationScope scopesSupported =
     (let supported = (case scopesSupported of JArr vs \<Rightarrow> vs | _ \<Rightarrow> []) in
      join_with '' '' (if JStr CAPTIVO_SCOPE \<in> set supported then BASE_SCOPES @ [CAPTIVO_SCOPE] else BASE_SCOPES))"

text \<open>\<open>Claims_throw\<close>: \<^verbatim>\<open>claims.email?.trim()\<close> on a value that is no string.\<close>

datatype claims_check = Claims_ok string | Claims_bad string | Claims_throw

definition aud_ok :: "js \<Rightarrow> string \<Rightarrow> bool" where
  "aud_ok aud clientId \<longleftrightarrow> (case aud of JArr vs \<Rightarrow> JStr clientId \<in> set vs | _ \<Rightarrow> aud = JStr clientId)"

definition checkClaims :: "js \<Rightarrow> js \<Rightarrow> string \<Rightarrow> string \<Rightarrow> claims_check" where
  "checkClaims claims issuer clientId nonce =
     (let aud = body_field claims ''aud''; many = (case aud of JArr vs \<Rightarrow> length vs > 1 | _ \<Rightarrow> False) in
      if body_field claims ''iss'' \<noteq> issuer then Claims_bad ''iss''
      else if \<not> aud_ok aud clientId then Claims_bad ''aud''
      else if many \<and> body_field claims ''azp'' \<noteq> JStr clientId then Claims_bad ''azp''
      else if falsy (body_field claims ''nonce'') \<or> body_field claims ''nonce'' \<noteq> JStr nonce then Claims_bad ''nonce''
      else if body_field claims ''email_verified'' \<noteq> JBool True then Claims_bad ''email_verified''
      else (case body_field claims ''email'' of
              JStr e \<Rightarrow> (let email = to_lower (trim e) in if email = [] then Claims_bad ''email'' else Claims_ok email)
            | JUndef \<Rightarrow> Claims_bad ''email''
            | JNull \<Rightarrow> Claims_bad ''email''
            | _ \<Rightarrow> Claims_throw))"

record access_grant =
  ag_org :: string
  ag_orgName :: string
  ag_role :: string

definition claim_grants :: "js \<Rightarrow> js list" where
  "claim_grants claims =
     (case body_field (body_field claims ''captivo'') ''grants'' of JArr gs \<Rightarrow> gs | _ \<Rightarrow> [])"

definition accessGrant :: "js \<Rightarrow> access_grant option" where
  "accessGrant claims =
     map_option (\<lambda>g. \<lparr>ag_org = text_of g ''org'', ag_orgName = text_of g ''orgName'', ag_role = raw_text_of g ''role''\<rparr>)
       (find_first (\<lambda>g. body_field g ''product'' = JStr ''ACCESS'' \<and> text_of g ''org'' \<noteq> [] \<and> text_of g ''orgName'' \<noteq> [])
          (claim_grants claims))"

definition accessGrantFor :: "js \<Rightarrow> string \<Rightarrow> access_grant option" where
  "accessGrantFor claims org =
     (if org = [] then None
      else map_option (\<lambda>g. \<lparr>ag_org = org, ag_orgName = text_of g ''orgName'', ag_role = raw_text_of g ''role''\<rparr>)
             (find_first (\<lambda>g. body_field g ''product'' = JStr ''ACCESS'' \<and> optional_text (body_field g ''org'') \<noteq> None \<and>
                              text_of g ''org'' = org \<and> text_of g ''orgName'' \<noteq> [])
                (claim_grants claims)))"

definition role_for_grant :: "string \<Rightarrow> Role" where
  "role_for_grant role = (if role = ''OWNER'' \<or> role = ''ADMIN'' then ADMIN else STAFF)"

section \<open>The organisation's time zone\<close>

definition captivoAccountUrl :: "env \<Rightarrow> string option" where
  "captivoAccountUrl env =
     (case (or_null (map_option (\<lambda>t. strip_slashes (trim t)) (env ''CAPTIVO_ID_ISSUER'')),
            or_null (map_option trim (env ''CAPTIVO_ID_SERVICE_SECRET''))) of
        (Some issuer, Some _) \<Rightarrow> Some (issuer @ ''/account'')
      | _ \<Rightarrow> None)"

definition organisation_of :: "TenantRow list \<Rightarrow> ident \<Rightarrow> string option" where
  "organisation_of ts i = Option.bind (find_first (\<lambda>t. t_id t = i) ts) t_captivoOrgId"

definition managingOrganisation :: "TenantRow list \<Rightarrow> env \<Rightarrow> ident \<Rightarrow> string option" where
  "managingOrganisation ts env i =
     (if i = PLATFORM_TENANT_ID \<or> captivoAccountUrl env = None then None else organisation_of ts i)"

definition timeZoneManaged :: "TenantRow list \<Rightarrow> env \<Rightarrow> ident \<Rightarrow> db \<Rightarrow> bool" where
  "timeZoneManaged ts env i s \<longleftrightarrow> managingOrganisation ts env i \<noteq> None \<and> displayTimezoneFromCenter s"

definition grantTimeZone :: "intl \<Rightarrow> js \<Rightarrow> string \<Rightarrow> string option" where
  "grantTimeZone \<I> claims org =
     (case find_first (\<lambda>g. body_field g ''product'' = JStr ''ACCESS'' \<and> body_field g ''org'' = JStr org) (claim_grants claims) of
        None \<Rightarrow> None
      | Some g \<Rightarrow>
          (case body_field g ''timeZone'' of JStr z \<Rightarrow> if isValidTimeZone \<I> z then Some z else None | _ \<Rightarrow> None))"

definition save_zone :: "string \<Rightarrow> instant \<Rightarrow> db \<Rightarrow> db" where
  "save_zone zone now s =
     s\<lparr>platformSettings := Some
        ((case platformSettings s of None \<Rightarrow> EMPTY_SETTINGS | Some r \<Rightarrow> r)
           \<lparr>ps_displayTimezone := Some zone, ps_displayTimezoneFromCenterAt := Some now\<rparr>)\<rparr>"

definition applyCenterTimeZone :: "intl \<Rightarrow> string \<Rightarrow> instant \<Rightarrow> db \<Rightarrow> db \<times> bool" where
  "applyCenterTimeZone \<I> zone now s =
     (if \<not> isValidTimeZone \<I> zone then (s, False)
      else if ps_displayTimezone (settings_in s) = Some zone \<and> displayTimezoneFromCenter s then (s, False)
      else (save_zone zone now s, True))"

definition center_settings :: "TenantRow list \<Rightarrow> ctx \<Rightarrow> js \<Rightarrow> db \<Rightarrow> db \<times> bool reply" where
  "center_settings ts cx body s =
     (let expected = trim (opt_text (cx_env cx ''CAPTIVO_ID_SERVICE_SECRET''));
          given = opt_text (cx_headers cx ''x-captivo-service'');
          org = text_of body ''org''; zone = raw_text_of body ''timeZone'' in
      if expected = [] \<or> given \<noteq> expected then (s, Err 401 ''unauthorized'')
      else if cx_tenant cx = PLATFORM_TENANT_ID then (s, Err 404 ''not_found'')
      else if org = [] \<or> \<not> isValidTimeZone (cx_intl cx) zone then (s, Err 400 ''bad_request'')
      else (case tenantSlugAndName ts (cx_tenant cx) of
              None \<Rightarrow> (s, Err 404 ''not_found'')
            | Some (slug, _) \<Rightarrow>
                if tenantSlugByOrg ts org \<noteq> Some slug then (s, Err 404 ''not_found'')
                else (case applyCenterTimeZone (cx_intl cx) zone (cx_now cx) s of
                        (s1, changed) \<Rightarrow> (s1, Ok 200 changed))))"

section \<open>The round trip to the provider\<close>

record oidc_state =
  st_state :: string
  st_nonce :: string
  st_codeVerifier :: string
  st_returnTo :: string
  st_stepUp :: bool

definition state_payload :: "oidc_state \<Rightarrow> js" where
  "state_payload st =
     JObj [(''state'', JStr (st_state st)), (''nonce'', JStr (st_nonce st)),
           (''codeVerifier'', JStr (st_codeVerifier st)), (''returnTo'', JStr (st_returnTo st)),
           (''stepUp'', JBool (st_stepUp st))]"

definition setOidcState :: "jwt \<Rightarrow> ctx \<Rightarrow> oidc_state \<Rightarrow> auth \<Rightarrow> auth option" where
  "setOidcState J cx st a = set_signed J cx ''ca_oidc'' (state_payload st) 600 a"

definition readOidcState :: "jwt \<Rightarrow> ctx \<Rightarrow> auth \<Rightarrow> oidc_state option" where
  "readOidcState J cx a =
     (case read_signed J cx ''ca_oidc'' a of
        None \<Rightarrow> None
      | Some p \<Rightarrow>
          (case (optional_text (body_field p ''state''), optional_text (body_field p ''nonce''),
                 optional_text (body_field p ''codeVerifier''), optional_text (body_field p ''returnTo'')) of
             (Some st, Some n, Some v, Some r) \<Rightarrow>
               Some \<lparr>st_state = st, st_nonce = n, st_codeVerifier = v, st_returnTo = r,
                     st_stepUp = (body_field p ''stepUp'' = JBool True)\<rparr>
           | _ \<Rightarrow> None))"

definition clearOidcState :: "auth \<Rightarrow> auth" where
  "clearOidcState a = drop_cookie ''ca_oidc'' a"

text \<open>Where the browser is sent; paths are relative to \<^verbatim>\<open>managerBaseUrl\<close>.\<close>

datatype redirect =
    To_login "string option"
  | To_provider string "(string \<times> string) list"
  | Step_up string
  | Back_to string
  | To_workspace string
  | To_create string

text \<open>\<open>dr_challenge\<close> is the state, \<open>nonce\<close> and \<open>verifier\<close> the two other random values; \<open>s256\<close> is \<^verbatim>\<open>codeChallengeS256\<close>.\<close>

record oidc_drawn =
  od_state :: string
  od_nonce :: string
  od_verifier :: string
  od_challenge :: string

definition oidc_start ::
  "idp \<Rightarrow> jwt \<Rightarrow> web \<Rightarrow> (string \<Rightarrow> string) \<Rightarrow> ctx \<Rightarrow> oidc_drawn \<Rightarrow> (string \<Rightarrow> string option) \<Rightarrow>
   discovery_cache \<times> auth \<Rightarrow> (discovery_cache \<times> auth) \<times> redirect reply" where
  "oidc_start I J w href cx d query x =
     (case getOidcConfig (cx_env cx) (au_db (snd x)) of
        None \<Rightarrow> (x, Ok 307 (To_login None))
      | Some cfg \<Rightarrow>
          if \<not> ov_enabled cfg then (x, Ok 307 (To_login None))
          else
            (let returnTo = safeReturnTo w href (cx_env cx) (query ''returnTo'');
                 stepUp = (query ''stepUp'' = Some ''1'') in
             case discover I (cx_now cx) (ov_issuer cfg) (fst x) of
               (cache, Inl _) \<Rightarrow> ((cache, snd x), Ok 307 (To_login (Some ''sso'')))
             | (cache, Inr doc) \<Rightarrow>
                 (case setOidcState J cx \<lparr>st_state = od_state d, st_nonce = od_nonce d, st_codeVerifier = od_verifier d,
                                          st_returnTo = returnTo, st_stepUp = stepUp\<rparr> (snd x) of
                    None \<Rightarrow> ((cache, snd x), Throw ''SESSION_SECRET is required'')
                  | Some a \<Rightarrow>
                      ((cache, a), Ok 307 (To_provider (js_String (body_field doc ''authorization_endpoint''))
                         ([(''response_type'', ''code''), (''client_id'', ov_clientId cfg),
                           (''redirect_uri'', managerBaseUrl w (cx_env cx) (cx_headers cx) @ ''/api/auth/oidc/callback''),
                           (''scope'', authorizationScope (body_field doc ''scopes_supported'')),
                           (''state'', od_state d), (''nonce'', od_nonce d), (''code_challenge'', od_challenge d),
                           (''code_challenge_method'', ''S256''), (''ui_locales'', ''en'')] @
                          (if stepUp then [(''prompt'', ''login'')] else []))))))) "

section \<open>The workspace claim\<close>

text \<open>\<open>cc_encode\<close> is the base64url of the JSON text, \<open>cc_decode\<close> its inverse (\<open>None\<close>: no JSON), \<open>cc_mac secret payload\<close> the HMAC.\<close>

record claim_codec =
  cc_encode :: "js \<Rightarrow> string"
  cc_decode :: "string \<Rightarrow> js option"
  cc_mac :: "string \<Rightarrow> string \<Rightarrow> string"

record workspace_claim =
  wc_org :: string
  wc_orgName :: string
  wc_email :: string
  wc_name :: js

definition CLAIM_TTL_MS :: int where "CLAIM_TTL_MS = 15 * 60 * 1000"

definition claim_payload :: "workspace_claim \<Rightarrow> int \<Rightarrow> js" where
  "claim_payload c expires =
     JObj ([(''org'', JStr (wc_org c)), (''orgName'', JStr (wc_orgName c)), (''email'', JStr (wc_email c))] @
           (if wc_name c = JUndef then [] else [(''name'', wc_name c)]) @ [(''exp'', JNum (NInt expires))])"

definition signWorkspaceClaim :: "claim_codec \<Rightarrow> workspace_claim \<Rightarrow> string \<Rightarrow> instant \<Rightarrow> string" where
  "signWorkspaceClaim K c secret now =
     (let payload = cc_encode K (claim_payload c (now + CLAIM_TTL_MS)) in payload @ ''.'' @ cc_mac K secret payload)"

definition readWorkspaceClaim :: "claim_codec \<Rightarrow> string option \<Rightarrow> string \<Rightarrow> instant \<Rightarrow> js option" where
  "readWorkspaceClaim K token secret now =
     (case or_null token of
        None \<Rightarrow> None
      | Some t \<Rightarrow>
          if secret = [] then None
          else (case split_on (CHR ''.'') t of
                  [payload, sig] \<Rightarrow>
                    if payload = [] \<or> sig = [] \<or> sig \<noteq> cc_mac K secret payload then None
                    else (case cc_decode K payload of
                            None \<Rightarrow> None
                          | Some c \<Rightarrow>
                              (case body_field c ''exp'' of
                                 JNum e \<Rightarrow>
                                   if \<not> jnum_greater e now then None
                                   else if falsy (body_field c ''org'') \<or> falsy (body_field c ''orgName'') \<or>
                                           falsy (body_field c ''email'') then None
                                   else Some c
                               | _ \<Rightarrow> None))
                | _ \<Rightarrow> None))"

section \<open>The callback\<close>

text \<open>Up to a verified ID token; \<open>Inl\<close> sends the browser away.\<close>

definition oidc_claims ::
  "idp \<Rightarrow> cipher \<Rightarrow> web \<Rightarrow> ctx \<Rightarrow> (string \<Rightarrow> string option) \<Rightarrow> oidc_state \<Rightarrow> OidcConfigView \<Rightarrow> db \<Rightarrow>
   discovery_cache \<Rightarrow> discovery_cache \<times> (redirect reply + js \<times> js)" where
  "oidc_claims I C w cx query saved cfg s cache0 =
     (let sso = Inl (Ok 307 (To_login (Some ''sso''))) in
      if truthy (query ''error'') then (cache0, sso)
      else if \<not> truthy (query ''code'') \<or> \<not> truthy (query ''state'') \<or> query ''state'' \<noteq> Some (st_state saved) then (cache0, sso)
      else (case discover I (cx_now cx) (ov_issuer cfg) cache0 of
              (cache, Inl _) \<Rightarrow> (cache, sso)
            | (cache, Inr doc) \<Rightarrow>
                (case getOidcSecret C (cx_env cx) s of
                   Inl e \<Rightarrow> (cache, Inl (Throw e))
                 | Inr ok \<Rightarrow>
                     (case or_null ok of
                        None \<Rightarrow> (cache, sso)
                      | Some secret \<Rightarrow>
                          (case idp_token I (js_String (body_field doc ''token_endpoint''))
                                  \<lparr>tr_code = the (query ''code''),
                                   tr_redirect = managerBaseUrl w (cx_env cx) (cx_headers cx) @ ''/api/auth/oidc/callback'',
                                   tr_clientId = ov_clientId cfg, tr_secret = secret,
                                   tr_verifier = st_codeVerifier saved\<rparr> of
                             Inr (status, Some tokens) \<Rightarrow>
                               if \<not> http_ok status then (cache, sso)
                               else if tokens = JNull then (cache, Inl (Throw ''TypeError''))
                               else if falsy (body_field tokens ''id_token'') then (cache, sso)
                               else (case idp_verify I (js_String (body_field doc ''jwks_uri'')) (body_field doc ''issuer'')
                                            (ov_clientId cfg) (body_field tokens ''id_token'') (cx_now cx) of
                                       Inl _ \<Rightarrow> (cache, sso)
                                     | Inr claims \<Rightarrow> (cache, Inr (body_field doc ''issuer'', claims)))
                           | _ \<Rightarrow> (cache, sso))))))"

text \<open>The claims and the second factor, decided before anything is written.\<close>

definition oidc_admit ::
  "ctx \<Rightarrow> OidcConfigView \<Rightarrow> oidc_state \<Rightarrow> js \<Rightarrow> js \<Rightarrow> redirect reply + string \<times> string list" where
  "oidc_admit cx cfg saved issuer claims =
     (case checkClaims claims issuer (ov_clientId cfg) (st_nonce saved) of
        Claims_throw \<Rightarrow> Inl (Throw ''TypeError'')
      | Claims_bad reason \<Rightarrow>
          Inl (Ok 307 (To_login (Some
            (if reason = ''email_verified'' \<and> ov_isPlatform cfg then ''email_unverified'' else ''sso''))))
      | Claims_ok email \<Rightarrow>
          (let amr = readAmr claims in
           case secondFactorGate (sp_requireSecondFactor (cx_policy cx)) amr (st_stepUp saved) of
             Gate_step_up \<Rightarrow> Inl (Ok 307 (Step_up (st_returnTo saved)))
           | Gate_refuse \<Rightarrow> Inl (Ok 307 (To_login (Some ''mfa_required'')))
           | Gate_allow \<Rightarrow> Inr (email, amr)))"

definition onTenantConsole :: "ctx \<Rightarrow> OidcConfigView \<Rightarrow> bool" where
  "onTenantConsole cx cfg \<longleftrightarrow> ov_isPlatform cfg \<and> cx_tenant cx \<noteq> PLATFORM_TENANT_ID"

definition tenantOrg :: "TenantRow list \<Rightarrow> ctx \<Rightarrow> OidcConfigView \<Rightarrow> string option" where
  "tenantOrg ts cx cfg = (if onTenantConsole cx cfg then organisation_of ts (cx_tenant cx) else None)"

definition heal_zone :: "ctx \<Rightarrow> string option \<Rightarrow> js \<Rightarrow> db \<Rightarrow> db" where
  "heal_zone cx org claims s =
     (case Option.bind (or_null org) (grantTimeZone (cx_intl cx) claims) of
        None \<Rightarrow> s
      | Some zone \<Rightarrow> if zone = [] then s else fst (applyCenterTimeZone (cx_intl cx) zone (cx_now cx) s))"

text \<open>The directory has the last word, then the session is opened.\<close>

definition oidc_finish ::
  "web \<Rightarrow> (string \<Rightarrow> string) \<Rightarrow> ctx \<Rightarrow> drawn \<Rightarrow> directory_env \<Rightarrow> oidc_state \<Rightarrow> string list \<Rightarrow> User \<Rightarrow> auth \<Rightarrow>
   auth \<times> redirect reply" where
  "oidc_finish w href cx d D saved amr u a =
     (case on_db (sync_at_login cx D u) a of
        (a1, Inl e) \<Rightarrow> (a1, Throw e)
      | (a1, Inr True) \<Rightarrow> (a1, Ok 307 (To_login (Some ''revoked'')))
      | (a1, Inr False) \<Rightarrow>
          (open_session cx d (u_id u) amr a1,
           Ok 307 (Back_to (safeReturnTo w href (cx_env cx) (Some (st_returnTo saved))))))"

definition oidc_existing ::
  "web \<Rightarrow> (string \<Rightarrow> string) \<Rightarrow> ctx \<Rightarrow> drawn \<Rightarrow> directory_env \<Rightarrow> oidc_state \<Rightarrow> string option \<Rightarrow> js \<Rightarrow> string list \<Rightarrow> User \<Rightarrow>
   auth \<Rightarrow> auth \<times> redirect reply" where
  "oidc_existing w href cx d D saved org claims amr user a =
     (let verdict = (case or_null org of
                       None \<Rightarrow> Unchanged
                     | Some o1 \<Rightarrow>
                         reconcileCenterRole user
                           (case accessGrantFor claims o1 of Some g \<Rightarrow> JStr (ag_role g) | None \<Rightarrow> JNull));
          u1 = apply_center verdict user;
          a1 = (if verdict = Unchanged then a
                else a\<lparr>au_db := update_user (u_id user) (apply_center verdict) (au_db a)\<rparr>)
      in if verdict = RevokedByCenter then (a1, Ok 307 (To_login (Some ''center_revoked'')))
         else if u_status u1 \<noteq> UserStatus.ACTIVE then (a1, Ok 307 (To_login (Some ''disabled'')))
         else oidc_finish w href cx d D saved amr u1 a1)"

text \<open>\<^verbatim>\<open>name || claims.name || email.split("@")[0]\<close>; a name that is no string is refused by the database client (\<open>None\<close>).\<close>

definition person_name :: "string \<Rightarrow> js \<Rightarrow> string \<Rightarrow> string option" where
  "person_name name claims email =
     (if name \<noteq> [] then Some name
      else if falsy (body_field claims ''name'') then Some (hd (split_on (CHR ''@'') email))
      else optional_text (body_field claims ''name''))"

definition oidc_account :: "ident \<Rightarrow> string \<Rightarrow> string option \<Rightarrow> Role \<Rightarrow> string option \<Rightarrow> instant \<Rightarrow> User option" where
  "oidc_account i email name role centre now =
     map_option (\<lambda>n. (new_account i email n role now)\<lparr>u_centerRole := centre\<rparr>) name"

definition oidc_offer ::
  "claim_codec \<Rightarrow> web \<Rightarrow> TenantRow list \<Rightarrow> ctx \<Rightarrow> js \<Rightarrow> string \<Rightarrow> access_grant \<Rightarrow> auth \<Rightarrow> auth \<times> redirect reply" where
  "oidc_offer K w ts cx claims email g a =
     (case (or_null (tenantSlugByOrg ts (ag_org g)), or_null (consoleDomain (url_hostname_of w) (cx_env cx))) of
        (Some slug, Some domain) \<Rightarrow> (a, Ok 307 (To_workspace (''https://'' @ slug @ ''.'' @ domain)))
      | _ \<Rightarrow>
          (let token = signWorkspaceClaim K
                 \<lparr>wc_org = ag_org g, wc_orgName = ag_orgName g, wc_email = email, wc_name = body_field claims ''name''\<rparr>
                 (opt_text (cx_env cx ''CAPTIVO_ID_CLIENT_SECRET'')) (cx_now cx)
           in (a\<lparr>au_jar := (au_jar a)(''captivo_workspace'' \<mapsto>
                  \<lparr>ck_value = token, ck_maxAge = 15 * 60, ck_secure = True, ck_domain = None\<rparr>)\<rparr>,
               Ok 307 (To_create token))))"

text \<open>
  An account the sign-in creates: a member of the organisation, or the person an invite names. \<open>s0\<close> is the data at the
  start of the request: in the cloud a statement the database refuses takes the request's transaction with it.
\<close>

definition oidc_create ::
  "web \<Rightarrow> (string \<Rightarrow> string) \<Rightarrow> ctx \<Rightarrow> drawn \<Rightarrow> directory_env \<Rightarrow> oidc_state \<Rightarrow> db \<Rightarrow> string list \<Rightarrow> User option \<Rightarrow> auth \<Rightarrow>
   auth \<times> redirect reply" where
  "oidc_create w href cx d D saved s0 amr acct a =
     (case acct of
        None \<Rightarrow> (a, Ok 307 (To_login (Some ''sso'')))
      | Some u \<Rightarrow>
          (case insert_user u (au_db a) of
             None \<Rightarrow> (a\<lparr>au_db := (if multiTenantEnabled (cx_env cx) then s0 else au_db a)\<rparr>, Ok 307 (To_login (Some ''sso'')))
           | Some s \<Rightarrow> oidc_finish w href cx d D saved amr u (a\<lparr>au_db := s\<rparr>)))"

definition oidc_redeem ::
  "web \<Rightarrow> (string \<Rightarrow> string) \<Rightarrow> ctx \<Rightarrow> drawn \<Rightarrow> directory_env \<Rightarrow> oidc_state \<Rightarrow> db \<Rightarrow> js \<Rightarrow> string list \<Rightarrow> string \<Rightarrow> Invite \<Rightarrow> auth \<Rightarrow>
   auth \<times> redirect reply" where
  "oidc_redeem w href cx d D saved s0 claims amr email v a =
     (case consume_invite (inv_id v) (cx_now cx) (au_db a) of
        (s, n) \<Rightarrow>
          if n = 0 then (a, Ok 307 (To_login (Some ''no_account'')))
          else oidc_create w href cx d D saved s0 amr
                 (oidc_account (dr_user d) (inv_email v) (person_name (inv_name v) claims email) (inv_role v) None (cx_now cx))
                 (a\<lparr>au_db := s\<rparr>))"

definition invite_for :: "instant \<Rightarrow> string \<Rightarrow> db \<Rightarrow> Invite option" where
  "invite_for now email s = find_first (\<lambda>v. to_lower (inv_email v) = to_lower email \<and> live_invite now v) (invites s)"

definition oidc_newcomer ::
  "claim_codec \<Rightarrow> web \<Rightarrow> (string \<Rightarrow> string) \<Rightarrow> TenantRow list \<Rightarrow> ctx \<Rightarrow> drawn \<Rightarrow> directory_env \<Rightarrow> oidc_state \<Rightarrow>
   OidcConfigView \<Rightarrow> db \<Rightarrow> js \<Rightarrow> string list \<Rightarrow> string \<Rightarrow> auth \<Rightarrow> auth \<times> redirect reply" where
  "oidc_newcomer K w href ts cx d D saved cfg s0 claims amr email a =
     (case invite_for (cx_now cx) email (au_db a) of
        Some v \<Rightarrow> oidc_redeem w href cx d D saved s0 claims amr email v a
      | None \<Rightarrow>
          (case (if cx_tenant cx = PLATFORM_TENANT_ID then accessGrant claims else None) of
             Some g \<Rightarrow> oidc_offer K w ts cx claims email g a
           | None \<Rightarrow>
               (case Option.bind (or_null (tenantOrg ts cx cfg)) (accessGrantFor claims) of
                  None \<Rightarrow> (a, Ok 307 (To_login (Some ''no_account'')))
                | Some g \<Rightarrow>
                    oidc_create w href cx d D saved s0 amr
                      (oidc_account (dr_user d) email (person_name [] claims email) (role_for_grant (ag_role g))
                         (Some (center_text (centerRoleOf (JStr (ag_role g))))) (cx_now cx)) a)))"

definition oidc_callback ::
  "idp \<Rightarrow> jwt \<Rightarrow> cipher \<Rightarrow> claim_codec \<Rightarrow> web \<Rightarrow> (string \<Rightarrow> string) \<Rightarrow> TenantRow list \<Rightarrow> ctx \<Rightarrow> drawn \<Rightarrow> directory_env \<Rightarrow>
   (string \<Rightarrow> string option) \<Rightarrow> discovery_cache \<times> auth \<Rightarrow> (discovery_cache \<times> auth) \<times> redirect reply" where
  "oidc_callback I J C K w href ts cx d D query x =
     (let a = clearOidcState (snd x) in
      case (getOidcConfig (cx_env cx) (au_db a), readOidcState J cx (snd x)) of
        (Some cfg, Some saved) \<Rightarrow>
          if \<not> ov_enabled cfg then ((fst x, a), Ok 307 (To_login (Some ''sso'')))
          else (case oidc_claims I C w cx query saved cfg (au_db a) (fst x) of
                  (cache, Inl r) \<Rightarrow> ((cache, a), r)
                | (cache, Inr (issuer, claims)) \<Rightarrow>
                    (case oidc_admit cx cfg saved issuer claims of
                       Inl r \<Rightarrow> ((cache, a), r)
                     | Inr (email, amr) \<Rightarrow>
                         (let org = tenantOrg ts cx cfg;
                              a1 = a\<lparr>au_db := heal_zone cx org claims (au_db a)\<rparr>;
                              r = (case user_by_email_ci (au_db a1) email of
                                     Some u \<Rightarrow> oidc_existing w href cx d D saved org claims amr u a1
                                   | None \<Rightarrow> oidc_newcomer K w href ts cx d D saved cfg (au_db a) claims amr email a1)
                          in ((cache, fst r), snd r))))
      | _ \<Rightarrow> ((fst x, a), Ok 307 (To_login (Some ''sso''))))"

section \<open>What a completed sign-in rests on\<close>

lemma role_for_grant_center: "role_for_grant r = accessRoleForGrant (centerRoleOf (JStr r))"
  by (simp add: role_for_grant_def centerRoleOf_def accessRoleForGrant_def)

definition oidc_proved ::
  "idp \<Rightarrow> ctx \<Rightarrow> (string \<Rightarrow> string option) \<Rightarrow> oidc_state \<Rightarrow> OidcConfigView \<Rightarrow> js \<Rightarrow> string \<Rightarrow> string list \<Rightarrow> bool" where
  "oidc_proved I cx query saved cfg claims email amr \<longleftrightarrow>
     query ''state'' = Some (st_state saved) \<and>
     (\<exists>jwks issuer token. idp_verify I jwks issuer (ov_clientId cfg) token (cx_now cx) = Inr claims \<and>
        checkClaims claims issuer (ov_clientId cfg) (st_nonce saved) = Claims_ok email) \<and>
     amr = readAmr claims \<and> (sp_requireSecondFactor (cx_policy cx) \<longrightarrow> hasSecondFactor amr)"

text \<open>Why this person may enter: an account, an invite, or a grant for the organisation of this workspace.\<close>

definition oidc_entitled :: "TenantRow list \<Rightarrow> ctx \<Rightarrow> OidcConfigView \<Rightarrow> js \<Rightarrow> string \<Rightarrow> db \<Rightarrow> User \<Rightarrow> bool" where
  "oidc_entitled ts cx cfg claims email s u \<longleftrightarrow>
     u_status u = UserStatus.ACTIVE \<and>
     (case user_by_email_ci s email of
        Some u0 \<Rightarrow>
          u_id u = u_id u0 \<and>
          (case or_null (tenantOrg ts cx cfg) of
             None \<Rightarrow> u = u0
           | Some org \<Rightarrow>
               u = apply_center (reconcileCenterRole u0
                     (case accessGrantFor claims org of Some g \<Rightarrow> JStr (ag_role g) | None \<Rightarrow> JNull)) u0)
      | None \<Rightarrow>
          (\<exists>v\<in>set (invites s). live_invite (cx_now cx) v \<and> to_lower (inv_email v) = to_lower email \<and>
             u_email u = inv_email v \<and> u_role u = inv_role v) \<or>
          (\<exists>org g. tenantOrg ts cx cfg = Some org \<and> accessGrantFor claims org = Some g \<and> u_email u = email \<and>
             u_role u = accessRoleForGrant (centerRoleOf (JStr (ag_role g)))))"

definition opened_for :: "ctx \<Rightarrow> drawn \<Rightarrow> User \<Rightarrow> string list \<Rightarrow> auth \<Rightarrow> bool" where
  "opened_for cx d u amr a \<longleftrightarrow>
     (\<exists>x\<in>set (sessions (au_db a)). s_tokenHash x = cx_H cx (dr_token d) \<and> s_userId x = u_id u \<and> s_amr x = amr)"

lemma oidc_finish_Back:
  assumes "oidc_finish w href cx d D saved amr u a = (a', Ok c (Back_to p))"
  shows "opened_for cx d u amr a'" and "p = safeReturnTo w href (cx_env cx) (Some (st_returnTo saved))"
  using assms
  by (auto simp: oidc_finish_def on_db_def open_session_def createSession_def Let_def opened_for_def
      split: prod.splits sum.splits bool.splits)

lemma oidc_finish_never_Create:
  "oidc_finish w href cx d D saved amr u a = (a', Ok c r) \<Longrightarrow> r = To_login (Some ''revoked'') \<or> (\<exists>p. r = Back_to p)"
  by (auto simp: oidc_finish_def split: prod.splits sum.splits bool.splits)

lemma oidc_existing_Back:
  assumes "oidc_existing w href cx d D saved (tenantOrg ts cx cfg) claims amr u0 a = (a', Ok c (Back_to p))"
    and "user_by_email_ci s email = Some u0"
  shows "\<exists>u. oidc_entitled ts cx cfg claims email s u \<and> opened_for cx d u amr a'"
proof -
  let ?v = "case or_null (tenantOrg ts cx cfg) of None \<Rightarrow> Unchanged
     | Some o1 \<Rightarrow> reconcileCenterRole u0 (case accessGrantFor claims o1 of Some g \<Rightarrow> JStr (ag_role g) | None \<Rightarrow> JNull)"
  obtain a1 where fin: "oidc_finish w href cx d D saved amr (apply_center ?v u0) a1 = (a', Ok c (Back_to p))"
      and act: "u_status (apply_center ?v u0) = UserStatus.ACTIVE"
    using assms(1) by (auto simp: oidc_existing_def Let_def split: if_splits)
  have "u_id (apply_center ?v u0) = u_id u0" by (simp add: apply_center_def split: Reconciled.split)
  with act have "oidc_entitled ts cx cfg claims email s (apply_center ?v u0)"
    using assms(2) by (auto simp: oidc_entitled_def apply_center_def split: option.splits)
  with oidc_finish_Back(1) [OF fin] show ?thesis by blast
qed

lemma oidc_create_Back:
  assumes "oidc_create w href cx d D saved s0 amr acct a = (a', Ok c (Back_to p))"
  shows "\<exists>u. acct = Some u \<and> opened_for cx d u amr a'"
  using assms oidc_finish_Back(1) by (fastforce simp: oidc_create_def split: option.splits)

lemma oidc_account_Some:
  "oidc_account i email name role centre now = Some u \<Longrightarrow>
     u_email u = email \<and> u_role u = role \<and> u_status u = UserStatus.ACTIVE \<and> u_centerRole u = centre"
  by (auto simp: oidc_account_def new_account_def)

lemma oidc_newcomer_Back:
  assumes "oidc_newcomer K w href ts cx d D saved cfg s0 claims amr email a = (a', Ok c (Back_to p))"
    and "user_by_email_ci s email = None" and "invites s = invites (au_db a)"
  shows "\<exists>u. oidc_entitled ts cx cfg claims email s u \<and> opened_for cx d u amr a'"
proof (cases "invite_for (cx_now cx) email (au_db a)")
  case (Some v)
  then have v: "v \<in> set (invites s)" "live_invite (cx_now cx) v" "to_lower (inv_email v) = to_lower email"
    using find_first_Some [of _ "invites (au_db a)" v] assms(3) by (auto simp: invite_for_def)
  from Some assms(1) obtain u where u: "oidc_account (dr_user d) (inv_email v) (person_name (inv_name v) claims email) (inv_role v) None (cx_now cx) = Some u"
      "opened_for cx d u amr a'"
    using oidc_create_Back by (fastforce simp: oidc_newcomer_def oidc_redeem_def split: prod.splits if_splits)
  from oidc_account_Some [OF u(1)] v assms(2) u(2) show ?thesis by (auto simp: oidc_entitled_def)
next
  case None
  with assms(1) obtain org g where g: "tenantOrg ts cx cfg = Some org" "accessGrantFor claims org = Some g"
      and cr: "oidc_create w href cx d D saved s0 amr (oidc_account (dr_user d) email (person_name [] claims email) (role_for_grant (ag_role g))
         (Some (center_text (centerRoleOf (JStr (ag_role g))))) (cx_now cx)) a = (a', Ok c (Back_to p))"
    by (auto simp: oidc_newcomer_def oidc_offer_def Let_def or_null_Some bind_eq_Some_conv split: option.splits if_splits prod.splits)
  from oidc_create_Back [OF cr] obtain u where u: "oidc_account (dr_user d) email (person_name [] claims email) (role_for_grant (ag_role g))
         (Some (center_text (centerRoleOf (JStr (ag_role g))))) (cx_now cx) = Some u" "opened_for cx d u amr a'" by blast
  from oidc_account_Some [OF u(1)] g assms(2) u(2) show ?thesis by (auto simp: oidc_entitled_def role_for_grant_center)
qed

lemma oidc_claims_Inr:
  assumes "oidc_claims I C w cx query saved cfg s cache = (cache', Inr (issuer, claims))"
  shows "query ''state'' = Some (st_state saved)"
    and "\<exists>jwks token. idp_verify I jwks issuer (ov_clientId cfg) token (cx_now cx) = Inr claims"
  using assms
  by (auto simp: oidc_claims_def Let_def split: if_splits prod.splits sum.splits option.splits)

lemma oidc_admit_Inr:
  assumes "oidc_admit cx cfg saved issuer claims = Inr (email, amr)"
  shows "checkClaims claims issuer (ov_clientId cfg) (st_nonce saved) = Claims_ok email" and "amr = readAmr claims"
    and "sp_requireSecondFactor (cx_policy cx) \<Longrightarrow> hasSecondFactor amr"
  using assms
  by (auto simp: oidc_admit_def Let_def secondFactorGate_def split: claims_check.splits SecondFactorGate.splits if_splits)

lemma oidc_admit_Inl: "oidc_admit cx cfg saved issuer claims = Inl r \<Longrightarrow> r \<noteq> Ok c (Back_to p)"
  by (auto simp: oidc_admit_def Let_def split: claims_check.splits SecondFactorGate.splits)

lemma oidc_claims_Inl:
  "oidc_claims I C w cx query saved cfg s cache = (cache', Inl r) \<Longrightarrow> r \<noteq> Ok c (Back_to p)"
  by (auto simp: oidc_claims_def Let_def split: if_splits prod.splits sum.splits option.splits)

lemma heal_zone_frame [simp]:
  "users (heal_zone cx org claims s) = users s" "invites (heal_zone cx org claims s) = invites s"
  by (simp_all add: heal_zone_def applyCenterTimeZone_def save_zone_def split: option.splits)

lemma user_by_email_ci_cong: "users s = users s' \<Longrightarrow> user_by_email_ci s e = user_by_email_ci s' e"
  by (simp add: user_by_email_ci_def)

lemma clearOidcState_db [simp]: "au_db (clearOidcState a) = au_db a"
  by (simp add: clearOidcState_def drop_cookie_def)

section \<open>A concrete sign-in\<close>

definition ex_provider_doc :: js where
  "ex_provider_doc = JObj [(''issuer'', JStr ''https://id''), (''authorization_endpoint'', JStr ''https://id/a''),
     (''token_endpoint'', JStr ''https://id/t''), (''jwks_uri'', JStr ''https://id/k'')]"

definition ex_claims :: js where
  "ex_claims = JObj [(''iss'', JStr ''https://id''), (''aud'', JStr ''access''), (''nonce'', JStr ''n''),
     (''email'', JStr ''M@example.com''), (''email_verified'', JBool True), (''amr'', JArr [JStr ''pwd'', JStr ''otp''])]"

definition ex_idp :: idp where
  "ex_idp = \<lparr>idp_wellknown = (\<lambda>_. Inr (200, Some ex_provider_doc)),
     idp_token = (\<lambda>_ _. Inr (200, Some (JObj [(''id_token'', JStr ''t'')]))), idp_verify = (\<lambda>_ _ _ _ _. Inr ex_claims)\<rparr>"

definition ex_oidc_state :: oidc_state where
  "ex_oidc_state = \<lparr>st_state = ''st'', st_nonce = ''n'', st_codeVerifier = ''v'', st_returnTo = ''/sites'', st_stepUp = False\<rparr>"

definition ex_oidc_jwt :: jwt where
  "ex_oidc_jwt = \<lparr>jwt_sign = (\<lambda>_ _ _. ''signed''), jwt_verify = (\<lambda>_ _ _. Some (state_payload ex_oidc_state))\<rparr>"

definition ex_codec :: claim_codec where
  "ex_codec = \<lparr>cc_encode = (\<lambda>_. ''p''), cc_decode = (\<lambda>_. None), cc_mac = (\<lambda>_ _. ''m'')\<rparr>"

definition ex_cloud_env :: env where
  "ex_cloud_env = [''SESSION_SECRET'' \<mapsto> ''k'', ''CAPTIVO_DEPLOYMENT'' \<mapsto> ''saas'', ''CAPTIVO_ID_ISSUER'' \<mapsto> ''https://id'',
     ''CAPTIVO_ID_CLIENT_ID'' \<mapsto> ''access'', ''CAPTIVO_ID_CLIENT_SECRET'' \<mapsto> ''s'']"

definition ex_oidc_ctx :: ctx where
  "ex_oidc_ctx = ex_visitor\<lparr>cx_env := ex_cloud_env, cx_policy := EMPTY_POLICY\<lparr>sp_requireSecondFactor := True\<rparr>\<rparr>"

definition ex_query :: "string \<Rightarrow> string option" where
  "ex_query = [''code'' \<mapsto> ''c'', ''state'' \<mapsto> ''st'']"

definition ex_round_trip :: "discovery_cache \<times> auth" where
  "ex_round_trip = ((\<lambda>_. None), (ex_auth ''signed'')\<lparr>au_jar :=
     [''ca_oidc'' \<mapsto> \<lparr>ck_value = ''signed'', ck_maxAge = 600, ck_secure = True, ck_domain = None\<rparr>]\<rparr>)"

abbreviation ex_callback :: "(discovery_cache \<times> auth) \<times> redirect reply" where
  "ex_callback \<equiv> oidc_callback ex_idp ex_oidc_jwt ex_cipher ex_codec ex_page (\<lambda>t. t) [] ex_oidc_ctx ex_drawn ex_no_directory
     ex_query ex_round_trip"

lemma ex_callback_Ok: "snd ex_callback = Ok 307 (Back_to ''/sites'')"
  by code_simp

text \<open>C31: a sign-in through the provider completes only with the state and nonce this browser was given, a verified
  token for this client naming a verified address, and a second factor where the workspace asks for one; and only for an
  active account with that address, brought in line with the organisation's word, for somebody with an open invite, who
  gets the invite's role, or for a member of the organisation that owns the workspace, with the role of the grant.\<close>

theorem oidc_sign_in_sound:
  assumes "oidc_callback I J C K w href ts cx d D query x = (x', Ok c (Back_to p))"
  shows "\<exists>cfg saved claims email amr u. getOidcConfig (cx_env cx) (au_db (snd x)) = Some cfg \<and>
    readOidcState J cx (snd x) = Some saved \<and> oidc_proved I cx query saved cfg claims email amr \<and>
    oidc_entitled ts cx cfg claims email (au_db (snd x)) u \<and> opened_for cx d u amr (snd x')"
proof -
  let ?a = "clearOidcState (snd x)"
  obtain cfg saved where cfg: "getOidcConfig (cx_env cx) (au_db (snd x)) = Some cfg" "readOidcState J cx (snd x) = Some saved"
    using assms by (auto simp: oidc_callback_def Let_def split: option.splits)
  obtain cache o1 where cl: "oidc_claims I C w cx query saved cfg (au_db ?a) (fst x) = (cache, o1)" by fastforce
  with assms cfg obtain issuer claims where o1: "o1 = Inr (issuer, claims)"
    by (cases o1) (auto simp: oidc_callback_def Let_def dest: oidc_claims_Inl split: if_splits)
  obtain email amr where ad: "oidc_admit cx cfg saved issuer claims = Inr (email, amr)"
    using assms cfg cl o1 by (cases "oidc_admit cx cfg saved issuer claims")
      (auto simp: oidc_callback_def Let_def dest: oidc_admit_Inl split: if_splits)
  let ?a1 = "?a\<lparr>au_db := heal_zone cx (tenantOrg ts cx cfg) claims (au_db ?a)\<rparr>"
  let ?r = "case user_by_email_ci (au_db ?a1) email of
      Some u \<Rightarrow> oidc_existing w href cx d D saved (tenantOrg ts cx cfg) claims amr u ?a1
    | None \<Rightarrow> oidc_newcomer K w href ts cx d D saved cfg (au_db ?a) claims amr email ?a1"
  have "ov_enabled cfg" using assms cfg by (auto simp: oidc_callback_def Let_def split: if_splits)
  then have "oidc_callback I J C K w href ts cx d D query x = ((cache, fst ?r), snd ?r)"
    using cfg cl o1 ad by (simp add: oidc_callback_def Let_def cong: option.case_cong)
  with assms have run: "?r = (snd x', Ok c (Back_to p))" by (metis prod.collapse fst_conv snd_conv)
  have proved: "oidc_proved I cx query saved cfg claims email amr"
    using oidc_claims_Inr [OF cl [unfolded o1]] oidc_admit_Inr [OF ad] by (auto simp: oidc_proved_def)
  have "\<exists>u. oidc_entitled ts cx cfg claims email (au_db (snd x)) u \<and> opened_for cx d u amr (snd x')"
  proof (cases "user_by_email_ci (au_db (snd x)) email")
    case None
    with run have new: "oidc_newcomer K w href ts cx d D saved cfg (au_db ?a) claims amr email ?a1 = (snd x', Ok c (Back_to p))"
      by (simp add: user_by_email_ci_def)
    show ?thesis by (rule oidc_newcomer_Back [OF new None]) simp
  next
    case (Some u)
    with run have "oidc_existing w href cx d D saved (tenantOrg ts cx cfg) claims amr u ?a1 = (snd x', Ok c (Back_to p))"
      by (simp add: user_by_email_ci_def)
    then show ?thesis using Some by (rule oidc_existing_Back)
  qed
  with cfg proved show ?thesis by blast
qed

theorem oidc_sign_in_sound_witness:
  "snd ex_callback = Ok 307 (Back_to ''/sites'') \<and>
   (\<exists>cfg claims email amr u. oidc_proved ex_idp ex_oidc_ctx ex_query ex_oidc_state cfg claims email amr \<and>
      oidc_entitled [] ex_oidc_ctx cfg claims email ex_accounts u \<and> opened_for ex_oidc_ctx ex_drawn u amr (snd (fst ex_callback)))"
proof -
  have "ex_callback = (fst ex_callback, Ok 307 (Back_to ''/sites''))" using ex_callback_Ok by (metis prod.collapse)
  from oidc_sign_in_sound [OF this] obtain cfg saved claims email amr u where
    *: "readOidcState ex_oidc_jwt ex_oidc_ctx (snd ex_round_trip) = Some saved"
      "oidc_proved ex_idp ex_oidc_ctx ex_query saved cfg claims email amr"
      "oidc_entitled [] ex_oidc_ctx cfg claims email (au_db (snd ex_round_trip)) u"
      "opened_for ex_oidc_ctx ex_drawn u amr (snd (fst ex_callback))" by blast
  have "readOidcState ex_oidc_jwt ex_oidc_ctx (snd ex_round_trip) = Some ex_oidc_state" by code_simp
  moreover have "au_db (snd ex_round_trip) = ex_accounts" by (simp add: ex_round_trip_def ex_auth_def)
  ultimately have "saved = ex_oidc_state" "au_db (snd ex_round_trip) = ex_accounts" using *(1) by simp_all
  with *(2-4) have "oidc_proved ex_idp ex_oidc_ctx ex_query ex_oidc_state cfg claims email amr"
      "oidc_entitled [] ex_oidc_ctx cfg claims email ex_accounts u" "opened_for ex_oidc_ctx ex_drawn u amr (snd (fst ex_callback))"
    by simp_all
  then show ?thesis using ex_callback_Ok by (intro conjI exI) assumption+
qed


definition ex_workspace :: "TenantRow list" where
  "ex_workspace = [ex_tenant\<lparr>t_id := ''w1'', t_captivoOrgId := Some ''org1''\<rparr>]"

definition ex_platform_view :: OidcConfigView where
  "ex_platform_view = \<lparr>ov_isPlatform = True, ov_enabled = True, ov_issuer = ''https://id'', ov_clientId = ''access'',
     ov_buttonLabel = None, ov_hasSecret = True\<rparr>"


lemma oidc_jar:
  "au_jar (open_session cx d uid amr a) ''ca_oidc'' = au_jar a ''ca_oidc''"
  "oidc_finish w href cx d D saved amr u a = (a', r) \<Longrightarrow> au_jar a' ''ca_oidc'' = au_jar a ''ca_oidc''"
  "oidc_create w href cx d D saved s0 amr acct a = (a', r) \<Longrightarrow> au_jar a' ''ca_oidc'' = au_jar a ''ca_oidc''"
proof -
  show one: "au_jar (open_session cx d uid amr a) ''ca_oidc'' = au_jar a ''ca_oidc''" for uid amr a
    by (simp add: open_session_def split: prod.splits)
  show fin: "au_jar a' ''ca_oidc'' = au_jar a ''ca_oidc''" if "oidc_finish w href cx d D saved amr u a = (a', r)" for u a a' r
    using that by (auto simp: oidc_finish_def on_db_def one split: prod.splits sum.splits bool.splits)
  show "au_jar a' ''ca_oidc'' = au_jar a ''ca_oidc''" if "oidc_create w href cx d D saved s0 amr acct a = (a', r)"
    using that by (auto simp: oidc_create_def dest: fin split: option.splits)
qed

lemma oidc_existing_jar:
  "oidc_existing w href cx d D saved org claims amr u a = (a', r) \<Longrightarrow> au_jar a' ''ca_oidc'' = au_jar a ''ca_oidc''"
  by (auto simp: oidc_existing_def Let_def dest: oidc_jar(2) split: if_splits)

lemma oidc_newcomer_jar:
  "oidc_newcomer K w href ts cx d D saved cfg s0 claims amr email a = (a', r) \<Longrightarrow> au_jar a' ''ca_oidc'' = au_jar a ''ca_oidc''"
  by (auto simp: oidc_newcomer_def oidc_redeem_def oidc_offer_def Let_def dest: oidc_jar(3)
      split: option.splits if_splits prod.splits)

lemma oidc_callback_clears:
  assumes "oidc_callback I J C K w href ts cx d D query x = (x', r)"
  shows "au_jar (snd x') ''ca_oidc'' = None"
proof -
  have clear: "au_jar (clearOidcState a) ''ca_oidc'' = None" for a
    by (simp add: clearOidcState_def drop_cookie_def)
  have run: "au_jar (fst (oidc_existing w href cx d D saved org claims amr u a1)) ''ca_oidc'' = au_jar a1 ''ca_oidc''"
      "au_jar (fst (oidc_newcomer K w href ts cx d D saved cfg s0 claims amr email a1)) ''ca_oidc'' = au_jar a1 ''ca_oidc''"
    for a1 u email org claims amr saved cfg s0
    using oidc_existing_jar oidc_newcomer_jar by (metis prod.collapse)+
  show ?thesis
    using assms clear by (auto simp: oidc_callback_def Let_def run split: option.splits if_splits prod.splits sum.splits)
qed

text \<open>The state of a round trip is spent by the first callback, whatever its outcome: a second callback with the
  cookies it left is refused and changes nothing.\<close>

theorem oidc_state_spent:
  assumes "oidc_callback I J C K w href ts cx d D query x = (x', r)" and "au_jar (snd y) = au_jar (snd x')"
  shows "oidc_callback I J C K w href ts cx' d' D' query' y = ((fst y, clearOidcState (snd y)), Ok 307 (To_login (Some ''sso'')))"
proof -
  have "readOidcState J cx' (snd y) = None"
    using oidc_callback_clears [OF assms(1)] assms(2)
    by (simp add: readOidcState_def read_signed_def cookie_value_def or_null_def)
  then show ?thesis by (simp add: oidc_callback_def Let_def split: option.splits)
qed

theorem oidc_state_spent_witness:
  "oidc_callback ex_idp ex_oidc_jwt ex_cipher ex_codec ex_page (\<lambda>t. t) [] ex_oidc_ctx ex_drawn ex_no_directory ex_query (fst ex_callback)
     = ((fst (fst ex_callback), clearOidcState (snd (fst ex_callback))), Ok 307 (To_login (Some ''sso'')))"
  by (rule oidc_state_spent [of _ _ _ _ _ _ _ _ _ _ _ ex_round_trip "fst ex_callback" "snd ex_callback"]) simp_all

section \<open>The workspace claim\<close>

text \<open>What is relied on: decoding undoes encoding, and neither part of a token contains the separator.\<close>

definition codec_ok :: "claim_codec \<Rightarrow> bool" where
  "codec_ok K \<longleftrightarrow> (\<forall>v. cc_decode K (cc_encode K v) = Some v \<and> cc_encode K v \<noteq> [] \<and> CHR ''.'' \<notin> set (cc_encode K v)) \<and>
     (\<forall>k t. cc_mac K k t \<noteq> [] \<and> CHR ''.'' \<notin> set (cc_mac K k t))"

lemma workspace_claim_round_trip:
  assumes "codec_ok K" and "secret \<noteq> []" and "wc_org c \<noteq> []" and "wc_orgName c \<noteq> []" and "wc_email c \<noteq> []"
    and "t < now + CLAIM_TTL_MS"
  shows "readWorkspaceClaim K (Some (signWorkspaceClaim K c secret now)) secret t = Some (claim_payload c (now + CLAIM_TTL_MS))"
proof -
  let ?p = "claim_payload c (now + CLAIM_TTL_MS)"
  have split: "split_on (CHR ''.'') (cc_encode K ?p @ ''.'' @ cc_mac K secret (cc_encode K ?p)) =
      [cc_encode K ?p, cc_mac K secret (cc_encode K ?p)]"
    using assms(1) split_on_append split_on_single by (auto simp: codec_ok_def)
  have f: "body_field ?p ''exp'' = JNum (NInt (now + CLAIM_TTL_MS))" "body_field ?p ''org'' = JStr (wc_org c)"
      "body_field ?p ''orgName'' = JStr (wc_orgName c)" "body_field ?p ''email'' = JStr (wc_email c)"
    by (simp_all add: claim_payload_def body_field_def field_def)
  show ?thesis
    using assms split f by (simp add: readWorkspaceClaim_def signWorkspaceClaim_def Let_def or_null_def codec_ok_def
        falsy_def)
qed

lemma workspace_claim_signed:
  assumes "readWorkspaceClaim K (Some t) secret now = Some c"
  shows "\<exists>payload. split_on (CHR ''.'') t = [payload, cc_mac K secret payload] \<and> cc_decode K payload = Some c"
  using assms
  by (auto simp: readWorkspaceClaim_def or_null_def split: option.splits if_splits list.splits js.splits)

section \<open>Where the code falls short\<close>

text \<open>Switching a provider on again is refused although its secret is stored: the settings of a provider that is off read
  as no settings.\<close>

lemma sso_switched_on_again_refused:
  assumes "current_user cx s = (s1, Some u)" and "u_role u = ADMIN" and "oidcConfig s1 = Some c" and "\<not> oc_enabled c"
    and "oc_clientSecret c \<noteq> []" and "body_field body ''enabled'' = JBool True" and "body_field body ''clientSecret'' = JUndef"
    and "text_of body ''issuer'' \<noteq> []" and "text_of body ''clientId'' \<noteq> []"
  shows "snd (save_sso C cx body s) = Err 400 ''secret_required''"
proof -
  have "body \<noteq> JNull" using assms(6) by (auto simp: body_field_def)
  then show ?thesis
    using assms by (simp add: save_sso_def with_capability_def with_user_def can_configure with_body_def Let_def
        optional_text_def truthy_def getOidcConfig_def pickOidcSource_def)
qed

text \<open>A workspace that signs in with the platform's provider can switch its own on without any secret, and then nobody can
  sign in through it.\<close>

lemma sso_switched_on_without_secret:
  assumes "current_user cx s = (s1, Some u)" and "u_role u = ADMIN" and "oidcConfig s1 = None" and "readPlatformOidc (cx_env cx) = Some q"
    and "body_field body ''enabled'' = JBool True" and "body_field body ''clientSecret'' = JUndef"
    and "text_of body ''issuer'' \<noteq> []" and "text_of body ''clientId'' \<noteq> []"
  shows "snd (save_sso C cx body s) = Ok 200 ()" and "getOidcSecret C env (fst (save_sso C cx body s)) = Inr None"
proof -
  have "body \<noteq> JNull" using assms(5) by (auto simp: body_field_def)
  then show "snd (save_sso C cx body s) = Ok 200 ()" "getOidcSecret C env (fst (save_sso C cx body s)) = Inr None"
    using assms by (simp_all add: save_sso_def with_capability_def with_user_def can_configure with_body_def Let_def
        optional_text_def truthy_def getOidcConfig_def pickOidcSource_def saveOidcConfig_def or_null_def recordAdminAction_def
        getOidcSecret_def)
qed

text \<open>An invite redeemed through a provider loses the phone number and the company it was issued with.\<close>

lemma oidc_account_drops_contact:
  "oidc_account i email name role centre now = Some u \<Longrightarrow> u_phone u = None \<and> u_company u = None"
  by (auto simp: oidc_account_def new_account_def)

end
