(* ===== verification/Platform.thy ===== *)
theory Platform
  imports Oidc
begin

text \<open>
  The platform console of the cloud service: \<^verbatim>\<open>lib/platform/{config,tenants,tenant-admin,audit,admins,route,auth,sql}.ts\<close>,
  the owner-defined functions of \<^verbatim>\<open>prisma/rls/bootstrap.sql\<close> behind them and the routes of
  \<^verbatim>\<open>app/api/platform\<close>.

  A request of an operator runs in the transaction of the reserved platform tenant. It reaches the
  rows of another tenant through \<^verbatim>\<open>withTenant\<close>, a transaction of its own that commits before the
  request ends, and the table of tenants through the functions, which commit at once: an error later
  in the request takes back only what the request wrote for the platform tenant itself.
\<close>

section \<open>Failures and scopes\<close>

text \<open>A thrown \<^verbatim>\<open>PlatformError\<close>, which the routes answer, or any other exception.\<close>

datatype failure = PlatformError string | Failure string

type_synonym 'a attempt = "failure + 'a"

definition scope_id :: "env \<Rightarrow> ident \<Rightarrow> ident" where
  "scope_id env tid = (if multiTenantEnabled env then tid else DEFAULT_TENANT)"

definition set_data :: "ident \<Rightarrow> db \<Rightarrow> cloud \<Rightarrow> cloud" where
  "set_data tid s c = c\<lparr>data := (data c)(tid := s)\<rparr>"

definition in_scope :: "env \<Rightarrow> ident \<Rightarrow> (db \<Rightarrow> db \<times> 'a attempt) \<Rightarrow> cloud \<Rightarrow> cloud \<times> 'a attempt" where
  "in_scope env tid fn c =
     (case fn (data c (scope_id env tid)) of
        (s, Inl e) \<Rightarrow> (if multiTenantEnabled env then c else set_data (scope_id env tid) s c, Inl e)
      | (s, Inr a) \<Rightarrow> (set_data (scope_id env tid) s c, Inr a))"

section \<open>The configuration of the platform\<close>

record NewTenantDefaults =
  nd_recordingMode :: "string option"
  nd_keystrokeLoggingMode :: "string option"
  nd_auditRetentionDays :: "int option"
  nd_recordingRetentionDays :: "int option"
  nd_maxGrantDays :: "int option"
  nd_requireRequestJustification :: "bool option"
  nd_displayTimezone :: "string option"

definition no_defaults :: NewTenantDefaults where
  "no_defaults = \<lparr>nd_recordingMode = None, nd_keystrokeLoggingMode = None, nd_auditRetentionDays = None,
     nd_recordingRetentionDays = None, nd_maxGrantDays = None, nd_requireRequestJustification = None,
     nd_displayTimezone = None\<rparr>"

definition default_count :: "js \<Rightarrow> int option" where
  "default_count raw =
     (let n = (case raw of JStr t \<Rightarrow> if trim t \<noteq> [] then JNum (number_of_string t) else raw | _ \<Rightarrow> raw) in
      case n of JNum (NInt k) \<Rightarrow> if k \<ge> 0 then Some k else None | _ \<Rightarrow> None)"

definition default_text :: "js \<Rightarrow> string option" where
  "default_text v = (case v of JStr t \<Rightarrow> or_null (Some t) | _ \<Rightarrow> None)"

definition parseNewTenantDefaults :: "intl \<Rightarrow> js \<Rightarrow> NewTenantDefaults option" where
  "parseNewTenantDefaults \<I> v =
     (let f = body_field v;
          out = \<lparr>nd_recordingMode = default_text (f ''recordingMode''),
                 nd_keystrokeLoggingMode = default_text (f ''keystrokeLoggingMode''),
                 nd_auditRetentionDays = default_count (f ''auditRetentionDays''),
                 nd_recordingRetentionDays = default_count (f ''recordingRetentionDays''),
                 nd_maxGrantDays = default_count (f ''maxGrantDays''),
                 nd_requireRequestJustification =
                   (case f ''requireRequestJustification'' of JBool b \<Rightarrow> Some b | _ \<Rightarrow> None),
                 nd_displayTimezone =
                   (case default_text (f ''displayTimezone'') of
                      Some z \<Rightarrow> if isValidTimeZone \<I> z then Some z else None
                    | None \<Rightarrow> None)\<rparr>
      in if out = no_defaults then None else Some out)"

text \<open>The JSON column the parsed object is written to.\<close>

definition json_member :: "string \<Rightarrow> ('a \<Rightarrow> js) \<Rightarrow> 'a option \<Rightarrow> (string \<times> js) list" where
  "json_member k f v = (case v of None \<Rightarrow> [] | Some a \<Rightarrow> [(k, f a)])"

definition defaults_json :: "NewTenantDefaults \<Rightarrow> js" where
  "defaults_json d =
     JObj (json_member ''recordingMode'' JStr (nd_recordingMode d) @
           json_member ''keystrokeLoggingMode'' JStr (nd_keystrokeLoggingMode d) @
           json_member ''auditRetentionDays'' (\<lambda>n. JNum (NInt n)) (nd_auditRetentionDays d) @
           json_member ''recordingRetentionDays'' (\<lambda>n. JNum (NInt n)) (nd_recordingRetentionDays d) @
           json_member ''maxGrantDays'' (\<lambda>n. JNum (NInt n)) (nd_maxGrantDays d) @
           json_member ''requireRequestJustification'' JBool (nd_requireRequestJustification d) @
           json_member ''displayTimezone'' JStr (nd_displayTimezone d))"

record PlatformConfigRow =
  pr_announcementText :: "string option"
  pr_announcementLevel :: "string option"
  pr_announcementUntil :: "instant option"
  pr_newTenantDefaults :: js
  pr_opsEmail :: "string option"
  pr_smtpFallback :: bool
  pr_signupEnabled :: bool

record PlatformConfig =
  pc_announcementText :: "string option"
  pc_announcementLevel :: string
  pc_announcementUntil :: "instant option"
  pc_newTenantDefaults :: "NewTenantDefaults option"
  pc_opsEmail :: "string option"
  pc_smtpFallback :: bool
  pc_signupEnabled :: bool

definition EMPTY_CONFIG :: PlatformConfig where
  "EMPTY_CONFIG = \<lparr>pc_announcementText = None, pc_announcementLevel = ''info'', pc_announcementUntil = None,
     pc_newTenantDefaults = None, pc_opsEmail = None, pc_smtpFallback = False, pc_signupEnabled = False\<rparr>"

definition announcement_level :: "string option \<Rightarrow> string" where
  "announcement_level v = (if v = Some ''warn'' \<or> v = Some ''danger'' then the v else ''info'')"

definition trimmed :: "string option \<Rightarrow> string option" where
  "trimmed t = or_null (map_option trim t)"

definition config_of_row :: "intl \<Rightarrow> PlatformConfigRow option \<Rightarrow> PlatformConfig" where
  "config_of_row \<I> row =
     (case row of
        None \<Rightarrow> EMPTY_CONFIG
      | Some r \<Rightarrow>
          \<lparr>pc_announcementText = trimmed (pr_announcementText r),
           pc_announcementLevel = announcement_level (pr_announcementLevel r),
           pc_announcementUntil = pr_announcementUntil r,
           pc_newTenantDefaults = parseNewTenantDefaults \<I> (pr_newTenantDefaults r),
           pc_opsEmail = trimmed (pr_opsEmail r), pc_smtpFallback = pr_smtpFallback r,
           pc_signupEnabled = pr_signupEnabled r\<rparr>)"

text \<open>The whole service: the tenants with their rows, the one row of configuration and its cache in the process.\<close>

record platform =
  p_cloud :: cloud
  p_config :: "PlatformConfigRow option"
  p_cache :: "(PlatformConfig \<times> instant) option"

definition CONFIG_CACHE_MS :: int where "CONFIG_CACHE_MS = 15000"

text \<open>\<open>up\<close>: the table can be read.\<close>

definition getPlatformConfig :: "bool \<Rightarrow> intl \<Rightarrow> instant \<Rightarrow> platform \<Rightarrow> platform \<times> PlatformConfig" where
  "getPlatformConfig up \<I> now x =
     (case p_cache x of
        Some (c, at) \<Rightarrow>
          if now - at < CONFIG_CACHE_MS then (x, c)
          else if \<not> up then (x, EMPTY_CONFIG)
          else (let c = config_of_row \<I> (p_config x) in (x\<lparr>p_cache := Some (c, now)\<rparr>, c))
      | None \<Rightarrow>
          if \<not> up then (x, EMPTY_CONFIG)
          else (let c = config_of_row \<I> (p_config x) in (x\<lparr>p_cache := Some (c, now)\<rparr>, c)))"

text \<open>
  On an update an absent default is written as the object \<^verbatim>\<open>{ set: null }\<close>: the client has no \<^verbatim>\<open>set\<close>
  operation on a JSON column, so the object is the value; it reads back as no defaults either way.
\<close>

definition savePlatformConfig :: "PlatformConfig \<Rightarrow> platform \<Rightarrow> platform" where
  "savePlatformConfig input x =
     x\<lparr>p_config := Some
         \<lparr>pr_announcementText = trimmed (pc_announcementText input),
          pr_announcementLevel = Some (announcement_level (Some (pc_announcementLevel input))),
          pr_announcementUntil = pc_announcementUntil input,
          pr_newTenantDefaults =
            (case (pc_newTenantDefaults input, p_config x) of
               (Some d, _) \<Rightarrow> defaults_json d
             | (None, None) \<Rightarrow> JNull
             | (None, Some _) \<Rightarrow> JObj [(''set'', JNull)]),
          pr_opsEmail = trimmed (pc_opsEmail input), pr_smtpFallback = pc_smtpFallback input,
          pr_signupEnabled = pc_signupEnabled input\<rparr>,
       p_cache := None\<rparr>"

definition activeAnnouncement :: "PlatformConfig \<Rightarrow> instant \<Rightarrow> (string \<times> string) option" where
  "activeAnnouncement c now =
     (case or_null (pc_announcementText c) of
        None \<Rightarrow> None
      | Some t \<Rightarrow>
          (case pc_announcementUntil c of
             Some u \<Rightarrow> if u < now then None else Some (t, pc_announcementLevel c)
           | None \<Rightarrow> Some (t, pc_announcementLevel c)))"

section \<open>The table of tenants\<close>

definition reserved_tenant :: "ident \<Rightarrow> bool" where
  "reserved_tenant i \<longleftrightarrow> i = PLATFORM_TENANT_ID \<or> i = DEFAULT_TENANT"

definition tenant_update :: "(TenantRow \<Rightarrow> bool) \<Rightarrow> (TenantRow \<Rightarrow> TenantRow) \<Rightarrow> cloud \<Rightarrow> cloud" where
  "tenant_update p f c = c\<lparr>tenants := update_many p f (tenants c)\<rparr>"

text \<open>\<open>Inl\<close> is the unique constraint that refuses the row; the indexes are checked in the order they were created.\<close>

definition platform_create_tenant :: "instant \<Rightarrow> ident \<Rightarrow> string \<Rightarrow> string \<Rightarrow> string option \<Rightarrow> cloud \<Rightarrow> string + cloud" where
  "platform_create_tenant now i slug name org c =
     (if list_ex (\<lambda>t. t_id t = i) (tenants c) then Inl ''Tenant_pkey''
      else if list_ex (\<lambda>t. t_slug t = slug) (tenants c) then Inl ''Tenant_slug_key''
      else if list_ex (\<lambda>t. org \<noteq> None \<and> t_captivoOrgId t = org) (tenants c) then Inl ''Tenant_captivoOrgId_key''
      else Inr (c\<lparr>tenants := insert_row
             \<lparr>t_id = i, t_slug = slug, t_name = name, t_status = ''ACTIVE'', t_plan = ''free'', t_trialEndsAt = None,
              t_deletedAt = None, t_limits = JNull, t_capabilities = JNull, t_captivoOrgId = org, t_notes = None,
              t_createdAt = now\<rparr> (tenants c)\<rparr>))"

definition platform_list_tenants :: "cloud \<Rightarrow> TenantRow list" where
  "platform_list_tenants c =
     sort_key (\<lambda>t. - t_createdAt t) (find_many (\<lambda>t. \<not> reserved_tenant (t_id t)) (tenants c))"

definition platform_set_tenant_status :: "ident \<Rightarrow> string \<Rightarrow> cloud \<Rightarrow> cloud \<times> unit attempt" where
  "platform_set_tenant_status i status c =
     (if status \<notin> {''ACTIVE'', ''SUSPENDED''} then (c, Inl (Failure ''invalid tenant status''))
      else if i = PLATFORM_TENANT_ID then (c, Inl (Failure ''cannot change the platform tenant status''))
      else (tenant_update (\<lambda>t. t_id t = i) (\<lambda>t. t\<lparr>t_status := status\<rparr>) c, Inr ()))"

definition platform_update_tenant ::
  "ident \<Rightarrow> string \<Rightarrow> string \<Rightarrow> instant option \<Rightarrow> js \<Rightarrow> js \<Rightarrow> string option \<Rightarrow> cloud \<Rightarrow> cloud \<times> unit attempt" where
  "platform_update_tenant i name plan trialEnds limits capabilities notes c =
     (if reserved_tenant i then (c, Inl (Failure ''reserved tenant''))
      else if plan \<notin> set PLANS then (c, Inl (Failure ''invalid plan''))
      else (tenant_update (\<lambda>t. t_id t = i)
              (\<lambda>t. t\<lparr>t_name := name, t_plan := plan, t_trialEndsAt := trialEnds, t_limits := limits,
                      t_capabilities := capabilities, t_notes := notes\<rparr>) c, Inr ()))"

definition platform_delete_tenant :: "instant \<Rightarrow> ident \<Rightarrow> cloud \<Rightarrow> cloud \<times> unit attempt" where
  "platform_delete_tenant now i c =
     (if reserved_tenant i then (c, Inl (Failure ''reserved tenant''))
      else (let c1 = tenant_update (\<lambda>t. t_id t = i \<and> t_deletedAt t = None)
                       (\<lambda>t. t\<lparr>t_deletedAt := Some now, t_status := ''SUSPENDED''\<rparr>) c
            in (set_data i (delete_session_rows (\<lambda>_. True) (data c1 i)) c1, Inr ())))"

definition platform_restore_tenant :: "ident \<Rightarrow> cloud \<Rightarrow> cloud \<times> unit attempt" where
  "platform_restore_tenant i c =
     (if reserved_tenant i then (c, Inl (Failure ''reserved tenant''))
      else (tenant_update (\<lambda>t. t_id t = i) (\<lambda>t. t\<lparr>t_deletedAt := None, t_status := ''ACTIVE''\<rparr>) c, Inr ()))"

text \<open>Every tenant-scoped table references the tenant with \<^verbatim>\<open>ON DELETE CASCADE\<close>.\<close>

definition platform_purge_tenant :: "ident \<Rightarrow> cloud \<Rightarrow> cloud \<times> unit attempt" where
  "platform_purge_tenant i c =
     (if reserved_tenant i then (c, Inl (Failure ''reserved tenant''))
      else if list_ex (\<lambda>t. t_id t = i \<and> t_deletedAt t \<noteq> None) (tenants c) then
        (\<lparr>tenants = delete_many (\<lambda>t. t_id t = i \<and> t_deletedAt t \<noteq> None) (tenants c),
          data = (data c)(i := empty_db)\<rparr>, Inr ())
      else (c, Inr ()))"

definition purgeCandidates :: "instant \<Rightarrow> int \<Rightarrow> cloud \<Rightarrow> ident list" where
  "purgeCandidates now days c =
     map t_id (find_many (\<lambda>t. (case t_deletedAt t of None \<Rightarrow> False | Some d \<Rightarrow> d < now - days * DAY_MS) \<and>
                              \<not> reserved_tenant (t_id t)) (tenants c))"

text \<open>Undoing a tenant that could not be finished: both calls or neither.\<close>

definition rollbackCreatedTenantRow :: "instant \<Rightarrow> ident \<Rightarrow> cloud \<Rightarrow> cloud" where
  "rollbackCreatedTenantRow now i c =
     (case platform_delete_tenant now i c of
        (c1, Inr _) \<Rightarrow> (case platform_purge_tenant i c1 of (c2, Inr _) \<Rightarrow> c2 | (c2, Inl _) \<Rightarrow> c)
      | (c1, Inl _) \<Rightarrow> c)"

section \<open>Tenants as the console sees them\<close>

record PlatformTenant =
  pt_id :: ident
  pt_slug :: string
  pt_name :: string
  pt_status :: string
  pt_createdAt :: instant
  pt_adminCount :: nat
  pt_plan :: string
  pt_trialEndsAt :: "instant option"
  pt_deletedAt :: "instant option"
  pt_limits :: TenantLimits
  pt_capabilities :: TenantCapabilities
  pt_notes :: "string option"

definition shape :: "cloud \<Rightarrow> TenantRow \<Rightarrow> PlatformTenant" where
  "shape c t =
     \<lparr>pt_id = t_id t, pt_slug = t_slug t, pt_name = t_name t, pt_status = t_status t,
      pt_createdAt = t_createdAt t, pt_adminCount = count_rows (\<lambda>u. u_role u = ADMIN) (users (data c (t_id t))),
      pt_plan = (if isPlan (JStr (t_plan t)) then t_plan t else ''free''),
      pt_trialEndsAt = t_trialEndsAt t, pt_deletedAt = t_deletedAt t, pt_limits = parseLimits (t_limits t),
      pt_capabilities = parseCapabilities (t_capabilities t), pt_notes = t_notes t\<rparr>"

definition listTenants :: "cloud \<Rightarrow> PlatformTenant list" where
  "listTenants c = map (shape c) (platform_list_tenants c)"

definition getTenant :: "cloud \<Rightarrow> ident \<Rightarrow> PlatformTenant option" where
  "getTenant c i = find_first (\<lambda>t. pt_id t = i) (listTenants c)"

record create_input =
  ci_name :: string
  ci_slug :: string
  ci_adminEmail :: string
  ci_adminName :: "string option"
  ci_plan :: "string option"
  ci_limits :: "TenantLimits option"
  ci_captivoOrgId :: "string option"

definition validateCreateInput :: "create_input \<Rightarrow> string option" where
  "validateCreateInput i =
     (if trim (ci_name i) = [] then Some ''invalid_name''
      else if \<not> isValidTenantSlug (ci_slug i) then Some ''invalid_slug''
      else if \<not> email_shaped (trim (ci_adminEmail i)) then Some ''invalid_email''
      else None)"

text \<open>The third member of an update is a date that may be invalid: \<open>Some None\<close>.\<close>

record UpdateTenantInput =
  ui_name :: string
  ui_plan :: string
  ui_trialEndsAt :: "instant option option"
  ui_limits :: js
  ui_capabilities :: js
  ui_notes :: "string option"

definition validateUpdateInput :: "UpdateTenantInput \<Rightarrow> string + UpdateTenantInput" where
  "validateUpdateInput i =
     (let name = trim (ui_name i) in
      if name = [] \<or> length name > 120 then Inl ''invalid_name''
      else if \<not> isPlan (JStr (ui_plan i)) then Inl ''invalid_plan''
      else if ui_trialEndsAt i = Some None then Inl ''invalid_trial_end''
      else Inr (i\<lparr>ui_name := name, ui_trialEndsAt := None,
                  ui_notes := (case trimmed (ui_notes i) of None \<Rightarrow> None | Some n \<Rightarrow> Some (take 4000 n))\<rparr>))"

definition limits_object :: "TenantLimits \<Rightarrow> js" where
  "limits_object l =
     JObj (concat (map (\<lambda>k. json_member (limit_name k) (\<lambda>n. JNum (NInt n)) (l k))
       [maxUsers, maxSites, maxConnectors, maxRecordingRetentionDays]))"

definition capabilities_object :: "TenantCapabilities \<Rightarrow> js" where
  "capabilities_object l =
     JObj (concat (map (\<lambda>k. json_member (capability_name k) JBool (l k)) [Recording, Isolated, Gateway, Vault]))"

text \<open>\<^verbatim>\<open>Object.keys(o).length ? o : null\<close>\<close>

definition object_or_null :: "js \<Rightarrow> js" where
  "object_or_null v = (if v = JObj [] then JNull else v)"

definition updateTenant :: "ident \<Rightarrow> UpdateTenantInput \<Rightarrow> cloud \<Rightarrow> cloud \<times> unit attempt" where
  "updateTenant i input c =
     (case validateUpdateInput input of
        Inl e \<Rightarrow> (c, Inl (PlatformError e))
      | Inr v \<Rightarrow>
          platform_update_tenant i (ui_name v) (ui_plan v) None
            (object_or_null (limits_object (parseLimits (ui_limits v))))
            (object_or_null (capabilities_object (parseCapabilities (ui_capabilities v)))) (ui_notes v) c)"

section \<open>Creating a tenant\<close>

text \<open>\<^verbatim>\<open>{ ...current, ...defaults }\<close>, written as the settings row of the new tenant. The three counts are 32-bit columns.\<close>

definition override :: "'a option \<Rightarrow> 'a option \<Rightarrow> 'a option" where
  "override new old = (case new of None \<Rightarrow> old | Some v \<Rightarrow> Some v)"

definition apply_defaults :: "NewTenantDefaults \<Rightarrow> PlatformSettings \<Rightarrow> PlatformSettings" where
  "apply_defaults d s =
     s\<lparr>ps_recordingMode := override (nd_recordingMode d) (ps_recordingMode s),
       ps_keystrokeLoggingMode := override (nd_keystrokeLoggingMode d) (ps_keystrokeLoggingMode s),
       ps_auditRetentionDays := override (nd_auditRetentionDays d) (ps_auditRetentionDays s),
       ps_recordingRetentionDays := override (nd_recordingRetentionDays d) (ps_recordingRetentionDays s),
       ps_maxGrantDays := override (nd_maxGrantDays d) (ps_maxGrantDays s),
       ps_requireRequestJustification := override (nd_requireRequestJustification d) (ps_requireRequestJustification s),
       ps_displayTimezone := override (nd_displayTimezone d) (ps_displayTimezone s)\<rparr>"

definition counts_fit :: "PlatformSettings \<Rightarrow> bool" where
  "counts_fit s \<longleftrightarrow> list_all (\<lambda>v. case v of None \<Rightarrow> True | Some n \<Rightarrow> fits_int4 n)
     [ps_auditRetentionDays s, ps_recordingRetentionDays s, ps_maxGrantDays s]"

definition save_settings_row :: "PlatformSettings \<Rightarrow> db \<Rightarrow> db \<times> unit attempt" where
  "save_settings_row input s =
     (if counts_fit input then
        (let row = (case platformSettings s of None \<Rightarrow> EMPTY_SETTINGS | Some r \<Rightarrow> r) in
         (s\<lparr>platformSettings := Some (input\<lparr>ps_displayTimezoneFromCenterAt := ps_displayTimezoneFromCenterAt row,
              ps_guacParamDefaults := ps_guacParamDefaults row\<rparr>)\<rparr>, Inr ()))
      else (s, Inl (Failure ''unable to fit integer into INT4'')))"

definition write_defaults :: "env \<Rightarrow> ident \<Rightarrow> NewTenantDefaults option \<Rightarrow> cloud \<Rightarrow> cloud \<times> unit attempt" where
  "write_defaults env i defaults c =
     (case defaults of
        None \<Rightarrow> (c, Inr ())
      | Some d \<Rightarrow> in_scope env i (\<lambda>s. save_settings_row (apply_defaults d (settings_in s)) s) c)"

definition write_plan :: "ident \<Rightarrow> create_input \<Rightarrow> cloud \<Rightarrow> cloud \<times> unit attempt" where
  "write_plan i input c =
     (let plan = (case ci_plan input of Some p \<Rightarrow> if isPlan (JStr p) then p else ''free'' | None \<Rightarrow> ''free'') in
      if plan \<noteq> ''free'' \<or> ci_limits input \<noteq> None then
        platform_update_tenant i (trim (ci_name input)) plan None
          (case ci_limits input of None \<Rightarrow> JNull | Some l \<Rightarrow> limits_object l) JNull None c
      else (c, Inr ()))"

definition first_admin_invite :: "create_input \<Rightarrow> invite_input" where
  "first_admin_invite input =
     \<lparr>ii_email = ci_adminEmail input,
      ii_name = (case trimmed (ci_adminName input) of Some n \<Rightarrow> n | None \<Rightarrow> ci_adminEmail input),
      ii_role = ADMIN, ii_createdById = None, ii_phone = None, ii_company = None\<rparr>"

text \<open>What follows the row: the first invite, the plan and the defaults. \<open>f\<close> carries the id and the token of the invite.\<close>

definition provision_tenant ::
  "bool \<Rightarrow> argon \<Rightarrow> ctx \<Rightarrow> fresh \<Rightarrow> ident \<Rightarrow> create_input \<Rightarrow> platform \<Rightarrow> platform \<times> unit attempt" where
  "provision_tenant up A cx f i input x =
     (case in_scope (cx_env cx) i
             (\<lambda>s. (createInvite A (cx_env cx) f (cx_now cx) (first_admin_invite input) s, Inr ())) (p_cloud x) of
        (c1, Inl e) \<Rightarrow> (x\<lparr>p_cloud := c1\<rparr>, Inl e)
      | (c1, Inr _) \<Rightarrow>
          (case write_plan i input c1 of
             (c2, Inl e) \<Rightarrow> (x\<lparr>p_cloud := c2\<rparr>, Inl e)
           | (c2, Inr _) \<Rightarrow>
               (let (y, cfg) = getPlatformConfig up (cx_intl cx) (cx_now cx) (x\<lparr>p_cloud := c2\<rparr>);
                    (c3, r) = write_defaults (cx_env cx) i (pc_newTenantDefaults cfg) (p_cloud y)
                in (y\<lparr>p_cloud := c3\<rparr>, r))))"

record created_tenant =
  ct_id :: ident
  ct_slug :: string
  ct_name :: string
  ct_inviteToken :: string
  ct_inviteUrl :: string

definition invite_url :: "web \<Rightarrow> env \<Rightarrow> string \<Rightarrow> string \<Rightarrow> string" where
  "invite_url w env slug token =
     (case or_null (consoleDomain (url_hostname_of w) env) of
        Some d \<Rightarrow> ''https://'' @ slug @ ''.'' @ d @ ''/invite/'' @ token
      | None \<Rightarrow> ''/invite/'' @ token)"

text \<open>
  \<open>message\<close> is the text the database driver reports for a violated constraint; \<open>i\<close> the identifier drawn
  for the tenant.
\<close>

definition createTenant ::
  "bool \<Rightarrow> argon \<Rightarrow> web \<Rightarrow> (string \<Rightarrow> string) \<Rightarrow> ctx \<Rightarrow> fresh \<Rightarrow> ident \<Rightarrow> create_input \<Rightarrow> platform \<Rightarrow>
   platform \<times> created_tenant attempt" where
  "createTenant up A w message cx f i input x =
     (case validateCreateInput input of
        Some e \<Rightarrow> (x, Inl (PlatformError e))
      | None \<Rightarrow>
          (case platform_create_tenant (cx_now cx) i (ci_slug input) (trim (ci_name input)) (ci_captivoOrgId input) (p_cloud x) of
             Inl constraint \<Rightarrow>
               (x, Inl (PlatformError
                 (if truthy (ci_captivoOrgId input) \<and> contains (to_lower (message constraint)) ''captivoorgid''
                  then ''org_taken'' else ''slug_taken'')))
           | Inr c \<Rightarrow>
               (case provision_tenant up A cx f i input (x\<lparr>p_cloud := c\<rparr>) of
                  (y, Inl e) \<Rightarrow> (y\<lparr>p_cloud := rollbackCreatedTenantRow (cx_now cx) i (p_cloud y)\<rparr>, Inl e)
                | (y, Inr _) \<Rightarrow>
                    (y, Inr \<lparr>ct_id = i, ct_slug = ci_slug input, ct_name = trim (ci_name input),
                             ct_inviteToken = new_token f,
                             ct_inviteUrl = invite_url w (cx_env cx) (ci_slug input) (new_token f)\<rparr>))))"

section \<open>Acting on one tenant\<close>

text \<open>
  The settings a message is sent with: the tenant's own where they are enabled, or the platform's where the operator
  has opened them. \<open>smtp\<close> says whether a server takes a message for an address.
\<close>

definition platformSmtpConfig :: "cloud \<Rightarrow> SmtpConfigRow option" where
  "platformSmtpConfig c =
     (case smtpConfig (data c PLATFORM_TENANT_ID) of
        Some r \<Rightarrow> if smtp_enabled r then Some r else None
      | None \<Rightarrow> None)"

definition getSendingSmtpConfig ::
  "bool \<Rightarrow> intl \<Rightarrow> env \<Rightarrow> instant \<Rightarrow> ident \<Rightarrow> platform \<Rightarrow> platform \<times> SmtpConfigRow option" where
  "getSendingSmtpConfig up \<I> env now tid x =
     (let own = smtpConfig (data (p_cloud x) (scope_id env tid)) in
      if (case own of Some c \<Rightarrow> smtp_enabled c | None \<Rightarrow> False) then (x, own)
      else if multiTenantEnabled env \<and> tid \<noteq> PLATFORM_TENANT_ID then
        (let (y, cfg) = getPlatformConfig up \<I> now x in
         if pc_smtpFallback cfg then
           (case platformSmtpConfig (p_cloud y) of Some p \<Rightarrow> (y, Some (p\<lparr>smtp_enabled := True\<rparr>)) | None \<Rightarrow> (y, own))
         else (y, own))
      else (x, own))"

definition mail_sent :: "(SmtpConfigRow \<Rightarrow> string \<Rightarrow> bool) \<Rightarrow> SmtpConfigRow option \<Rightarrow> string \<Rightarrow> bool" where
  "mail_sent smtp cfg email = (case cfg of None \<Rightarrow> False | Some c \<Rightarrow> smtp_enabled c \<and> smtp c email)"

definition inviteTenantAdmin ::
  "bool \<Rightarrow> argon \<Rightarrow> web \<Rightarrow> (SmtpConfigRow \<Rightarrow> string \<Rightarrow> bool) \<Rightarrow> ctx \<Rightarrow> fresh \<Rightarrow> PlatformTenant \<Rightarrow> string \<Rightarrow> string option \<Rightarrow>
   platform \<Rightarrow> platform \<times> (string \<times> bool) attempt" where
  "inviteTenantAdmin up A w smtp cx f t email0 name0 x =
     (let email = to_lower (trim email0);
          name = (case trimmed name0 of Some n \<Rightarrow> n | None \<Rightarrow> email);
          tid = pt_id t in
      if \<not> email_shaped email then (x, Inl (PlatformError ''invalid_email''))
      else if user_by_email (data (p_cloud x) (scope_id (cx_env cx) tid)) email \<noteq> None then
        (x, Inl (PlatformError ''email_registered''))
      else
        (let (y, cfg) = getSendingSmtpConfig up (cx_intl cx) (cx_env cx) (cx_now cx) tid x;
             (c, r) = in_scope (cx_env cx) tid (\<lambda>s.
               (sendMail [email] ''inviteEmail'' name
                  (createInvite A (cx_env cx) f (cx_now cx)
                     \<lparr>ii_email = email, ii_name = name, ii_role = ADMIN, ii_createdById = None, ii_phone = None,
                      ii_company = None\<rparr> s), Inr (mail_sent smtp cfg email))) (p_cloud y)
         in (y\<lparr>p_cloud := c\<rparr>,
             map_sum id (\<lambda>sent. (invite_url w (cx_env cx) (pt_slug t) (new_token f), sent)) r)))"

definition forceLogoutTenant :: "env \<Rightarrow> ident \<Rightarrow> cloud \<Rightarrow> cloud \<times> nat attempt" where
  "forceLogoutTenant env tid =
     in_scope env tid (\<lambda>s. (delete_session_rows (\<lambda>_. True) s, Inr (length (sessions s))))"

section \<open>The record of what operators do\<close>

record platform_action =
  pa_actorId :: ident
  pa_actorEmail :: string
  pa_action :: string
  pa_tenant :: "(ident \<times> string) option"
  pa_targetType :: "string option"
  pa_targetId :: "string option"
  pa_summary :: string
  pa_metadata :: js
  pa_clientIp :: "string option"

text \<open>\<^verbatim>\<open>{ ...(metadata ?? {}), ...extra }\<close>\<close>

definition spread :: "js \<Rightarrow> (string \<times> js) list \<Rightarrow> js" where
  "spread m extra =
     JObj ((case m of JObj ob \<Rightarrow> filter (\<lambda>e. fst e \<notin> set (map fst extra)) ob | _ \<Rightarrow> []) @ extra)"

definition platform_entry :: "platform_action \<Rightarrow> AdminAction" where
  "platform_entry a =
     \<lparr>act_actorId = pa_actorId a, act_actorEmail = Some (pa_actorEmail a), act_action = pa_action a,
      act_targetType = override (pa_targetType a) (if pa_tenant a \<noteq> None then Some ''tenant'' else None),
      act_targetId = override (pa_targetId a) (map_option fst (pa_tenant a)), act_summary = pa_summary a,
      act_metadata = spread (pa_metadata a)
        (case pa_tenant a of None \<Rightarrow> [] | Some (i, slug) \<Rightarrow> [(''tenantId'', JStr i), (''tenantSlug'', JStr slug)]),
      act_clientIp = pa_clientIp a\<rparr>"

definition tenant_entry :: "ident \<Rightarrow> platform_action \<Rightarrow> AdminAction" where
  "tenant_entry tid a =
     \<lparr>act_actorId = pa_actorId a, act_actorEmail = Some (pa_actorEmail a), act_action = pa_action a,
      act_targetType = override (pa_targetType a) (Some ''tenant''),
      act_targetId = override (pa_targetId a) (Some tid), act_summary = ''[Captivo platform] '' @ pa_summary a,
      act_metadata = spread (pa_metadata a) [(''platformActor'', JStr (pa_actorEmail a))],
      act_clientIp = pa_clientIp a\<rparr>"

text \<open>One entry in the chain of the request's own tenant and, where a tenant is touched, one in that tenant's chain.\<close>

definition recordPlatformAction :: "ctx \<Rightarrow> platform_action \<Rightarrow> cloud \<Rightarrow> cloud" where
  "recordPlatformAction cx a c =
     (let c1 = set_data (cx_tenant cx)
                 (recordAdminAction (cx_H cx) (cx_auditId cx) (cx_now cx) (platform_entry a) (data c (cx_tenant cx))) c
      in case pa_tenant a of
           None \<Rightarrow> c1
         | Some (tid, _) \<Rightarrow>
             fst (in_scope (cx_env cx) tid (\<lambda>s.
               (recordAdminAction (cx_H cx) (cx_fresh cx) (cx_now cx) (tenant_entry tid a) s, Inr ())) c1))"

section \<open>Guards of the console\<close>

text \<open>\<^verbatim>\<open>notFound()\<close> throws; the framework answers 404 and the scope of the request is rolled back.\<close>

definition NOT_FOUND :: string where "NOT_FOUND = ''NEXT_HTTP_ERROR_FALLBACK;404''"

definition isPlatformAdmin :: "Role option \<Rightarrow> bool" where
  "isPlatformAdmin r \<longleftrightarrow> r = Some PLATFORM"

definition own_db :: "ctx \<Rightarrow> platform \<Rightarrow> db" where
  "own_db cx x = data (p_cloud x) (cx_tenant cx)"

definition set_own :: "ctx \<Rightarrow> db \<Rightarrow> platform \<Rightarrow> platform" where
  "set_own cx s x = x\<lparr>p_cloud := set_data (cx_tenant cx) s (p_cloud x)\<rparr>"

definition on_cloud :: "(cloud \<Rightarrow> cloud \<times> 'a) \<Rightarrow> platform \<Rightarrow> platform \<times> 'a" where
  "on_cloud f x = (let (c, r) = f (p_cloud x) in (x\<lparr>p_cloud := c\<rparr>, r))"

definition requirePlatformAdmin :: "ctx \<Rightarrow> platform \<Rightarrow> platform \<times> User attempt" where
  "requirePlatformAdmin cx x =
     (let (s, u) = current_user cx (own_db cx x); y = set_own cx s x in
      case u of
        Some a \<Rightarrow>
          if cx_tenant cx \<noteq> PLATFORM_TENANT_ID \<or> \<not> isPlatformAdmin (Some (u_role a)) then (y, Inl (Failure NOT_FOUND))
          else (y, Inr a)
      | None \<Rightarrow> (y, Inl (Failure NOT_FOUND)))"

text \<open>The transaction of the request: an exception takes back what the request wrote for its own tenant.\<close>

definition request_scope :: "ctx \<Rightarrow> (platform \<Rightarrow> platform \<times> 'a reply) \<Rightarrow> platform \<Rightarrow> platform \<times> 'a reply" where
  "request_scope cx h x =
     (case h x of
        (y, Throw e) \<Rightarrow> (if multiTenantEnabled (cx_env cx) then set_own cx (own_db cx x) y else y, Throw e)
      | (y, r) \<Rightarrow> (y, r))"

definition answer :: "platform \<times> 'a reply attempt \<Rightarrow> platform \<times> 'a reply" where
  "answer yr =
     (case yr of
        (y, Inl (PlatformError code)) \<Rightarrow> (y, Err 400 code)
      | (y, Inl (Failure e)) \<Rightarrow> (y, Throw e)
      | (y, Inr r) \<Rightarrow> (y, r))"

definition platformRoute :: "ctx \<Rightarrow> (User \<Rightarrow> platform \<Rightarrow> platform \<times> 'a reply attempt) \<Rightarrow> platform \<Rightarrow> platform \<times> 'a reply" where
  "platformRoute cx handler =
     request_scope cx (\<lambda>x. case requirePlatformAdmin cx x of
        (y, Inl e) \<Rightarrow> answer (y, Inl e)
      | (y, Inr admin) \<Rightarrow> answer (handler admin y))"

definition tenantRoute ::
  "ctx \<Rightarrow> ident \<Rightarrow> (User \<Rightarrow> PlatformTenant \<Rightarrow> platform \<Rightarrow> platform \<times> 'a reply attempt) \<Rightarrow> platform \<Rightarrow> platform \<times> 'a reply" where
  "tenantRoute cx i handler =
     platformRoute cx (\<lambda>admin y. case getTenant (p_cloud y) i of
        None \<Rightarrow> (y, Inr (Err 404 ''not_found''))
      | Some t \<Rightarrow> handler admin t y)"

definition operator_action ::
  "ctx \<Rightarrow> User \<Rightarrow> string \<Rightarrow> PlatformTenant option \<Rightarrow> string option \<Rightarrow> string option \<Rightarrow> string \<Rightarrow> js \<Rightarrow> platform \<Rightarrow> platform" where
  "operator_action cx admin action t targetType targetId summary metadata x =
     x\<lparr>p_cloud := recordPlatformAction cx
         \<lparr>pa_actorId = u_id admin, pa_actorEmail = u_email admin, pa_action = action,
          pa_tenant = map_option (\<lambda>t. (pt_id t, pt_slug t)) t, pa_targetType = targetType, pa_targetId = targetId,
          pa_summary = summary, pa_metadata = metadata, pa_clientIp = clientIp (cx_headers cx)\<rparr> (p_cloud x)\<rparr>"

section \<open>The routes of one tenant\<close>

text \<open>A body that is JSON \<^verbatim>\<open>null\<close> throws when a member is read.\<close>

definition reading :: "js \<Rightarrow> (platform \<Rightarrow> platform \<times> 'a attempt) \<Rightarrow> platform \<Rightarrow> platform \<times> 'a attempt" where
  "reading body h x = (if body = JNull then (x, Inl (Failure ''TypeError'')) else h x)"

definition then_do ::
  "platform \<times> 'a attempt \<Rightarrow> ('a \<Rightarrow> platform \<Rightarrow> platform \<times> 'b attempt) \<Rightarrow> platform \<times> 'b attempt" where
  "then_do yr k = (case yr of (y, Inl e) \<Rightarrow> (y, Inl e) | (y, Inr a) \<Rightarrow> k a y)"

definition create_tenant_route ::
  "bool \<Rightarrow> argon \<Rightarrow> web \<Rightarrow> (string \<Rightarrow> string) \<Rightarrow> ctx \<Rightarrow> fresh \<Rightarrow> ident \<Rightarrow> js \<Rightarrow> platform \<Rightarrow> platform \<times> created_tenant reply" where
  "create_tenant_route up A w message cx f i body =
     platformRoute cx (\<lambda>admin. reading body (\<lambda>x.
       then_do (createTenant up A w message cx f i
          \<lparr>ci_name = raw_text_of body ''name'', ci_slug = trim (to_lower (raw_text_of body ''slug'')),
           ci_adminEmail = raw_text_of body ''adminEmail'',
           ci_adminName = (case body_field body ''adminName'' of JStr n \<Rightarrow> Some n | _ \<Rightarrow> None),
           ci_plan = None, ci_limits = None, ci_captivoOrgId = None\<rparr> x)
         (\<lambda>r y. (y, Inr (Ok 200 r)))))"

text \<open>\<^verbatim>\<open>v ?? null\<close>\<close>

definition or_json_null :: "js \<Rightarrow> js" where
  "or_json_null v = (if v = JUndef then JNull else v)"

definition trial_end :: "ctx \<Rightarrow> js \<Rightarrow> instant option option" where
  "trial_end cx body =
     (case body_field body ''trialEndsAt'' of JStr t \<Rightarrow> if t = [] then None else Some (cx_parse_date cx t) | _ \<Rightarrow> None)"

definition update_tenant_route :: "ctx \<Rightarrow> ident \<Rightarrow> js \<Rightarrow> platform \<Rightarrow> platform \<times> unit reply" where
  "update_tenant_route cx i body =
     tenantRoute cx i (\<lambda>admin t. reading body (\<lambda>x.
       (let plan = (case body_field body ''plan'' of JStr p \<Rightarrow> p | _ \<Rightarrow> pt_plan t); trial = trial_end cx body in
        then_do (on_cloud (updateTenant i
           \<lparr>ui_name = (case body_field body ''name'' of JStr n \<Rightarrow> n | _ \<Rightarrow> pt_name t), ui_plan = plan,
            ui_trialEndsAt = trial, ui_limits = body_field body ''limits'',
            ui_capabilities = body_field body ''capabilities'',
            ui_notes = (case body_field body ''notes'' of JStr n \<Rightarrow> Some n | _ \<Rightarrow> pt_notes t)\<rparr>) x)
          (\<lambda>_ y. (operator_action cx admin ''platform.tenant.update'' (Some t) None None
                    (''Updated tenant '' @ pt_slug t @ '' (plan '' @ plan @ '')'')
                    (JObj [(''plan'', or_json_null (body_field body ''plan'')),
                           (''limits'', or_json_null (body_field body ''limits'')),
                           (''capabilities'', or_json_null (body_field body ''capabilities'')),
                           (''trialEndsAt'', (case trial of Some (Some d) \<Rightarrow> JStr (toISOString d) | _ \<Rightarrow> JNull))]) y,
                  Inr (Ok 200 ()))))))"

definition delete_tenant_route :: "ctx \<Rightarrow> ident \<Rightarrow> js \<Rightarrow> platform \<Rightarrow> platform \<times> unit reply" where
  "delete_tenant_route cx i body =
     tenantRoute cx i (\<lambda>admin t. reading body (\<lambda>x.
       if body_field body ''confirmSlug'' \<noteq> JStr (pt_slug t) then (x, Inr (Err 400 ''confirm_mismatch''))
       else then_do (on_cloud (platform_delete_tenant (cx_now cx) i)
              (operator_action cx admin ''platform.tenant.delete'' (Some t) None None
                 (''Deleted tenant '' @ pt_slug t @ '' (purge in 30 days)'') JUndef x))
            (\<lambda>_ y. (y, Inr (Ok 200 ())))))"

definition restore_tenant_route :: "ctx \<Rightarrow> ident \<Rightarrow> platform \<Rightarrow> platform \<times> unit reply" where
  "restore_tenant_route cx i =
     tenantRoute cx i (\<lambda>admin t x.
       if pt_deletedAt t = None then (x, Inr (Err 409 ''not_deleted''))
       else then_do (on_cloud (platform_restore_tenant i) x)
            (\<lambda>_ y. (operator_action cx admin ''platform.tenant.restore'' (Some t) None None
                      (''Restored tenant '' @ pt_slug t) JUndef y, Inr (Ok 200 ()))))"

definition purge_tenant_route :: "ctx \<Rightarrow> ident \<Rightarrow> js \<Rightarrow> platform \<Rightarrow> platform \<times> unit reply" where
  "purge_tenant_route cx i body =
     tenantRoute cx i (\<lambda>admin t x.
       if pt_deletedAt t = None then (x, Inr (Err 409 ''not_deleted''))
       else reading body (\<lambda>x.
         if body_field body ''confirmSlug'' \<noteq> JStr (pt_slug t) then (x, Inr (Err 400 ''confirm_mismatch''))
         else then_do (on_cloud (platform_purge_tenant i)
                (operator_action cx admin ''platform.tenant.purge'' None (Some ''tenant'') (Some i)
                   (''Purged tenant '' @ pt_slug t @ '' permanently'')
                   (JObj [(''slug'', JStr (pt_slug t)), (''name'', JStr (pt_name t))]) x))
              (\<lambda>_ y. (y, Inr (Ok 200 ())))) x)"

text \<open>
  The reason is optional: the metadata then has a member that is \<^verbatim>\<open>undefined\<close>. Ending the sessions of a suspended
  tenant may fail without failing the request.
\<close>

definition end_sessions_if_suspended :: "ctx \<Rightarrow> ident \<Rightarrow> string \<Rightarrow> platform \<Rightarrow> platform \<times> nat attempt" where
  "end_sessions_if_suspended cx i status x =
     (if status = ''SUSPENDED''
      then (case on_cloud (forceLogoutTenant (cx_env cx) i) x of (y, Inl _) \<Rightarrow> (y, Inr 0) | (y, Inr n) \<Rightarrow> (y, Inr n))
      else (x, Inr 0))"

definition apply_status ::
  "ctx \<Rightarrow> ident \<Rightarrow> js \<Rightarrow> User \<Rightarrow> PlatformTenant \<Rightarrow> string \<Rightarrow> platform \<Rightarrow> platform \<times> unit reply attempt" where
  "apply_status cx i body admin t status x =
     then_do (on_cloud (platform_set_tenant_status i status) x) (\<lambda>_ y.
       then_do (end_sessions_if_suspended cx i status y) (\<lambda>n z.
         (operator_action cx admin
            (if status = ''SUSPENDED'' then ''platform.tenant.suspend'' else ''platform.tenant.activate'') (Some t) None None
            ((if status = ''SUSPENDED'' then ''Suspended'' else ''Activated'') @ '' tenant '' @ pt_slug t @
             (if n > 0 then '' ('' @ dec n @ '' sessions ended)'' else []))
            (JObj [(''reason'', (case body_field body ''reason'' of JStr r \<Rightarrow> JStr r | _ \<Rightarrow> JUndef))]) z,
          Inr (Ok 200 ()))))"

definition tenant_status_route :: "ctx \<Rightarrow> ident \<Rightarrow> js \<Rightarrow> platform \<Rightarrow> platform \<times> unit reply" where
  "tenant_status_route cx i body =
     tenantRoute cx i (\<lambda>admin t. reading body (\<lambda>x.
       (let status = raw_text_of body ''status'' in
        if status \<noteq> ''SUSPENDED'' \<and> status \<noteq> ''ACTIVE'' then (x, Inr (Err 400 ''invalid_status''))
        else if pt_deletedAt t \<noteq> None then (x, Inr (Err 409 ''tenant_deleted''))
        else apply_status cx i body admin t status x)))"

definition tenant_logout_route :: "ctx \<Rightarrow> ident \<Rightarrow> platform \<Rightarrow> platform \<times> nat reply" where
  "tenant_logout_route cx i =
     tenantRoute cx i (\<lambda>admin t x.
       then_do (on_cloud (forceLogoutTenant (cx_env cx) i) x) (\<lambda>n y.
         (operator_action cx admin ''platform.tenant.force_logout'' (Some t) None None
            (''Ended all '' @ dec n @ '' sessions in '' @ pt_slug t) (JObj [(''sessions'', JNum (NInt (int n)))]) y,
          Inr (Ok 200 n))))"

text \<open>The text of a template literal for a member that may be anything but a string is the parameter \<open>shown\<close>.\<close>

definition template_text :: "(js \<Rightarrow> string) \<Rightarrow> js \<Rightarrow> string" where
  "template_text shown v = (case v of JStr t \<Rightarrow> t | JUndef \<Rightarrow> ''undefined'' | JNull \<Rightarrow> ''null'' | _ \<Rightarrow> shown v)"

definition invite_tenant_admin_route ::
  "bool \<Rightarrow> argon \<Rightarrow> web \<Rightarrow> (SmtpConfigRow \<Rightarrow> string \<Rightarrow> bool) \<Rightarrow> (js \<Rightarrow> string) \<Rightarrow> ctx \<Rightarrow> fresh \<Rightarrow> ident \<Rightarrow> js \<Rightarrow> platform \<Rightarrow>
   platform \<times> (string \<times> bool) reply" where
  "invite_tenant_admin_route up A w smtp shown cx f i body =
     tenantRoute cx i (\<lambda>admin t x.
       if pt_deletedAt t \<noteq> None then (x, Inr (Err 409 ''tenant_deleted''))
       else reading body (\<lambda>x.
         then_do (inviteTenantAdmin up A w smtp cx f t (raw_text_of body ''email'')
             (case body_field body ''name'' of JStr n \<Rightarrow> Some n | _ \<Rightarrow> None) x) (\<lambda>r y.
           (operator_action cx admin ''platform.tenant.invite_admin'' (Some t) None None
              (''Invited admin '' @ template_text shown (body_field body ''email'') @ '' into '' @ pt_slug t @
               (if snd r then '' (emailed)'' else '' (link only)''))
              (JObj [(''email'', body_field body ''email''), (''emailed'', JBool (snd r))]) y,
            Inr (Ok 200 r)))) x)"

text \<open>\<open>exported\<close> is the document, which only reads the tenant's rows.\<close>

definition export_tenant_route :: "(db \<Rightarrow> js) \<Rightarrow> ctx \<Rightarrow> ident \<Rightarrow> platform \<Rightarrow> platform \<times> js reply" where
  "export_tenant_route exported cx i =
     tenantRoute cx i (\<lambda>admin t x.
       (operator_action cx admin ''platform.tenant.export'' (Some t) None None (''Exported tenant '' @ pt_slug t) JUndef x,
        Inr (Ok 200 (exported (data (p_cloud x) (scope_id (cx_env cx) i))))))"

section \<open>Operators\<close>

definition invitePlatformAdmin ::
  "argon \<Rightarrow> web \<Rightarrow> ctx \<Rightarrow> fresh \<Rightarrow> string \<Rightarrow> string option \<Rightarrow> db \<Rightarrow> db \<times> string attempt" where
  "invitePlatformAdmin A w cx f email0 name s =
     (let email = to_lower (trim email0) in
      if \<not> email_shaped email then (s, Inl (PlatformError ''invalid_email''))
      else if user_by_email s email \<noteq> None then (s, Inl (PlatformError ''email_registered''))
      else (createInvite A (cx_env cx) f (cx_now cx)
              \<lparr>ii_email = email, ii_name = (case trimmed name of Some n \<Rightarrow> n | None \<Rightarrow> email), ii_role = PLATFORM,
               ii_createdById = None, ii_phone = None, ii_company = None\<rparr> s,
            Inr (invite_url w (cx_env cx) ''platform'' (new_token f))))"

definition removePlatformAdmin :: "ident \<Rightarrow> ident \<Rightarrow> db \<Rightarrow> db \<times> unit attempt" where
  "removePlatformAdmin i actorId s =
     (if i = actorId then (s, Inl (PlatformError ''cannot_remove_self''))
      else if count_rows (\<lambda>u. u_role u = PLATFORM \<and> u_status u = UserStatus.ACTIVE) (users s) \<le> 1 then
        (s, Inl (PlatformError ''last_admin''))
      else (case user_by_id s i of
              None \<Rightarrow> (s, Inl (PlatformError ''not_found''))
            | Some u \<Rightarrow>
                if u_role u \<noteq> PLATFORM then (s, Inl (PlatformError ''not_found''))
                else (delete_user_row i s, Inr ())))"

definition endPlatformAdminSessions :: "ident \<Rightarrow> db \<Rightarrow> db \<times> nat" where
  "endPlatformAdminSessions i s =
     (delete_session_rows (\<lambda>x. s_userId x = i) s, count_rows (\<lambda>x. s_userId x = i) (sessions s))"

definition invite_operator_route ::
  "argon \<Rightarrow> web \<Rightarrow> (js \<Rightarrow> string) \<Rightarrow> ctx \<Rightarrow> fresh \<Rightarrow> js \<Rightarrow> platform \<Rightarrow> platform \<times> string reply" where
  "invite_operator_route A w shown cx f body =
     platformRoute cx (\<lambda>admin. reading body (\<lambda>x.
       then_do (let (s, r) = invitePlatformAdmin A w cx f (raw_text_of body ''email'')
                     (case body_field body ''name'' of JStr n \<Rightarrow> Some n | _ \<Rightarrow> None) (own_db cx x)
                in (set_own cx s x, r))
         (\<lambda>url y. (operator_action cx admin ''platform.admin.invite'' None (Some ''user'') None
                     (''Invited platform operator '' @ template_text shown (body_field body ''email''))
                     (JObj [(''email'', body_field body ''email'')]) y,
                   Inr (Ok 200 url)))))"

text \<open>This route answers the errors itself: 404 for an unknown operator, 409 otherwise.\<close>

definition remove_operator_route :: "ctx \<Rightarrow> ident \<Rightarrow> platform \<Rightarrow> platform \<times> unit reply" where
  "remove_operator_route cx i =
     platformRoute cx (\<lambda>admin x.
       (let target = user_by_id (own_db cx x) i in
        case removePlatformAdmin i (u_id admin) (own_db cx x) of
          (s, Inl (PlatformError code)) \<Rightarrow> (set_own cx s x, Inr (Err (if code = ''not_found'' then 404 else 409) code))
        | (s, Inl (Failure e)) \<Rightarrow> (set_own cx s x, Inl (Failure e))
        | (s, Inr _) \<Rightarrow>
            (operator_action cx admin ''platform.admin.remove'' None (Some ''user'') (Some i)
               (''Removed platform operator '' @ (case target of Some u \<Rightarrow> u_email u | None \<Rightarrow> i)) JUndef (set_own cx s x),
             Inr (Ok 200 ()))))"

definition logout_operator_route :: "ctx \<Rightarrow> ident \<Rightarrow> platform \<Rightarrow> platform \<times> nat reply" where
  "logout_operator_route cx i =
     platformRoute cx (\<lambda>admin x.
       (let (s, n) = endPlatformAdminSessions i (own_db cx x) in
        (operator_action cx admin ''platform.admin.force_logout'' None (Some ''user'') (Some i)
           (''Ended '' @ dec n @ '' platform operator session(s)'') (JObj [(''sessions'', JNum (NInt (int n)))]) (set_own cx s x),
         Inr (Ok 200 n))))"

definition save_config_route :: "ctx \<Rightarrow> js \<Rightarrow> platform \<Rightarrow> platform \<times> unit reply" where
  "save_config_route cx body =
     platformRoute cx (\<lambda>admin. reading body (\<lambda>x.
       (let until = (case body_field body ''announcementUntil'' of
                       JStr t \<Rightarrow> if t = [] then None else Some (cx_parse_date cx t) | _ \<Rightarrow> None);
            opsEmail = text_of body ''opsEmail'';
            fallback = (body_field body ''smtpFallback'' = JBool True);
            signup = (body_field body ''signupEnabled'' = JBool True) in
        if until = Some None then (x, Inr (Err 400 ''invalid_until''))
        else if opsEmail \<noteq> [] \<and> \<not> email_shaped opsEmail then (x, Inr (Err 400 ''invalid_email''))
        else
          (operator_action cx admin ''platform.config.update'' None (Some ''platform'') None ''Updated platform settings''
             (JObj [(''announcement'', JBool (text_of body ''announcementText'' \<noteq> [])),
                    (''smtpFallback'', JBool fallback), (''signupEnabled'', JBool signup)])
             (savePlatformConfig
                \<lparr>pc_announcementText =
                   (case body_field body ''announcementText'' of JStr t \<Rightarrow> Some (take 300 t) | _ \<Rightarrow> None),
                 pc_announcementLevel = announcement_level (Some (raw_text_of body ''announcementLevel'')),
                 pc_announcementUntil = (case until of Some (Some d) \<Rightarrow> Some d | _ \<Rightarrow> None),
                 pc_newTenantDefaults = parseNewTenantDefaults (cx_intl cx) (body_field body ''defaults''),
                 pc_opsEmail = or_null (Some opsEmail), pc_smtpFallback = fallback, pc_signupEnabled = signup\<rparr> x),
           Inr (Ok 200 ())))))"

end
