(* ===== verification/Support.thy ===== *)
theory Support
  imports Platform
begin

text \<open>
  Support access (\<^verbatim>\<open>lib/support/session.ts\<close>, \<^verbatim>\<open>app/api/platform/tenants/[id]/support\<close>, \<^verbatim>\<open>app/api/support\<close>): an
  operator leaves a one-time token among the rows of a tenant, the tenant's own host turns it into a session of
  the tenant's support user, and either side of it is entered in the tenant's log.
\<close>

definition SUPPORT_COOKIE :: string where "SUPPORT_COOKIE = ''ca_support''"

definition SUPPORT_SESSION_MS :: int where "SUPPORT_SESSION_MS = 60 * 60000"

definition HANDOFF_TTL_MS :: int where "HANDOFF_TTL_MS = 2 * 60000"

definition SUPPORT_USER_EMAIL :: string where "SUPPORT_USER_EMAIL = ''platform-support@captivo.local''"

definition SUPPORT_USER_NAME :: string where "SUPPORT_USER_NAME = ''Captivo Support''"

section \<open>The operator's side\<close>

text \<open>\<open>f\<close> carries the id of the row and the token; \<open>encode\<close> is \<^verbatim>\<open>encodeURIComponent\<close>.\<close>

definition store_handoff :: "ctx \<Rightarrow> fresh \<Rightarrow> User \<Rightarrow> string \<Rightarrow> db \<Rightarrow> db \<times> unit attempt" where
  "store_handoff cx f admin reason s =
     (if list_ex (\<lambda>h. sh_tokenHash h = cx_H cx (new_token f)) (supportHandoffs s) then (s, Inl (Failure ''P2002''))
      else (s\<lparr>supportHandoffs := insert_row
               \<lparr>sh_id = new_id f, sh_tokenHash = cx_H cx (new_token f), sh_actorId = u_id admin,
                sh_actorEmail = u_email admin, sh_reason = reason, sh_expiresAt = cx_now cx + HANDOFF_TTL_MS,
                sh_usedAt = None, sh_sessionId = None, sh_createdAt = cx_now cx\<rparr> (supportHandoffs s)\<rparr>, Inr ()))"

definition support_access_route ::
  "web \<Rightarrow> (string \<Rightarrow> string) \<Rightarrow> ctx \<Rightarrow> fresh \<Rightarrow> ident \<Rightarrow> js \<Rightarrow> platform \<Rightarrow> platform \<times> string reply" where
  "support_access_route w encode cx f i body =
     tenantRoute cx i (\<lambda>admin t x.
       if pt_deletedAt t \<noteq> None \<or> pt_status t \<noteq> ''ACTIVE'' then (x, Inr (Err 409 ''tenant_inactive''))
       else reading body (\<lambda>x.
         (let reason = take 300 (text_of body ''reason'') in
          if length reason < 3 then (x, Inr (Err 400 ''reason_required''))
          else (case or_null (consoleDomain (url_hostname_of w) (cx_env cx)) of
                  None \<Rightarrow> (x, Inr (Err 500 ''no_console_domain''))
                | Some domain \<Rightarrow>
                    then_do (on_cloud (in_scope (cx_env cx) i (store_handoff cx f admin reason)) x) (\<lambda>_ y.
                      (operator_action cx admin ''platform.support.access'' (Some t) None None
                         (''Support access to '' @ pt_slug t @ '': '' @ reason) (JObj [(''reason'', JStr reason)]) y,
                       Inr (Ok 200 (''https://'' @ pt_slug t @ ''.'' @ domain @ ''/api/support/handoff?t='' @
                              encode (new_token f)))))))) x)"

section \<open>The tenant's side\<close>

definition support_user :: "ident \<Rightarrow> instant \<Rightarrow> User" where
  "support_user i now =
     \<lparr>u_id = i, u_email = SUPPORT_USER_EMAIL, u_name = SUPPORT_USER_NAME, u_phone = None, u_company = None,
      u_timezone = None, u_role = ADMIN, u_status = UserStatus.ACTIVE, u_createdAt = now, u_directoryManaged = True,
      u_directoryLastVerifiedAt = None, u_centerRole = None\<rparr>"

definition ensureSupportUser :: "ident \<Rightarrow> instant \<Rightarrow> db \<Rightarrow> db \<times> (string + ident)" where
  "ensureSupportUser i now s =
     (case user_by_email s SUPPORT_USER_EMAIL of
        Some u \<Rightarrow> if u_status u \<noteq> UserStatus.ACTIVE then (s, Inl ''support_user_disabled'') else (s, Inr (u_id u))
      | None \<Rightarrow>
          (case insert_user (support_user i now) s of
             None \<Rightarrow> (s, Inl ''P2002'')
           | Some s1 \<Rightarrow> (s1, Inr i)))"

definition support_event :: "ident \<Rightarrow> string option \<Rightarrow> string \<Rightarrow> string \<Rightarrow> js \<Rightarrow> AdminAction" where
  "support_event userId email action summary metadata =
     \<lparr>act_actorId = userId, act_actorEmail = email, act_action = action, act_targetType = Some ''tenant'',
      act_targetId = None, act_summary = summary, act_metadata = metadata, act_clientIp = None\<rparr>"

definition handoff_by_token :: "ctx \<Rightarrow> string \<Rightarrow> db \<Rightarrow> SupportHandoff option" where
  "handoff_by_token cx token s = find_first (\<lambda>h. sh_tokenHash h = cx_H cx token) (supportHandoffs s)"

definition support_session :: "ctx \<Rightarrow> drawn \<Rightarrow> ident \<Rightarrow> Session" where
  "support_session cx d userId =
     \<lparr>s_id = dr_session d, s_userId = userId, s_tokenHash = cx_H cx (dr_token d),
      s_expiresAt = cx_now cx + SUPPORT_SESSION_MS, s_createdAt = cx_now cx, s_lastSeenAt = cx_now cx,
      s_userAgent = cx_headers cx ''user-agent'', s_ip = clientIp (cx_headers cx), s_amr = [], s_mobile = False,
      s_mobileChallenge = None\<rparr>"

definition consume_handoff :: "ident \<Rightarrow> ident \<Rightarrow> instant \<Rightarrow> db \<Rightarrow> db \<times> nat" where
  "consume_handoff i sessionId now s =
     (let p = (\<lambda>h. sh_id h = i \<and> sh_usedAt h = None) in
      (s\<lparr>supportHandoffs := update_many p (\<lambda>h. h\<lparr>sh_usedAt := Some now, sh_sessionId := Some sessionId\<rparr>) (supportHandoffs s)\<rparr>,
       count_rows p (supportHandoffs s)))"

text \<open>\<open>Inl\<close> is the reason of a refusal, \<open>Inr\<close> the value of the cookie.\<close>

definition startSupportSession :: "ctx \<Rightarrow> drawn \<Rightarrow> string \<Rightarrow> db \<Rightarrow> db \<times> (string + string)" where
  "startSupportSession cx d token s =
     (case handoff_by_token cx token s of
        None \<Rightarrow> (s, Inl ''invalid'')
      | Some h \<Rightarrow>
          if sh_usedAt h \<noteq> None then (s, Inl ''used'')
          else if sh_expiresAt h < cx_now cx then (s, Inl ''expired'')
          else (case ensureSupportUser (dr_user d) (cx_now cx) s of
                  (s1, Inl _) \<Rightarrow> (s1, Inl ''support_user_disabled'')
                | (s1, Inr userId) \<Rightarrow>
                    (let row = support_session cx d userId;
                         s2 = s1\<lparr>sessions := insert_row row (sessions s1)\<rparr>;
                         (s3, n) = consume_handoff (sh_id h) (s_id row) (cx_now cx) s2 in
                     if n = 0 then (delete_session_rows (\<lambda>x. s_id x = s_id row) s3, Inl ''used'')
                     else
                       (recordAdminAction (cx_H cx) (cx_auditId cx) (cx_now cx)
                          (support_event userId (Some (sh_actorEmail h)) ''platform.support.session_start''
                             (''[Captivo platform] Support session started by '' @ sh_actorEmail h @ '': '' @ sh_reason h)
                             (JObj [(''platformActor'', JStr (sh_actorEmail h)), (''reason'', JStr (sh_reason h)),
                                    (''expiresAt'', JStr (toISOString (s_expiresAt row)))])) s3,
                        Inr (dr_token d)))))"

definition support_cookie :: "ctx \<Rightarrow> string \<Rightarrow> cookie" where
  "support_cookie cx token =
     \<lparr>ck_value = token, ck_maxAge = SUPPORT_SESSION_MS div 1000, ck_secure = cookieSecure (cx_headers cx), ck_domain = None\<rparr>"

definition support_handoff :: "ctx \<Rightarrow> drawn \<Rightarrow> string option \<Rightarrow> auth \<Rightarrow> auth \<times> redirect reply" where
  "support_handoff cx d t a =
     (if \<not> multiTenantEnabled (cx_env cx) then (a, Err 404 ''not_found'')
      else (case or_null t of
              None \<Rightarrow> (a, Ok 307 (To_login (Some ''support'')))
            | Some token \<Rightarrow>
                (case startSupportSession cx d token (au_db a) of
                   (s, Inl _) \<Rightarrow> (a\<lparr>au_db := s\<rparr>, Ok 307 (To_login (Some ''support'')))
                 | (s, Inr value) \<Rightarrow>
                     (a\<lparr>au_db := s, au_jar := (au_jar a)(SUPPORT_COOKIE \<mapsto> support_cookie cx value)\<rparr>,
                      Ok 307 (Back_to ''/'')))))"

record SupportSessionInfo =
  si_sessionId :: ident
  si_expiresAt :: instant
  si_actorEmail :: string
  si_reason :: string

definition handoff_of_session :: "ident \<Rightarrow> db \<Rightarrow> SupportHandoff option" where
  "handoff_of_session i s = find_first (\<lambda>h. sh_sessionId h = Some i) (supportHandoffs s)"

definition supportSessionInfo :: "ctx \<Rightarrow> auth \<Rightarrow> SupportSessionInfo option" where
  "supportSessionInfo cx a =
     (case cookie_value SUPPORT_COOKIE a of
        None \<Rightarrow> None
      | Some token \<Rightarrow>
          (case session_by_token (cx_H cx) token (au_db a) of
             None \<Rightarrow> None
           | Some x \<Rightarrow>
               if s_expiresAt x < cx_now cx then None
               else (let h = handoff_of_session (s_id x) (au_db a) in
                     Some \<lparr>si_sessionId = s_id x, si_expiresAt = s_expiresAt x,
                           si_actorEmail = (case h of Some r \<Rightarrow> sh_actorEmail r | None \<Rightarrow> ''platform''),
                           si_reason = (case h of Some r \<Rightarrow> sh_reason r | None \<Rightarrow> [])\<rparr>)))"

definition endSupportSession :: "ctx \<Rightarrow> auth \<Rightarrow> auth \<times> bool reply" where
  "endSupportSession cx a0 =
     (let a = drop_cookie SUPPORT_COOKIE a0; s = au_db a in
      case cookie_value SUPPORT_COOKIE a0 of
        None \<Rightarrow> (a, Ok 200 False)
      | Some token \<Rightarrow>
          (case session_by_token (cx_H cx) token s of
             None \<Rightarrow> (a, Ok 200 False)
           | Some x \<Rightarrow>
               (let actor = map_option sh_actorEmail (handoff_of_session (s_id x) s) in
                (a\<lparr>au_db := recordAdminAction (cx_H cx) (cx_auditId cx) (cx_now cx)
                     (support_event (s_userId x) actor ''platform.support.session_end''
                        (''[Captivo platform] Support session ended ('' @
                         (case actor of Some e \<Rightarrow> e | None \<Rightarrow> ''platform'') @ '')'')
                        (JObj [(''platformActor'', (case actor of Some e \<Rightarrow> JStr e | None \<Rightarrow> JUndef))]))
                     (delete_session_rows (\<lambda>y. s_id y = s_id x) s)\<rparr>, Ok 200 True))))"

text \<open>\<^verbatim>\<open>POST /api/support/end\<close>: the answer says whether a session was ended.\<close>

definition support_end :: "ctx \<Rightarrow> auth \<Rightarrow> auth \<times> bool reply" where
  "support_end cx a =
     (case endSupportSession cx a of
        (b, Ok n ended) \<Rightarrow> (b, Ok 200 ended)
      | (b, r) \<Rightarrow> (b, r))"

end
