(* ===== verification/Provisioning.thy ===== *)
theory Provisioning
  imports Support
begin

text \<open>
  The two ways a workspace comes into being without an operator: the confirmed sign-up form (\<^verbatim>\<open>lib/signup/flow.ts\<close>,
  \<^verbatim>\<open>lib/signup/token.ts\<close>, \<^verbatim>\<open>app/api/signup\<close>) and the entitled organisation arriving from the identity provider
  (\<^verbatim>\<open>lib/signup/entitled-flow.ts\<close>, \<^verbatim>\<open>lib/auth/captivo-id-client.ts\<close>, \<^verbatim>\<open>app/api/workspace/create\<close>).
  The answers of the identity service are parameters.
\<close>

section \<open>Calls to the identity service\<close>

definition centre_service :: "env \<Rightarrow> (string \<times> string) option" where
  "centre_service env =
     (case (or_null (map_option (\<lambda>t. strip_slashes (trim t)) (env ''CAPTIVO_ID_ISSUER'')),
            or_null (map_option trim (env ''CAPTIVO_ID_SERVICE_SECRET''))) of
        (Some issuer, Some key) \<Rightarrow> Some (issuer, key)
      | _ \<Rightarrow> None)"

definition isCentreConfigured :: "env \<Rightarrow> bool" where
  "isCentreConfigured env \<longleftrightarrow> centre_service env \<noteq> None"

definition captivoRegisterUrl :: "env \<Rightarrow> string option" where
  "captivoRegisterUrl env =
     map_option (\<lambda>svc. fst svc @ ''/register?product=ACCESS&lang=en'') (centre_service env)"

text \<open>
  \<open>ce_get secret url\<close> and \<open>ce_post secret url body\<close>: \<open>None\<close> is a call that failed, otherwise the status and, for a read,
  the parsed body (\<open>None\<close>: no JSON). \<open>ce_encode\<close> is \<^verbatim>\<open>encodeURIComponent\<close>.
\<close>

record centre =
  ce_get :: "string \<Rightarrow> string \<Rightarrow> (nat \<times> js option) option"
  ce_post :: "string \<Rightarrow> string \<Rightarrow> js \<Rightarrow> nat option"
  ce_encode :: "string \<Rightarrow> string"

record AccessEntitlement =
  en_plan :: "string option"
  en_limits :: js
  en_expiresAt :: "string option"

datatype EntitlementLookup = Ent_ok AccessEntitlement | Ent_none | Ent_unavailable string

text \<open>The first row of the product; \<open>None\<close> when a row before it is \<^verbatim>\<open>null\<close>, whose member cannot be read.\<close>

fun access_row :: "js list \<Rightarrow> js option option" where
  "access_row [] = Some None"
| "access_row (e # es) =
     (if e = JNull \<or> e = JUndef then None
      else if body_field e ''product'' = JStr ''ACCESS'' then Some (Some e) else access_row es)"

definition entitlement_of_row :: "js \<Rightarrow> AccessEntitlement" where
  "entitlement_of_row row =
     \<lparr>en_plan = (case body_field row ''plan'' of JStr p \<Rightarrow> Some p | _ \<Rightarrow> None),
      en_limits = (case body_field row ''limits'' of JObj ob \<Rightarrow> JObj ob | JArr xs \<Rightarrow> JArr xs | _ \<Rightarrow> JNull),
      en_expiresAt = (case body_field row ''expiresAt'' of JStr t \<Rightarrow> Some t | _ \<Rightarrow> None)\<rparr>"

definition fetchAccessEntitlement :: "centre \<Rightarrow> env \<Rightarrow> string \<Rightarrow> EntitlementLookup" where
  "fetchAccessEntitlement Z env org =
     (case centre_service env of
        None \<Rightarrow> Ent_unavailable ''not_configured''
      | Some (issuer, key) \<Rightarrow>
          (case ce_get Z key (issuer @ ''/api/entitlements?org='' @ ce_encode Z org) of
             None \<Rightarrow> Ent_unavailable ''unreachable''
           | Some (status, body) \<Rightarrow>
               if \<not> http_ok status then Ent_unavailable ''bad_response''
               else (case body of
                  None \<Rightarrow> Ent_unavailable ''unreachable''
                | Some b \<Rightarrow>
                    if b = JNull then Ent_unavailable ''unreachable''
                    else (case body_field b ''entitlements'' of
                       JUndef \<Rightarrow> Ent_none
                     | JNull \<Rightarrow> Ent_none
                     | JArr rows \<Rightarrow>
                         (case access_row rows of
                            None \<Rightarrow> Ent_unavailable ''unreachable''
                          | Some None \<Rightarrow> Ent_none
                          | Some (Some row) \<Rightarrow> Ent_ok (entitlement_of_row row))
                     | _ \<Rightarrow> Ent_unavailable ''unreachable''))))"

definition reportTenantLink :: "centre \<Rightarrow> env \<Rightarrow> string \<Rightarrow> ident \<Rightarrow> string \<Rightarrow> bool" where
  "reportTenantLink Z env org tenantId origin =
     (case centre_service env of
        None \<Rightarrow> False
      | Some (issuer, key) \<Rightarrow>
          (case ce_post Z key (issuer @ ''/api/tenant-link'')
                  (JObj [(''organizationId'', JStr org), (''tenantId'', JStr tenantId), (''consoleOrigin'', JStr origin),
                         (''product'', JStr ''ACCESS'')]) of
             None \<Rightarrow> False
           | Some status \<Rightarrow> http_ok status))"

text \<open>The registration that is sent after a sign-up: its address and body, if one is sent at all.\<close>

definition registerWithCaptivoId :: "env \<Rightarrow> string \<Rightarrow> string \<Rightarrow> string \<Rightarrow> string option \<Rightarrow> (string \<times> js) option" where
  "registerWithCaptivoId env email organizationName name ip =
     (if isSelfHosted env then None
      else (case (or_null (map_option trim (env ''CAPTIVO_ID_ISSUER'')),
                  or_null (map_option trim (env ''CAPTIVO_ID_SERVICE_SECRET''))) of
              (Some issuer, Some _) \<Rightarrow>
                Some (issuer @ ''/api/register'',
                  JObj ([(''email'', JStr email), (''organizationName'', JStr organizationName), (''product'', JStr ''ACCESS''),
                         (''name'', JStr name), (''emailVerified'', JBool True)] @
                        (case or_null ip of Some a \<Rightarrow> [(''clientIp'', JStr a)] | None \<Rightarrow> [])))
            | _ \<Rightarrow> None))"

section \<open>The sign-up form\<close>

record SignupClaims =
  sg_name :: string
  sg_slug :: string
  sg_email :: string
  sg_adminName :: string

definition SIGNUP_TTL_SECONDS :: int where "SIGNUP_TTL_SECONDS = 30 * 60"

definition signSignup :: "jwt \<Rightarrow> env \<Rightarrow> instant \<Rightarrow> SignupClaims \<Rightarrow> string option" where
  "signSignup J env now c =
     map_option (\<lambda>key. jwt_sign J key
         (JObj [(''name'', JStr (sg_name c)), (''slug'', JStr (sg_slug c)), (''email'', JStr (sg_email c)),
                (''adminName'', JStr (sg_adminName c)), (''purpose'', JStr ''signup'')])
         (now div 1000 + SIGNUP_TTL_SECONDS)) (session_secret env)"

definition verifySignup :: "jwt \<Rightarrow> env \<Rightarrow> instant \<Rightarrow> string \<Rightarrow> SignupClaims option" where
  "verifySignup J env now token =
     (case session_secret env of
        None \<Rightarrow> None
      | Some key \<Rightarrow>
          (case jwt_verify J key token (now div 1000) of
             None \<Rightarrow> None
           | Some p \<Rightarrow>
               if body_field p ''purpose'' \<noteq> JStr ''signup'' then None
               else (case (body_field p ''name'', body_field p ''slug'', body_field p ''email'') of
                       (JStr n, JStr sl, JStr e) \<Rightarrow>
                         Some \<lparr>sg_name = n, sg_slug = sl, sg_email = e, sg_adminName = raw_text_of p ''adminName''\<rparr>
                     | _ \<Rightarrow> None)))"

definition signupEnabled :: "bool \<Rightarrow> ctx \<Rightarrow> platform \<Rightarrow> platform \<times> bool" where
  "signupEnabled up cx x =
     (if \<not> multiTenantEnabled (cx_env cx) then (x, False)
      else (let (y, cfg) = getPlatformConfig up (cx_intl cx) (cx_now cx) x in (y, pc_signupEnabled cfg)))"

definition slugAvailable :: "string \<Rightarrow> cloud \<Rightarrow> bool" where
  "slugAvailable slug c \<longleftrightarrow>
     isValidTenantSlug slug \<and> \<not> isReservedSlug slug \<and> \<not> list_ex (\<lambda>t. t_slug t = slug) (platform_list_tenants c)"

text \<open>
  A refusal is a \<open>PlatformError\<close> here. The message goes out through the mail of the platform tenant; its text is
  represented by the link it carries.
\<close>

definition startSignup ::
  "jwt \<Rightarrow> web \<Rightarrow> (string \<Rightarrow> string) \<Rightarrow> (SmtpConfigRow \<Rightarrow> string \<Rightarrow> bool) \<Rightarrow> ctx \<Rightarrow> SignupClaims \<Rightarrow> platform \<Rightarrow>
   platform \<times> unit attempt" where
  "startSignup J w encode smtp cx input x =
     (let name = trim (sg_name input); slug = to_lower (trim (sg_slug input)); email = normalizeEmail (sg_email input);
          adminName = (case normalizeDisplayName (JStr (sg_adminName input)) of Some n \<Rightarrow> n | None \<Rightarrow> []) in
      if name = [] \<or> length name > 120 then (x, Inl (PlatformError ''invalid_name''))
      else if \<not> email_shaped email then (x, Inl (PlatformError ''invalid_email''))
      else if \<not> slugAvailable slug (p_cloud x) then (x, Inl (PlatformError ''slug_taken''))
      else (case or_null (consoleDomain (url_hostname_of w) (cx_env cx)) of
              None \<Rightarrow> (x, Inl (PlatformError ''unavailable''))
            | Some domain \<Rightarrow>
                (case signSignup J (cx_env cx) (cx_now cx)
                        \<lparr>sg_name = name, sg_slug = slug, sg_email = email, sg_adminName = adminName\<rparr> of
                   None \<Rightarrow> (x, Inl (Failure ''SESSION_SECRET is required''))
                 | Some token \<Rightarrow>
                     (let cfg = smtpConfig (data (p_cloud x) (scope_id (cx_env cx) PLATFORM_TENANT_ID));
                          (c, _) = in_scope (cx_env cx) PLATFORM_TENANT_ID (\<lambda>s.
                            (sendMail [email] (''https://platform.'' @ domain @ ''/api/signup/verify?t='' @ encode token)
                               (''Confirm your Captivo Access workspace: '' @ slug) s,
                             Inr () :: unit attempt)) (p_cloud x);
                          y = x\<lparr>p_cloud := c\<rparr>
                      in if mail_sent smtp cfg email then (y, Inr ()) else (y, Inl (PlatformError ''mail_failed''))))))"

definition signup_limits :: TenantLimits where
  "signup_limits = (\<lambda>k. case k of maxConnectors \<Rightarrow> Some 1 | maxSites \<Rightarrow> Some 5 | _ \<Rightarrow> None)"

definition completeSignup ::
  "bool \<Rightarrow> argon \<Rightarrow> web \<Rightarrow> (string \<Rightarrow> string) \<Rightarrow> jwt \<Rightarrow> ctx \<Rightarrow> fresh \<Rightarrow> ident \<Rightarrow> string \<Rightarrow> platform \<Rightarrow>
   platform \<times> (string \<times> (string \<times> js) option) attempt" where
  "completeSignup up A w message J cx f i token x =
     (case verifySignup J (cx_env cx) (cx_now cx) token of
        None \<Rightarrow> (x, Inl (PlatformError ''invalid_token''))
      | Some c \<Rightarrow>
          then_do (createTenant up A w message cx f i
             \<lparr>ci_name = sg_name c, ci_slug = sg_slug c, ci_adminEmail = sg_email c,
              ci_adminName = or_null (Some (sg_adminName c)), ci_plan = Some ''free'', ci_limits = Some signup_limits,
              ci_captivoOrgId = None\<rparr> x)
           (\<lambda>r y.
             (y\<lparr>p_cloud := recordPlatformAction (cx\<lparr>cx_tenant := scope_id (cx_env cx) PLATFORM_TENANT_ID\<rparr>)
                 \<lparr>pa_actorId = ''signup'', pa_actorEmail = sg_email c, pa_action = ''platform.tenant.signup'',
                  pa_tenant = Some (ct_id r, ct_slug r), pa_targetType = None, pa_targetId = None,
                  pa_summary = ''Self-service signup created free-tier tenant '' @ sg_slug c @ '' for '' @ sg_email c,
                  pa_metadata = JObj [(''plan'', JStr ''free'')], pa_clientIp = None\<rparr> (p_cloud y)\<rparr>,
              Inr (ct_inviteUrl r,
                   registerWithCaptivoId (cx_env cx) (sg_email c) (sg_name c)
                     (if sg_adminName c \<noteq> [] then sg_adminName c else sg_name c) (clientIp (cx_headers cx))))))"

text \<open>The routes run in the scope of their own tenant, which must be the platform; sign-ups are counted per address.\<close>

definition signup_start ::
  "bool \<Rightarrow> jwt \<Rightarrow> web \<Rightarrow> (string \<Rightarrow> string) \<Rightarrow> (SmtpConfigRow \<Rightarrow> string \<Rightarrow> bool) \<Rightarrow> ctx \<Rightarrow> js \<Rightarrow> limiter \<times> platform \<Rightarrow>
   (limiter \<times> platform) \<times> unit reply" where
  "signup_start up J w encode smtp cx body lx =
     (let (l, x) = lx in
      if cx_tenant cx \<noteq> PLATFORM_TENANT_ID then ((l, x), Err 404 ''not_found'')
      else (let (y, on) = signupEnabled up cx x in
        if \<not> on then ((l, y), Err 404 ''not_found'')
        else (let ip = (case clientIp (cx_headers cx) of Some a \<Rightarrow> a | None \<Rightarrow> ''unknown'');
                  (l1, ok) = checkRateLimit (ip @ '':signup'') 5 600000 (cx_now cx) l in
          if \<not> ok then ((l1, y), Err 429 ''rate_limited'')
          else if body = JNull then ((l1, y), Throw ''TypeError'')
          else (case startSignup J w encode smtp cx
                   \<lparr>sg_name = raw_text_of body ''name'', sg_slug = raw_text_of body ''slug'',
                    sg_email = raw_text_of body ''email'', sg_adminName = raw_text_of body ''adminName''\<rparr> y of
                  (z, Inl (PlatformError e)) \<Rightarrow> ((l1, z), Err (if e = ''mail_failed'' then 503 else 400) e)
                | (z, Inl (Failure e)) \<Rightarrow> ((l1, z), Throw e)
                | (z, Inr _) \<Rightarrow> ((l1, z), Ok 200 ())))))"

datatype signup_landing = To_signup_error string | To_invite string "(string \<times> js) option"

definition signup_verify ::
  "bool \<Rightarrow> argon \<Rightarrow> web \<Rightarrow> (string \<Rightarrow> string) \<Rightarrow> jwt \<Rightarrow> ctx \<Rightarrow> fresh \<Rightarrow> ident \<Rightarrow> string option \<Rightarrow> platform \<Rightarrow>
   platform \<times> signup_landing reply" where
  "signup_verify up A w message J cx f i t =
     request_scope cx (\<lambda>x.
       if cx_tenant cx \<noteq> PLATFORM_TENANT_ID then (x, Err 404 ''not_found'')
       else (let (y, on) = signupEnabled up cx x in
         if \<not> on then (y, Err 404 ''not_found'')
         else (case completeSignup up A w message J cx f i (opt_text t) y of
                 (z, Inl (PlatformError e)) \<Rightarrow> (z, Ok 307 (To_signup_error e))
               | (z, Inl (Failure e)) \<Rightarrow> (z, Throw e)
               | (z, Inr (url, call)) \<Rightarrow> (z, Ok 307 (To_invite url call)))))"

section \<open>The entitled organisation\<close>

record entitled_input =
  ei_organizationId :: string
  ei_organizationName :: string
  ei_slug :: string
  ei_adminEmail :: string
  ei_adminName :: "string option"

datatype provision_result = Provisioned string bool | Refused string "string option"

definition entitlement_lapsed :: "ctx \<Rightarrow> AccessEntitlement \<Rightarrow> bool" where
  "entitlement_lapsed cx e =
     (case en_expiresAt e of
        None \<Rightarrow> False
      | Some t \<Rightarrow> (case cx_parse_date cx t of None \<Rightarrow> True | Some d \<Rightarrow> d \<le> cx_now cx))"

definition provisionEntitledWorkspace ::
  "bool \<Rightarrow> argon \<Rightarrow> web \<Rightarrow> (string \<Rightarrow> string) \<Rightarrow> centre \<Rightarrow> ctx \<Rightarrow> fresh \<Rightarrow> ident \<Rightarrow> entitled_input \<Rightarrow> platform \<Rightarrow>
   platform \<times> provision_result attempt" where
  "provisionEntitledWorkspace up A w message Z cx f i input x =
     (case fetchAccessEntitlement Z (cx_env cx) (ei_organizationId input) of
        Ent_unavailable _ \<Rightarrow> (x, Inr (Refused ''centre_unavailable'' None))
      | Ent_none \<Rightarrow> (x, Inr (Refused ''not_entitled'' None))
      | Ent_ok ent \<Rightarrow>
          if entitlement_lapsed cx ent then (x, Inr (Refused ''entitlement_expired'' None))
          else (case or_null (tenantSlugByOrg (tenants (p_cloud x)) (ei_organizationId input)) of
             Some slug \<Rightarrow> (x, Inr (Refused ''already_provisioned'' (Some slug)))
           | None \<Rightarrow>
               (case or_null (consoleDomain (url_hostname_of w) (cx_env cx)) of
                  None \<Rightarrow> (x, Inr (Refused ''no_console_domain'' None))
                | Some domain \<Rightarrow>
                    (let origin = ''https://'' @ ei_slug input @ ''.'' @ domain;
                         limits = parseLimits (en_limits ent) in
                     if en_limits ent \<noteq> JNull \<and> limits_object limits = JObj [] then
                       (x, Inr (Refused ''invalid_limits'' None))
                     else
                       (case createTenant up A w message cx f i
                               \<lparr>ci_name = ei_organizationName input, ci_slug = ei_slug input,
                                ci_adminEmail = ei_adminEmail input, ci_adminName = ei_adminName input,
                                ci_plan = override (en_plan ent) (Some ''free''),
                                ci_limits = (if en_limits ent \<noteq> JNull then Some limits else None),
                                ci_captivoOrgId = Some (ei_organizationId input)\<rparr> x of
                          (y, Inl (PlatformError code)) \<Rightarrow>
                            if code = ''slug_taken'' then (y, Inr (Refused ''slug_taken'' None))
                            else if code = ''org_taken'' then (y, Inr (Refused ''already_provisioned'' None))
                            else (y, Inl (PlatformError code))
                        | (y, Inl (Failure e)) \<Rightarrow> (y, Inl (Failure e))
                        | (y, Inr r) \<Rightarrow>
                            (y, Inr (Provisioned (ct_inviteUrl r)
                               (reportTenantLink Z (cx_env cx) (ei_organizationId input) (ct_id r) origin))))))))"

definition provision_status :: "string \<Rightarrow> nat" where
  "provision_status e =
     (if e \<in> {''slug_taken'', ''already_provisioned''} then 409
      else if e \<in> {''not_entitled'', ''entitlement_expired''} then 403
      else if e = ''centre_unavailable'' then 503 else 400)"

text \<open>
  The server signs text members only. A thrown \<^verbatim>\<open>PlatformError\<close> is not caught by this route. The answer
  carries the invite link and whether the identity service took the address.
\<close>

definition workspace_create ::
  "bool \<Rightarrow> argon \<Rightarrow> web \<Rightarrow> (string \<Rightarrow> string) \<Rightarrow> claim_codec \<Rightarrow> centre \<Rightarrow> (js \<Rightarrow> string) \<Rightarrow> ctx \<Rightarrow> fresh \<Rightarrow> ident \<Rightarrow>
   (string \<Rightarrow> cookie option) \<Rightarrow> js \<Rightarrow> platform \<Rightarrow> platform \<times> (string \<times> bool) reply" where
  "workspace_create up A w message K Z shown cx f i jar body =
     request_scope cx (\<lambda>x.
       if cx_tenant cx \<noteq> PLATFORM_TENANT_ID then (x, Err 404 ''not_found'')
       else (case readWorkspaceClaim K (map_option ck_value (jar ''captivo_workspace''))
                    (opt_text (cx_env cx ''CAPTIVO_ID_CLIENT_SECRET'')) (cx_now cx) of
               None \<Rightarrow> (x, Err 401 ''unauthorized'')
             | Some claim \<Rightarrow>
                 (let v = body_field body ''slug'';
                      slug = to_lower (trim (if v = JUndef \<or> v = JNull then [] else template_text shown v)) in
                  if isReservedSlug slug then (x, Err 400 ''reserved_slug'')
                  else if \<not> isValidTenantSlug slug then (x, Err 400 ''invalid_slug'')
                  else (case provisionEntitledWorkspace up A w message Z cx f i
                           \<lparr>ei_organizationId = raw_text_of claim ''org'', ei_organizationName = raw_text_of claim ''orgName'',
                            ei_slug = slug, ei_adminEmail = raw_text_of claim ''email'',
                            ei_adminName = (case body_field claim ''name'' of JStr n \<Rightarrow> Some n | _ \<Rightarrow> None)\<rparr> x of
                          (y, Inl (PlatformError code)) \<Rightarrow> (y, Throw code)
                        | (y, Inl (Failure e)) \<Rightarrow> (y, Throw e)
                        | (y, Inr (Refused e _)) \<Rightarrow> (y, Err (provision_status e) e)
                        | (y, Inr (Provisioned url linked)) \<Rightarrow> (y, Ok 201 (url, linked))))))"

end
