(* ===== verification/Overview.thy ===== *)
theory Overview
  imports Provisioning
begin

text \<open>
  What the platform console shows and what runs on its own: \<^verbatim>\<open>lib/platform/{overview,health,ops}.ts\<close>, the
  statistics function of \<^verbatim>\<open>bootstrap.sql\<close> and \<^verbatim>\<open>app/api/cron/platform-ops\<close>. Answers of the name service and of
  the TLS handshake are parameters.
\<close>

section \<open>Statistics\<close>

record TenantStats =
  ts_users :: nat
  ts_admins :: nat
  ts_vendors :: nat
  ts_sites :: nat
  ts_connectors :: nat
  ts_connectorsOnline :: nat
  ts_grantsActive :: nat
  ts_requestsPending :: nat
  ts_auditEvents :: nat
  ts_recordings :: nat
  ts_recordingBytes :: int
  ts_sessions24h :: nat
  ts_lastActivity :: "instant option"

definition latest :: "instant list \<Rightarrow> instant option" where
  "latest ts = (case ts of [] \<Rightarrow> None | _ \<Rightarrow> Some (fold max ts (hd ts)))"

definition platform_tenant_stats :: "instant \<Rightarrow> db \<Rightarrow> TenantStats" where
  "platform_tenant_stats now s =
     \<lparr>ts_users = length (users s), ts_admins = count_rows (\<lambda>u. u_role u = ADMIN) (users s),
      ts_vendors = count_rows (\<lambda>u. u_role u = VENDOR) (users s), ts_sites = length (sites s),
      ts_connectors = count_rows (\<lambda>c. c_status c \<noteq> ConnectorStatus.REVOKED) (connectors s),
      ts_connectorsOnline = count_rows (\<lambda>c. c_status c = ONLINE) (connectors s),
      ts_grantsActive =
        count_rows (\<lambda>g. g_status g = GrantStatus.ACTIVE \<and> (\<not> g_requiresApproval g \<or> g_approvedAt g \<noteq> None) \<and>
           (case g_endsAt g of None \<Rightarrow> True | Some e \<Rightarrow> e > now)) (accessGrants s),
      ts_requestsPending =
        count_rows (\<lambda>g. g_status g = GrantStatus.ACTIVE \<and> g_requiresApproval g \<and> g_approvedAt g = None) (accessGrants s),
      ts_auditEvents = length (auditEvents s), ts_recordings = length (sessionRecordings s),
      ts_recordingBytes = sum_list (map rec_bytes (sessionRecordings s)),
      ts_sessions24h = count_rows (\<lambda>x. s_lastSeenAt x > now - DAY_MS) (sessions s),
      ts_lastActivity = latest (map ae_timestamp (auditEvents s) @ map s_lastSeenAt (sessions s) @
                                map aa_timestamp (adminAuditEvents s))\<rparr>"

definition tenantStats :: "instant \<Rightarrow> cloud \<Rightarrow> ident \<Rightarrow> TenantStats option" where
  "tenantStats now c i =
     (if list_ex (\<lambda>t. t_id t = i \<and> \<not> reserved_tenant i) (tenants c) then Some (platform_tenant_stats now (data c i)) else None)"

section \<open>The state of a tenant's namespace\<close>

datatype DnsState = Dns_ok | Dns_missing | Dns_wrong | Dns_unknown

datatype CertState = Cert_ok | Cert_expiring | Cert_missing | Cert_mismatch | Cert_error | Cert_unknown

record TenantHealth =
  th_slug :: string
  th_host :: string
  th_dns :: DnsState
  th_dnsAddresses :: "string list"
  th_cert :: CertState
  th_certExpiresAt :: "instant option"
  th_certDaysLeft :: "int option"
  th_checkedAt :: instant

record probe =
  pb_ok :: bool
  pb_sans :: "string list"
  pb_validTo :: "instant option"

record network =
  nw_resolve4 :: "string \<Rightarrow> string list"
  nw_probeCert :: "string \<Rightarrow> string \<Rightarrow> probe"

record health_cache =
  hc_slots :: "string \<Rightarrow> (TenantHealth \<times> instant) option"
  hc_ips :: "(string list \<times> instant) option"

definition HEALTH_CACHE_MS :: int where "HEALTH_CACHE_MS = 60000"

definition serverIps :: "network \<Rightarrow> instant \<Rightarrow> string \<Rightarrow> health_cache \<Rightarrow> health_cache \<times> string list" where
  "serverIps N now domain k =
     (let read = (let ips = nw_resolve4 N (''platform.'' @ domain) in (k\<lparr>hc_ips := Some (ips, now)\<rparr>, ips)) in
      case hc_ips k of
        Some (ips, at) \<Rightarrow> if now - at < HEALTH_CACHE_MS * 5 then (k, ips) else read
      | None \<Rightarrow> read)"

definition san_covers :: "string \<Rightarrow> string \<Rightarrow> bool" where
  "san_covers san host \<longleftrightarrow>
     (let h = to_lower host; s = to_lower san in
      s = h \<or>
      starts_with s ''*.'' \<and> ends_with h (tl s) \<and> CHR ''.'' \<notin> set (take (length h - length (tl s)) h))"

definition sanMatches :: "string list \<Rightarrow> string \<Rightarrow> bool" where
  "sanMatches sans host \<longleftrightarrow> list_ex (\<lambda>san. san_covers san host) sans"

definition dns_state :: "string list \<Rightarrow> string list \<Rightarrow> DnsState" where
  "dns_state addrs expected =
     (if addrs = [] then Dns_missing
      else if expected = [] then Dns_ok
      else if list_ex (\<lambda>a. a \<in> set expected) addrs then Dns_ok else Dns_wrong)"

definition cert_state :: "instant \<Rightarrow> string \<Rightarrow> probe \<Rightarrow> CertState \<times> instant option \<times> int option" where
  "cert_state now host r =
     (if \<not> pb_ok r then (Cert_error, None, None)
      else if \<not> sanMatches (pb_sans r) host then (Cert_mismatch, None, None)
      else (let days = map_option (\<lambda>v. (v - now) div DAY_MS) (pb_validTo r) in
            ((case days of Some d \<Rightarrow> if d < 14 then Cert_expiring else Cert_ok | None \<Rightarrow> Cert_ok), pb_validTo r, days)))"

definition probe_tenant :: "network \<Rightarrow> instant \<Rightarrow> string \<Rightarrow> string \<Rightarrow> string list \<Rightarrow> TenantHealth" where
  "probe_tenant N now slug domain expected =
     (let host = ''probe.'' @ slug @ ''.'' @ domain; addrs = nw_resolve4 N host; dns = dns_state addrs expected;
          (cert, expires, days) =
            (if dns = Dns_ok \<or> dns = Dns_wrong
             then cert_state now host (nw_probeCert N (case expected of e # _ \<Rightarrow> e | [] \<Rightarrow> hd addrs) host)
             else (Cert_missing, None, None))
      in \<lparr>th_slug = slug, th_host = host, th_dns = dns, th_dnsAddresses = addrs, th_cert = cert,
          th_certExpiresAt = expires, th_certDaysLeft = days, th_checkedAt = now\<rparr>)"

definition tenantHealth :: "network \<Rightarrow> web \<Rightarrow> env \<Rightarrow> instant \<Rightarrow> string \<Rightarrow> health_cache \<Rightarrow> health_cache \<times> TenantHealth" where
  "tenantHealth N w env now slug k =
     (let read =
        (case or_null (consoleDomain (url_hostname_of w) env) of
           None \<Rightarrow>
             (k, \<lparr>th_slug = slug, th_host = [], th_dns = Dns_unknown, th_dnsAddresses = [], th_cert = Cert_unknown,
                  th_certExpiresAt = None, th_certDaysLeft = None, th_checkedAt = now\<rparr>)
         | Some domain \<Rightarrow>
             (let (k1, expected) = serverIps N now domain k; h = probe_tenant N now slug domain expected in
              (k1\<lparr>hc_slots := (hc_slots k1)(slug \<mapsto> (h, now))\<rparr>, h)))
      in case hc_slots k slug of
           Some (h, at) \<Rightarrow> if now - at < HEALTH_CACHE_MS then (k, h) else read
         | None \<Rightarrow> read)"

text \<open>The batches of six only bound the probes in flight; the answers are put into one map.\<close>

fun tenantsHealth ::
  "network \<Rightarrow> web \<Rightarrow> env \<Rightarrow> instant \<Rightarrow> string list \<Rightarrow> health_cache \<Rightarrow> health_cache \<times> (string \<rightharpoonup> TenantHealth)" where
  "tenantsHealth N w env now [] k = (k, \<lambda>_. None)"
| "tenantsHealth N w env now (slug # slugs) k =
     (let (k1, h) = tenantHealth N w env now slug k; (k2, m) = tenantsHealth N w env now slugs k1 in
      (k2, if m slug = None then m(slug \<mapsto> h) else m))"

definition healthProblems :: "TenantHealth \<Rightarrow> string list" where
  "healthProblems h =
     (if th_dns h = Dns_missing then [''DNS record missing''] else []) @
     (if th_dns h = Dns_wrong then [''DNS points elsewhere''] else []) @
     (if th_cert h = Cert_missing \<or> th_cert h = Cert_error then [''certificate not served''] else []) @
     (if th_cert h = Cert_mismatch then [''certificate does not cover the namespace''] else []) @
     (if th_cert h = Cert_expiring
      then [''certificate expires in '' @ (case th_certDaysLeft h of Some d \<Rightarrow> dec_int d | None \<Rightarrow> ''null'') @ '' days''] else [])"

section \<open>The snapshot\<close>

datatype AlertLevel = Danger | Warn | Info

datatype alert_text =
    Purged_in int
  | Tenant_suspended
  | Namespace_problem string
  | Jobs_stale bool
  | Job_last_ran string int
  | Connectors_offline

record PlatformAlert =
  al_level :: AlertLevel
  al_kind :: string
  al_tenant :: ident
  al_text :: alert_text

record OverviewRow =
  ov_tenant :: PlatformTenant
  ov_stats :: "TenantStats option"
  ov_health :: "TenantHealth option"
  ov_heartbeatAt :: "instant option"
  ov_stale :: bool
  ov_problems :: "string list"

definition STALE_HEARTBEAT_MS :: int where "STALE_HEARTBEAT_MS = 20 * 60000"

definition STALE_DAILY_MS :: int where "STALE_DAILY_MS = 26 * 3600000"

definition DAILY_JOBS :: "string list" where
  "DAILY_JOBS = [''audit-retention'', ''recording-retention'', ''audit-anchor'']"

definition PURGE_AFTER_DAYS :: int where "PURGE_AFTER_DAYS = 30"

definition job_ran_at :: "cloud \<Rightarrow> ident \<Rightarrow> string \<Rightarrow> instant option" where
  "job_ran_at c i job = map_option cr_ranAt (find_first (\<lambda>r. cr_job r = job) (cronRuns (data c i)))"

definition overview_row :: "instant \<Rightarrow> cloud \<Rightarrow> (string \<rightharpoonup> TenantHealth) \<Rightarrow> PlatformTenant \<Rightarrow> OverviewRow" where
  "overview_row now c health t =
     (let hb = job_ran_at c (pt_id t) ''site-health'';
          isNew = now - pt_createdAt t < STALE_HEARTBEAT_MS;
          stale = (pt_status t = ''ACTIVE'' \<and> pt_deletedAt t = None \<and> \<not> isNew \<and>
                   (case hb of None \<Rightarrow> True | Some at \<Rightarrow> now - at > STALE_HEARTBEAT_MS));
          h = health (pt_slug t)
      in \<lparr>ov_tenant = t, ov_stats = tenantStats now c (pt_id t), ov_health = h, ov_heartbeatAt = hb, ov_stale = stale,
          ov_problems = (case h of Some v \<Rightarrow> healthProblems v | None \<Rightarrow> []) @
            (if stale then [''background jobs not running''] else [])\<rparr>)"

definition daily_alerts :: "instant \<Rightarrow> cloud \<Rightarrow> ident \<Rightarrow> PlatformAlert list" where
  "daily_alerts now c i =
     concat (map (\<lambda>job. case job_ran_at c i job of
         Some at \<Rightarrow>
           if now - at > STALE_DAILY_MS
           then [\<lparr>al_level = Warn, al_kind = ''cron_daily_stale'', al_tenant = i,
                  al_text = Job_last_ran job ((now - at) div 3600000)\<rparr>]
           else []
       | None \<Rightarrow> []) DAILY_JOBS)"

definition offline_alert :: "ident \<Rightarrow> OverviewRow \<Rightarrow> PlatformAlert list" where
  "offline_alert i r =
     (case ov_stats r of
        Some st \<Rightarrow>
          if ts_sites st > 0 \<and> ts_connectors st > 0 \<and> ts_connectorsOnline st = 0 \<and> pt_status (ov_tenant r) = ''ACTIVE''
          then [\<lparr>al_level = Warn, al_kind = ''connectors_offline'', al_tenant = i, al_text = Connectors_offline\<rparr>] else []
      | None \<Rightarrow> [])"

definition row_alerts :: "instant \<Rightarrow> cloud \<Rightarrow> OverviewRow \<Rightarrow> PlatformAlert list" where
  "row_alerts now c r =
     (let t = ov_tenant r; i = pt_id t; alert = (\<lambda>l k x. \<lparr>al_level = l, al_kind = k, al_tenant = i, al_text = x\<rparr>) in
      case pt_deletedAt t of
        Some d \<Rightarrow> [alert Info ''deleted'' (Purged_in (max 0 (PURGE_AFTER_DAYS - (now - d) div DAY_MS)))]
      | None \<Rightarrow>
          (if pt_status t = ''SUSPENDED'' then [alert Info ''suspended'' Tenant_suspended] else []) @
          (case ov_health r of
             Some h \<Rightarrow> map (\<lambda>p. alert (if th_cert h = Cert_expiring then Warn else Danger) ''provisioning'' (Namespace_problem p))
                         (healthProblems h)
           | None \<Rightarrow> []) @
          (if ov_stale r then [alert Warn ''cron_stale'' (Jobs_stale (ov_heartbeatAt r \<noteq> None))] else []) @
          (if pt_status t = ''ACTIVE'' then daily_alerts now c i else []) @ offline_alert i r)"

definition level_order :: "AlertLevel \<Rightarrow> nat" where
  "level_order l = (case l of Danger \<Rightarrow> 0 | Warn \<Rightarrow> 1 | Info \<Rightarrow> 2)"

record Totals =
  tt_tenants :: nat
  tt_active :: nat
  tt_suspended :: nat
  tt_deleted :: nat
  tt_users :: nat
  tt_vendors :: nat
  tt_sessions24h :: nat
  tt_connectors :: nat
  tt_connectorsOnline :: nat
  tt_sites :: nat
  tt_grantsActive :: nat
  tt_requestsPending :: nat
  tt_recordings :: nat
  tt_recordingBytes :: int
  tt_auditEvents :: nat

definition totals_add :: "OverviewRow \<Rightarrow> Totals \<Rightarrow> Totals" where
  "totals_add r t =
     (if pt_deletedAt (ov_tenant r) \<noteq> None then t\<lparr>tt_deleted := tt_deleted t + 1\<rparr>
      else
        (let active = (pt_status (ov_tenant r) = ''ACTIVE'');
             t1 = t\<lparr>tt_tenants := tt_tenants t + 1, tt_active := tt_active t + (if active then 1 else 0),
                    tt_suspended := tt_suspended t + (if active then 0 else 1)\<rparr>
         in case ov_stats r of
              None \<Rightarrow> t1
            | Some s \<Rightarrow>
                t1\<lparr>tt_users := tt_users t1 + ts_users s, tt_vendors := tt_vendors t1 + ts_vendors s,
                   tt_sessions24h := tt_sessions24h t1 + ts_sessions24h s,
                   tt_connectors := tt_connectors t1 + ts_connectors s,
                   tt_connectorsOnline := tt_connectorsOnline t1 + ts_connectorsOnline s,
                   tt_sites := tt_sites t1 + ts_sites s, tt_grantsActive := tt_grantsActive t1 + ts_grantsActive s,
                   tt_requestsPending := tt_requestsPending t1 + ts_requestsPending s,
                   tt_recordings := tt_recordings t1 + ts_recordings s,
                   tt_recordingBytes := tt_recordingBytes t1 + ts_recordingBytes s,
                   tt_auditEvents := tt_auditEvents t1 + ts_auditEvents s\<rparr>))"

definition no_totals :: Totals where
  "no_totals = \<lparr>tt_tenants = 0, tt_active = 0, tt_suspended = 0, tt_deleted = 0, tt_users = 0, tt_vendors = 0,
     tt_sessions24h = 0, tt_connectors = 0, tt_connectorsOnline = 0, tt_sites = 0, tt_grantsActive = 0,
     tt_requestsPending = 0, tt_recordings = 0, tt_recordingBytes = 0, tt_auditEvents = 0\<rparr>"

definition totalsOf :: "OverviewRow list \<Rightarrow> Totals" where
  "totalsOf rows = fold totals_add rows no_totals"

definition platformSnapshot ::
  "network \<Rightarrow> web \<Rightarrow> env \<Rightarrow> instant \<Rightarrow> bool \<Rightarrow> cloud \<Rightarrow> health_cache \<Rightarrow>
   health_cache \<times> OverviewRow list \<times> PlatformAlert list \<times> Totals" where
  "platformSnapshot N w env now probe c k =
     (let ts = listTenants c;
          live = filter (\<lambda>t. pt_deletedAt t = None \<and> pt_status t = ''ACTIVE'') ts;
          (k1, health) = (if probe then tenantsHealth N w env now (map pt_slug live) k else (k, \<lambda>_. None));
          rows = map (overview_row now c health) ts;
          alerts = sort_key (\<lambda>a. level_order (al_level a)) (concat (map (row_alerts now c) rows))
      in (k1, rows, alerts, totalsOf rows))"

definition platformAlerts :: "network \<Rightarrow> web \<Rightarrow> env \<Rightarrow> instant \<Rightarrow> cloud \<Rightarrow> health_cache \<Rightarrow> PlatformAlert list" where
  "platformAlerts N w env now c k = fst (snd (snd (platformSnapshot N w env now False c k)))"

section \<open>Daily operations\<close>

definition purge_entry :: "ctx \<Rightarrow> ident \<Rightarrow> PlatformTenant option \<Rightarrow> platform_action" where
  "purge_entry cx i t =
     \<lparr>pa_actorId = ''system'', pa_actorEmail = ''platform-ops@system'', pa_action = ''platform.tenant.purge'',
      pa_tenant = None, pa_targetType = Some ''tenant'', pa_targetId = Some i,
      pa_summary = ''Purged tenant '' @ (case t of Some v \<Rightarrow> pt_slug v | None \<Rightarrow> i) @ '' (30 days after deletion)'',
      pa_metadata = JObj [(''slug'', (case t of Some v \<Rightarrow> JStr (pt_slug v) | None \<Rightarrow> JUndef)),
                          (''name'', (case t of Some v \<Rightarrow> JStr (pt_name v) | None \<Rightarrow> JUndef))],
      pa_clientIp = None\<rparr>"

fun purge_all :: "ctx \<Rightarrow> ident list \<Rightarrow> cloud \<Rightarrow> cloud \<times> string list attempt" where
  "purge_all cx [] c = (c, Inr [])"
| "purge_all cx (i # is) c =
     (let t = getTenant c i in
      case platform_purge_tenant i (recordPlatformAction cx (purge_entry cx i t) c) of
        (c1, Inl e) \<Rightarrow> (c1, Inl e)
      | (c1, Inr _) \<Rightarrow>
          (case purge_all cx is c1 of
             (c2, Inl e) \<Rightarrow> (c2, Inl e)
           | (c2, Inr slugs) \<Rightarrow> (c2, Inr ((case t of Some v \<Rightarrow> pt_slug v | None \<Rightarrow> i) # slugs))))"

record OpsResult =
  or_purged :: "string list"
  or_alerts :: nat
  or_digestSent :: bool

text \<open>The digest goes out through the mail of the request's own tenant, the platform.\<close>

definition send_digest ::
  "(SmtpConfigRow \<Rightarrow> string \<Rightarrow> bool) \<Rightarrow> ctx \<Rightarrow> PlatformConfig \<Rightarrow> nat \<Rightarrow> string list \<Rightarrow> platform \<Rightarrow> platform \<times> bool" where
  "send_digest smtp cx cfg actionable purged x =
     (case or_null (pc_opsEmail cfg) of
        Some email \<Rightarrow>
          if actionable > 0 \<or> purged \<noteq> [] then
            (set_own cx (sendMail [email] ''digest''
               (''[Captivo platform] '' @ dec actionable @ '' alert'' @ (if actionable = 1 then [] else ''s'')) (own_db cx x)) x,
             mail_sent smtp (smtpConfig (own_db cx x)) email)
          else (x, False)
      | None \<Rightarrow> (x, False))"

definition runPlatformOps ::
  "bool \<Rightarrow> network \<Rightarrow> web \<Rightarrow> (SmtpConfigRow \<Rightarrow> string \<Rightarrow> bool) \<Rightarrow> ctx \<Rightarrow> health_cache \<times> platform \<Rightarrow>
   (health_cache \<times> platform) \<times> OpsResult attempt" where
  "runPlatformOps up N w smtp cx kx =
     (let (k, x) = kx in
      case on_cloud (purge_all cx (purgeCandidates (cx_now cx) PURGE_AFTER_DAYS (p_cloud x))) x of
        (y, Inl e) \<Rightarrow> ((k, y), Inl e)
      | (y, Inr purged) \<Rightarrow>
          (let (k1, _, alerts, _) = platformSnapshot N w (cx_env cx) (cx_now cx) True (p_cloud y) k;
               (y1, cfg) = getPlatformConfig up (cx_intl cx) (cx_now cx) y;
               actionable = length (filter (\<lambda>a. al_level a \<noteq> Info) alerts);
               (z, sent) = send_digest smtp cx cfg actionable purged y1
           in ((k1, z), Inr \<lparr>or_purged = purged, or_alerts = actionable, or_digestSent = sent\<rparr>)))"

text \<open>The job runs in the scope of the platform tenant (\<open>cx_tenant\<close>).\<close>

definition platform_ops_cron ::
  "bool \<Rightarrow> network \<Rightarrow> web \<Rightarrow> (SmtpConfigRow \<Rightarrow> string \<Rightarrow> bool) \<Rightarrow> ctx \<Rightarrow> health_cache \<times> platform \<Rightarrow>
   (health_cache \<times> platform) \<times> OpsResult option reply" where
  "platform_ops_cron up N w smtp cx0 kx =
     (let (k, x) = kx; cx = cx0\<lparr>cx_tenant := PLATFORM_TENANT_ID\<rparr> in
      if \<not> cronAuthorized (cx_env cx) (cx_headers cx) then ((k, x), Err 401 ''unauthorized'')
      else if \<not> multiTenantEnabled (cx_env cx) then ((k, x), Ok 200 None)
      else (case runPlatformOps up N w smtp cx (k, set_own cx (recordCronRun ''platform-ops'' (cx_now cx) (own_db cx x)) x) of
              ((k1, y), Inl (PlatformError e)) \<Rightarrow> ((k1, set_own cx (own_db cx x) y), Throw e)
            | ((k1, y), Inl (Failure e)) \<Rightarrow> ((k1, set_own cx (own_db cx x) y), Throw e)
            | ((k1, y), Inr r) \<Rightarrow> ((k1, y), Ok 200 (Some r))))"

end
