(* ===== verification/Control_Plane.thy ===== *)
theory Control_Plane
  imports Overview
begin

text \<open>
  The platform console, the two self-service doors and the daily job as one machine, and what holds of every
  sequence of its requests. The locale \<open>console_frame\<close> says what a relation between two states of the service must
  allow for every request to stay inside it; each property instantiates the relation.
\<close>

section \<open>Requests\<close>

text \<open>The code outside the repository that the requests rely on.\<close>

record deps =
  de_up :: bool
  de_argon :: argon
  de_web :: web
  de_message :: "string \<Rightarrow> string"
  de_smtp :: "SmtpConfigRow \<Rightarrow> string \<Rightarrow> bool"
  de_shown :: "js \<Rightarrow> string"
  de_encode :: "string \<Rightarrow> string"
  de_exported :: "db \<Rightarrow> js"
  de_jwt :: jwt
  de_codec :: claim_codec
  de_centre :: centre
  de_network :: network

datatype platform_request =
    Create_tenant fresh ident js
  | Update_tenant ident js
  | Delete_tenant ident js
  | Restore_tenant ident
  | Purge_tenant ident js
  | Tenant_status ident js
  | Tenant_logout ident
  | Invite_tenant_admin fresh ident js
  | Export_tenant ident
  | Support_access fresh ident js
  | Invite_operator fresh js
  | Remove_operator ident
  | Logout_operator ident
  | Save_config js
  | Signup_start js
  | Signup_verify fresh ident "string option"
  | Workspace_create fresh ident "string \<Rightarrow> cookie option" js
  | Platform_ops

record machine =
  mc_limiter :: limiter
  mc_health :: health_cache
  mc_platform :: platform

definition on_platform :: "(platform \<Rightarrow> platform \<times> 'a reply) \<Rightarrow> machine \<Rightarrow> machine" where
  "on_platform h m = m\<lparr>mc_platform := fst (h (mc_platform m))\<rparr>"

fun platform_step :: "deps \<Rightarrow> ctx \<Rightarrow> platform_request \<Rightarrow> machine \<Rightarrow> machine" where
  "platform_step D cx (Create_tenant f i body) =
     on_platform (create_tenant_route (de_up D) (de_argon D) (de_web D) (de_message D) cx f i body)"
| "platform_step D cx (Update_tenant i body) = on_platform (update_tenant_route cx i body)"
| "platform_step D cx (Delete_tenant i body) = on_platform (delete_tenant_route cx i body)"
| "platform_step D cx (Restore_tenant i) = on_platform (restore_tenant_route cx i)"
| "platform_step D cx (Purge_tenant i body) = on_platform (purge_tenant_route cx i body)"
| "platform_step D cx (Tenant_status i body) = on_platform (tenant_status_route cx i body)"
| "platform_step D cx (Tenant_logout i) = on_platform (tenant_logout_route cx i)"
| "platform_step D cx (Invite_tenant_admin f i body) =
     on_platform (invite_tenant_admin_route (de_up D) (de_argon D) (de_web D) (de_smtp D) (de_shown D) cx f i body)"
| "platform_step D cx (Export_tenant i) = on_platform (export_tenant_route (de_exported D) cx i)"
| "platform_step D cx (Support_access f i body) =
     on_platform (support_access_route (de_web D) (de_encode D) cx f i body)"
| "platform_step D cx (Invite_operator f body) =
     on_platform (invite_operator_route (de_argon D) (de_web D) (de_shown D) cx f body)"
| "platform_step D cx (Remove_operator i) = on_platform (remove_operator_route cx i)"
| "platform_step D cx (Logout_operator i) = on_platform (logout_operator_route cx i)"
| "platform_step D cx (Save_config body) = on_platform (save_config_route cx body)"
| "platform_step D cx (Signup_start body) =
     (\<lambda>m. let ((l, x), r) = signup_start (de_up D) (de_jwt D) (de_web D) (de_encode D) (de_smtp D) cx body
                               (mc_limiter m, mc_platform m)
          in m\<lparr>mc_limiter := l, mc_platform := x\<rparr>)"
| "platform_step D cx (Signup_verify f i t) =
     on_platform (signup_verify (de_up D) (de_argon D) (de_web D) (de_message D) (de_jwt D) cx f i t)"
| "platform_step D cx (Workspace_create f i jar body) =
     on_platform (workspace_create (de_up D) (de_argon D) (de_web D) (de_message D) (de_codec D) (de_centre D)
       (de_shown D) cx f i jar body)"
| "platform_step D cx Platform_ops =
     (\<lambda>m. let ((k, x), r) = platform_ops_cron (de_up D) (de_network D) (de_web D) (de_smtp D) cx
                               (mc_health m, mc_platform m)
          in m\<lparr>mc_health := k, mc_platform := x\<rparr>)"

fun platform_run :: "deps \<Rightarrow> (ctx \<times> platform_request) list \<Rightarrow> machine \<Rightarrow> machine" where
  "platform_run D [] m = m"
| "platform_run D ((cx, r) # rs) m = platform_run D rs (platform_step D cx r m)"

text \<open>The tenant a request names.\<close>

fun named_by :: "platform_request \<Rightarrow> ident set" where
  "named_by (Create_tenant f i body) = {i}"
| "named_by (Update_tenant i body) = {i}"
| "named_by (Delete_tenant i body) = {i}"
| "named_by (Restore_tenant i) = {i}"
| "named_by (Purge_tenant i body) = {i}"
| "named_by (Tenant_status i body) = {i}"
| "named_by (Tenant_logout i) = {i}"
| "named_by (Invite_tenant_admin f i body) = {i}"
| "named_by (Export_tenant i) = {i}"
| "named_by (Support_access f i body) = {i}"
| "named_by (Signup_verify f i t) = {i}"
| "named_by (Workspace_create f i jar body) = {i}"
| "named_by _ = {}"

section \<open>Frames\<close>

lemma set_data_simps [simp]:
  "tenants (set_data i s c) = tenants c" "data (set_data i s c) = (data c)(i := s)"
  by (simp_all add: set_data_def)

lemma tenant_update_simps [simp]:
  "tenants (tenant_update p f c) = update_many p f (tenants c)" "data (tenant_update p f c) = data c"
  by (simp_all add: tenant_update_def)

lemma set_data_self: "set_data i (data c i) c = c"
  by (simp add: set_data_def)

lemma createInvite_users [simp]: "users (createInvite A env f now i s) = users s"
  by (simp add: createInvite_def)

lemma delete_sessions_users [simp]: "users (delete_session_rows p s) = users s"
  by (simp add: delete_session_rows_def Let_def)

lemma recordAdminAction_users [simp]: "users (recordAdminAction H nid now a s) = users s"
  by (simp add: recordAdminAction_def Let_def)

lemma sendMail_users [simp]: "users (sendMail to tpl subj s) = users s"
  by (simp add: sendMail_def)

lemma save_settings_users: "save_settings_row input s = (s1, r) \<Longrightarrow> users s1 = users s"
  by (auto simp: save_settings_row_def Let_def split: if_splits)

lemma store_handoff_users [simp]: "users (fst (store_handoff cx f u reason s)) = users s"
  by (simp add: store_handoff_def)

lemma cron_run_users [simp]: "users (recordCronRun job now s) = users s"
  by (simp add: recordCronRun_def)

lemma getPlatformConfig_cloud: "getPlatformConfig up \<I> now x = (y, cfg) \<Longrightarrow> p_cloud y = p_cloud x"
  by (auto simp: getPlatformConfig_def Let_def split: option.splits if_splits prod.splits)

lemma signupEnabled_cloud: "signupEnabled up cx x = (y, on) \<Longrightarrow> p_cloud y = p_cloud x"
  by (auto simp: signupEnabled_def Let_def dest: getPlatformConfig_cloud split: if_splits prod.splits)

lemma sending_cloud: "getSendingSmtpConfig up \<I> env now tid x = (y, cfg) \<Longrightarrow> p_cloud y = p_cloud x"
  by (auto simp: getSendingSmtpConfig_def Let_def dest: getPlatformConfig_cloud
      split: if_splits prod.splits option.splits)

lemma getTenant_Some:
  assumes "getTenant c i = Some t"
  shows "pt_id t = i" "\<not> reserved_tenant i" "\<exists>r. r \<in> set (tenants c) \<and> t = shape c r"
proof -
  have "t \<in> set (listTenants c) \<and> pt_id t = i"
    using find_first_Some [of "\<lambda>t. pt_id t = i" "listTenants c" t] assms by (simp add: getTenant_def)
  then obtain r where "r \<in> set (platform_list_tenants c)" "t = shape c r" "pt_id t = i"
    by (auto simp: listTenants_def)
  moreover have "r \<in> set (tenants c)" "\<not> reserved_tenant (t_id r)"
    using calculation by (auto simp: platform_list_tenants_def find_many_def)
  ultimately show "pt_id t = i" "\<not> reserved_tenant i" "\<exists>r. r \<in> set (tenants c) \<and> t = shape c r"
    by (auto simp: shape_def)
qed

section \<open>What every request stays inside of\<close>

locale console_frame =
  fixes R :: "cloud \<Rightarrow> cloud \<Rightarrow> bool" and named :: "ident set"
  assumes same: "R c c"
    and chain: "R c c1 \<Longrightarrow> R c1 c2 \<Longrightarrow> R c c2"
    and rows: "tid \<in> named \<or> tid = PLATFORM_TENANT_ID \<Longrightarrow> users s = users (data c tid) \<Longrightarrow> R c (set_data tid s c)"
    and restored: "R c c1 \<Longrightarrow> R c (set_data PLATFORM_TENANT_ID (data c PLATFORM_TENANT_ID) c1)"
    and changed: "i \<in> named \<Longrightarrow> \<not> reserved_tenant i \<Longrightarrow>
      (\<And>t. t_id (f t) = t_id t \<and> t_slug (f t) = t_slug t \<and> t_captivoOrgId (f t) = t_captivoOrgId t) \<Longrightarrow>
      R c (tenant_update (\<lambda>t. t_id t = i \<and> q t) f c)"
    and created: "i \<in> named \<Longrightarrow> isValidTenantSlug slug \<Longrightarrow>
      platform_create_tenant now i slug name org c = Inr c1 \<Longrightarrow> R c c1"
    and purged: "\<not> reserved_tenant i \<Longrightarrow> R c (fst (platform_purge_tenant i c))"
    and removed: "actor \<in> set (users (data c PLATFORM_TENANT_ID)) \<Longrightarrow> u_role actor = PLATFORM \<Longrightarrow>
      u_status actor = UserStatus.ACTIVE \<Longrightarrow> u_id actor \<noteq> i \<Longrightarrow>
      R c (set_data PLATFORM_TENANT_ID (delete_user_row i (data c PLATFORM_TENANT_ID)) c)"
begin

definition stays :: "platform \<Rightarrow> platform \<times> 'a \<Rightarrow> bool" where
  "stays x yr \<longleftrightarrow> R (p_cloud x) (p_cloud (fst yr))"

lemma stays_same: "p_cloud y = p_cloud x \<Longrightarrow> stays x (y, r)"
  by (simp add: stays_def same)

lemma stays_chain: "stays x (y, r) \<Longrightarrow> stays y zr \<Longrightarrow> stays x zr"
  by (auto simp: stays_def intro: chain)

lemma scoped:
  assumes "multiTenantEnabled env" and "tid \<in> named \<or> tid = PLATFORM_TENANT_ID"
    and "\<And>s. users (fst (fn s)) = users s"
  shows "R c (fst (in_scope env tid fn c))"
proof -
  obtain s r where fn: "fn (data c tid) = (s, r)" by (cases "fn (data c tid)")
  then have "users s = users (data c tid)" using assms(3) by (metis fst_conv)
  then show ?thesis
    using fn assms(1,2) rows same by (simp add: in_scope_def scope_id_def split: sum.splits)
qed

lemma recorded:
  assumes "multiTenantEnabled (cx_env cx)" and "cx_tenant cx = PLATFORM_TENANT_ID"
    and "\<And>tid slug. pa_tenant a = Some (tid, slug) \<Longrightarrow> tid \<in> named"
  shows "R c (recordPlatformAction cx a c)"
proof (cases "pa_tenant a")
  case None
  then show ?thesis using assms(2) by (simp add: recordPlatformAction_def rows)
next
  case (Some ts)
  then obtain tid slug where ts: "pa_tenant a = Some (tid, slug)" by (cases ts) simp
  let ?s = "recordAdminAction (cx_H cx) (cx_auditId cx) (cx_now cx) (platform_entry a) (data c PLATFORM_TENANT_ID)"
  have "R c (set_data PLATFORM_TENANT_ID ?s c)" by (rule rows) simp_all
  moreover have "R (set_data PLATFORM_TENANT_ID ?s c) (recordPlatformAction cx a c)"
    unfolding recordPlatformAction_def Let_def assms(2) ts option.case prod.case
    by (rule scoped) (use assms(1) assms(3) [OF ts] in simp_all)
  ultimately show ?thesis by (rule chain)
qed

lemma action_stays:
  assumes "multiTenantEnabled (cx_env cx)" and "cx_tenant cx = PLATFORM_TENANT_ID"
    and "\<And>v. t = Some v \<Longrightarrow> pt_id v \<in> named"
  shows "R (p_cloud x) (p_cloud (operator_action cx admin action t ty ti summary metadata x))"
  by (simp add: operator_action_def) (rule recorded, use assms in auto)

lemma then_do_stays:
  assumes "stays x yr" and "\<And>a y. yr = (y, Inr a) \<Longrightarrow> stays y (k a y)"
  shows "stays x (then_do yr k)"
proof (cases yr)
  case (Pair y r)
  then show ?thesis
    using assms(1) assms(2) [of y] stays_chain [of x y r] by (cases r) (auto simp: then_do_def stays_def)
qed

lemma reading_stays: "stays x (h x) \<Longrightarrow> stays x (reading body h x)"
  by (simp add: reading_def stays_def same)

lemma answer_stays: "stays x yr \<Longrightarrow> stays x (answer yr)"
  by (auto simp: answer_def stays_def split: prod.splits sum.splits failure.splits)

lemma on_cloud_stays: "R (p_cloud x) (fst (f (p_cloud x))) \<Longrightarrow> stays x (on_cloud f x)"
  by (cases "f (p_cloud x)") (simp add: on_cloud_def stays_def)

lemma scope_stays:
  assumes "cx_tenant cx = PLATFORM_TENANT_ID" and "stays x (h x)"
  shows "stays x (request_scope cx h x)"
  using assms restored
  by (auto simp: request_scope_def stays_def set_own_def own_db_def split: prod.splits reply.splits)

lemma platformRoute_stays:
  assumes "multiTenantEnabled (cx_env cx)"
    and "\<And>admin y. cx_tenant cx = PLATFORM_TENANT_ID \<Longrightarrow> admin \<in> set (users (data (p_cloud y) PLATFORM_TENANT_ID)) \<Longrightarrow>
      u_role admin = PLATFORM \<Longrightarrow> u_status admin = UserStatus.ACTIVE \<Longrightarrow> stays y (handler admin y)"
  shows "stays x (platformRoute cx handler x)"
proof -
  obtain s u where cu: "current_user cx (own_db cx x) = (s, u)" by (cases "current_user cx (own_db cx x)")
  have us: "users s = users (own_db cx x)" using current_user_frame(2) [of cx "own_db cx x"] cu by simp
  let ?y = "set_own cx s x"
  show ?thesis
  proof (cases "cx_tenant cx = PLATFORM_TENANT_ID")
    case False
    then have "requirePlatformAdmin cx x = (?y, Inl (Failure NOT_FOUND))"
      using cu by (simp add: requirePlatformAdmin_def Let_def split: option.splits)
    then show ?thesis
      using assms(1) by (simp add: platformRoute_def request_scope_def answer_def stays_def set_own_def own_db_def
          set_data_def same)
  next
    case True
    have first: "stays x (?y, r)" for r :: "'b"
      using us True rows by (simp add: stays_def set_own_def own_db_def)
    have "stays x ((\<lambda>x. case requirePlatformAdmin cx x of
        (y, Inl e) \<Rightarrow> answer (y, Inl e) | (y, Inr admin) \<Rightarrow> answer (handler admin y)) x)"
    proof (cases "\<exists>a. u = Some a \<and> u_role a = PLATFORM")
      case False
      then have "requirePlatformAdmin cx x = (?y, Inl (Failure NOT_FOUND))"
        using cu by (auto simp: requirePlatformAdmin_def isPlatformAdmin_def Let_def split: option.splits)
      then show ?thesis using first [of "undefined"] by (simp add: answer_def stays_def)
    next
      case ok: True
      then obtain a where a: "u = Some a" "u_role a = PLATFORM" by blast
      then have "requirePlatformAdmin cx x = (?y, Inr a)"
        using cu True by (simp add: requirePlatformAdmin_def isPlatformAdmin_def)
      moreover have "a \<in> set (users (data (p_cloud ?y) PLATFORM_TENANT_ID)) \<and> u_status a = UserStatus.ACTIVE"
        using current_user_active [of cx "own_db cx x" s a] cu a(1) us True by (simp add: set_own_def)
      ultimately show ?thesis
        using assms(2) [of a ?y] True a(2) first answer_stays stays_chain by (simp add: stays_def) (blast intro: chain)
    qed
    then show ?thesis unfolding platformRoute_def using True by (rule scope_stays [rotated])
  qed
qed

end

context console_frame
begin

lemma changed_row:
  assumes "i \<in> named" and "\<not> reserved_tenant i"
    and "\<And>t. t_id (f t) = t_id t \<and> t_slug (f t) = t_slug t \<and> t_captivoOrgId (f t) = t_captivoOrgId t"
  shows "R c (tenant_update (\<lambda>t. t_id t = i) f c)"
  using changed [OF assms(1,2), where q = "\<lambda>_. True" and f = f and c = c] assms(3) by simp

lemma update_stays: "i \<in> named \<Longrightarrow> R c (fst (platform_update_tenant i n p tr l cp nt c))"
  by (simp add: platform_update_tenant_def same changed_row)

lemma updateTenant_stays: "i \<in> named \<Longrightarrow> R c (fst (updateTenant i input c))"
  by (simp add: updateTenant_def same update_stays split: sum.splits)

lemma status_stays: "i \<in> named \<Longrightarrow> \<not> reserved_tenant i \<Longrightarrow> R c (fst (platform_set_tenant_status i st c))"
  by (simp add: platform_set_tenant_status_def same changed_row)

lemma restore_stays: "i \<in> named \<Longrightarrow> R c (fst (platform_restore_tenant i c))"
  by (simp add: platform_restore_tenant_def same changed_row)

lemma delete_stays:
  assumes "i \<in> named"
  shows "R c (fst (platform_delete_tenant now i c))"
proof (cases "reserved_tenant i")
  case False
  let ?c = "tenant_update (\<lambda>t. t_id t = i \<and> t_deletedAt t = None) (\<lambda>t. t\<lparr>t_deletedAt := Some now, t_status := ''SUSPENDED''\<rparr>) c"
  have "R c ?c" by (rule changed) (use assms False in simp_all)
  moreover have "R ?c (set_data i (delete_session_rows (\<lambda>_. True) (data ?c i)) ?c)"
    by (rule rows) (use assms in simp_all)
  ultimately have "R c (set_data i (delete_session_rows (\<lambda>_. True) (data ?c i)) ?c)" by (rule chain)
  then show ?thesis using False by (simp add: platform_delete_tenant_def Let_def)
qed (simp add: platform_delete_tenant_def same)

lemma purge_stays: "R c (fst (platform_purge_tenant i c))"
  by (cases "reserved_tenant i") (simp add: platform_purge_tenant_def same, rule purged)

lemma rollback_stays:
  assumes "i \<in> named"
  shows "R c (rollbackCreatedTenantRow now i c)"
proof -
  obtain c1 r1 where d: "platform_delete_tenant now i c = (c1, r1)" by (cases "platform_delete_tenant now i c")
  obtain c2 r2 where p: "platform_purge_tenant i c1 = (c2, r2)" by (cases "platform_purge_tenant i c1")
  have "R c c1" using delete_stays [OF assms, of c now] d by simp
  moreover have "R c1 c2" using purge_stays [of c1 i] p by simp
  ultimately have "R c c2" by (rule chain)
  then show ?thesis
    using d p same by (cases r1; cases r2) (simp_all add: rollbackCreatedTenantRow_def)
qed

lemma plan_stays: "i \<in> named \<Longrightarrow> R c (fst (write_plan i input c))"
  by (simp add: write_plan_def Let_def same update_stays)

lemma defaults_stay:
  assumes "multiTenantEnabled env" and "i \<in> named"
  shows "R c (fst (write_defaults env i d c))"
proof (cases d)
  case (Some v)
  have "users (fst (save_settings_row (apply_defaults v (settings_in s)) s)) = users s" for s
    using save_settings_users [of "apply_defaults v (settings_in s)" s] by (metis prod.collapse)
  then show ?thesis unfolding write_defaults_def Some option.case by (intro scoped) (use assms in simp_all)
qed (simp add: write_defaults_def same)

lemma provision_stays:
  assumes "multiTenantEnabled (cx_env cx)" and "i \<in> named"
  shows "stays x (provision_tenant up A cx f i input x)"
proof -
  let ?fn = "\<lambda>s. (createInvite A (cx_env cx) f (cx_now cx) (first_admin_invite input) s, Inr () :: unit attempt)"
  obtain c1 r1 where a: "in_scope (cx_env cx) i ?fn (p_cloud x) = (c1, r1)" by (cases "in_scope (cx_env cx) i ?fn (p_cloud x)")
  obtain c2 r2 where b: "write_plan i input c1 = (c2, r2)" by (cases "write_plan i input c1")
  obtain y cfg where g: "getPlatformConfig up (cx_intl cx) (cx_now cx) (x\<lparr>p_cloud := c2\<rparr>) = (y, cfg)"
    by (cases "getPlatformConfig up (cx_intl cx) (cx_now cx) (x\<lparr>p_cloud := c2\<rparr>)")
  let ?w = "write_defaults (cx_env cx) i (pc_newTenantDefaults cfg) c2"
  have 1: "R (p_cloud x) c1" using scoped [OF assms(1), of i ?fn "p_cloud x"] assms(2) a by simp
  have "R c1 c2" using plan_stays [OF assms(2), of c1 input] b by simp
  with 1 have 2: "R (p_cloud x) c2" by (rule chain)
  then have 3: "R (p_cloud x) (fst ?w)" using defaults_stay [OF assms] by (rule chain)
  have "p_cloud y = c2" using getPlatformConfig_cloud [OF g] by simp
  then show ?thesis
    using a b g 1 2 3 by (cases ?w; cases r1; cases r2) (simp_all add: provision_tenant_def stays_def)
qed

lemma createTenant_stays:
  assumes "multiTenantEnabled (cx_env cx)" and "i \<in> named"
  shows "stays x (createTenant up A w message cx f i input x)"
proof (cases "validateCreateInput input")
  case None
  then have slug: "isValidTenantSlug (ci_slug input)" by (auto simp: validateCreateInput_def split: if_splits)
  show ?thesis
  proof (cases "platform_create_tenant (cx_now cx) i (ci_slug input) (trim (ci_name input)) (ci_captivoOrgId input) (p_cloud x)")
    case (Inr c)
    have first: "R (p_cloud x) c" by (rule created [OF assms(2) slug Inr])
    obtain y r where p: "provision_tenant up A cx f i input (x\<lparr>p_cloud := c\<rparr>) = (y, r)"
      by (cases "provision_tenant up A cx f i input (x\<lparr>p_cloud := c\<rparr>)")
    have "R c (p_cloud y)"
      using provision_stays [OF assms, of "x\<lparr>p_cloud := c\<rparr>" up A f input] p by (simp add: stays_def)
    with first have 1: "R (p_cloud x) (p_cloud y)" by (rule chain)
    then have 2: "R (p_cloud x) (rollbackCreatedTenantRow (cx_now cx) i (p_cloud y))"
      using rollback_stays [OF assms(2)] by (rule chain)
    show ?thesis using None Inr p 1 2 by (cases r) (simp_all add: createTenant_def stays_def)
  qed (simp add: createTenant_def None stays_same)
qed (simp add: createTenant_def stays_same)

end

context console_frame
begin

lemma tenantRoute_stays:
  assumes "multiTenantEnabled (cx_env cx)"
    and "\<And>admin t y. cx_tenant cx = PLATFORM_TENANT_ID \<Longrightarrow> pt_id t = i \<Longrightarrow> \<not> reserved_tenant i \<Longrightarrow>
      stays y (handler admin t y)"
  shows "stays x (tenantRoute cx i handler x)"
  unfolding tenantRoute_def
  by (rule platformRoute_stays [OF assms(1)])
    (auto simp: stays_same getTenant_Some intro: assms(2) split: option.split)

lemma branch_stays: "stays x p \<Longrightarrow> stays x q \<Longrightarrow> stays x (if b then p else q)"
  by simp

lemma acted: "R (p_cloud x) (p_cloud y) \<Longrightarrow> stays x (y, r)"
  by (simp add: stays_def)

lemmas handler_rules =
  reading_stays then_do_stays branch_stays acted on_cloud_stays action_stays updateTenant_stays restore_stays
  status_stays createTenant_stays scoped

lemma create_route_stays:
  "multiTenantEnabled (cx_env cx) \<Longrightarrow> i \<in> named \<Longrightarrow> stays x (create_tenant_route up A w message cx f i body x)"
  unfolding create_tenant_route_def by (intro platformRoute_stays handler_rules) (simp_all add: same)

lemma update_route_stays:
  "multiTenantEnabled (cx_env cx) \<Longrightarrow> i \<in> named \<Longrightarrow> stays x (update_tenant_route cx i body x)"
  unfolding update_tenant_route_def Let_def by (intro tenantRoute_stays handler_rules) auto

lemma restore_route_stays:
  "multiTenantEnabled (cx_env cx) \<Longrightarrow> i \<in> named \<Longrightarrow> stays x (restore_tenant_route cx i x)"
  unfolding restore_tenant_route_def by (intro tenantRoute_stays handler_rules) (auto simp: same)

lemma acted_then:
  assumes "R (p_cloud x) (p_cloud y)" and "stays y yr"
  shows "stays x yr"
  using assms chain by (auto simp: stays_def)

lemma delete_route_stays:
  assumes "multiTenantEnabled (cx_env cx)" and "i \<in> named"
  shows "stays x (delete_tenant_route cx i body x)"
  unfolding delete_tenant_route_def
proof (intro tenantRoute_stays handler_rules assms)
  fix admin :: User and t :: PlatformTenant and y :: platform
  assume "cx_tenant cx = PLATFORM_TENANT_ID" "pt_id t = i"
  then have "R (p_cloud y) (p_cloud (operator_action cx admin ''platform.tenant.delete'' (Some t) None None
      (''Deleted tenant '' @ pt_slug t @ '' (purge in 30 days)'') JUndef y))"
    by (intro action_stays) (use assms in auto)
  then show "stays y (on_cloud (platform_delete_tenant (cx_now cx) i)
      (operator_action cx admin ''platform.tenant.delete'' (Some t) None None
         (''Deleted tenant '' @ pt_slug t @ '' (purge in 30 days)'') JUndef y))"
    by (rule acted_then) (intro on_cloud_stays delete_stays assms)
qed (simp_all add: same)

lemma purge_route_stays:
  assumes "multiTenantEnabled (cx_env cx)"
  shows "stays x (purge_tenant_route cx i body x)"
  unfolding purge_tenant_route_def
proof (intro tenantRoute_stays handler_rules assms)
  fix admin :: User and t :: PlatformTenant and y :: platform
  let ?y = "operator_action cx admin ''platform.tenant.purge'' None (Some ''tenant'') (Some i)
    (''Purged tenant '' @ pt_slug t @ '' permanently'') (JObj [(''slug'', JStr (pt_slug t)), (''name'', JStr (pt_name t))]) y"
  assume "cx_tenant cx = PLATFORM_TENANT_ID" "pt_id t = i"
  then have "R (p_cloud y) (p_cloud ?y)" by (intro action_stays) (use assms in auto)
  then show "stays y (on_cloud (platform_purge_tenant i) ?y)"
    by (rule acted_then) (intro on_cloud_stays purge_stays)
qed (simp_all add: same)

lemma logout_stays: "multiTenantEnabled env \<Longrightarrow> i \<in> named \<Longrightarrow> R c (fst (forceLogoutTenant env i c))"
  unfolding forceLogoutTenant_def by (intro scoped) simp_all

lemma logout_route_stays:
  "multiTenantEnabled (cx_env cx) \<Longrightarrow> i \<in> named \<Longrightarrow> stays x (tenant_logout_route cx i x)"
  unfolding tenant_logout_route_def by (intro tenantRoute_stays handler_rules logout_stays) auto

lemma ended_stays:
  assumes "multiTenantEnabled (cx_env cx)" and "i \<in> named"
  shows "stays x (end_sessions_if_suspended cx i status x)"
  using on_cloud_stays [where f = "forceLogoutTenant (cx_env cx) i" and x = x] logout_stays [OF assms]
  by (auto simp: end_sessions_if_suspended_def stays_def same split: prod.splits sum.splits)

lemma status_route_stays:
  "multiTenantEnabled (cx_env cx) \<Longrightarrow> i \<in> named \<Longrightarrow> stays x (tenant_status_route cx i body x)"
  unfolding tenant_status_route_def apply_status_def Let_def
  by (intro tenantRoute_stays handler_rules ended_stays) (auto simp: same)

lemma invite_admin_stays:
  assumes "multiTenantEnabled (cx_env cx)" and "pt_id t \<in> named"
  shows "stays x (inviteTenantAdmin up A w smtp cx f t email name x)"
proof -
  obtain y cfg where g: "getSendingSmtpConfig up (cx_intl cx) (cx_env cx) (cx_now cx) (pt_id t) x = (y, cfg)"
    by (cases "getSendingSmtpConfig up (cx_intl cx) (cx_env cx) (cx_now cx) (pt_id t) x")
  have "R (p_cloud y) (fst (in_scope (cx_env cx) (pt_id t) (\<lambda>s.
      (sendMail to ''inviteEmail'' nm (createInvite A (cx_env cx) f (cx_now cx) ii s), Inr sent)) (p_cloud y)))"
    for to nm ii and sent :: bool
    by (intro scoped) (use assms in simp_all)
  then show ?thesis
    using sending_cloud [OF g] g
    by (auto simp: inviteTenantAdmin_def Let_def stays_def same split: prod.splits) (metis fst_conv)
qed

lemma invite_route_stays:
  "multiTenantEnabled (cx_env cx) \<Longrightarrow> i \<in> named \<Longrightarrow>
   stays x (invite_tenant_admin_route up A w smtp shown cx f i body x)"
  unfolding invite_tenant_admin_route_def
  by (intro tenantRoute_stays handler_rules invite_admin_stays) (auto simp: same)

lemma export_route_stays:
  "multiTenantEnabled (cx_env cx) \<Longrightarrow> i \<in> named \<Longrightarrow> stays x (export_tenant_route exported cx i x)"
  unfolding export_tenant_route_def by (intro tenantRoute_stays handler_rules) auto

lemma maybe_stays: "stays x p \<Longrightarrow> (\<And>v. stays x (q v)) \<Longrightarrow> stays x (case b of None \<Rightarrow> p | Some v \<Rightarrow> q v)"
  by (cases b) simp_all

lemma support_route_stays:
  "multiTenantEnabled (cx_env cx) \<Longrightarrow> i \<in> named \<Longrightarrow> stays x (support_access_route w encode cx f i body x)"
  unfolding support_access_route_def Let_def
  by (intro tenantRoute_stays maybe_stays handler_rules) (auto simp: same)

lemma own_stays:
  assumes "cx_tenant cx = PLATFORM_TENANT_ID" and "users s = users (own_db cx x)"
  shows "stays x (set_own cx s x, r)"
  using assms rows by (simp add: stays_def set_own_def own_db_def)

lemma operator_routes_stay:
  assumes "multiTenantEnabled (cx_env cx)"
  shows "stays x (invite_operator_route A w shown cx f body x)"
    and "stays x (logout_operator_route cx i x)"
    and "stays x (save_config_route cx body x)"
proof -
  show "stays x (invite_operator_route A w shown cx f body x)"
    unfolding invite_operator_route_def
    by (intro platformRoute_stays handler_rules assms)
      (auto simp: invitePlatformAdmin_def Let_def intro!: own_stays)
  show "stays x (logout_operator_route cx i x)"
    unfolding logout_operator_route_def endPlatformAdminSessions_def Let_def
    by (intro platformRoute_stays assms)
      (auto intro!: acted_then [OF _ acted [OF action_stays]] own_stays [unfolded stays_def fst_conv] simp: assms)
  have "R (p_cloud x) (p_cloud (operator_action cx a n None ty ti sm md (savePlatformConfig cfg x)))"
    if "cx_tenant cx = PLATFORM_TENANT_ID" for x a n ty ti sm md cfg
    using action_stays [OF assms that, where x = "savePlatformConfig cfg x" and t = None]
    by (simp add: savePlatformConfig_def)
  then show "stays x (save_config_route cx body x)"
    unfolding save_config_route_def Let_def
    by (intro platformRoute_stays reading_stays branch_stays acted assms) (auto simp: same)
qed

lemma remove_route_stays:
  assumes "multiTenantEnabled (cx_env cx)"
  shows "stays x (remove_operator_route cx i x)"
  unfolding remove_operator_route_def
proof (rule platformRoute_stays [OF assms])
  fix admin :: User and y :: platform
  assume a: "cx_tenant cx = PLATFORM_TENANT_ID" "admin \<in> set (users (data (p_cloud y) PLATFORM_TENANT_ID))"
    "u_role admin = PLATFORM" "u_status admin = UserStatus.ACTIVE"
  obtain s r where rm: "removePlatformAdmin i (u_id admin) (own_db cx y) = (s, r)"
    by (cases "removePlatformAdmin i (u_id admin) (own_db cx y)")
  have "s = own_db cx y \<or> (u_id admin \<noteq> i \<and> s = delete_user_row i (own_db cx y))"
    using rm by (auto simp: removePlatformAdmin_def split: if_splits option.splits)
  then have first: "R (p_cloud y) (p_cloud (set_own cx s y))"
    using a removed [of admin "p_cloud y" i] same by (auto simp: set_own_def own_db_def set_data_self)
  have "R (p_cloud (set_own cx s y)) (p_cloud (operator_action cx admin n None ty ti sm md (set_own cx s y)))"
    for n ty ti sm md
    by (rule action_stays) (use assms a(1) in simp_all)
  with first have "R (p_cloud y) (p_cloud (operator_action cx admin n None ty ti sm md (set_own cx s y)))"
    for n ty ti sm md
    by (rule chain)
  then show "stays y (let target = user_by_id (own_db cx y) i in
      case removePlatformAdmin i (u_id admin) (own_db cx y) of
        (s, Inl (PlatformError code)) \<Rightarrow> (set_own cx s y, Inr (Err (if code = ''not_found'' then 404 else 409) code))
      | (s, Inl (Failure e)) \<Rightarrow> (set_own cx s y, Inl (Failure e))
      | (s, Inr _) \<Rightarrow>
          (operator_action cx admin ''platform.admin.remove'' None (Some ''user'') (Some i)
             (''Removed platform operator '' @ (case target of Some u \<Rightarrow> u_email u | None \<Rightarrow> i)) JUndef (set_own cx s y),
           Inr (Ok 200 ())))"
    using first rm by (simp add: stays_def Let_def split: sum.splits failure.splits)
qed

lemma complete_signup_stays:
  assumes "multiTenantEnabled (cx_env cx)" and "i \<in> named"
  shows "stays x (completeSignup up A w message J cx f i token x)"
proof (cases "verifySignup J (cx_env cx) (cx_now cx) token")
  case (Some c)
  let ?cx = "cx\<lparr>cx_tenant := scope_id (cx_env cx) PLATFORM_TENANT_ID\<rparr>"
  have plat: "multiTenantEnabled (cx_env ?cx)" "cx_tenant ?cx = PLATFORM_TENANT_ID"
    using assms(1) by (simp_all add: scope_id_def)
  have new: "ct_id r = i" if "createTenant up A w message cx f i input x = (y, Inr r)" for input y r
    using that by (auto simp: createTenant_def split: option.splits sum.splits prod.splits)
  show ?thesis
    unfolding completeSignup_def Some option.case
  proof (intro then_do_stays createTenant_stays assms acted)
    fix r y
    assume "createTenant up A w message cx f i
        \<lparr>ci_name = sg_name c, ci_slug = sg_slug c, ci_adminEmail = sg_email c, ci_adminName = or_null (Some (sg_adminName c)),
         ci_plan = Some ''free'', ci_limits = Some signup_limits, ci_captivoOrgId = None\<rparr> x = (y, Inr r)"
    then have "ct_id r = i" by (rule new)
    then show "R (p_cloud y) (p_cloud (y\<lparr>p_cloud := recordPlatformAction ?cx
        \<lparr>pa_actorId = ''signup'', pa_actorEmail = sg_email c, pa_action = ''platform.tenant.signup'',
         pa_tenant = Some (ct_id r, ct_slug r), pa_targetType = None, pa_targetId = None,
         pa_summary = ''Self-service signup created free-tier tenant '' @ sg_slug c @ '' for '' @ sg_email c,
         pa_metadata = JObj [(''plan'', JStr ''free'')], pa_clientIp = None\<rparr> (p_cloud y)\<rparr>))"
      using assms(2) by simp (rule recorded, use plat in auto)
  qed
qed (simp add: completeSignup_def stays_same)

lemma signup_verify_stays:
  assumes "multiTenantEnabled (cx_env cx)" and "i \<in> named"
  shows "stays x (signup_verify up A w message J cx f i t x)"
proof (cases "cx_tenant cx = PLATFORM_TENANT_ID")
  case True
  obtain y on where e: "signupEnabled up cx x = (y, on)" by (cases "signupEnabled up cx x")
  have "p_cloud y = p_cloud x" using signupEnabled_cloud [OF e] .
  moreover have "stays y (completeSignup up A w message J cx f i (opt_text t) y)" by (rule complete_signup_stays [OF assms])
  ultimately show ?thesis
    unfolding signup_verify_def using e
    by (intro scope_stays [OF True])
      (auto simp: stays_def same split: prod.splits sum.splits failure.splits if_splits)
qed (simp add: signup_verify_def request_scope_def stays_same)

lemma signup_start_stays:
  assumes "multiTenantEnabled (cx_env cx)"
  shows "R (p_cloud x) (p_cloud (snd (fst (signup_start up J w encode smtp cx body (l, x)))))"
proof -
  obtain y on where e: "signupEnabled up cx x = (y, on)" by (cases "signupEnabled up cx x")
  have "R c (fst (in_scope (cx_env cx) PLATFORM_TENANT_ID (\<lambda>s. (sendMail to tpl sj s, Inr () :: unit attempt)) c))"
    for c to tpl sj
    by (rule scoped) (use assms in simp_all)
  then have "stays y (startSignup J w encode smtp cx input y)" for input
    by (auto simp: startSignup_def Let_def stays_def same split: option.splits prod.splits) (metis fst_conv)+
  then show ?thesis
    using e signupEnabled_cloud [OF e]
    by (auto simp: signup_start_def Let_def stays_def same split: prod.splits sum.splits failure.splits if_splits)
      (metis fst_conv)+
qed

lemma workspace_create_stays:
  assumes "multiTenantEnabled (cx_env cx)" and "i \<in> named"
  shows "stays x (workspace_create up A w message K Z shown cx f i jar body x)"
proof (cases "cx_tenant cx = PLATFORM_TENANT_ID")
  case True
  have "stays x (provisionEntitledWorkspace up A w message Z cx f i input x)" for input
    using createTenant_stays [OF assms, of x up A w message f]
    by (auto simp: provisionEntitledWorkspace_def Let_def stays_def same
        split: EntitlementLookup.splits option.splits prod.splits sum.splits failure.splits) (metis fst_conv)+
  then show ?thesis
    unfolding workspace_create_def
    by (intro scope_stays [OF True])
      (auto simp: stays_def same Let_def split: option.splits prod.splits sum.splits failure.splits provision_result.splits,
        (metis fst_conv)+)
qed (simp add: workspace_create_def request_scope_def stays_same)

lemma purge_all_stays:
  assumes "multiTenantEnabled (cx_env cx)" and "cx_tenant cx = PLATFORM_TENANT_ID"
  shows "R c (fst (purge_all cx is c))"
proof (induction "is" arbitrary: c)
  case (Cons i "is")
  let ?c = "recordPlatformAction cx (purge_entry cx i (getTenant c i)) c"
  have 1: "R c ?c" by (rule recorded [OF assms]) (simp add: purge_entry_def)
  have 2: "R c (fst (platform_purge_tenant i ?c))" using 1 purge_stays by (rule chain)
  then have "R c (fst (purge_all cx is (fst (platform_purge_tenant i ?c))))" using Cons by (rule chain)
  with 2 show ?case by (auto simp: Let_def split: prod.splits sum.splits)
qed (simp add: same)

lemma digest_stays: "cx_tenant cx = PLATFORM_TENANT_ID \<Longrightarrow> stays x (send_digest smtp cx cfg n slugs x)"
  unfolding send_digest_def by (intro maybe_stays branch_stays own_stays) (simp_all add: stays_same)

lemma ops_run_stays:
  assumes "multiTenantEnabled (cx_env cx)" and "cx_tenant cx = PLATFORM_TENANT_ID"
  shows "R (p_cloud x) (p_cloud (snd (fst (runPlatformOps up N w smtp cx (k, x)))))"
proof -
  obtain c r where p: "purge_all cx (purgeCandidates (cx_now cx) PURGE_AFTER_DAYS (p_cloud x)) (p_cloud x) = (c, r)"
    by (cases "purge_all cx (purgeCandidates (cx_now cx) PURGE_AFTER_DAYS (p_cloud x)) (p_cloud x)")
  obtain y cfg where g: "getPlatformConfig up (cx_intl cx) (cx_now cx) (x\<lparr>p_cloud := c\<rparr>) = (y, cfg)"
    by (cases "getPlatformConfig up (cx_intl cx) (cx_now cx) (x\<lparr>p_cloud := c\<rparr>)")
  have 1: "R (p_cloud x) c"
    using purge_all_stays [OF assms, of "p_cloud x" "purgeCandidates (cx_now cx) PURGE_AFTER_DAYS (p_cloud x)"] p by simp
  have "p_cloud y = c" using getPlatformConfig_cloud [OF g] by simp
  then have "R c (p_cloud (fst (send_digest smtp cx cfg n slugs y)))" for n slugs
    using digest_stays [OF assms(2), of y smtp cfg n slugs] by (simp add: stays_def)
  with 1 have "R (p_cloud x) (p_cloud (fst (send_digest smtp cx cfg n slugs y)))" for n slugs
    by (rule chain)
  then show ?thesis
    using p g 1 by (cases r) (simp_all add: runPlatformOps_def on_cloud_def case_prod_beta Let_def)
qed

lemma ops_stay:
  assumes "multiTenantEnabled (cx_env cx0)"
  shows "R (p_cloud x) (p_cloud (snd (fst (platform_ops_cron up N w smtp cx0 (k, x)))))"
proof -
  let ?cx = "cx0\<lparr>cx_tenant := PLATFORM_TENANT_ID\<rparr>"
  let ?x = "set_own ?cx (recordCronRun ''platform-ops'' (cx_now ?cx) (own_db ?cx x)) x"
  obtain k1 y r where o: "runPlatformOps up N w smtp ?cx (k, ?x) = ((k1, y), r)"
    by (cases "runPlatformOps up N w smtp ?cx (k, ?x)") (metis prod.collapse)
  have "R (p_cloud x) (p_cloud ?x)" by (simp add: set_own_def own_db_def rows)
  moreover have "R (p_cloud ?x) (p_cloud y)" using ops_run_stays [of ?cx ?x up N w smtp k] assms o by simp
  ultimately have 1: "R (p_cloud x) (p_cloud y)" by (rule chain)
  have 2: "R (p_cloud x) (p_cloud (set_own ?cx (own_db ?cx x) y))"
    using restored [OF 1] by (simp add: set_own_def own_db_def)
  show ?thesis
  proof (cases r)
    case (Inl e)
    with o 1 2 same show ?thesis by (cases e) (simp_all add: platform_ops_cron_def Let_def)
  qed (use o 1 same in \<open>simp add: platform_ops_cron_def Let_def\<close>)
qed

lemma step_stays:
  assumes "multiTenantEnabled (cx_env cx)" and "named_by r \<subseteq> named"
  shows "R (p_cloud (mc_platform m)) (p_cloud (mc_platform (platform_step D cx r m)))"
proof -
  note routes = create_route_stays update_route_stays delete_route_stays restore_route_stays purge_route_stays
    status_route_stays logout_route_stays invite_route_stays export_route_stays support_route_stays
    operator_routes_stay remove_route_stays signup_verify_stays workspace_create_stays
  show ?thesis
  proof (cases r)
    case (Signup_start body)
    then show ?thesis
      using signup_start_stays [OF assms(1)] by (simp add: case_prod_beta Let_def)
  next
    case Platform_ops
    then show ?thesis using ops_stay [OF assms(1)] by (simp add: case_prod_beta Let_def)
  qed (use assms(2) routes [OF assms(1), unfolded stays_def] in \<open>simp_all add: on_platform_def\<close>)
qed

lemma run_stays:
  assumes "\<And>cx r. (cx, r) \<in> set rs \<Longrightarrow> multiTenantEnabled (cx_env cx) \<and> named_by r \<subseteq> named"
  shows "R (p_cloud (mc_platform m)) (p_cloud (mc_platform (platform_run D rs m)))"
  using assms
proof (induction rs arbitrary: m)
  case (Cons q rs)
  obtain cx r where q: "q = (cx, r)" by (cases q)
  have "R (p_cloud (mc_platform m)) (p_cloud (mc_platform (platform_step D cx r m)))"
    using Cons.prems [of cx r] q by (intro step_stays) auto
  moreover have "R (p_cloud (mc_platform (platform_step D cx r m))) (p_cloud (mc_platform (platform_run D rs (platform_step D cx r m))))"
    by (rule Cons.IH) (use Cons.prems in auto)
  ultimately show ?case using q by (simp add: chain [of "p_cloud (mc_platform m)"])
qed (simp add: same)

end

section \<open>The table of tenants\<close>

definition organisations :: "cloud \<Rightarrow> string list" where
  "organisations c = concat (map (\<lambda>t. case t_captivoOrgId t of None \<Rightarrow> [] | Some g \<Rightarrow> [g]) (tenants c))"

definition tenants_ok :: "cloud \<Rightarrow> bool" where
  "tenants_ok c \<longleftrightarrow>
     distinct (map t_id (tenants c)) \<and> distinct (map t_slug (tenants c)) \<and> distinct (organisations c) \<and>
     list_all (\<lambda>t. reserved_tenant (t_id t) \<or> isValidTenantSlug (t_slug t)) (tenants c)"

lemma tenants_ok_data [simp]: "tenants_ok (set_data i s c) = tenants_ok c"
  by (simp add: tenants_ok_def organisations_def)

lemma organisations_kept:
  assumes "\<And>t. t_captivoOrgId (f t) = t_captivoOrgId t"
  shows "organisations (tenant_update p f c) = organisations c"
proof -
  have "map (\<lambda>t. case t_captivoOrgId t of None \<Rightarrow> [] | Some g \<Rightarrow> [g]) (update_many p f (tenants c)) =
        map (\<lambda>t. case t_captivoOrgId t of None \<Rightarrow> [] | Some g \<Rightarrow> [g]) (tenants c)"
    by (rule map_update_same) (simp add: assms)
  then show ?thesis by (simp add: organisations_def)
qed

lemma tenants_ok_update:
  assumes "tenants_ok c"
    and "\<And>t. t_id (f t) = t_id t \<and> t_slug (f t) = t_slug t \<and> t_captivoOrgId (f t) = t_captivoOrgId t"
  shows "tenants_ok (tenant_update p f c)"
proof -
  have "list_all (\<lambda>t. reserved_tenant (t_id t) \<or> isValidTenantSlug (t_slug t)) (update_many p f xs) =
        list_all (\<lambda>t. reserved_tenant (t_id t) \<or> isValidTenantSlug (t_slug t)) xs" for xs
    using assms(2) by (induction xs) (simp_all add: update_many_def)
  then show ?thesis
    using assms organisations_kept [of f p c] map_update_same [of t_id f p] map_update_same [of t_slug f p]
    by (simp add: tenants_ok_def)
qed

lemma organisations_delete: "distinct (organisations c) \<Longrightarrow> distinct (organisations (c\<lparr>tenants := delete_many p (tenants c)\<rparr>))"
proof -
  have "distinct (concat (map h xs)) \<Longrightarrow> distinct (concat (map h (delete_many p xs)))" for h :: "TenantRow \<Rightarrow> string list" and xs
    by (induction xs) (auto simp: delete_many_def)
  then show "distinct (organisations c) \<Longrightarrow> distinct (organisations (c\<lparr>tenants := delete_many p (tenants c)\<rparr>))"
    by (simp add: organisations_def)
qed

lemma tenants_ok_purge:
  assumes "tenants_ok c"
  shows "tenants_ok (fst (platform_purge_tenant i c))"
proof -
  let ?p = "\<lambda>t. t_id t = i \<and> t_deletedAt t \<noteq> None"
  have "distinct (organisations (c\<lparr>tenants := delete_many ?p (tenants c)\<rparr>))"
    using assms organisations_delete by (simp add: tenants_ok_def)
  moreover have "set (delete_many ?p (tenants c)) \<subseteq> set (tenants c)" by (auto simp: delete_many_def)
  ultimately show ?thesis
    using assms by (auto simp: tenants_ok_def platform_purge_tenant_def organisations_def list_all_iff distinct_delete)
qed

lemma tenants_ok_create:
  assumes "tenants_ok c" and "isValidTenantSlug slug" and "platform_create_tenant now i slug name org c = Inr c1"
  shows "tenants_ok c1"
  using assms
  by (auto simp: tenants_ok_def platform_create_tenant_def organisations_def insert_row_def list_ex_iff list_all_iff
      split: if_splits option.splits) blast

interpretation table: console_frame "\<lambda>c c'. tenants_ok c \<longrightarrow> tenants_ok c'" UNIV
  by unfold_locales
    (auto intro: tenants_ok_update tenants_ok_purge tenants_ok_create)

text \<open>C33: over any sequence of console requests, sign-ups, provisioned workspaces and daily jobs the table of tenants stays
  consistent: identifiers, host names and organisations are unique, so that an organisation never holds two workspaces, and
  every host name that is not reserved is well-formed.\<close>

theorem tenants_stay_consistent:
  assumes "\<And>cx r. (cx, r) \<in> set rs \<Longrightarrow> multiTenantEnabled (cx_env cx)"
    and "tenants_ok (p_cloud (mc_platform m))"
  shows "tenants_ok (p_cloud (mc_platform (platform_run D rs m)))"
  using table.run_stays [of rs m D] assms by simp

section \<open>Tenants nobody named\<close>

definition alive :: "ident \<Rightarrow> cloud \<Rightarrow> bool" where
  "alive j c \<longleftrightarrow> (\<forall>t\<in>set (tenants c). t_id t = j \<longrightarrow> t_deletedAt t = None)"

definition row_of :: "ident \<Rightarrow> cloud \<Rightarrow> TenantRow list" where
  "row_of j c = find_many (\<lambda>t. t_id t = j) (tenants c)"

definition untouched_tenant :: "ident \<Rightarrow> cloud \<Rightarrow> cloud \<Rightarrow> bool" where
  "untouched_tenant j c c' \<longleftrightarrow>
     (j \<noteq> PLATFORM_TENANT_ID \<and> alive j c \<longrightarrow> data c' j = data c j \<and> row_of j c' = row_of j c)"

lemma alive_row_of: "alive j c \<longleftrightarrow> (\<forall>t\<in>set (row_of j c). t_deletedAt t = None)"
  by (auto simp: alive_def row_of_def)

lemma row_of_iff: "t \<in> set (row_of j c) \<longleftrightarrow> t \<in> set (tenants c) \<and> t_id t = j"
  by (auto simp: row_of_def)

lemma row_of_update:
  assumes "\<And>t. p t \<Longrightarrow> t_id t \<noteq> j" and "\<And>t. t_id (f t) = t_id t"
  shows "row_of j (tenant_update p f c) = row_of j c"
proof -
  have "filter (\<lambda>t. t_id t = j) (map (\<lambda>t. if p t then f t else t) xs) = filter (\<lambda>t. t_id t = j) xs" for xs
    using assms by (induction xs) auto
  then show ?thesis by (simp add: row_of_def find_many_def update_many_def)
qed

lemma row_of_purge:
  assumes "alive j c"
  shows "data (fst (platform_purge_tenant i c)) j = data c j \<and> row_of j (fst (platform_purge_tenant i c)) = row_of j c \<or>
    i = j \<and> fst (platform_purge_tenant i c) = c"
proof (cases "i = j")
  case True
  then have "\<not> list_ex (\<lambda>t. t_id t = i \<and> t_deletedAt t \<noteq> None) (tenants c)"
    using assms by (auto simp: alive_def list_ex_iff)
  then show ?thesis using True by (simp add: platform_purge_tenant_def)
next
  case False
  then show ?thesis
    by (auto simp: platform_purge_tenant_def row_of_def find_many_def delete_many_def intro!: filter_cong)
qed

lemma row_of_create:
  "platform_create_tenant now i slug name org c = Inr c1 \<Longrightarrow> i \<noteq> j \<Longrightarrow> data c1 j = data c j \<and> row_of j c1 = row_of j c"
  by (auto simp: platform_create_tenant_def row_of_def find_many_def insert_row_def split: if_splits)

interpretation bystander: console_frame "untouched_tenant j" "{i. i \<noteq> j}"
proof
  show "untouched_tenant j c c2" if "untouched_tenant j c c1" "untouched_tenant j c1 c2" for c c1 c2
    using that by (simp add: untouched_tenant_def alive_row_of)
  show "untouched_tenant j c (fst (platform_purge_tenant i c))" if "\<not> reserved_tenant i" for i c
    using row_of_purge [of j c i] by (auto simp: untouched_tenant_def)
  show "untouched_tenant j c c1"
    if "i \<in> {i. i \<noteq> j}" "isValidTenantSlug slug" "platform_create_tenant now i slug name org c = Inr c1"
    for i slug now name org c c1
    using row_of_create [OF that(3)] that(1) by (simp add: untouched_tenant_def)
  show "untouched_tenant j c (tenant_update (\<lambda>t. t_id t = i \<and> q t) f c)"
    if "i \<in> {i. i \<noteq> j}" "\<not> reserved_tenant i"
      "\<And>t. t_id (f t) = t_id t \<and> t_slug (f t) = t_slug t \<and> t_captivoOrgId (f t) = t_captivoOrgId t" for i f q c
    using row_of_update [of "\<lambda>t. t_id t = i \<and> q t" j f c] that by (simp add: untouched_tenant_def)
qed (auto simp: untouched_tenant_def row_of_def)

text \<open>C34: what operators do to one tenant never reaches another: over any sequence of console requests, sign-ups, provisioned
  workspaces and daily jobs a tenant that no request names and that has not been deleted keeps its row in the table of tenants
  and every row of its database.\<close>

theorem bystander_untouched:
  assumes "\<And>cx r. (cx, r) \<in> set rs \<Longrightarrow> multiTenantEnabled (cx_env cx) \<and> j \<notin> named_by r"
    and "j \<noteq> PLATFORM_TENANT_ID" and "t \<in> set (tenants (p_cloud (mc_platform m)))" and "t_id t = j"
    and "alive j (p_cloud (mc_platform m))"
  shows "t \<in> set (tenants (p_cloud (mc_platform (platform_run D rs m)))) \<and>
    data (p_cloud (mc_platform (platform_run D rs m))) j = data (p_cloud (mc_platform m)) j"
proof -
  have "untouched_tenant j (p_cloud (mc_platform m)) (p_cloud (mc_platform (platform_run D rs m)))"
    by (rule bystander.run_stays) (use assms(1) in auto)
  then show ?thesis using assms(2-5) row_of_iff [of t j] by (simp add: untouched_tenant_def) metis
qed

section \<open>Operators\<close>

definition has_operator :: "db \<Rightarrow> bool" where
  "has_operator s \<longleftrightarrow> list_ex (\<lambda>u. u_role u = PLATFORM \<and> u_status u = UserStatus.ACTIVE) (users s)"

lemma has_operator_removed:
  "a \<in> set (users s) \<Longrightarrow> u_role a = PLATFORM \<Longrightarrow> u_status a = UserStatus.ACTIVE \<Longrightarrow> u_id a \<noteq> i \<Longrightarrow>
   has_operator (delete_user_row i s)"
  by (auto simp: has_operator_def delete_user_row_def delete_many_def list_ex_iff)

lemma purge_keeps_platform: "data (fst (platform_purge_tenant i c)) PLATFORM_TENANT_ID = data c PLATFORM_TENANT_ID"
  by (simp add: platform_purge_tenant_def reserved_tenant_def)

interpretation operators: console_frame
  "\<lambda>c c'. has_operator (data c PLATFORM_TENANT_ID) \<longrightarrow> has_operator (data c' PLATFORM_TENANT_ID)" UNIV
  by unfold_locales
    (auto simp: has_operator_removed purge_keeps_platform, auto simp: has_operator_def platform_create_tenant_def split: if_splits)

text \<open>C35: the console never locks everybody out: whatever operators do to each other, as long as there is an active
  operator there is one after any sequence of requests.\<close>

theorem operators_stay:
  assumes "\<And>cx r. (cx, r) \<in> set rs \<Longrightarrow> multiTenantEnabled (cx_env cx)"
    and "has_operator (data (p_cloud (mc_platform m)) PLATFORM_TENANT_ID)"
  shows "has_operator (data (p_cloud (mc_platform (platform_run D rs m))) PLATFORM_TENANT_ID)"
  using operators.run_stays [of rs m D] assms by simp

section \<open>A service with two tenants and one operator\<close>

definition ex_operator :: User where
  "ex_operator = ex_admin\<lparr>u_role := PLATFORM\<rparr>"

definition ex_op_env :: env where
  "ex_op_env = [''MULTI_TENANT'' \<mapsto> ''true'', ''CONSOLE_DOMAIN'' \<mapsto> ''example.com'', ''SESSION_SECRET'' \<mapsto> ''k'',
     ''CAPTIVO_ID_ISSUER'' \<mapsto> ''https://id'', ''CAPTIVO_ID_SERVICE_SECRET'' \<mapsto> ''z'', ''CAPTIVO_ID_CLIENT_SECRET'' \<mapsto> ''s'']"

definition ex_op_ctx :: ctx where
  "ex_op_ctx = ex_ctx\<lparr>cx_env := ex_op_env, cx_tenant := PLATFORM_TENANT_ID\<rparr>"

definition ex_operators :: db where
  "ex_operators = empty_db\<lparr>users := [ex_operator],
     sessions := [ex_session\<lparr>s_id := ''x2'', s_userId := ''a1'', s_tokenHash := ''h2''\<rparr>]\<rparr>"

definition ex_platform :: platform where
  "ex_platform =
     \<lparr>p_cloud = \<lparr>tenants = [ex_tenant, ex_tenant\<lparr>t_id := ''t2'', t_slug := ''other''\<rparr>],
        data = (\<lambda>i. if i = PLATFORM_TENANT_ID then ex_operators else empty_db\<lparr>sites := [ex_site]\<rparr>)\<rparr>,
      p_config = None, p_cache = None\<rparr>"

definition ex_centre :: centre where
  "ex_centre = \<lparr>ce_get = (\<lambda>_ _. Some (200, Some (JObj [(''entitlements'', JArr [JObj [(''product'', JStr ''ACCESS''),
       (''plan'', JStr ''pro''), (''limits'', JObj [(''maxSites'', JNum (NInt 5))])]])]))),
     ce_post = (\<lambda>_ _ _. Some 200), ce_encode = (\<lambda>t. t)\<rparr>"

definition ex_network :: network where
  "ex_network = \<lparr>nw_resolve4 = (\<lambda>_. [''10.0.0.1'']),
     nw_probeCert = (\<lambda>_ _. \<lparr>pb_ok = True, pb_sans = [''*.acme.example.com''], pb_validTo = None\<rparr>)\<rparr>"

definition ex_workspace_codec :: claim_codec where
  "ex_workspace_codec = \<lparr>cc_encode = (\<lambda>_. ''p''),
     cc_decode = (\<lambda>_. Some (JObj [(''org'', JStr ''o1''), (''orgName'', JStr ''Org''), (''email'', JStr ''o@example.com''),
       (''exp'', JNum (NInt 900))])), cc_mac = (\<lambda>_ _. ''m'')\<rparr>"

definition ex_deps :: deps where
  "ex_deps = \<lparr>de_up = True, de_argon = ex_argon, de_web = ex_page, de_message = (\<lambda>t. t), de_smtp = (\<lambda>_ _. True),
     de_shown = (\<lambda>_. []), de_encode = (\<lambda>t. t), de_exported = (\<lambda>_. JNull), de_jwt = ex_jwt, de_codec = ex_workspace_codec,
     de_centre = ex_centre, de_network = ex_network\<rparr>"

definition ex_machine :: machine where
  "ex_machine = \<lparr>mc_limiter = au_limiter (ex_auth ''signed''), mc_health = \<lparr>hc_slots = (\<lambda>_. None), hc_ips = None\<rparr>,
     mc_platform = ex_platform\<rparr>"

definition ex_deletion :: "(ctx \<times> platform_request) list" where
  "ex_deletion = [(ex_op_ctx, Delete_tenant ''t1'' (JObj [(''confirmSlug'', JStr ''acme'')])),
     (ex_op_ctx\<lparr>cx_now := 600\<rparr>, Purge_tenant ''t1'' (JObj [(''confirmSlug'', JStr ''acme'')])),
     (ex_op_ctx\<lparr>cx_now := 700\<rparr>, Remove_operator ''a1'')]"

abbreviation after :: "(ctx \<times> platform_request) list \<Rightarrow> cloud" where
  "after rs \<equiv> p_cloud (mc_platform (platform_run ex_deps rs ex_machine))"

lemma ex_deletion_cloud: "(cx, r) \<in> set ex_deletion \<Longrightarrow> multiTenantEnabled (cx_env cx) \<and> ''t2'' \<notin> named_by r"
proof -
  have "multiTenantEnabled ex_op_env" by code_simp
  then show "(cx, r) \<in> set ex_deletion \<Longrightarrow> multiTenantEnabled (cx_env cx) \<and> ''t2'' \<notin> named_by r"
    by (auto simp: ex_deletion_def ex_op_ctx_def)
qed

theorem tenants_stay_consistent_witness: "tenants_ok (after ex_deletion)"
proof (rule tenants_stay_consistent)
  have "isValidTenantSlug ''acme''" "isValidTenantSlug ''other''" by code_simp+
  then show "tenants_ok (p_cloud (mc_platform ex_machine))"
    by (simp add: tenants_ok_def organisations_def ex_machine_def ex_platform_def ex_tenant_def)
qed (use ex_deletion_cloud in blast)

theorem bystander_untouched_witness:
  "ex_tenant\<lparr>t_id := ''t2'', t_slug := ''other''\<rparr> \<in> set (tenants (after ex_deletion)) \<and>
   data (after ex_deletion) ''t2'' = empty_db\<lparr>sites := [ex_site]\<rparr>"
proof -
  have "data (p_cloud (mc_platform ex_machine)) ''t2'' = empty_db\<lparr>sites := [ex_site]\<rparr>"
    by (simp add: ex_machine_def ex_platform_def PLATFORM_TENANT_ID_def)
  moreover have "alive ''t2'' (p_cloud (mc_platform ex_machine))"
    by (simp add: alive_def ex_machine_def ex_platform_def ex_tenant_def)
  ultimately show ?thesis
    using bystander_untouched [of ex_deletion "''t2''" "ex_tenant\<lparr>t_id := ''t2'', t_slug := ''other''\<rparr>" ex_machine ex_deps]
      ex_deletion_cloud
    by (simp add: ex_machine_def ex_platform_def ex_tenant_def PLATFORM_TENANT_ID_def)
qed

theorem operators_stay_witness: "has_operator (data (after ex_deletion) PLATFORM_TENANT_ID)"
proof (rule operators_stay)
  show "has_operator (data (p_cloud (mc_platform ex_machine)) PLATFORM_TENANT_ID)"
    by (simp add: has_operator_def ex_machine_def ex_platform_def ex_operators_def ex_operator_def ex_admin_def ex_member_def)
qed (use ex_deletion_cloud in blast)

end
