(* ===== verification/Platform_Safety.thy ===== *)
theory Platform_Safety
  imports Control_Plane
begin

text \<open>
  What single requests of the platform promise: a workspace that could not be finished leaves nothing behind, which
  configured defaults make every creation fail, what a support session rests on, and what a workspace of an entitled
  organisation needs.
\<close>

section \<open>A workspace that could not be made\<close>

text \<open>Between the row of a new tenant and its end only that tenant's row and data change, and the row stays.\<close>

definition only_tenant :: "ident \<Rightarrow> cloud \<Rightarrow> cloud \<Rightarrow> bool" where
  "only_tenant i c c' \<longleftrightarrow>
     find_many (\<lambda>t. t_id t \<noteq> i) (tenants c') = find_many (\<lambda>t. t_id t \<noteq> i) (tenants c) \<and>
     (\<forall>j. j \<noteq> i \<longrightarrow> data c' j = data c j) \<and>
     (list_ex (\<lambda>t. t_id t = i) (tenants c) \<longrightarrow> list_ex (\<lambda>t. t_id t = i) (tenants c'))"

lemma only_tenant_refl: "only_tenant i c c"
  by (simp add: only_tenant_def)

lemma only_tenant_trans: "only_tenant i c c1 \<Longrightarrow> only_tenant i c1 c2 \<Longrightarrow> only_tenant i c c2"
  by (simp add: only_tenant_def)

lemma only_tenant_scope: "multiTenantEnabled env \<Longrightarrow> only_tenant i c (fst (in_scope env i fn c))"
  by (auto simp: only_tenant_def in_scope_def scope_id_def split: prod.splits sum.splits)

lemma only_tenant_update:
  assumes "\<And>t. t_id (f t) = t_id t"
  shows "only_tenant i c (tenant_update (\<lambda>t. t_id t = i) f c)"
proof -
  have "filter (\<lambda>t. t_id t \<noteq> i) (update_many (\<lambda>t. t_id t = i) f xs) = filter (\<lambda>t. t_id t \<noteq> i) xs \<and>
        list_ex (\<lambda>t. t_id t = i) (update_many (\<lambda>t. t_id t = i) f xs) = list_ex (\<lambda>t. t_id t = i) xs" for xs
    using assms by (induction xs) (auto simp: update_many_def)
  then show ?thesis by (simp add: only_tenant_def find_many_def)
qed

lemma only_tenant_plan: "only_tenant i c (fst (write_plan i input c))"
  by (simp add: write_plan_def platform_update_tenant_def Let_def only_tenant_refl only_tenant_update)

lemma only_tenant_defaults: "multiTenantEnabled env \<Longrightarrow> only_tenant i c (fst (write_defaults env i d c))"
  by (simp add: write_defaults_def only_tenant_refl only_tenant_scope split: option.split)

lemma only_tenant_provision:
  assumes "multiTenantEnabled (cx_env cx)"
  shows "only_tenant i (p_cloud x) (p_cloud (fst (provision_tenant up A cx f i input x)))"
proof -
  let ?fn = "\<lambda>s. (createInvite A (cx_env cx) f (cx_now cx) (first_admin_invite input) s, Inr () :: unit attempt)"
  obtain c1 r1 where a: "in_scope (cx_env cx) i ?fn (p_cloud x) = (c1, r1)" by (cases "in_scope (cx_env cx) i ?fn (p_cloud x)")
  obtain c2 r2 where b: "write_plan i input c1 = (c2, r2)" by (cases "write_plan i input c1")
  obtain y cfg where g: "getPlatformConfig up (cx_intl cx) (cx_now cx) (x\<lparr>p_cloud := c2\<rparr>) = (y, cfg)"
    by (cases "getPlatformConfig up (cx_intl cx) (cx_now cx) (x\<lparr>p_cloud := c2\<rparr>)")
  let ?w = "write_defaults (cx_env cx) i (pc_newTenantDefaults cfg) c2"
  have 1: "only_tenant i (p_cloud x) c1" using only_tenant_scope [OF assms, of i "p_cloud x" ?fn] a by simp
  have "only_tenant i c1 c2" using only_tenant_plan [of i c1 input] b by simp
  with 1 have 2: "only_tenant i (p_cloud x) c2" by (rule only_tenant_trans)
  then have 3: "only_tenant i (p_cloud x) (fst ?w)" using only_tenant_defaults [OF assms] by (rule only_tenant_trans)
  have "p_cloud y = c2" using getPlatformConfig_cloud [OF g] by simp
  then show ?thesis
    using a b g 1 2 3 by (cases ?w; cases r1; cases r2) (simp_all add: provision_tenant_def)
qed

lemma rollback_removes:
  assumes "\<not> reserved_tenant i" and "list_ex (\<lambda>t. t_id t = i) (tenants c)"
  shows "rollbackCreatedTenantRow now i c =
    \<lparr>tenants = find_many (\<lambda>t. t_id t \<noteq> i) (tenants c), data = (data c)(i := empty_db)\<rparr>"
proof -
  let ?u = "update_many (\<lambda>t. t_id t = i \<and> t_deletedAt t = None) (\<lambda>t. t\<lparr>t_deletedAt := Some now, t_status := ''SUSPENDED''\<rparr>)"
  have "delete_many (\<lambda>t. t_id t = i \<and> t_deletedAt t \<noteq> None) (?u xs) = find_many (\<lambda>t. t_id t \<noteq> i) xs \<and>
        list_ex (\<lambda>t. t_id t = i \<and> t_deletedAt t \<noteq> None) (?u xs) = list_ex (\<lambda>t. t_id t = i) xs" for xs
    by (induction xs) (auto simp: update_many_def delete_many_def find_many_def)
  from this [of "tenants c"] show ?thesis
    using assms
    by (simp add: rollbackCreatedTenantRow_def platform_delete_tenant_def platform_purge_tenant_def Let_def del: not_None_eq)
qed


section \<open>Defaults that no column can hold\<close>

lemma config_ignores_cloud:
  "snd (getPlatformConfig up \<I> now (x\<lparr>p_cloud := c\<rparr>)) = snd (getPlatformConfig up \<I> now x)"
  by (simp add: getPlatformConfig_def Let_def split: option.split)

text \<open>The counts of the defaults are accepted without an upper bound and written to 32-bit columns: one that does not fit makes
  every creation fail.\<close>

lemma oversized_default_blocks_creation:
  assumes "pc_newTenantDefaults (snd (getPlatformConfig up (cx_intl cx) (cx_now cx) x)) = Some d"
    and "nd_auditRetentionDays d = Some n" and "\<not> fits_int4 n"
  shows "\<exists>e. snd (createTenant up A w message cx f i input x) = Inl e"
proof -
  have "\<not> counts_fit (apply_defaults d s)" for s
    using assms(2,3) by (simp add: counts_fit_def apply_defaults_def override_def)
  then have w: "\<exists>e. snd (write_defaults (cx_env cx) i (Some d) c) = Inl e" for c
    by (simp add: write_defaults_def in_scope_def save_settings_row_def)
  have "\<exists>e. snd (provision_tenant up A cx f i input (x\<lparr>p_cloud := c\<rparr>)) = Inl e" for c
    by (auto simp: provision_tenant_def case_prod_beta Let_def config_ignores_cloud assms(1) w split: sum.split)
  then have "snd (provision_tenant up A cx f i input (x\<lparr>p_cloud := c\<rparr>)) \<noteq> Inr u" for c u by (metis Inl_Inr_False)
  then show ?thesis
    by (auto simp: createTenant_def case_prod_beta split: option.split sum.split)
qed

definition ex_oversized :: platform where
  "ex_oversized = ex_platform\<lparr>p_config := Some
     \<lparr>pr_announcementText = None, pr_announcementLevel = None, pr_announcementUntil = None,
      pr_newTenantDefaults = JObj [(''auditRetentionDays'', JNum (NInt 3000000000))], pr_opsEmail = None,
      pr_smtpFallback = False, pr_signupEnabled = False\<rparr>,
     p_cloud := (p_cloud ex_platform)\<lparr>data := (data (p_cloud ex_platform))(''t9'' := empty_db)\<rparr>\<rparr>"

definition ex_draw :: fresh where
  "ex_draw = \<lparr>new_id = ''v9'', new_token = ''k9''\<rparr>"

definition ex_new_tenant :: create_input where
  "ex_new_tenant = \<lparr>ci_name = ''Nine'', ci_slug = ''nine'', ci_adminEmail = ''n@example.com'', ci_adminName = None,
     ci_plan = None, ci_limits = None, ci_captivoOrgId = None\<rparr>"

lemma ex_oversized_refused:
  "\<exists>e. snd (createTenant True ex_argon ex_page (\<lambda>t. t) ex_op_ctx f ''t9'' ex_new_tenant ex_oversized) = Inl e"
proof (rule oversized_default_blocks_creation [where n = 3000000000])
  show "pc_newTenantDefaults (snd (getPlatformConfig True (cx_intl ex_op_ctx) (cx_now ex_op_ctx) ex_oversized)) =
    Some (no_defaults\<lparr>nd_auditRetentionDays := Some 3000000000\<rparr>)"
    by (simp add: getPlatformConfig_def ex_oversized_def ex_platform_def config_of_row_def parseNewTenantDefaults_def
        no_defaults_def default_count_def default_text_def body_field_def field_def Let_def)
qed (simp_all add: no_defaults_def fits_int4_def)



section \<open>Support sessions\<close>

lemma find_first_update:
  assumes "find_first p xs = Some r" and "q r" and "\<And>a. p (g a) = p a"
  shows "find_first p (update_many q g xs) = Some (g r)"
  using assms by (induction xs) (auto simp: find_first_def update_many_def split: if_splits)

lemma ensureSupportUser_Inr:
  assumes "ensureSupportUser i now s = (s1, Inr uid)"
  shows "\<exists>u. u \<in> set (users s1) \<and> u_id u = uid \<and> u_email u = SUPPORT_USER_EMAIL \<and> u_status u = UserStatus.ACTIVE"
    and "supportHandoffs s1 = supportHandoffs s" and "sessions s1 = sessions s"
    and "adminAuditEvents s1 = adminAuditEvents s"
  using assms
  by (auto simp: ensureSupportUser_def user_by_email_def insert_user_def support_user_def split: option.splits if_splits
      dest: find_first_Some)

text \<open>C38: a support session opens only on a handoff an operator stored that is neither used nor expired. It belongs to the active
  support account, ends within the hour, the tenant's log names the operator and the reason, and the same link is refused
  from then on.\<close>

theorem support_session_accounted:
  assumes "startSupportSession cx d token s = (s', Inr value)"
  shows "\<exists>h u x e. handoff_by_token cx token s = Some h \<and> sh_usedAt h = None \<and> cx_now cx \<le> sh_expiresAt h \<and>
    sessions s' = insert_row x (sessions s) \<and> s_tokenHash x = cx_H cx value \<and>
    s_expiresAt x = cx_now cx + SUPPORT_SESSION_MS \<and>
    u \<in> set (users s') \<and> u_id u = s_userId x \<and> u_email u = SUPPORT_USER_EMAIL \<and> u_status u = UserStatus.ACTIVE \<and>
    adminAuditEvents s' = insert_row e (adminAuditEvents s) \<and> aa_action e = ''platform.support.session_start'' \<and>
    aa_actorEmail e = Some (sh_actorEmail h) \<and>
    aa_summary e = ''[Captivo platform] Support session started by '' @ sh_actorEmail h @ '': '' @ sh_reason h \<and>
    (\<forall>cx' d'. cx_H cx' = cx_H cx \<longrightarrow> startSupportSession cx' d' token s' = (s', Inl ''used''))"
proof -
  obtain h where h: "handoff_by_token cx token s = Some h" and free: "sh_usedAt h = None" "cx_now cx \<le> sh_expiresAt h"
    using assms by (auto simp: startSupportSession_def split: option.splits if_splits)
  obtain s1 uid where e: "ensureSupportUser (dr_user d) (cx_now cx) s = (s1, Inr uid)"
    using assms h free by (auto simp: startSupportSession_def split: prod.splits sum.splits if_splits)
  let ?row = "support_session cx d uid"
  let ?used = "\<lambda>g. g\<lparr>sh_usedAt := Some (cx_now cx), sh_sessionId := Some (s_id ?row)\<rparr>"
  have s': "value = dr_token d" "sessions s' = insert_row ?row (sessions s)" "users s' = users s1"
    "supportHandoffs s' = update_many (\<lambda>g. sh_id g = sh_id h \<and> sh_usedAt g = None) ?used (supportHandoffs s)"
    "\<exists>v. adminAuditEvents s' = insert_row v (adminAuditEvents s) \<and> aa_action v = ''platform.support.session_start'' \<and>
      aa_actorEmail v = Some (sh_actorEmail h) \<and>
      aa_summary v = ''[Captivo platform] Support session started by '' @ sh_actorEmail h @ '': '' @ sh_reason h"
    using assms h free e ensureSupportUser_Inr(2-4) [OF e]
    by (auto simp: startSupportSession_def consume_handoff_def recordAdminAction_def admin_event_def support_event_def Let_def
        split: if_splits)
  have "find_first (\<lambda>g. sh_tokenHash g = cx_H cx token) (supportHandoffs s') = Some (?used h)"
    unfolding s'(4) using h free by (intro find_first_update) (simp_all add: handoff_by_token_def)
  then have again: "startSupportSession cx' d' token s' = (s', Inl ''used'')" if "cx_H cx' = cx_H cx" for cx' d'
    using that by (simp add: startSupportSession_def handoff_by_token_def)
  obtain u where "u \<in> set (users s1)" "u_id u = uid" "u_email u = SUPPORT_USER_EMAIL" "u_status u = UserStatus.ACTIVE"
    using ensureSupportUser_Inr(1) [OF e] by blast
  moreover have "s_tokenHash ?row = cx_H cx value" "s_expiresAt ?row = cx_now cx + SUPPORT_SESSION_MS" "s_userId ?row = uid"
    using s'(1) by (simp_all add: support_session_def)
  ultimately show ?thesis using h free s'(2,3,5) again by metis
qed


definition ex_handoff :: SupportHandoff where
  "ex_handoff = \<lparr>sh_id = ''f1'', sh_tokenHash = ''k1'', sh_actorId = ''a1'', sh_actorEmail = ''a@example.com'',
     sh_reason = ''ticket 7'', sh_expiresAt = 900, sh_usedAt = None, sh_sessionId = None, sh_createdAt = 400\<rparr>"

definition ex_supported :: db where
  "ex_supported = empty_db\<lparr>supportHandoffs := [ex_handoff]\<rparr>"

theorem support_session_accounted_witness:
  "\<exists>s'. startSupportSession ex_op_ctx ex_drawn ''k1'' ex_supported = (s', Inr ''t8'') \<and>
    (\<exists>x. sessions s' = [x] \<and> s_expiresAt x = 500 + SUPPORT_SESSION_MS) \<and>
    startSupportSession ex_op_ctx ex_drawn ''k1'' s' = (s', Inl ''used'')"
proof -
  let ?r = "startSupportSession ex_op_ctx ex_drawn ''k1'' ex_supported"
  have v: "snd ?r = Inr ''t8''"
    by (simp add: startSupportSession_def handoff_by_token_def find_first_def ensureSupportUser_def user_by_email_def
        insert_user_def support_user_def consume_handoff_def count_rows_def support_session_def ex_supported_def ex_handoff_def
        ex_op_ctx_def ex_ctx_def ex_drawn_def empty_db_def Let_def)
  then have "?r = (fst ?r, Inr ''t8'')" by (metis prod.collapse)
  from support_session_accounted [OF this] show ?thesis
    using v by (auto simp: ex_supported_def empty_db_def insert_row_def ex_op_ctx_def ex_ctx_def intro!: exI [of _ "fst ?r"] prod_eqI)
qed

lemma undefined_member_mismatch:
  assumes "act_metadata a = JObj ob" and "adminChain s = None" and "adminAuditEvents s = []"
    and "e = (admin_event H nid now new_head a)\<lparr>aa_metadata := JObj ob\<rparr>"
    and "computeAdminHash H [] e \<noteq> computeAdminHash H [] (e\<lparr>aa_metadata := json_stored (JObj ob)\<rparr>)"
  shows "cv_reason (verify_admin_log H (recordAdminAction H nid now a s)) = Some Hash_mismatch"
proof -
  let ?e = "admin_event H nid now new_head a"
  have row: "?e = e\<lparr>aa_metadata := json_stored (JObj ob)\<rparr>"
    using assms(1,4) by (simp add: admin_event_def Let_def)
  have hash: "aa_hash ?e = computeAdminHash H [] e" and seq: "aa_seq ?e = Some 1" and prev: "aa_prevHash ?e = []"
    using assms(1,4) by (simp_all add: admin_event_def Let_def new_head_def nullish_def
        computeAdminHash_def canonicalizeAdmin_def admin_fields_def admin_seq_def)
  have "admin_loop H None [?e] = Some (?e, Hash_mismatch)"
    using assms(5) hash row prev by simp
  then show ?thesis
    using seq assms(2,3)
    by (simp add: verify_admin_log_def recordAdminAction_def Let_def insert_row_def
        upsert_head_def find_many_def admin_seq_def verifyAdminChain_def)
qed

text \<open>The end of a support session takes any session: a member who puts the own token into the cookie of support sessions writes
  an entry in the name of the platform, whose undefined operator breaks the tenant's chain.\<close>

definition ex_member_end :: auth where
  "ex_member_end = \<lparr>au_limiter = new_limiter,
     au_jar = [SUPPORT_COOKIE \<mapsto> \<lparr>ck_value = ''h1'', ck_maxAge = 60, ck_secure = True, ck_domain = None\<rparr>],
     au_db = empty_db\<lparr>sessions := [ex_session]\<rparr>\<rparr>"

definition ex_end_event :: AdminAction where
  "ex_end_event = support_event ''u1'' None ''platform.support.session_end''
     ''[Captivo platform] Support session ended (platform)'' (JObj [(''platformActor'', JUndef)])"

lemma member_ends_support_session:
  "au_db (fst (support_end ex_op_ctx ex_member_end)) =
     recordAdminAction (cx_H ex_op_ctx) (cx_auditId ex_op_ctx) (cx_now ex_op_ctx) ex_end_event
       (delete_session_rows (\<lambda>y. s_id y = ''x1'') (au_db ex_member_end))"
  "cv_reason (verify_admin_log (cx_H ex_op_ctx) (au_db (fst (support_end ex_op_ctx ex_member_end)))) = Some Hash_mismatch"
proof -
  show first: "au_db (fst (support_end ex_op_ctx ex_member_end)) =
     recordAdminAction (cx_H ex_op_ctx) (cx_auditId ex_op_ctx) (cx_now ex_op_ctx) ex_end_event
       (delete_session_rows (\<lambda>y. s_id y = ''x1'') (au_db ex_member_end))"
    by (simp add: support_end_def endSupportSession_def ex_member_end_def ex_end_event_def ex_op_ctx_def ex_ctx_def
        cookie_value_def or_null_def drop_cookie_def session_by_token_def handoff_of_session_def find_first_def ex_session_def
        empty_db_def Let_def)
  have differ: "canonicalizeAdmin (e\<lparr>aa_metadata := JObj [(''platformActor'', JUndef)]\<rparr>) \<noteq>
      canonicalizeAdmin (e\<lparr>aa_metadata := JObj []\<rparr>)" for e
    by (simp add: canonicalizeAdmin_def admin_fields_def nullish_def admin_seq_def)
  show "cv_reason (verify_admin_log (cx_H ex_op_ctx) (au_db (fst (support_end ex_op_ctx ex_member_end)))) = Some Hash_mismatch"
    unfolding first
    by (intro undefined_member_mismatch [OF _ _ _ refl])
      (auto simp: ex_end_event_def support_event_def ex_member_end_def delete_session_rows_def empty_db_def Let_def
        computeAdminHash_def chainHash_def ex_op_ctx_def ex_ctx_def differ)
qed


section \<open>Workspaces of entitled organisations\<close>

lemma limit_entry_again: "limit_entry raw = Some n \<Longrightarrow> limit_entry (JNum (NInt n)) = Some n"
  by (auto simp: limit_entry_def Let_def split: js.splits jnum.splits if_splits)

lemma parseLimits_entry: "parseLimits v k = Some n \<Longrightarrow> limit_entry (JNum (NInt n)) = Some n"
  by (auto simp: parseLimits_def intro: limit_entry_again split: js.splits)

lemma limits_object_read:
  assumes "\<And>k n. l k = Some n \<Longrightarrow> limit_entry (JNum (NInt n)) = Some n"
  shows "parseLimits (limits_object l) = l"
proof
  fix k
  have absent: "limit_entry JUndef = None" by (simp add: limit_entry_def)
  show "parseLimits (limits_object l) k = l k"
    by (cases k; cases "l maxUsers"; cases "l maxSites"; cases "l maxConnectors"; cases "l maxRecordingRetentionDays")
      (simp_all add: parseLimits_def limits_object_def json_member_def field_def absent assms)
qed

lemma limits_round_trip: "parseLimits (limits_object (parseLimits v)) = parseLimits v"
  by (rule limits_object_read) (rule parseLimits_entry)

lemma update_last:
  assumes "\<forall>t\<in>set ts. t_id t \<noteq> i" and "t_id r = i"
  shows "update_many (\<lambda>t. t_id t = i) g (insert_row r ts) = insert_row (g r) ts"
  using assms by (induction ts) (auto simp: update_many_def insert_row_def)


lemma in_scope_tenants: "tenants (fst (in_scope env i fn c)) = tenants c"
  by (auto simp: in_scope_def split: prod.splits sum.splits)

lemma write_defaults_tenants: "tenants (fst (write_defaults env i d c)) = tenants c"
  by (simp add: write_defaults_def in_scope_tenants split: option.split)

lemma createTenant_Inr:
  assumes "multiTenantEnabled (cx_env cx)" and "createTenant up A w message cx f i input x = (y, Inr r)"
  shows "\<exists>row. tenants (p_cloud y) = insert_row row (tenants (p_cloud x)) \<and> t_id row = i \<and> t_slug row = ci_slug input \<and>
    t_status row = ''ACTIVE'' \<and> t_captivoOrgId row = ci_captivoOrgId input \<and>
    t_limits row = (case ci_limits input of None \<Rightarrow> JNull | Some l \<Rightarrow> limits_object l) \<and> isValidTenantSlug (ci_slug input)"
    and "\<forall>t\<in>set (tenants (p_cloud x)). t_id t \<noteq> i \<and> (ci_captivoOrgId input \<noteq> None \<longrightarrow> t_captivoOrgId t \<noteq> ci_captivoOrgId input)"
    and "\<forall>j. j \<noteq> i \<longrightarrow> data (p_cloud y) j = data (p_cloud x) j"
proof -
  have v: "validateCreateInput input = None" using assms(2) by (simp add: createTenant_def split: option.splits)
  then have slug: "isValidTenantSlug (ci_slug input)" by (auto simp: validateCreateInput_def split: if_splits)
  obtain c where c: "platform_create_tenant (cx_now cx) i (ci_slug input) (trim (ci_name input)) (ci_captivoOrgId input) (p_cloud x) = Inr c"
    using assms(2) v by (auto simp: createTenant_def split: sum.splits)
  let ?fn = "\<lambda>s. (createInvite A (cx_env cx) f (cx_now cx) (first_admin_invite input) s, Inr () :: unit attempt)"
  obtain y' where p: "provision_tenant up A cx f i input (x\<lparr>p_cloud := c\<rparr>) = (y', Inr ())" "y' = y"
    using assms(2) v c by (auto simp: createTenant_def split: sum.splits prod.splits)
  obtain c1 r1 where a: "in_scope (cx_env cx) i ?fn c = (c1, r1)" by (cases "in_scope (cx_env cx) i ?fn c")
  obtain c2 r2 where b: "write_plan i input c1 = (c2, r2)" by (cases "write_plan i input c1")
  obtain z cfg where g: "getPlatformConfig up (cx_intl cx) (cx_now cx) (x\<lparr>p_cloud := c2\<rparr>) = (z, cfg)"
    by (cases "getPlatformConfig up (cx_intl cx) (cx_now cx) (x\<lparr>p_cloud := c2\<rparr>)")
  have z: "p_cloud z = c2" using getPlatformConfig_cloud [OF g] by simp
  have r: "r2 = Inr ()" and y: "p_cloud y = fst (write_defaults (cx_env cx) i (pc_newTenantDefaults cfg) c2)"
    using p a b g z by (auto simp: provision_tenant_def case_prod_beta split: sum.splits)
  have ty: "tenants (p_cloud y) = tenants c2" by (simp add: y write_defaults_tenants)
  have t1: "tenants c1 = tenants c" using in_scope_tenants [of "cx_env cx" i ?fn c] a by simp
  show fresh: "\<forall>t\<in>set (tenants (p_cloud x)). t_id t \<noteq> i \<and> (ci_captivoOrgId input \<noteq> None \<longrightarrow> t_captivoOrgId t \<noteq> ci_captivoOrgId input)"
    using c by (auto simp: platform_create_tenant_def list_ex_iff split: if_splits)
  show "\<exists>row. tenants (p_cloud y) = insert_row row (tenants (p_cloud x)) \<and> t_id row = i \<and> t_slug row = ci_slug input \<and>
    t_status row = ''ACTIVE'' \<and> t_captivoOrgId row = ci_captivoOrgId input \<and>
    t_limits row = (case ci_limits input of None \<Rightarrow> JNull | Some l \<Rightarrow> limits_object l) \<and> isValidTenantSlug (ci_slug input)"
    using c b r ty t1 slug fresh
    by (auto simp: platform_create_tenant_def write_plan_def platform_update_tenant_def update_last Let_def
        split: if_splits option.splits)
  have "only_tenant i c (p_cloud y)"
    using only_tenant_provision [OF assms(1), of i "x\<lparr>p_cloud := c\<rparr>" up A f input] p by simp
  then show "\<forall>j. j \<noteq> i \<longrightarrow> data (p_cloud y) j = data (p_cloud x) j"
    using c by (auto simp: only_tenant_def platform_create_tenant_def split: if_splits)
qed


text \<open>C36: a workspace is made only for the bearer of a signed claim whose organisation holds a live entitlement and has no
  workspace: exactly one row is added, for that organisation, with the limits of the entitlement, and nobody else's data
  changes.\<close>

theorem workspace_needs_entitlement:
  assumes "multiTenantEnabled (cx_env cx)"
    and "workspace_create up A w message K Z shown cx f i jar body x = (y, Ok n link)"
  shows "\<exists>claim ent row. readWorkspaceClaim K (map_option ck_value (jar ''captivo_workspace''))
      (opt_text (cx_env cx ''CAPTIVO_ID_CLIENT_SECRET'')) (cx_now cx) = Some claim \<and>
    fetchAccessEntitlement Z (cx_env cx) (raw_text_of claim ''org'') = Ent_ok ent \<and> \<not> entitlement_lapsed cx ent \<and>
    (\<forall>t\<in>set (tenants (p_cloud x)). t_captivoOrgId t \<noteq> Some (raw_text_of claim ''org'')) \<and>
    tenants (p_cloud y) = insert_row row (tenants (p_cloud x)) \<and> t_id row = i \<and> t_status row = ''ACTIVE'' \<and>
    t_captivoOrgId row = Some (raw_text_of claim ''org'') \<and> parseLimits (t_limits row) = parseLimits (en_limits ent) \<and>
    isValidTenantSlug (t_slug row) \<and> \<not> isReservedSlug (t_slug row) \<and>
    (\<forall>j. j \<noteq> i \<longrightarrow> data (p_cloud y) j = data (p_cloud x) j)"
proof -
  let ?slug = "to_lower (trim (if body_field body ''slug'' = JUndef \<or> body_field body ''slug'' = JNull then []
      else template_text shown (body_field body ''slug'')))"
  obtain claim where claim: "readWorkspaceClaim K (map_option ck_value (jar ''captivo_workspace''))
      (opt_text (cx_env cx ''CAPTIVO_ID_CLIENT_SECRET'')) (cx_now cx) = Some claim" and free: "\<not> isReservedSlug ?slug"
    using assms(2) by (auto simp: workspace_create_def request_scope_def Let_def split: if_splits option.splits prod.splits reply.splits)
  let ?in = "\<lparr>ei_organizationId = raw_text_of claim ''org'', ei_organizationName = raw_text_of claim ''orgName'',
    ei_slug = ?slug, ei_adminEmail = raw_text_of claim ''email'',
    ei_adminName = (case body_field claim ''name'' of JStr n \<Rightarrow> Some n | _ \<Rightarrow> None)\<rparr>"
  obtain url linked where made: "provisionEntitledWorkspace up A w message Z cx f i ?in x = (y, Inr (Provisioned url linked))"
    using assms(2) claim free
    by (auto simp: workspace_create_def request_scope_def Let_def
        split: if_splits prod.splits reply.splits sum.splits failure.splits provision_result.splits)
  obtain ent where ent: "fetchAccessEntitlement Z (cx_env cx) (raw_text_of claim ''org'') = Ent_ok ent" "\<not> entitlement_lapsed cx ent"
    using made by (auto simp: provisionEntitledWorkspace_def split: EntitlementLookup.splits if_splits)
  obtain input r where input: "createTenant up A w message cx f i input x = (y, Inr r)" "ci_slug input = ?slug"
    "ci_captivoOrgId input = Some (raw_text_of claim ''org'')"
    "ci_limits input = (if en_limits ent \<noteq> JNull then Some (parseLimits (en_limits ent)) else None)"
    using made ent
    by (auto simp: provisionEntitledWorkspace_def Let_def split: if_splits option.splits prod.splits sum.splits failure.splits)
  have "parseLimits (case ci_limits input of None \<Rightarrow> JNull | Some l \<Rightarrow> limits_object l) = parseLimits (en_limits ent)"
    using input(4) by (simp add: limits_round_trip)
  then show ?thesis
    using createTenant_Inr [OF assms(1) input(1)] claim free ent input(2,3) by (metis option.distinct(1))
qed


definition ex_ws_jar :: "string \<Rightarrow> cookie option" where
  "ex_ws_jar = [''captivo_workspace'' \<mapsto> \<lparr>ck_value = ''p.m'', ck_maxAge = 60, ck_secure = True, ck_domain = None\<rparr>]"

definition ex_made :: "platform \<times> (string \<times> bool) reply" where
  "ex_made = workspace_create True ex_argon ex_page (\<lambda>t. t) ex_workspace_codec ex_centre (\<lambda>_. []) ex_op_ctx ex_draw ''t9''
     ex_ws_jar (JObj [(''slug'', JStr ''nine'')]) ex_platform"

theorem workspace_needs_entitlement_witness:
  "snd ex_made = Ok 201 (''https://nine.example.com/invite/k9'', True) \<and>
   (\<exists>row. tenants (p_cloud (fst ex_made)) = insert_row row (tenants (p_cloud ex_platform)) \<and> t_id row = ''t9'' \<and>
     data (p_cloud (fst ex_made)) ''t2'' = data (p_cloud ex_platform) ''t2'')"
proof -
  have ok: "snd ex_made = Ok 201 (''https://nine.example.com/invite/k9'', True)" by code_simp
  then have made: "workspace_create True ex_argon ex_page (\<lambda>t. t) ex_workspace_codec ex_centre (\<lambda>_. []) ex_op_ctx ex_draw ''t9''
     ex_ws_jar (JObj [(''slug'', JStr ''nine'')]) ex_platform = (fst ex_made, Ok 201 (''https://nine.example.com/invite/k9'', True))"
    by (metis ex_made_def prod.collapse)
  have "multiTenantEnabled (cx_env ex_op_ctx)"
    using ex_deletion_cloud [of ex_op_ctx] by (auto simp: ex_deletion_def)
  from workspace_needs_entitlement [OF this made] have "\<exists>row.
    tenants (p_cloud (fst ex_made)) = insert_row row (tenants (p_cloud ex_platform)) \<and> t_id row = ''t9'' \<and>
    (\<forall>j. j \<noteq> ''t9'' \<longrightarrow> data (p_cloud (fst ex_made)) j = data (p_cloud ex_platform) j)"
    by (elim exE conjE) (intro exI conjI, assumption+)
  then obtain row where row: "tenants (p_cloud (fst ex_made)) = insert_row row (tenants (p_cloud ex_platform))"
    "t_id row = ''t9''" and rest: "\<forall>j. j \<noteq> ''t9'' \<longrightarrow> data (p_cloud (fst ex_made)) j = data (p_cloud ex_platform) j"
    by (elim exE conjE)
  have "data (p_cloud (fst ex_made)) ''t2'' = data (p_cloud ex_platform) ''t2''"
    by (rule rest [rule_format]) simp
  with ok row show ?thesis by (intro conjI exI [of _ row])
qed


end
