(* ===== verification/Console_Settings.thy ===== *)
theory Console_Settings
  imports Platform
begin

text \<open>
  The console routes that write settings rows: \<^verbatim>\<open>app/api/admin/policy/{platform,session}\<close>, \<^verbatim>\<open>app/api/admin/smtp\<close>, the directory
  mappings (\<^verbatim>\<open>app/api/admin/directory/mappings\<close>), the notifications (\<^verbatim>\<open>app/api/admin/notifications\<close>) and the devices of the app
  (\<^verbatim>\<open>app/api/mobile/push\<close>). The caches in front of the settings and the session policy are modelled in \<^verbatim>\<open>Settings\<close>; here a
  write is the change of the row.

  Integer columns have 32 bits: the database refuses a value outside them and the request fails with nothing written.
\<close>

section \<open>Shared by the configuration routes\<close>

definition config_action :: "ctx \<Rightarrow> User \<Rightarrow> string \<Rightarrow> string \<Rightarrow> js \<Rightarrow> db \<Rightarrow> db" where
  "config_action cx u action summary metadata =
     recordAdminAction (cx_H cx) (cx_auditId cx) (cx_now cx)
       \<lparr>act_actorId = u_id u, act_actorEmail = Some (u_email u), act_action = action, act_targetType = None,
        act_targetId = None, act_summary = summary, act_metadata = metadata, act_clientIp = clientIp (cx_headers cx)\<rparr>"

definition fits_column :: "int option \<Rightarrow> bool" where
  "fits_column v = (case v of None \<Rightarrow> True | Some n \<Rightarrow> fits_int4 n)"

section \<open>The session policy\<close>

definition toInt :: "js \<Rightarrow> int option" where
  "toInt v =
     (let n = (case v of JNum m \<Rightarrow> m | JStr t \<Rightarrow> number_of_string t | _ \<Rightarrow> NNaN) in
      if jnum_is_finite n \<and> jnum_greater n 0 then Some (jnum_floor n) else None)"

definition policy_of_body :: "js \<Rightarrow> SessionPolicyRow" where
  "policy_of_body body =
     \<lparr>sp_idleTimeoutMinutes = toInt (body_field body ''idleTimeoutMinutes''),
      sp_maxSessionHours = toInt (body_field body ''maxSessionHours''),
      sp_maxConcurrentPerUser = toInt (body_field body ''maxConcurrentPerUser''),
      sp_requireSecondFactor = (body_field body ''requireSecondFactor'' = JBool True)\<rparr>"

definition policy_fits :: "SessionPolicyRow \<Rightarrow> bool" where
  "policy_fits p \<longleftrightarrow> fits_column (sp_idleTimeoutMinutes p) \<and> fits_column (sp_maxSessionHours p) \<and>
     fits_column (sp_maxConcurrentPerUser p)"

definition own_session_strong :: "ctx \<Rightarrow> db \<Rightarrow> bool" where
  "own_session_strong cx s =
     (case currentSessionId cx s of
        None \<Rightarrow> False
      | Some sid \<Rightarrow>
          (case find_first (\<lambda>x. s_id x = sid) (sessions s) of None \<Rightarrow> False | Some x \<Rightarrow> hasSecondFactor (s_amr x)))"

definition session_policy_route :: "ctx \<Rightarrow> js \<Rightarrow> db \<Rightarrow> db \<times> unit reply" where
  "session_policy_route cx body =
     with_capability cx Configure (\<lambda>admin. with_body body (\<lambda>s.
       let p = policy_of_body body; on = sp_requireSecondFactor p in
       if on \<and> \<not> own_session_strong cx s then (s, Err 409 ''own_session_lacks_second_factor'')
       else if \<not> policy_fits p then (s, Throw ''unable to fit integer into INT4'')
       else (config_action cx admin ''config.session_policy_update''
               (''Updated session policy (two-step verification '' @ (if on then ''required'' else ''not required'') @ '')'')
               (JObj [(''requireSecondFactor'', JBool on)]) (s\<lparr>sessionPolicy := Some p\<rparr>), Ok 200 ())))"

section \<open>Mail\<close>

text \<open>A blank password keeps the stored one.\<close>

definition smtp_route :: "cipher \<Rightarrow> ctx \<Rightarrow> js \<Rightarrow> db \<Rightarrow> db \<times> unit reply" where
  "smtp_route C cx body =
     with_capability cx Configure (\<lambda>admin. with_body body (\<lambda>s.
       let host = text_of body ''host''; fromEmail = text_of body ''fromEmail''; password = raw_text_of body ''password'' in
       case js_number (body_field body ''port'') of
         None \<Rightarrow> (s, Throw ''TypeError'')
       | Some port \<Rightarrow>
           if host = [] \<or> \<not> jnum_is_finite port \<or> \<not> jnum_greater port 0 \<or> fromEmail = [] then
             (s, Err 400 ''host_port_from_required'')
           else (case (if password \<noteq> [] then encrypt C (cx_env cx) password
                       else Some (case smtpConfig s of Some r \<Rightarrow> smtp_password r | None \<Rightarrow> [])) of
                   None \<Rightarrow> (s, Throw ''ENCRYPTION_KEY must be a 64-character hex string'')
                 | Some sealed \<Rightarrow>
                     if sealed = [] then (s, Err 400 ''password_required'')
                     else (case port of
                             NInt n \<Rightarrow>
                               if \<not> fits_int4 n then (s, Throw ''unable to fit integer into INT4'')
                               else (config_action cx admin ''config.smtp_update'' ''Updated SMTP settings'' JUndef
                                       (s\<lparr>smtpConfig := Some
                                          \<lparr>smtp_host = host, smtp_port = n, smtp_secure = (body_field body ''secure'' = JBool True),
                                           smtp_username = text_of body ''username'', smtp_password = sealed,
                                           smtp_fromName = text_of body ''fromName'', smtp_fromEmail = fromEmail,
                                           smtp_enabled = (body_field body ''enabled'' = JBool True)\<rparr>\<rparr>), Ok 200 ())
                           | _ \<Rightarrow> (s, Throw ''Argument port: Int expected'')))))"

section \<open>The policies of the tenant\<close>

definition toIntMin :: "js \<Rightarrow> int \<Rightarrow> int option" where
  "toIntMin v least =
     (let n = (case v of JNum m \<Rightarrow> m | JStr t \<Rightarrow> if trim t \<noteq> [] then number_of_string t else NNaN | _ \<Rightarrow> NNaN) in
      if jnum_is_finite n \<and> \<not> jnum_less n least then Some (jnum_floor n) else None)"

definition web_address :: "web \<Rightarrow> string \<Rightarrow> bool" where
  "web_address w raw = (case w_parse w raw of None \<Rightarrow> False | Some u \<Rightarrow> url_protocol u \<in> {''http:'', ''https:''})"

text \<open>\<open>None\<close> is an address that is refused, \<open>Some None\<close> an absent one.\<close>

definition toWebhook :: "web \<Rightarrow> js \<Rightarrow> string option option" where
  "toWebhook w v =
     (case v of
        JStr t \<Rightarrow> if trim t = [] then Some None else if web_address w (trim t) then Some (Some (trim t)) else None
      | _ \<Rightarrow> Some None)"

definition one_of :: "string list \<Rightarrow> string option \<Rightarrow> js \<Rightarrow> string option" where
  "one_of xs d v = (case v of JStr t \<Rightarrow> if t \<in> set xs then Some t else d | _ \<Rightarrow> d)"

text \<open>\<open>zone\<close> is the display zone to keep where the organisation decides it.\<close>

definition settings_of_body :: "string option option \<Rightarrow> string option \<Rightarrow> js \<Rightarrow> PlatformSettings" where
  "settings_of_body zone webhook body =
     (let f = body_field body; on = (\<lambda>k. Some (f k = JBool True)); unless_off = (\<lambda>k. Some (f k \<noteq> JBool False)) in
      EMPTY_SETTINGS\<lparr>ps_auditRetentionDays := toIntMin (f ''auditRetentionDays'') 0,
        ps_inviteTtlHours := toIntMin (f ''inviteTtlHours'') 1, ps_notificationWebhookUrl := webhook,
        ps_vendorIpAllowlist := or_null (Some (text_of body ''vendorIpAllowlist'')),
        ps_maxGrantDays := toIntMin (f ''maxGrantDays'') 1,
        ps_recordingConsentRequired := on ''recordingConsentRequired'', ps_watermarkDefault := on ''watermarkDefault'',
        ps_clipboardDefault := one_of CLIPBOARD_MODES None (f ''clipboardDefault''),
        ps_displayTimezone := (case zone of Some z \<Rightarrow> z | None \<Rightarrow> or_null (Some (raw_text_of body ''displayTimezone''))),
        ps_recordingRetentionDays := toIntMin (f ''recordingRetentionDays'') 1,
        ps_defaultConnectorLogLevel := one_of LOG_LEVELS (Some ''info'') (f ''defaultConnectorLogLevel''),
        ps_externalAnchorEnabled := on ''externalAnchorEnabled'',
        ps_anchorTsaUrl := or_null (Some (text_of body ''anchorTsaUrl'')),
        ps_anchorTsaAuth := or_null (Some (text_of body ''anchorTsaAuth'')),
        ps_notifySiteHealth := unless_off ''notifySiteHealth'',
        ps_notifyAccessRequests := unless_off ''notifyAccessRequests'',
        ps_notifyAccessDecisions := unless_off ''notifyAccessDecisions'',
        ps_requireRequestJustification := unless_off ''requireRequestJustification'',
        ps_keystrokeLoggingMode := one_of RECORDING_MODES (Some ''per_resource'') (f ''keystrokeLoggingMode''),
        ps_recordingMode := one_of RECORDING_MODES (Some ''per_resource'') (f ''recordingMode'')\<rparr>)"

definition saveGuacParamDefaults :: "GuacParams \<Rightarrow> db \<Rightarrow> db" where
  "saveGuacParamDefaults p s =
     (let row = (case platformSettings s of None \<Rightarrow> EMPTY_SETTINGS | Some r \<Rightarrow> r) in
      s\<lparr>platformSettings := Some (row\<lparr>ps_guacParamDefaults := json_stored (guac_json (parseGuacParams (guac_json p)))\<rparr>)\<rparr>)"

definition store_policies :: "ctx \<Rightarrow> js \<Rightarrow> User \<Rightarrow> PlatformSettings \<Rightarrow> db \<Rightarrow> db \<times> unit reply" where
  "store_policies cx body admin input s =
     (if \<not> fits_column (ps_inviteTtlHours input) then (s, Throw ''unable to fit integer into INT4'')
      else (case save_settings_row input s of
              (s1, Inl _) \<Rightarrow> (s1, Throw ''unable to fit integer into INT4'')
            | (s1, Inr _) \<Rightarrow>
                (config_action cx admin ''config.platform_update'' ''Updated platform settings'' JUndef
                   (saveGuacParamDefaults (parseGuacParams (body_field body ''guacParamDefaults'')) s1), Ok 200 ())))"

text \<open>\<open>ts\<close> is the table of tenants, read for the organisation that manages the workspace.\<close>

definition policies_checked ::
  "web \<Rightarrow> TenantRow list \<Rightarrow> ctx \<Rightarrow> js \<Rightarrow> User \<Rightarrow> string option \<Rightarrow> db \<Rightarrow> db \<times> unit reply" where
  "policies_checked w ts cx body admin webhook s =
     (let managed = timeZoneManaged ts (cx_env cx) (cx_tenant cx) s;
          zone = raw_text_of body ''displayTimezone''; tsa = text_of body ''anchorTsaUrl'' in
      if validateAllowlist (raw_text_of body ''vendorIpAllowlist'') \<noteq> [] then (s, Err 400 ''invalid_cidr'')
      else if \<not> managed \<and> zone \<noteq> [] \<and> \<not> isValidTimeZone (cx_intl cx) zone then (s, Err 400 ''invalid_timezone'')
      else if body_field body ''externalAnchorEnabled'' = JBool True \<and> tsa = [] then (s, Err 400 ''anchor_tsa_required'')
      else if tsa \<noteq> [] \<and> \<not> web_address w tsa then (s, Err 400 ''anchor_tsa_invalid'')
      else store_policies cx body admin
             (settings_of_body (if managed then Some (ps_displayTimezone (settings_in s)) else None) webhook body) s)"

definition platform_policy_route :: "web \<Rightarrow> TenantRow list \<Rightarrow> ctx \<Rightarrow> js \<Rightarrow> db \<Rightarrow> db \<times> unit reply" where
  "platform_policy_route w ts cx body =
     with_capability cx Configure (\<lambda>admin. with_body body (\<lambda>s.
       case toWebhook w (body_field body ''notificationWebhookUrl'') of
         None \<Rightarrow> (s, Err 400 ''invalid_webhook_url'')
       | Some webhook \<Rightarrow> policies_checked w ts cx body admin webhook s))"

section \<open>Directory mappings\<close>

definition role_of_name :: "string \<Rightarrow> Role option" where
  "role_of_name t = find_first (\<lambda>r. role_name r = t) [ADMIN, OPERATOR, AUDITOR, STAFF, VENDOR, PLATFORM]"

text \<open>A member that should be text and is something else reaches the database client, which throws.\<close>

definition create_mapping_route :: "ctx \<Rightarrow> js \<Rightarrow> db \<Rightarrow> db \<times> unit reply" where
  "create_mapping_route cx body =
     with_capability cx Configure (\<lambda>admin s.
       let kind = raw_text_of body ''kind''; site = body_field body ''siteId'' in
       case body_field body ''groupDN'' of
         JStr dn \<Rightarrow>
           if kind \<noteq> ''ROLE'' \<and> kind \<noteq> ''SITE'' then (s, Err 400 ''Invalid request.'')
           else if kind = ''SITE'' \<and> trim dn \<noteq> [] \<and>
              (case site of JStr i \<Rightarrow> i \<noteq> [] \<and> site_by_id s i = None | JNum n \<Rightarrow> n \<noteq> NInt 0 \<and> n \<noteq> NNaN | JBool b \<Rightarrow> b
               | JArr _ \<Rightarrow> True | JObj _ \<Rightarrow> True | _ \<Rightarrow> False)
           then (s, Throw ''P2003'')
           else (case createGroupMapping (cx_fresh cx)
                        \<lparr>mi_groupDN = dn, mi_kind = kind,
                         mi_role = (if kind = ''ROLE'' then role_of_name (raw_text_of body ''role'') else None),
                         mi_siteId = (if kind = ''SITE'' then optional_text site else None),
                         mi_enabled = (body_field body ''enabled'' \<noteq> JBool False)\<rparr> s of
                   (s1, Inl e) \<Rightarrow> (s1, Err 400 e)
                 | (s1, Inr _) \<Rightarrow>
                     (audit cx admin ''config.directory_mapping_create'' ''mapping'' None ''Created directory mapping'' JUndef s1,
                      Ok 200 ()))
       | _ \<Rightarrow> (s, Err 400 ''Invalid request.''))"

text \<open>\<open>None\<close> is a value the database client refuses, \<open>Some None\<close> a member that is left out.\<close>

definition patched :: "(string \<Rightarrow> 'a option) \<Rightarrow> js \<Rightarrow> 'a option option option" where
  "patched f v =
     (case v of JUndef \<Rightarrow> Some None | JNull \<Rightarrow> Some (Some None)
      | JStr t \<Rightarrow> map_option (\<lambda>a. Some (Some a)) (f t) | _ \<Rightarrow> None)"

definition patch_mapping_route :: "ctx \<Rightarrow> ident \<Rightarrow> js \<Rightarrow> db \<Rightarrow> db \<times> unit reply" where
  "patch_mapping_route cx i body =
     with_capability cx Configure (\<lambda>admin. with_body body (\<lambda>s.
       case (patched role_of_name (body_field body ''role''),
             patched (\<lambda>t. if site_by_id s t = None then None else Some t) (body_field body ''siteId'')) of
         (Some role, Some site) \<Rightarrow>
           (case updateGroupMapping i
                   \<lparr>mp_groupDN = optional_text (body_field body ''groupDN''), mp_role = role, mp_siteId = site,
                    mp_enabled = (case body_field body ''enabled'' of JBool b \<Rightarrow> Some b | _ \<Rightarrow> None)\<rparr> s of
              (s1, Inl e) \<Rightarrow> (s1, Throw e)
            | (s1, Inr _) \<Rightarrow>
                (audit cx admin ''config.directory_mapping_update'' ''mapping'' (Some i) (''Updated directory mapping '' @ i) JUndef s1,
                 Ok 200 ()))
       | _ \<Rightarrow> (s, Throw ''PrismaClientValidationError'')))"

definition delete_mapping_route :: "ctx \<Rightarrow> ident \<Rightarrow> db \<Rightarrow> db \<times> unit reply" where
  "delete_mapping_route cx i =
     with_capability cx Configure (\<lambda>admin s.
       (audit cx admin ''config.directory_mapping_delete'' ''mapping'' (Some i) (''Deleted directory mapping '' @ i) JUndef
          (deleteGroupMapping i s), Ok 200 ()))"

section \<open>Notifications\<close>

definition countUnreadNotifications :: "db \<Rightarrow> nat" where
  "countUnreadNotifications s = count_rows (\<lambda>n. n_readAt n = None) (notifications s)"

definition list_notifications :: "ctx \<Rightarrow> db \<Rightarrow> db \<times> (Notification list \<times> nat) reply" where
  "list_notifications cx =
     with_capability cx Read_console (\<lambda>_ s.
       (s, Ok 200 (take 8 (sort_key (\<lambda>n. - n_createdAt n) (find_many (\<lambda>n. n_readAt n = None) (notifications s))),
                   countUnreadNotifications s)))"

definition mark_read :: "(Notification \<Rightarrow> bool) \<Rightarrow> instant \<Rightarrow> db \<Rightarrow> db" where
  "mark_read p now s =
     s\<lparr>notifications := update_many (\<lambda>n. p n \<and> n_readAt n = None) (\<lambda>n. n\<lparr>n_readAt := Some now\<rparr>) (notifications s)\<rparr>"

definition read_notification :: "ctx \<Rightarrow> ident \<Rightarrow> db \<Rightarrow> db \<times> unit reply" where
  "read_notification cx i =
     with_capability cx Read_console (\<lambda>_ s. (mark_read (\<lambda>n. n_id n = i) (cx_now cx) s, Ok 200 ()))"

definition read_notifications :: "ctx \<Rightarrow> db \<Rightarrow> db \<times> unit reply" where
  "read_notifications cx = with_capability cx Read_console (\<lambda>_ s. (mark_read (\<lambda>_. True) (cx_now cx) s, Ok 200 ()))"

definition delete_notification :: "ctx \<Rightarrow> ident \<Rightarrow> db \<Rightarrow> db \<times> unit reply" where
  "delete_notification cx i =
     with_capability cx Read_console (\<lambda>_ s.
       (s\<lparr>notifications := delete_many (\<lambda>n. n_id n = i) (notifications s)\<rparr>, Ok 200 ()))"

section \<open>Devices of the app\<close>

definition upsert_device :: "ident \<Rightarrow> ident \<Rightarrow> ident \<Rightarrow> string \<Rightarrow> string option \<Rightarrow> db \<Rightarrow> db" where
  "upsert_device nid uid sid token plat s =
     s\<lparr>mobileDevices :=
        (if list_ex (\<lambda>d. md_expoPushToken d = token) (mobileDevices s)
         then update_many (\<lambda>d. md_expoPushToken d = token) (\<lambda>d. d\<lparr>md_userId := uid, md_sessionId := sid, md_platform := plat\<rparr>)
                (mobileDevices s)
         else insert_row \<lparr>md_id = nid, md_userId = uid, md_sessionId = sid, md_expoPushToken = token, md_platform = plat\<rparr>
                (mobileDevices s))\<rparr>"

definition push_register :: "ctx \<Rightarrow> js \<Rightarrow> request \<Rightarrow> db \<Rightarrow> db \<times> unit reply" where
  "push_register cx body =
     mobileRoute (cx_H cx) (cx_now cx) Read_console (\<lambda>_ (sid, user). with_body body (\<lambda>s.
       case body_field body ''expoPushToken'' of
         JStr t \<Rightarrow>
           if \<not> isExpoToken t then (s, Err 400 ''invalid_token'')
           else (upsert_device (cx_fresh cx) (u_id user) sid t (map_option (take 20) (optional_text (body_field body ''platform''))) s,
                 Ok 200 ())
       | _ \<Rightarrow> (s, Err 400 ''invalid_token'')))"

definition push_unregister :: "ctx \<Rightarrow> js \<Rightarrow> request \<Rightarrow> db \<Rightarrow> db \<times> unit reply" where
  "push_unregister cx body =
     mobileRoute (cx_H cx) (cx_now cx) Read_console (\<lambda>_ (sid, user). with_body body (\<lambda>s.
       case body_field body ''expoPushToken'' of
         JStr t \<Rightarrow> (s\<lparr>mobileDevices := delete_many (\<lambda>d. md_sessionId d = sid \<and> md_expoPushToken d = t) (mobileDevices s)\<rparr>, Ok 200 ())
       | _ \<Rightarrow> (s, Ok 200 ())))"


section \<open>Lemmas\<close>

lemma config_action_rows [simp]:
  "sessions (config_action cx u a t m s) = sessions s" "sessionPolicy (config_action cx u a t m s) = sessionPolicy s"
  "smtpConfig (config_action cx u a t m s) = smtpConfig s" "platformSettings (config_action cx u a t m s) = platformSettings s"
  by (simp_all add: config_action_def recordAdminAction_def Let_def)

lemma accepted_by_capability:
  assumes "with_capability cx cap h s = (s', Ok n a)"
  obtains s1 u where "current_user cx s = (s1, Some u)" "can (u_role u) cap" "h u s1 = (s', Ok n a)"
  using assms by (cases rule: with_capability_cases [of cx s cap h]) auto

lemma jnum_floor_nonneg: "jnum_is_finite n \<Longrightarrow> jnum_greater n 0 \<Longrightarrow> 0 \<le> jnum_floor n"
  by (cases n) auto

lemma toInt_nonneg: "toInt v = Some n \<Longrightarrow> 0 \<le> n"
  by (auto simp: toInt_def Let_def jnum_floor_nonneg split: if_splits)


text \<open>A token of the app names one device: registering it again hands the one row over to the person and the sign-in that
  asked.\<close>

lemma upsert_device_owner:
  assumes "distinct (map md_expoPushToken (mobileDevices s))"
  shows "distinct (map md_expoPushToken (mobileDevices (upsert_device nid uid sid t pl s)))"
    and "\<forall>d\<in>set (mobileDevices (upsert_device nid uid sid t pl s)). md_expoPushToken d = t \<longrightarrow> md_userId d = uid \<and> md_sessionId d = sid"
    and "\<exists>d\<in>set (mobileDevices (upsert_device nid uid sid t pl s)). md_expoPushToken d = t"
  using assms by (auto simp: upsert_device_def insert_row_def list_ex_iff set_update_many map_update_many image_iff bex_Un)


lemma mobile_session_devices:
  "mobileSessionFromRequest H now h s = (s1, r) \<Longrightarrow> mobileDevices s1 = mobileDevices s"
  by (auto simp: mobileSessionFromRequest_def touch_session_def split: option.splits if_splits)

lemma find_many_key: "distinct (map f xs) \<Longrightarrow> d \<in> set xs \<Longrightarrow> f d = t \<Longrightarrow> find_many (\<lambda>x. f x = t) xs = [d]"
  by (induction xs) (auto simp: find_many_def filter_empty_conv rev_image_eqI)

theorem push_token_one_owner:
  assumes "distinct (map md_expoPushToken (mobileDevices s))" and "push_register cx body req s = (s', Ok n a)"
  shows "\<exists>t sid u d. body_field body ''expoPushToken'' = JStr t \<and> isExpoToken t \<and>
    snd (mobileSessionFromRequest (cx_H cx) (cx_now cx) (req_header req ''authorization'') s) = Some (sid, u) \<and>
    can (u_role u) Read_console \<and> find_many (\<lambda>d. md_expoPushToken d = t) (mobileDevices s') = [d] \<and>
    md_userId d = u_id u \<and> md_sessionId d = sid"
proof -
  let ?m = "mobileSessionFromRequest (cx_H cx) (cx_now cx) (req_header req ''authorization'') s"
  obtain s1 sid u where m: "?m = (s1, Some (sid, u))" and role: "can (u_role u) Read_console"
    using assms(2) by (auto simp: push_register_def mobileRoute_def split: prod.splits option.splits if_splits)
  obtain t pl where t: "body_field body ''expoPushToken'' = JStr t" "isExpoToken t"
    and s': "s' = upsert_device (cx_fresh cx) (u_id u) sid t pl s1"
    using assms(2) m role by (auto simp: push_register_def mobileRoute_def with_body_def split: js.splits if_splits)
  let ?d = "mobileDevices s'"
  have dist: "distinct (map md_expoPushToken (mobileDevices s1))"
    using assms(1) mobile_session_devices [OF m] by simp
  obtain d where d: "d \<in> set ?d" "md_expoPushToken d = t" using upsert_device_owner(3) [OF dist] s' by blast
  then have "find_many (\<lambda>d. md_expoPushToken d = t) ?d = [d]"
    using upsert_device_owner(1) [OF dist] s' by (intro find_many_key) simp_all
  then show ?thesis
    using m role t d upsert_device_owner(2) [OF dist, of "cx_fresh cx" "u_id u" sid t pl] s' by auto
qed

section \<open>Settings rows\<close>

text \<open>What the readers of the settings rely on.\<close>

definition settings_valid :: "intl \<Rightarrow> PlatformSettings \<Rightarrow> bool" where
  "settings_valid \<I> r \<longleftrightarrow>
     list_all (\<lambda>(least, v). case v of None \<Rightarrow> True | Some n \<Rightarrow> least \<le> n \<and> fits_int4 n)
       [(0, ps_auditRetentionDays r), (1, ps_inviteTtlHours r), (1, ps_maxGrantDays r), (1, ps_recordingRetentionDays r)] \<and>
     (case ps_displayTimezone r of None \<Rightarrow> True | Some z \<Rightarrow> isValidTimeZone \<I> z) \<and>
     (case ps_vendorIpAllowlist r of None \<Rightarrow> True | Some l \<Rightarrow> l \<noteq> []) \<and>
     (ps_externalAnchorEnabled r = Some True \<longrightarrow> ps_anchorTsaUrl r \<noteq> None) \<and>
     (\<exists>m\<in>set RECORDING_MODES. ps_recordingMode r = Some m) \<and> (\<exists>m\<in>set RECORDING_MODES. ps_keystrokeLoggingMode r = Some m) \<and>
     (\<exists>m\<in>set LOG_LEVELS. ps_defaultConnectorLogLevel r = Some m)"

lemma toIntMin_least: "toIntMin v least = Some n \<Longrightarrow> least \<le> n"
proof -
  have "least \<le> jnum_floor m" if "jnum_is_finite m" "\<not> jnum_less m least" for m
    using that by (cases m) auto
  then show "toIntMin v least = Some n \<Longrightarrow> least \<le> n" by (auto simp: toIntMin_def Let_def split: if_splits)
qed

lemma one_of_listed: "d \<in> set xs \<Longrightarrow> \<exists>m\<in>set xs. one_of xs (Some d) v = Some m"
  by (auto simp: one_of_def split: js.split)

lemma current_user_settings: "platformSettings (fst (current_user cx s)) = platformSettings s"
  by (auto simp: current_user_def getCurrentUser_def getSessionUser_def touch_session_def delete_session_rows_def Let_def
      split: option.splits if_splits prod.splits)

lemma store_policies_Ok:
  assumes "store_policies cx body u input s = (s', Ok n a)"
  shows "fits_column (ps_inviteTtlHours input) \<and> counts_fit input"
    and "\<exists>d g. platformSettings s' = Some (input\<lparr>ps_displayTimezoneFromCenterAt := d, ps_guacParamDefaults := g\<rparr>)"
  using assms
  by (auto simp: store_policies_def save_settings_row_def saveGuacParamDefaults_def Let_def split: if_splits)
    (rule exI, rule exI, rule refl)

lemma settings_of_body_counts:
  "ps_auditRetentionDays (settings_of_body zone wh body) = toIntMin (body_field body ''auditRetentionDays'') 0"
  "ps_inviteTtlHours (settings_of_body zone wh body) = toIntMin (body_field body ''inviteTtlHours'') 1"
  "ps_maxGrantDays (settings_of_body zone wh body) = toIntMin (body_field body ''maxGrantDays'') 1"
  "ps_recordingRetentionDays (settings_of_body zone wh body) = toIntMin (body_field body ''recordingRetentionDays'') 1"
  by (simp_all add: settings_of_body_def Let_def)

lemma settings_of_body_rest:
  "ps_displayTimezone (settings_of_body zone wh body) =
     (case zone of Some z \<Rightarrow> z | None \<Rightarrow> or_null (Some (raw_text_of body ''displayTimezone'')))"
  "ps_vendorIpAllowlist (settings_of_body zone wh body) = or_null (Some (text_of body ''vendorIpAllowlist''))"
  "ps_externalAnchorEnabled (settings_of_body zone wh body) = Some (body_field body ''externalAnchorEnabled'' = JBool True)"
  "ps_anchorTsaUrl (settings_of_body zone wh body) = or_null (Some (text_of body ''anchorTsaUrl''))"
  "ps_recordingMode (settings_of_body zone wh body) =
     one_of RECORDING_MODES (Some ''per_resource'') (body_field body ''recordingMode'')"
  "ps_keystrokeLoggingMode (settings_of_body zone wh body) =
     one_of RECORDING_MODES (Some ''per_resource'') (body_field body ''keystrokeLoggingMode'')"
  "ps_defaultConnectorLogLevel (settings_of_body zone wh body) =
     one_of LOG_LEVELS (Some ''info'') (body_field body ''defaultConnectorLogLevel'')"
  by (simp_all add: settings_of_body_def Let_def)

lemma settings_of_body_valid:
  assumes "counts_fit (settings_of_body zone wh body)" and "fits_column (ps_inviteTtlHours (settings_of_body zone wh body))"
    and "case zone of Some (Some z) \<Rightarrow> isValidTimeZone \<I> z | Some None \<Rightarrow> True
      | None \<Rightarrow> raw_text_of body ''displayTimezone'' = [] \<or> isValidTimeZone \<I> (raw_text_of body ''displayTimezone'')"
    and "body_field body ''externalAnchorEnabled'' = JBool True \<longrightarrow> text_of body ''anchorTsaUrl'' \<noteq> []"
  shows "settings_valid \<I> (settings_of_body zone wh body)"
proof -
  have counts: "list_all (\<lambda>(least, v). case v of None \<Rightarrow> True | Some n \<Rightarrow> least \<le> n \<and> fits_int4 n)
       [(0, toIntMin (body_field body ''auditRetentionDays'') 0), (1, toIntMin (body_field body ''inviteTtlHours'') 1),
        (1, toIntMin (body_field body ''maxGrantDays'') 1), (1, toIntMin (body_field body ''recordingRetentionDays'') 1)]"
    using assms(1,2) by (auto simp: settings_of_body_counts counts_fit_def fits_column_def dest: toIntMin_least split: option.splits)
  have modes: "\<exists>m\<in>set RECORDING_MODES. one_of RECORDING_MODES (Some ''per_resource'') v = Some m"
    "\<exists>m\<in>set LOG_LEVELS. one_of LOG_LEVELS (Some ''info'') v = Some m" for v
    by (rule one_of_listed, simp add: RECORDING_MODES_def) (rule one_of_listed, simp add: LOG_LEVELS_def)
  have zone: "case (case zone of Some z \<Rightarrow> z | None \<Rightarrow> or_null (Some (raw_text_of body ''displayTimezone''))) of
      None \<Rightarrow> True | Some z \<Rightarrow> isValidTimeZone \<I> z"
    using assms(3) by (auto simp: or_null_def split: option.splits)
  show ?thesis
    unfolding settings_valid_def settings_of_body_counts settings_of_body_rest
    using counts modes zone assms(4) by (simp add: or_null_def)
qed



section \<open>An administrator with a second step and a phone\<close>

definition ex_console :: db where
  "ex_console = empty_db\<lparr>users := [ex_admin],
     sessions := [ex_session\<lparr>s_id := ''x2'', s_userId := ''a1'', s_tokenHash := ''h2'', s_amr := [''passkey'', ''mfa'']\<rparr>,
                  ex_session\<lparr>s_id := ''x3'', s_userId := ''a1'', s_tokenHash := ''abcdefghijklmnopqrst'', s_mobile := True\<rparr>]\<rparr>"

definition ex_strict :: js where
  "ex_strict = JObj [(''requireSecondFactor'', JBool True), (''idleTimeoutMinutes'', JNum (NInt 30))]"

definition ex_phone :: js where
  "ex_phone = JObj [(''expoPushToken'', JStr ''ExpoPushToken[abc]'')]"

definition ex_app_request :: request where
  "ex_app_request = \<lparr>req_header = [''authorization'' \<mapsto> ''Bearer abcdefghijklmnopqrst''], req_body = JUndef\<rparr>"

lemma ex_console_user:
  "current_user ex_ctx ex_console = (touch_session ''x2'' 500 ex_console, Some ex_admin)"
  by (simp add: current_user_def getCurrentUser_def getSessionUser_def session_by_token_def find_first_def user_by_id_def
      idleExpired_def truthy_def EMPTY_POLICY_def ex_ctx_def ex_console_def ex_session_def ex_admin_def ex_member_def empty_db_def)


theorem push_token_one_owner_witness:
  "snd (push_register ex_ctx ex_phone ex_app_request ex_console) = Ok 200 () \<and>
   (\<exists>d. find_many (\<lambda>d. md_expoPushToken d = ''ExpoPushToken[abc]'')
      (mobileDevices (fst (push_register ex_ctx ex_phone ex_app_request ex_console))) = [d])"
proof -
  have "snd (push_register ex_ctx ex_phone ex_app_request ex_console) = Ok 200 ()" by code_simp
  then have r: "push_register ex_ctx ex_phone ex_app_request ex_console =
    (fst (push_register ex_ctx ex_phone ex_app_request ex_console), Ok 200 ())" by (metis prod.collapse)
  have d: "distinct (map md_expoPushToken (mobileDevices ex_console))" by (simp add: ex_console_def empty_db_def)
  have "body_field ex_phone ''expoPushToken'' = JStr ''ExpoPushToken[abc]''"
    by (simp add: ex_phone_def body_field_def field_def)
  with push_token_one_owner [OF d r] r show ?thesis by (metis js.inject(3) snd_conv)
qed



end
