(* ===== verification/Spec2Isabelle.thy ===== *)
theory Spec2Isabelle
  imports Platform_Safety Console_Settings
begin

text \<open>
  Captivo Access: a verification library.

  The program is the manager of a privileged-access service: vendors ask for access to sites behind connectors,
  administrators decide, the data plane asks the manager about every connection, and both logs are hash chains. In the
  cloud many tenants share one manager, and operators run it from a platform console. The library models the server side of
  \<^verbatim>\<open>src/src\<close>; every theory names its files in its opening text.

  \<^bold>\<open>State and operations.\<close> The record \<open>db\<close> holds the tables of one tenant, \<open>cloud\<close> the table of tenants with one \<open>db\<close> each,
  \<open>platform\<close> adds the operator's configuration and its cache. A route handler is a function from the state to the new state
  and a \<open>reply\<close>: an answer, an error status or an exception. An exception inside \<^verbatim>\<open>withTenant\<close> takes back what was
  written in that scope. Code outside the repository (argon2, jose, WebAuthn, Intl, DNS, TLS, SMTP, the identity service, the
  connectors) is a parameter; the clock reading and every drawn identifier or token are arguments.

  \<^bold>\<open>Foundations.\<close> \<^verbatim>\<open>Prelude\<close> (tables, answers, strings), \<^verbatim>\<open>JsValue\<close> (untyped values and conversions), \<^verbatim>\<open>Clock\<close> (ISO dates),
  \<^verbatim>\<open>Database\<close> (\<^verbatim>\<open>schema.prisma\<close>), \<^verbatim>\<open>Request\<close> (what a request carries, guards, audit).

  \<^bold>\<open>Access.\<close> \<^verbatim>\<open>Schedule\<close> and \<^verbatim>\<open>Grants\<close> model \<^verbatim>\<open>lib/access\<close>: the decision is characterised exactly. \<^verbatim>\<open>Access_Routes\<close> models
  the request, grant and data-plane routes: a closed grant stays closed, an approved request opens access, and a stored
  secret leaves only for a user the grants allow.

  \<^bold>\<open>Logs.\<close> \<^verbatim>\<open>Hash_Chain\<close> has the locale \<open>hash_chain\<close>; \<^verbatim>\<open>Audit_Chain\<close> and \<^verbatim>\<open>Admin_Chain\<close> interpret it for \<^verbatim>\<open>lib/audit\<close>: both logs
  verify after any operations and are tamper-evident up to collisions of the hash function.

  \<^bold>\<open>Tenancy and settings.\<close> \<^verbatim>\<open>Tenancy\<close> models \<^verbatim>\<open>lib/tenant\<close> and row-level security, which refines private tables. \<^verbatim>\<open>Settings\<close>
  interprets the locale \<open>tenant_cache\<close> for the settings and policy caches, and \<^verbatim>\<open>Console_Settings\<close> has the routes that write
  policies, mail settings, directory mappings, notifications and devices: what they accept is valid. \<^verbatim>\<open>Network\<close> has the rate limiter and the allowlist.

  \<^bold>\<open>People.\<close> \<^verbatim>\<open>Sessions\<close>, \<^verbatim>\<open>Identity\<close>, \<^verbatim>\<open>Accounts\<close> and \<^verbatim>\<open>Oidc\<close> model sign-in, enrolment, recovery, users and the identity provider;
  \<^verbatim>\<open>Directory\<close> models the directory sync at sign-in.

  \<^bold>\<open>Sites, connectors and recordings.\<close> \<^verbatim>\<open>Connectors\<close>, \<^verbatim>\<open>Sites\<close> and \<^verbatim>\<open>Recordings\<close>; the locale \<open>guarded_invariant\<close> of \<^verbatim>\<open>Request\<close> carries their
  invariants through the guarded routes.

  \<^bold>\<open>Platform.\<close> \<^verbatim>\<open>Platform\<close> models the operator's console and the functions of \<^verbatim>\<open>bootstrap.sql\<close>, \<^verbatim>\<open>Support\<close> the support sessions,
  \<^verbatim>\<open>Provisioning\<close> the two self-service doors, \<^verbatim>\<open>Overview\<close> health, alerts and the daily job. \<^verbatim>\<open>Control_Plane\<close> joins their requests
  into one machine; its locale \<open>console_frame\<close> is interpreted three times: the table of tenants stays consistent, a tenant
  nobody named is untouched, and an operator remains. \<^verbatim>\<open>Platform_Safety\<close> has the promises of single requests.

  \<^bold>\<open>Bounds.\<close> No definition uses fuel. The loops that are not structural (pages of the log, batches of the push relay, the year of
  a date) are functions with a termination proof. Columns that PostgreSQL keeps in 32 bits are checked where a write
  can exceed them; addresses are 32- and 128-bit words.

  \<^bold>\<open>Map.\<close> The manifest maps definitions to source lines. A helper that lies inside the lines of a mapped definition is covered by
  that entry. The map is limited to 600 entries, so some definitions of one source line
  (constants, types, small lookups) have none of their own.

  \<^bold>\<open>Not modelled.\<close>
  \<^item> The Go data plane, connector and tunnel are another program; the manager's side of their protocol is modelled.
  \<^item> Pages, forms and browser code render and have no state of the server.
  \<^item> The site-health job with the sending of its notifications, and the time-stamp anchors of the logs.
  \<^item> The routes of the directory configuration, of updates, branding and of the tests of a configuration.
  \<^item> The views of the app, the live view and the connection tests.
  \<^item> Listings, binary streams, templates and the clients of other services.

  The last four groups are within reach of the model and have been left out for extent, not because they resist it. Requests run one
  after the other: interleavings inside a request are modelled only where a theorem says so. Strings are ASCII.
\<close>

end
